(* ===== verification/DhcpPrelude.thy ===== *)
theory DhcpPrelude
  imports Main "HOL-Library.Word"
begin

text \<open>
  Shared vocabulary of the development: the machine integer types of the C++ sources, the
  constants of \<^verbatim>\<open>dhcp_s_define.h\<close>, \<^verbatim>\<open>dhcp_message.h\<close> and \<^verbatim>\<open>dhcp_define.h\<close>, the memory image of a
  32-bit integer on a little-endian host (what \<^verbatim>\<open>memcpy_s\<close> and \<^verbatim>\<open>htonl\<close> see), the
  bounds-checked copies of C11 Annex K, the ordered dictionary \<^verbatim>\<open>std::map\<close> and the two
  interfaces that the components share: a keyed store and a machine with an invariant.
\<close>

unbundle bit_operations_syntax

named_theorems dhcp_const \<open>numeric constants of the sources\<close>
named_theorems byte_simps \<open>rules on byte images of integers\<close>
named_theorems smap_simps \<open>rules on the ordered dictionary\<close>

section \<open>Machine integers\<close>

type_synonym u8 = "8 word"
type_synonym u16 = "16 word"
type_synonym u32 = "32 word"
type_synonym u64 = "64 word"
type_synonym bytes = "u8 list"

section \<open>Constants of the sources\<close>

text \<open>\<^verbatim>\<open>enum DhcpReturnCode\<close> and \<^verbatim>\<open>enum DhcpReplyType\<close>: both are returned as plain \<^verbatim>\<open>int\<close>, and the
  sources mix them in one function, so they stay integers here.\<close>

abbreviation (input) RET_SUCCESS :: int where "RET_SUCCESS \<equiv> 0"
abbreviation (input) RET_FAILED :: int where "RET_FAILED \<equiv> 1"
abbreviation (input) RET_ERROR :: int where "RET_ERROR \<equiv> 2"
abbreviation (input) ERR_SELECT :: int where "ERR_SELECT \<equiv> 3"
abbreviation (input) RET_BREAK :: int where "RET_BREAK \<equiv> 4"
abbreviation (input) RET_WAIT_SAVE :: int where "RET_WAIT_SAVE \<equiv> 5"
abbreviation (input) RET_SELECT_TIME_OUT :: int where "RET_SELECT_TIME_OUT \<equiv> 7"

abbreviation (input) REPLY_NONE :: int where "REPLY_NONE \<equiv> 0"
abbreviation (input) REPLY_OFFER :: int where "REPLY_OFFER \<equiv> 1"
abbreviation (input) REPLY_ACK :: int where "REPLY_ACK \<equiv> 2"
abbreviation (input) REPLY_NAK :: int where "REPLY_NAK \<equiv> 3"

abbreviation (input) BIND_MODE_STATIC :: int where "BIND_MODE_STATIC \<equiv> 0"
abbreviation (input) BIND_MODE_DYNAMIC :: int where "BIND_MODE_DYNAMIC \<equiv> 1"
abbreviation (input) BIND_MODE_RESERVED :: int where "BIND_MODE_RESERVED \<equiv> 2"

abbreviation (input) BIND_NONE :: int where "BIND_NONE \<equiv> 0"
abbreviation (input) BIND_PENDING :: int where "BIND_PENDING \<equiv> 1"
abbreviation (input) BIND_ASSOCIATED :: int where "BIND_ASSOCIATED \<equiv> 2"
abbreviation (input) BIND_EXPIRED :: int where "BIND_EXPIRED \<equiv> 3"
abbreviation (input) BIND_RELEASED :: int where "BIND_RELEASED \<equiv> 4"

abbreviation (input) DHCP_LEASE_TIME :: nat where "DHCP_LEASE_TIME \<equiv> 21600"
abbreviation (input) DHCP_RENEWAL_TIME :: nat where "DHCP_RENEWAL_TIME \<equiv> 10800"
abbreviation (input) DHCP_REBINDING_TIME :: nat where "DHCP_REBINDING_TIME \<equiv> 17280"
abbreviation (input) DHCP_HWADDR_LENGTH :: nat where "DHCP_HWADDR_LENGTH \<equiv> 16"
abbreviation (input) MAC_ADDR_LENGTH :: nat where "MAC_ADDR_LENGTH \<equiv> 6"
abbreviation (input) DEVICE_NAME_STRING_LENGTH :: nat where "DEVICE_NAME_STRING_LENGTH \<equiv> 64"
abbreviation (input) INADDR_ANY :: u32 where "INADDR_ANY \<equiv> 0"
abbreviation (input) INADDR_BROADCAST :: u32 where "INADDR_BROADCAST \<equiv> 0xFFFFFFFF"

section \<open>Memory images and byte order\<close>

text \<open>The four bytes of a 32-bit integer in memory order on a little-endian host, and back.\<close>

definition u32_bytes :: "u32 \<Rightarrow> bytes" where
  "u32_bytes w = [ucast w, ucast (drop_bit 8 w), ucast (drop_bit 16 w), ucast (drop_bit 24 w)]"

fun u32_of_bytes :: "bytes \<Rightarrow> u32" where
  "u32_of_bytes [] = 0"
| "u32_of_bytes (b # bs) = ucast b OR push_bit 8 (u32_of_bytes bs)"

text \<open>\<^verbatim>\<open>htonl\<close> and \<^verbatim>\<open>ntohl\<close> reverse the memory image.\<close>

definition htonl :: "u32 \<Rightarrow> u32" where
  "htonl w = u32_of_bytes (rev (u32_bytes w))"

abbreviation (input) ntohl :: "u32 \<Rightarrow> u32" where
  "ntohl \<equiv> htonl"

lemma bit_u8_beyond [simp]: "8 \<le> n \<Longrightarrow> \<not> bit (b :: u8) n"
  by (auto dest: bit_imp_le_length)

lemma length_u32_bytes [simp, byte_simps]: "length (u32_bytes w) = 4"
  by (simp add: u32_bytes_def)

lemma u32_of_bytes_u32_bytes [simp, byte_simps]: "u32_of_bytes (u32_bytes w) = w"
proof (rule bit_word_eqI)
  fix n assume "n < LENGTH(32)"
  then consider "n < 8" | "8 \<le> n" "n < 16" | "16 \<le> n" "n < 24" | "24 \<le> n" "n < 32"
    by fastforce
  then show "bit (u32_of_bytes (u32_bytes w)) n = bit w n"
    by cases (auto simp: u32_bytes_def bit_simps dest: bit_imp_le_length)
qed

lemma u32_bytes_inject [simp, byte_simps]: "u32_bytes v = u32_bytes w \<longleftrightarrow> v = w"
  by (metis u32_of_bytes_u32_bytes)

lemma u32_bytes_u32_of_bytes [byte_simps]:
  assumes "length bs = 4"
  shows "u32_bytes (u32_of_bytes bs) = bs"
proof -
  from assms obtain a b c d where bs: "bs = [a, b, c, d]"
    by (auto simp: numeral_eq_Suc length_Suc_conv)
  show ?thesis
    unfolding bs by (auto simp: u32_bytes_def bit_simps intro!: bit_word_eqI dest: bit_imp_le_length)
qed

lemma u32_bytes_htonl [byte_simps]: "u32_bytes (htonl w) = rev (u32_bytes w)"
  by (simp add: htonl_def u32_bytes_u32_of_bytes)

lemma htonl_htonl [simp, byte_simps]: "htonl (htonl w) = w"
  by (subst u32_bytes_inject [symmetric]) (simp add: u32_bytes_htonl)

lemma htonl_inject [simp, byte_simps]: "htonl v = htonl w \<longleftrightarrow> v = w"
  by (metis htonl_htonl)

lemma htonl_0 [simp, byte_simps]: "htonl 0 = 0"
  by (simp add: htonl_def u32_bytes_def)

lemma htonl_eq_0_iff [simp, byte_simps]: "htonl w = 0 \<longleftrightarrow> w = 0"
  by (metis htonl_htonl htonl_0)

lemma htonl_and: "htonl (v AND w) = htonl v AND htonl w"
  by (rule bit_word_eqI) (auto simp: htonl_def u32_bytes_def bit_simps not_less)

lemma unat_u8_less: "unat (b :: u8) < 256"
  using unsigned_less [of b, where ?'a = nat] by simp

lemma unat_ucast_u8 [simp]: "unat (ucast (b :: u8) :: u32) = unat b"
  by (simp add: unsigned_ucast_eq take_bit_eq_mod mod_less order.strict_trans [OF unat_u8_less])

lemma unat_u32_of_bytes_Cons:
  assumes "unat (u32_of_bytes bs) < 2 ^ 24"
  shows "unat (u32_of_bytes (b # bs)) = unat b + 256 * unat (u32_of_bytes bs)"
proof -
  let ?w = "u32_of_bytes bs"
  have "u32_of_bytes (b # bs) = ucast b + push_bit 8 ?w"
    by (simp only: u32_of_bytes.simps, subst disjunctive_add [symmetric])
      (auto simp: bit_simps)
  then have "u32_of_bytes (b # bs) = ucast b + ?w * 256"
    by (simp only: push_bit_eq_mult) simp
  moreover have "unat b < 256" by (rule unat_u8_less)
  ultimately show ?thesis
    using assms by (simp add: unat_word_ariths)
qed

lemma u32_of_bytes_bound:
  "length bs \<le> 3 \<Longrightarrow> unat (u32_of_bytes bs) < 256 ^ length bs"
proof (induction bs)
  case Nil
  then show ?case by simp
next
  case (Cons b bs)
  have "(256::nat) ^ length bs \<le> 256 ^ 2"
    using Cons.prems by (intro power_increasing) auto
  with Cons have "unat (u32_of_bytes bs) < 256 ^ length bs" "unat (u32_of_bytes bs) < 2 ^ 24"
    by auto
  moreover have "unat b < 256" by (rule unat_u8_less)
  ultimately show ?case
    by (simp del: u32_of_bytes.simps add: unat_u32_of_bytes_Cons)
qed

lemma unat_u32_of_bytes4:
  "unat (u32_of_bytes [a, b, c, d]) = unat a + 256 * (unat b + 256 * (unat c + 256 * unat d))"
proof -
  have "unat (u32_of_bytes [b, c, d]) < 2 ^ 24" "unat (u32_of_bytes [c, d]) < 2 ^ 24"
       "unat (u32_of_bytes [d]) < 2 ^ 24" "unat (u32_of_bytes []) < 2 ^ 24"
    using u32_of_bytes_bound [of "[b, c, d]"] u32_of_bytes_bound [of "[c, d]"]
      u32_of_bytes_bound [of "[d]"] by (auto simp del: u32_of_bytes.simps simp: u32_of_bytes.simps(1))
  then show ?thesis
    by (simp del: u32_of_bytes.simps add: unat_u32_of_bytes_Cons)
qed

lemma u32_cases_bytes:
  obtains a b c d where "w = u32_of_bytes [a, b, c, d]" "u32_bytes w = [a, b, c, d]"
    "htonl w = u32_of_bytes [d, c, b, a]"
  by (rule that [of "ucast w" "ucast (drop_bit 8 w)" "ucast (drop_bit 16 w)" "ucast (drop_bit 24 w)"])
    (simp_all flip: u32_bytes_def del: u32_of_bytes.simps add: htonl_def, simp_all add: u32_bytes_def)

section \<open>Bounds-checked copies\<close>

text \<open>
  \<^verbatim>\<open>memcpy_s(dest, destMax, src, count)\<close> of C11 Annex K on the bytes from \<open>dest\<close> on: the copy is
  made when \<open>count\<close> is at most \<open>destMax\<close>; otherwise the call fails and clears the destination.
  The result is the success flag and the new bytes. A result longer than \<open>dest\<close> means that the
  caller announced more room than the array has, i.e. a write past its end.
\<close>

definition memcpy_s :: "nat \<Rightarrow> bytes \<Rightarrow> bytes \<Rightarrow> nat \<Rightarrow> bool \<times> bytes" where
  "memcpy_s destMax dest src count =
     (if count \<le> destMax then (True, take count src @ drop count dest)
      else (False, replicate destMax 0 @ drop destMax dest))"

lemma memcpy_s_ok [simp]:
  "count \<le> destMax \<Longrightarrow> memcpy_s destMax dest src count = (True, take count src @ drop count dest)"
  by (simp add: memcpy_s_def)

lemma memcpy_s_fail [simp]:
  "destMax < count \<Longrightarrow> memcpy_s destMax dest src count = (False, replicate destMax 0 @ drop destMax dest)"
  by (simp add: memcpy_s_def)

lemma memcpy_s_in_bounds:
  "memcpy_s destMax dest src count = (r, dest') \<Longrightarrow> destMax \<le> length dest \<Longrightarrow> count \<le> length src
    \<Longrightarrow> length dest' = length dest"
  by (auto simp: memcpy_s_def split: if_splits)

section \<open>Ordered dictionaries\<close>

text \<open>\<^verbatim>\<open>std::map\<close>: the entries in the iteration order, ascending in the key. \<open>smap_assign\<close> is
  \<^verbatim>\<open>m[k] = v\<close>, \<open>smap_erase\<close> is \<^verbatim>\<open>erase(k)\<close>, \<open>smap_modify\<close> is a write through a pointer
  or reference to the element of key \<open>k\<close>, \<open>map_of\<close> is the lookup (\<^verbatim>\<open>count\<close> and \<^verbatim>\<open>find\<close>).\<close>

type_synonym ('k, 'v) smap = "('k \<times> 'v) list"

fun smap_assign :: "'k::linorder \<Rightarrow> 'v \<Rightarrow> ('k, 'v) smap \<Rightarrow> ('k, 'v) smap" where
  "smap_assign k v [] = [(k, v)]"
| "smap_assign k v ((a, b) # m) =
     (if k = a then (k, v) # m
      else if k < a then (k, v) # (a, b) # m
      else (a, b) # smap_assign k v m)"

definition smap_erase :: "'k \<Rightarrow> ('k, 'v) smap \<Rightarrow> ('k, 'v) smap" where
  "smap_erase k m = filter (\<lambda>e. fst e \<noteq> k) m"

definition smap_modify :: "'k \<Rightarrow> ('v \<Rightarrow> 'v) \<Rightarrow> ('k, 'v) smap \<Rightarrow> ('k, 'v) smap" where
  "smap_modify k f m = map (\<lambda>e. if fst e = k then (fst e, f (snd e)) else e) m"

definition smap_wf :: "('k::linorder, 'v) smap \<Rightarrow> bool" where
  "smap_wf m \<longleftrightarrow> sorted_wrt (<) (map fst m)"

lemma map_of_smap_assign [simp, smap_simps]: "map_of (smap_assign k v m) = (map_of m)(k \<mapsto> v)"
  by (induction k v m rule: smap_assign.induct) (auto simp: fun_eq_iff)

lemma map_of_smap_erase [simp, smap_simps]: "map_of (smap_erase k m) = (map_of m)(k := None)"
  by (induction m) (auto simp: smap_erase_def fun_eq_iff)

lemma map_of_smap_modify [simp, smap_simps]:
  "map_of (smap_modify k f m) = (map_of m)(k := map_option f (map_of m k))"
  by (induction m) (auto simp: smap_modify_def fun_eq_iff)

lemma fst_smap_modify [simp]: "map fst (smap_modify k f m) = map fst m"
  by (induction m) (auto simp: smap_modify_def)

lemma set_fst_smap_assign: "fst ` set (smap_assign k v m) = insert k (fst ` set m)"
  by (induction k v m rule: smap_assign.induct) auto

lemma smap_wf_assign [intro]: "smap_wf m \<Longrightarrow> smap_wf (smap_assign k v m)"
  by (induction k v m rule: smap_assign.induct) (auto simp: smap_wf_def set_fst_smap_assign)

lemma smap_wf_filter [intro]: "smap_wf m \<Longrightarrow> smap_wf (filter P m)"
  by (simp add: smap_wf_def sorted_wrt_map sorted_wrt_filter)

lemma smap_wf_erase [intro]: "smap_wf m \<Longrightarrow> smap_wf (smap_erase k m)"
  by (auto simp: smap_erase_def)

lemma smap_wf_modify [intro]: "smap_wf m \<Longrightarrow> smap_wf (smap_modify k f m)"
  by (simp add: smap_wf_def)

lemma smap_wf_distinct: "smap_wf m \<Longrightarrow> distinct (map fst m)"
  by (simp add: smap_wf_def strict_sorted_iff)

lemma map_of_filter:
  "distinct (map fst m) \<Longrightarrow>
    map_of (filter P m) k = (case map_of m k of None \<Rightarrow> None | Some v \<Rightarrow> if P (k, v) then Some v else None)"
proof (induction m)
  case (Cons e m)
  moreover have "map_of m (fst e) = None" using Cons.prems by (simp add: map_of_eq_None_iff)
  ultimately show ?case by (cases e) (auto split: option.splits)
qed simp

section \<open>Interfaces\<close>

text \<open>A predicate that every entry of a dictionary satisfies.\<close>

definition all_entries :: "('k \<Rightarrow> 'v option) \<Rightarrow> ('k \<Rightarrow> 'v \<Rightarrow> bool) \<Rightarrow> bool" where
  "all_entries m P \<longleftrightarrow> (\<forall>k v. m k = Some v \<longrightarrow> P k v)"

lemma all_entriesI [intro?]: "(\<And>k v. m k = Some v \<Longrightarrow> P k v) \<Longrightarrow> all_entries m P"
  by (simp add: all_entries_def)

lemma all_entriesD: "all_entries m P \<Longrightarrow> m k = Some v \<Longrightarrow> P k v"
  by (simp add: all_entries_def)

text \<open>A keyed store: what a client may rely on of the two tables of the server (leases by
  address, bindings by hardware address) and of \<^verbatim>\<open>std::map\<close> below them.\<close>

locale keyed_store =
  fixes lookup :: "'s \<Rightarrow> 'k \<Rightarrow> 'v option"
    and put :: "'k \<Rightarrow> 'v \<Rightarrow> 's \<Rightarrow> 's"
    and remove :: "'k \<Rightarrow> 's \<Rightarrow> 's"
    and modify :: "'k \<Rightarrow> ('v \<Rightarrow> 'v) \<Rightarrow> 's \<Rightarrow> 's"
  assumes lookup_put: "lookup (put k v s) = (lookup s)(k \<mapsto> v)"
    and lookup_remove: "lookup (remove k s) = (lookup s)(k := None)"
    and lookup_modify: "lookup (modify k f s) = (lookup s)(k := map_option f (lookup s k))"
begin

lemmas store_laws = lookup_put lookup_remove lookup_modify

lemma all_entries_put:
  "all_entries (lookup s) P \<Longrightarrow> P k v \<Longrightarrow> all_entries (lookup (put k v s)) P"
  by (simp add: all_entries_def lookup_put)

lemma all_entries_remove:
  "all_entries (lookup s) P \<Longrightarrow> all_entries (lookup (remove k s)) P"
  by (simp add: all_entries_def lookup_remove)

lemma all_entries_modify:
  "all_entries (lookup s) P \<Longrightarrow> (\<And>v. lookup s k = Some v \<Longrightarrow> P k v \<Longrightarrow> P k (f v))
    \<Longrightarrow> all_entries (lookup (modify k f s)) P"
  by (auto simp: all_entries_def lookup_modify)

end

interpretation smap: keyed_store "map_of :: ('k::linorder, 'v) smap \<Rightarrow> 'k \<Rightarrow> 'v option"
  smap_assign smap_erase smap_modify
  by unfold_locales simp_all

text \<open>A machine that runs one event at a time and keeps an invariant. The events are processed
  in the order in which they arrive.\<close>

locale inv_machine =
  fixes step :: "'e \<Rightarrow> 's \<Rightarrow> 's"
    and inv :: "'s \<Rightarrow> bool"
    and ok :: "'e \<Rightarrow> bool"
  assumes step_inv: "inv s \<Longrightarrow> ok e \<Longrightarrow> inv (step e s)"
begin

lemma run_inv: "inv s \<Longrightarrow> list_all ok es \<Longrightarrow> inv (fold step es s)"
  by (induction es arbitrary: s) (auto intro: step_inv)

lemma run_inv_prefix:
  "inv s \<Longrightarrow> list_all ok es \<Longrightarrow> inv (fold step (take n es) s)"
  by (rule run_inv) (auto simp: list_all_iff dest: in_set_takeD)

end

text \<open>A component whose steps come in any order, as a relation: what every step keeps holds in every state that can
  be reached, and a quantity that no step lets fall stays above its first value.\<close>

locale transition_system =
  fixes step :: "'s \<Rightarrow> 's \<Rightarrow> bool"
    and inv :: "'s \<Rightarrow> bool"
  assumes step_keeps: "step s s' \<Longrightarrow> inv s \<Longrightarrow> inv s'"
begin

lemma reachable_inv: "step\<^sup>*\<^sup>* s s' \<Longrightarrow> inv s \<Longrightarrow> inv s'"
  by (induction rule: rtranclp_induct) (auto intro: step_keeps)

lemma reachable_le:
  fixes f :: "'s \<Rightarrow> 'a :: preorder"
  assumes "step\<^sup>*\<^sup>* s s'" "inv s" "\<And>s s'. step s s' \<Longrightarrow> inv s \<Longrightarrow> f s \<le> f s'"
  shows "f s \<le> f s'"
  using assms(1)
proof (induction rule: rtranclp_induct)
  case (step y z)
  then show ?case using assms(2,3) reachable_inv order_trans by blast
qed simp

end

end
