(* ===== verification/DhcpOptionList.thy ===== *)
theory DhcpOptionList
  imports DhcpPrelude
begin

text \<open>
  The options of a DHCP message: \<^verbatim>\<open>struct DhcpOption\<close> of \<^verbatim>\<open>dhcp_option.h\<close>, the functions of
  \<^verbatim>\<open>dhcp_option.cpp\<close> that fill one option, and the abstract option list. The linked list with its
  sentinel node and its pointers is in \<open>DhcpOptionHeap\<close>, which proves that it implements the abstract
  operations \<open>opts_push_back\<close>, \<open>opts_push_front\<close>, \<open>opts_remove\<close>, \<open>opts_get\<close> and \<open>opts_clear\<close> of this
  theory; the rest of the server works on the abstract list.
\<close>

section \<open>One option\<close>

record DhcpOption =
  opt_code :: u8
  opt_length :: u8
  opt_data :: bytes

abbreviation (input) DHCP_OPTION_SIZE :: nat where "DHCP_OPTION_SIZE \<equiv> 256"

definition opt_wf :: "DhcpOption \<Rightarrow> bool" where
  "opt_wf opt \<longleftrightarrow> length (opt_data opt) = DHCP_OPTION_SIZE"

text \<open>\<^verbatim>\<open>DhcpOption o = {code, length, {data...}}\<close>: the rest of the array is zero.\<close>

definition mk_option :: "u8 \<Rightarrow> u8 \<Rightarrow> bytes \<Rightarrow> DhcpOption" where
  "mk_option code len data =
     \<lparr>opt_code = code, opt_length = len, opt_data = data @ replicate (DHCP_OPTION_SIZE - length data) 0\<rparr>"

text \<open>The bytes of the payload.\<close>

definition opt_payload :: "DhcpOption \<Rightarrow> bytes" where
  "opt_payload opt = take (unat (opt_length opt)) (opt_data opt)"

definition FillOption :: "DhcpOption \<Rightarrow> bytes option \<Rightarrow> nat \<Rightarrow> int \<times> DhcpOption" where
  "FillOption pOption data len =
     (case data of None \<Rightarrow> (RET_FAILED, pOption)
      | Some d \<Rightarrow>
        let flen = (if len > DHCP_OPTION_SIZE - 1 then DHCP_OPTION_SIZE - 1 else len);
            (ok, mem) = memcpy_s (DHCP_OPTION_SIZE - 1) (opt_data pOption) d flen
        in if \<not> ok then (RET_ERROR, pOption\<lparr>opt_data := mem\<rparr>)
           else (RET_SUCCESS, pOption\<lparr>opt_data := mem, opt_length := of_nat flen\<rparr>))"

definition FillU32Option :: "DhcpOption \<Rightarrow> u32 \<Rightarrow> int \<times> DhcpOption" where
  "FillU32Option pOption u32 =
     (let (ok, mem) = memcpy_s DHCP_OPTION_SIZE (opt_data pOption) (u32_bytes u32) 4
      in if \<not> ok then (RET_ERROR, pOption\<lparr>opt_data := mem\<rparr>)
         else (RET_SUCCESS, pOption\<lparr>opt_data := mem, opt_length := 4\<rparr>))"

definition FillOptionData :: "DhcpOption \<Rightarrow> bytes option \<Rightarrow> nat \<Rightarrow> int \<times> DhcpOption" where
  "FillOptionData pOption data len =
     (case data of None \<Rightarrow> (RET_FAILED, pOption)
      | Some d \<Rightarrow>
        let flen = (if len > DHCP_OPTION_SIZE then DHCP_OPTION_SIZE else len);
            (ok, mem) = memcpy_s DHCP_OPTION_SIZE (opt_data pOption) d flen
        in if \<not> ok then (RET_ERROR, pOption\<lparr>opt_data := mem\<rparr>)
           else (RET_SUCCESS, pOption\<lparr>opt_data := mem, opt_length := of_nat flen\<rparr>))"

text \<open>The address is written behind the payload; the length is an 8-bit counter.\<close>

definition AppendAddressOption :: "DhcpOption \<Rightarrow> u32 \<Rightarrow> int \<times> DhcpOption" where
  "AppendAddressOption pOption address =
     (let addrLen = unat (opt_length pOption);
          spaceSize = DHCP_OPTION_SIZE - addrLen
      in if spaceSize < 4 then (RET_ERROR, pOption)
         else
           let (ok, mem) = memcpy_s spaceSize (drop addrLen (opt_data pOption)) (u32_bytes address) 4;
               pOption = pOption\<lparr>opt_data := take addrLen (opt_data pOption) @ mem\<rparr>
           in if \<not> ok then (RET_ERROR, pOption)
              else (RET_SUCCESS, pOption\<lparr>opt_length := opt_length pOption + 4\<rparr>))"

section \<open>Option lists\<close>

text \<open>A list that \<^verbatim>\<open>InitOptionList\<close> has not set up is \<open>None\<close>. A node holds a copy of the option: its
  code, its length, and the payload; the rest of the array is zero, as \<^verbatim>\<open>calloc\<close> left it.\<close>

type_synonym option_list = "DhcpOption list option"

definition stored_option :: "DhcpOption \<Rightarrow> DhcpOption" where
  "stored_option opt = mk_option (opt_code opt) (opt_length opt) (opt_payload opt)"

definition opts_push_back :: "option_list \<Rightarrow> DhcpOption \<Rightarrow> int \<times> option_list" where
  "opts_push_back opts opt =
     (case opts of None \<Rightarrow> (RET_SUCCESS, None)
      | Some xs \<Rightarrow>
        if opt_length opt = 0 then (RET_FAILED, Some xs)
        else (RET_SUCCESS, Some (xs @ [stored_option opt])))"

definition opts_push_front :: "DhcpOption list \<Rightarrow> DhcpOption \<Rightarrow> int \<times> DhcpOption list" where
  "opts_push_front xs opt =
     (if opt_length opt = 0 then (RET_FAILED, xs) else (RET_SUCCESS, stored_option opt # xs))"

fun remove_first :: "('a \<Rightarrow> bool) \<Rightarrow> 'a list \<Rightarrow> 'a list" where
  "remove_first P [] = []"
| "remove_first P (x # xs) = (if P x then xs else x # remove_first P xs)"

definition opts_remove :: "option_list \<Rightarrow> u8 \<Rightarrow> int \<times> option_list" where
  "opts_remove opts code =
     (case opts of None \<Rightarrow> (RET_FAILED, None)
      | Some xs \<Rightarrow>
        if \<exists>x \<in> set xs. opt_code x = code
        then (RET_SUCCESS, Some (remove_first (\<lambda>x. opt_code x = code) xs))
        else (RET_FAILED, Some xs))"

definition opts_get :: "option_list \<Rightarrow> u8 \<Rightarrow> DhcpOption option" where
  "opts_get opts code =
     (case opts of None \<Rightarrow> None | Some xs \<Rightarrow> find (\<lambda>x. opt_code x = code) xs)"

definition opts_clear :: "option_list \<Rightarrow> option_list" where
  "opts_clear opts = map_option (\<lambda>_. []) opts"

definition opts_size :: "option_list \<Rightarrow> nat" where
  "opts_size opts = (case opts of None \<Rightarrow> 0 | Some xs \<Rightarrow> length xs)"

definition opts_list :: "option_list \<Rightarrow> DhcpOption list" where
  "opts_list opts = (case opts of None \<Rightarrow> [] | Some xs \<Rightarrow> xs)"

section \<open>Lemmas\<close>

lemma opt_code_stored [simp]: "opt_code (stored_option opt) = opt_code opt"
  by (simp add: stored_option_def mk_option_def)

lemma opt_length_stored [simp]: "opt_length (stored_option opt) = opt_length opt"
  by (simp add: stored_option_def mk_option_def)

lemma opt_payload_stored [simp]:
  "opt_wf opt \<Longrightarrow> opt_payload (stored_option opt) = opt_payload opt"
  using unat_u8_less [of "opt_length opt"]
  by (simp add: stored_option_def mk_option_def opt_payload_def opt_wf_def)

lemma opt_wf_mk_option [simp]: "length data \<le> 256 \<Longrightarrow> opt_wf (mk_option code len data)"
  by (simp add: opt_wf_def mk_option_def)

lemma opt_wf_stored [simp]: "opt_wf (stored_option opt)"
  using unat_u8_less [of "opt_length opt"]
  by (simp add: stored_option_def opt_payload_def)

lemma opts_get_push_back:
  assumes "opts \<noteq> None" "opt_length opt \<noteq> 0"
  shows "opts_get (snd (opts_push_back opts opt)) code =
    (case opts_get opts code of Some x \<Rightarrow> Some x
     | None \<Rightarrow> if opt_code opt = code then Some (stored_option opt) else None)"
proof -
  have "find P (xs @ [y]) = (case find P xs of Some x \<Rightarrow> Some x | None \<Rightarrow> if P y then Some y else None)"
    for P and xs :: "DhcpOption list" and y
    by (induction xs) auto
  with assms show ?thesis by (auto simp: opts_get_def opts_push_back_def)
qed

lemma opts_get_Some: "opts_get opts code = Some x \<Longrightarrow> opt_code x = code \<and> x \<in> set (opts_list opts)"
  by (auto simp: opts_get_def opts_list_def find_Some_iff split: option.splits)

lemma opts_get_None_iff: "opts_get opts code = None \<longleftrightarrow> (\<forall>x \<in> set (opts_list opts). opt_code x \<noteq> code)"
  by (auto simp: opts_get_def opts_list_def find_None_iff split: option.splits)

section \<open>Properties of one option\<close>

text \<open>Appending addresses one after the other, as the configuration of the name servers does.\<close>

definition append_addresses :: "DhcpOption \<Rightarrow> u32 list \<Rightarrow> DhcpOption" where
  "append_addresses opt addrs = fold (\<lambda>a opt. snd (AppendAddressOption opt a)) addrs opt"

lemma AppendAddressOption_payload:
  assumes "opt_wf opt" "unat (opt_length opt) < 252"
  shows "fst (AppendAddressOption opt a) = RET_SUCCESS"
    "opt_wf (snd (AppendAddressOption opt a))"
    "unat (opt_length (snd (AppendAddressOption opt a))) = unat (opt_length opt) + 4"
    "opt_payload (snd (AppendAddressOption opt a)) = opt_payload opt @ u32_bytes a"
proof -
  let ?n = "unat (opt_length opt)"
  have eq: "AppendAddressOption opt a = (RET_SUCCESS,
      opt\<lparr>opt_data := take ?n (opt_data opt) @ u32_bytes a @ drop (4 + ?n) (opt_data opt),
          opt_length := opt_length opt + 4\<rparr>)"
    using assms by (simp add: AppendAddressOption_def Let_def)
  have len: "unat (opt_length opt + 4) = ?n + 4"
    using assms(2) by (simp add: unat_word_ariths)
  show "fst (AppendAddressOption opt a) = RET_SUCCESS" by (simp add: eq)
  show "unat (opt_length (snd (AppendAddressOption opt a))) = ?n + 4" by (simp add: eq len)
  show "opt_wf (snd (AppendAddressOption opt a))" using assms by (simp add: eq opt_wf_def)
  show "opt_payload (snd (AppendAddressOption opt a)) = opt_payload opt @ u32_bytes a"
    using assms by (simp add: eq len opt_payload_def opt_wf_def)
qed

lemma append_addresses_payload:
  assumes "opt_wf opt" "unat (opt_length opt) + 4 * length addrs < 256"
  shows "opt_payload (append_addresses opt addrs) = opt_payload opt @ concat (map u32_bytes addrs)
     \<and> unat (opt_length (append_addresses opt addrs)) = unat (opt_length opt) + 4 * length addrs"
  using assms
proof (induction addrs arbitrary: opt)
  case Nil
  then show ?case by (simp add: append_addresses_def)
next
  case (Cons a addrs)
  have "unat (opt_length opt) < 252" using Cons.prems by simp
  note step = AppendAddressOption_payload [OF Cons.prems(1) this, of a]
  from Cons.IH [of "snd (AppendAddressOption opt a)"] Cons.prems step show ?case
    by (simp add: append_addresses_def)
qed

end
