(* ===== verification/DhcpOptionHeap.thy ===== *)
theory DhcpOptionHeap
  imports DhcpOptionList "HOL-Library.Monad_Syntax"
begin

text \<open>
  The option list of \<^verbatim>\<open>services/dhcp_server/src/dhcp_option.cpp\<close>: a doubly linked list of heap nodes
  behind a sentinel node. The heap maps addresses to nodes; a pointer is an address or \<open>None\<close> for
  \<^verbatim>\<open>nullptr\<close>. An operation that would read or write through a null or dangling pointer has the result
  \<open>None\<close>. The section on refinement shows that on a well-formed list no operation does so, and that
  each one implements its abstract counterpart in \<open>DhcpOptionList\<close>.
\<close>

section \<open>Nodes, heap and list\<close>

record DhcpOptionNode =
  nd_previous :: "nat option"
  nd_next :: "nat option"
  nd_option :: DhcpOption

record heap =
  mem :: "nat \<Rightarrow> DhcpOptionNode option"
  brk :: nat
  hp_limit :: nat

record DhcpOptionList =
  ol_first :: "nat option"
  ol_last :: "nat option"
  ol_size :: u64

definition zero_node :: DhcpOptionNode where
  "zero_node = \<lparr>nd_previous = None, nd_next = None, nd_option = mk_option 0 0 []\<rparr>"

text \<open>\<^verbatim>\<open>calloc(1, sizeof(DhcpOptionNode))\<close> returns a fresh zeroed node, or null once the memory limit
  is reached.\<close>

definition calloc_node :: "heap \<Rightarrow> nat option \<times> heap" where
  "calloc_node h =
     (if brk h < hp_limit h
      then (Some (brk h), h\<lparr>mem := (mem h)(brk h \<mapsto> zero_node), brk := brk h + 1\<rparr>)
      else (None, h))"

definition free_node :: "nat \<Rightarrow> heap \<Rightarrow> heap" where
  "free_node a h = h\<lparr>mem := (mem h)(a := None)\<rparr>"

definition load :: "heap \<Rightarrow> nat option \<Rightarrow> DhcpOptionNode option" where
  "load h p = (case p of None \<Rightarrow> None | Some a \<Rightarrow> mem h a)"

definition upd :: "nat option \<Rightarrow> (DhcpOptionNode \<Rightarrow> DhcpOptionNode) \<Rightarrow> heap \<Rightarrow> heap option" where
  "upd p f h = (case p of None \<Rightarrow> None
     | Some a \<Rightarrow> (case mem h a of None \<Rightarrow> None | Some nd \<Rightarrow> Some (h\<lparr>mem := (mem h)(a \<mapsto> f nd)\<rparr>)))"

section \<open>Operations\<close>

definition CreateOptionNode :: "DhcpOption \<Rightarrow> heap \<Rightarrow> (nat option \<times> heap) option" where
  "CreateOptionNode opt h =
     (case calloc_node h of
        (None, h) \<Rightarrow> Some (None, h)
      | (Some a, h) \<Rightarrow> do {
          h \<leftarrow> upd (Some a) (\<lambda>nd. nd\<lparr>nd_option := (nd_option nd)\<lparr>opt_code := opt_code opt\<rparr>\<rparr>) h;
          h \<leftarrow> upd (Some a) (\<lambda>nd. nd\<lparr>nd_option := (nd_option nd)\<lparr>opt_length := opt_length opt\<rparr>\<rparr>) h;
          if opt_length opt = 0 then Some (None, free_node a h)
          else do {
            nd \<leftarrow> load h (Some a);
            let (ok, dat) = memcpy_s DHCP_OPTION_SIZE (opt_data (nd_option nd)) (opt_data opt) (unat (opt_length opt));
            h \<leftarrow> upd (Some a) (\<lambda>nd. nd\<lparr>nd_option := (nd_option nd)\<lparr>opt_data := dat\<rparr>\<rparr>) h;
            if \<not> ok then Some (None, free_node a h)
            else do {
              h \<leftarrow> upd (Some a) (\<lambda>nd. nd\<lparr>nd_previous := None, nd_next := None\<rparr>) h;
              Some (Some a, h)
            }
          }
        })"

definition HasInitialized :: "DhcpOptionList \<Rightarrow> int" where
  "HasInitialized l = (if ol_first l \<noteq> None then 1 else 0)"

definition InitOptionList :: "DhcpOptionList \<Rightarrow> heap \<Rightarrow> (int \<times> DhcpOptionList \<times> heap) option" where
  "InitOptionList l h =
     (if ol_first l \<noteq> None \<and> ol_first l = ol_last l then Some (RET_SUCCESS, l, h)
      else case calloc_node h of
        (None, h) \<Rightarrow> Some (1, l, h)
      | (Some a, h) \<Rightarrow> do {
          let l = l\<lparr>ol_size := 0, ol_first := Some a, ol_last := Some a\<rparr>;
          h \<leftarrow> upd (ol_first l) (\<lambda>nd. nd\<lparr>nd_previous := None\<rparr>) h;
          h \<leftarrow> upd (ol_last l) (\<lambda>nd. nd\<lparr>nd_next := None\<rparr>) h;
          Some (RET_SUCCESS, l, h)
        })"

definition PushBackOption :: "DhcpOptionList \<Rightarrow> DhcpOption \<Rightarrow> heap \<Rightarrow> (int \<times> DhcpOptionList \<times> heap) option" where
  "PushBackOption l opt h =
     (if ol_first l = None then Some (RET_SUCCESS, l, h)
      else do {
        (pNode, h) \<leftarrow> CreateOptionNode opt h;
        if pNode = None then Some (1, l, h)
        else do {
          h \<leftarrow> upd pNode (\<lambda>nd. nd\<lparr>nd_previous := ol_last l\<rparr>) h;
          h \<leftarrow> upd (ol_last l) (\<lambda>nd. nd\<lparr>nd_next := pNode\<rparr>) h;
          Some (RET_SUCCESS, l\<lparr>ol_last := pNode, ol_size := ol_size l + 1\<rparr>, h)
        }
      })"

definition PushFrontOption :: "DhcpOptionList \<Rightarrow> DhcpOption \<Rightarrow> heap \<Rightarrow> (int \<times> DhcpOptionList \<times> heap) option" where
  "PushFrontOption l opt h = do {
     (pNode, h) \<leftarrow> CreateOptionNode opt h;
     if pNode = None then Some (RET_FAILED, l, h)
     else if ol_first l = ol_last l then do {
       h \<leftarrow> upd pNode (\<lambda>nd. nd\<lparr>nd_previous := ol_first l\<rparr>) h;
       h \<leftarrow> upd (ol_first l) (\<lambda>nd. nd\<lparr>nd_next := pNode\<rparr>) h;
       Some (RET_SUCCESS, l\<lparr>ol_last := pNode, ol_size := ol_size l + 1\<rparr>, h)
     } else do {
       f \<leftarrow> load h (ol_first l);
       h \<leftarrow> upd pNode (\<lambda>nd. nd\<lparr>nd_next := nd_next f\<rparr>) h;
       n \<leftarrow> load h pNode;
       h \<leftarrow> upd (nd_next n) (\<lambda>nd. nd\<lparr>nd_previous := pNode\<rparr>) h;
       h \<leftarrow> upd pNode (\<lambda>nd. nd\<lparr>nd_previous := ol_first l\<rparr>) h;
       h \<leftarrow> upd (ol_first l) (\<lambda>nd. nd\<lparr>nd_next := pNode\<rparr>) h;
       Some (RET_SUCCESS, l\<lparr>ol_size := ol_size l + 1\<rparr>, h)
     }
   }"

partial_function (option) GetOptionNode_loop :: "heap \<Rightarrow> u8 \<Rightarrow> nat option \<Rightarrow> nat option option" where
  "GetOptionNode_loop h code p =
     (case p of None \<Rightarrow> Some None
      | Some a \<Rightarrow> (case mem h a of None \<Rightarrow> None
          | Some nd \<Rightarrow> if opt_code (nd_option nd) = code then Some (Some a)
                      else GetOptionNode_loop h code (nd_next nd)))"

definition GetOptionNode :: "DhcpOptionList \<Rightarrow> u8 \<Rightarrow> heap \<Rightarrow> nat option option" where
  "GetOptionNode l code h =
     (if ol_first l = None then Some None
      else do { f \<leftarrow> load h (ol_first l); GetOptionNode_loop h code (nd_next f) })"

definition GetOption :: "DhcpOptionList \<Rightarrow> u8 \<Rightarrow> heap \<Rightarrow> DhcpOption option option" where
  "GetOption l code h = do {
     pNode \<leftarrow> GetOptionNode l code h;
     case pNode of None \<Rightarrow> Some None
     | Some a \<Rightarrow> do { nd \<leftarrow> load h (Some a); Some (Some (nd_option nd)) }
   }"

definition RemoveOption :: "DhcpOptionList \<Rightarrow> u8 \<Rightarrow> heap \<Rightarrow> (int \<times> DhcpOptionList \<times> heap) option" where
  "RemoveOption l code h =
     (if ol_size l = 0 then Some (RET_FAILED, l, h)
      else do {
        pNode \<leftarrow> GetOptionNode l code h;
        case pNode of None \<Rightarrow> Some (RET_FAILED, l, h)
        | Some a \<Rightarrow> do {
            nd \<leftarrow> load h pNode;
            (l, h) \<leftarrow>
              (if pNode = ol_last l then do {
                 let l = l\<lparr>ol_last := nd_previous nd\<rparr>;
                 h \<leftarrow> upd (ol_last l) (\<lambda>n. n\<lparr>nd_next := None\<rparr>) h;
                 Some (l, h)
               } else do {
                 h \<leftarrow> upd (nd_next nd) (\<lambda>n. n\<lparr>nd_previous := nd_previous nd\<rparr>) h;
                 h \<leftarrow> upd (nd_previous nd) (\<lambda>n. n\<lparr>nd_next := nd_next nd\<rparr>) h;
                 Some (l, h)
               });
            Some (RET_SUCCESS, l\<lparr>ol_size := ol_size l - 1\<rparr>, free_node a h)
          }
      })"

text \<open>The loop that \<^verbatim>\<open>ClearOptions\<close> and \<^verbatim>\<open>FreeOptionList\<close> share: unlink and free the node after the
  sentinel until there is none.\<close>

partial_function (option) ClearOptions_loop ::
  "DhcpOptionList \<Rightarrow> nat option \<Rightarrow> heap \<Rightarrow> (DhcpOptionList \<times> heap) option" where
  "ClearOptions_loop l p h =
     (case p of None \<Rightarrow> Some (l, h)
      | Some a \<Rightarrow> do {
          nd \<leftarrow> load h (Some a);
          (l, h) \<leftarrow>
            (if Some a = ol_last l then do {
               let l = l\<lparr>ol_last := ol_first l\<rparr>;
               h \<leftarrow> upd (ol_last l) (\<lambda>n. n\<lparr>nd_next := None\<rparr>) h;
               Some (l, h)
             } else do {
               h \<leftarrow> upd (nd_next nd) (\<lambda>n. n\<lparr>nd_previous := nd_previous nd\<rparr>) h;
               h \<leftarrow> upd (nd_previous nd) (\<lambda>n. n\<lparr>nd_next := nd_next nd\<rparr>) h;
               Some (l, h)
             });
          let h = free_node a h;
          f \<leftarrow> load h (ol_first l);
          ClearOptions_loop l (nd_next f) h
        })"

definition ClearOptions :: "DhcpOptionList \<Rightarrow> heap \<Rightarrow> (DhcpOptionList \<times> heap) option" where
  "ClearOptions l h =
     (if ol_size l = 0 then Some (l, h)
      else do {
        f \<leftarrow> load h (ol_first l);
        (l, h) \<leftarrow> ClearOptions_loop l (nd_next f) h;
        let l = l\<lparr>ol_size := 0, ol_last := ol_first l\<rparr>;
        h \<leftarrow> upd (ol_first l) (\<lambda>nd. nd\<lparr>nd_previous := None\<rparr>) h;
        h \<leftarrow> upd (ol_last l) (\<lambda>nd. nd\<lparr>nd_next := None\<rparr>) h;
        Some (l, h)
      })"

definition FreeOptionList :: "DhcpOptionList \<Rightarrow> heap \<Rightarrow> (DhcpOptionList \<times> heap) option" where
  "FreeOptionList l h =
     (case ol_first l of None \<Rightarrow> Some (l, h)
      | Some s \<Rightarrow> do {
          f \<leftarrow> load h (Some s);
          (l, h) \<leftarrow> ClearOptions_loop l (nd_next f) h;
          Some (l\<lparr>ol_size := 0, ol_first := None, ol_last := None\<rparr>, free_node s h)
        })"

section \<open>Well-formed lists\<close>

definition head_ptr :: "nat list \<Rightarrow> nat option \<Rightarrow> nat option" where
  "head_ptr as nx = (case as of [] \<Rightarrow> nx | a # _ \<Rightarrow> Some a)"

definition last_ptr :: "nat option \<Rightarrow> nat list \<Rightarrow> nat option" where
  "last_ptr pv as = (if as = [] then pv else Some (last as))"

lemma head_ptr_simps [simp]: "head_ptr [] nx = nx" "head_ptr (a # as) nx = Some a"
  by (simp_all add: head_ptr_def)

lemma last_ptr_simps [simp]: "last_ptr pv [] = pv" "last_ptr pv (a # as) = last_ptr (Some a) as"
  "last_ptr pv (as @ [a]) = Some a"
  by (simp_all add: last_ptr_def)

text \<open>A doubly linked segment: the nodes at the addresses \<open>as\<close> hold the options \<open>qs\<close>, the first one
  points back to \<open>pv\<close> and the last one forward to \<open>nx\<close>.\<close>

fun dlseg :: "(nat \<Rightarrow> DhcpOptionNode option) \<Rightarrow> nat option \<Rightarrow> nat list \<Rightarrow> DhcpOption list \<Rightarrow> nat option \<Rightarrow> bool" where
  "dlseg m pv [] [] nx = True"
| "dlseg m pv (a # as) (q # qs) nx =
     (m a = Some \<lparr>nd_previous = pv, nd_next = head_ptr as nx, nd_option = q\<rparr> \<and> dlseg m (Some a) as qs nx)"
| "dlseg m pv _ _ nx = False"

lemma dlseg_length: "dlseg m pv as qs nx \<Longrightarrow> length as = length qs"
  by (induction m pv as qs nx rule: dlseg.induct) auto

lemma dlseg_append:
  "length as = length qs \<Longrightarrow>
   dlseg m pv (as @ bs) (qs @ rs) nx \<longleftrightarrow>
     dlseg m pv as qs (head_ptr bs nx) \<and> dlseg m (last_ptr pv as) bs rs nx"
proof (induction as qs arbitrary: pv rule: list_induct2)
  case Nil
  then show ?case by simp
next
  case (Cons a as q qs)
  have "head_ptr (as @ bs) nx = head_ptr as (head_ptr bs nx)" by (cases as) auto
  with Cons show ?case by simp
qed

lemma dlseg_frame [simp]: "a \<notin> set as \<Longrightarrow> dlseg (m(a := x)) pv as qs nx = dlseg m pv as qs nx"
  by (induction m pv as qs nx rule: dlseg.induct) auto

lemma dlseg_mem: "dlseg m pv as qs nx \<Longrightarrow> a \<in> set as \<Longrightarrow> m a \<noteq> None"
  by (induction m pv as qs nx rule: dlseg.induct) auto

lemma dlseg_set_next:
  assumes "dlseg m pv (as @ [a]) qs nx" "a \<notin> set as"
  shows "\<exists>nd. m a = Some nd \<and> dlseg (m(a \<mapsto> nd\<lparr>nd_next := nx'\<rparr>)) pv (as @ [a]) qs nx'"
proof -
  from dlseg_length [OF assms(1)] obtain rs q where qs: "qs = rs @ [q]" "length as = length rs"
    by (cases qs rule: rev_cases) auto
  with assms show ?thesis by (auto simp: dlseg_append)
qed

lemma dlseg_set_prev:
  assumes "dlseg m pv (a # as) qs nx" "a \<notin> set as"
  shows "\<exists>nd. m a = Some nd \<and> dlseg (m(a \<mapsto> nd\<lparr>nd_previous := pv'\<rparr>)) pv' (a # as) qs nx"
  using assms by (cases qs) auto

text \<open>The list behind the sentinel \<open>s\<close> holds the options \<open>xs\<close>, in nodes below the allocation mark.\<close>

definition heap_ok :: "heap \<Rightarrow> bool" where
  "heap_ok h \<longleftrightarrow> brk h \<le> hp_limit h \<and> hp_limit h < 2 ^ 64"

definition olist_rep :: "DhcpOptionList \<Rightarrow> heap \<Rightarrow> nat \<Rightarrow> nat list \<Rightarrow> DhcpOption \<Rightarrow> DhcpOption list \<Rightarrow> bool" where
  "olist_rep l h s ps q xs \<longleftrightarrow>
     ol_first l = Some s \<and> ol_last l = last_ptr (Some s) ps \<and> ol_size l = of_nat (length xs) \<and>
     dlseg (mem h) None (s # ps) (q # xs) None \<and> distinct (s # ps) \<and>
     (\<forall>a \<in> set (s # ps). a < brk h) \<and> heap_ok h"

definition olist_abs :: "DhcpOptionList \<times> heap \<Rightarrow> DhcpOption list \<Rightarrow> bool" where
  "olist_abs lh xs \<longleftrightarrow> (\<exists>s ps q. olist_rep (fst lh) (snd lh) s ps q xs)"

lemma olist_rep_length:
  assumes "olist_rep l h s ps q xs"
  shows "length ps = length xs" "length xs < 2 ^ 64"
proof -
  from assms show len: "length ps = length xs"
    by (auto simp: olist_rep_def dest: dlseg_length)
  have "set (s # ps) \<subseteq> {..<brk h}" "distinct (s # ps)"
    using assms by (auto simp: olist_rep_def)
  then have "length (s # ps) \<le> brk h"
    using card_mono [of "{..<brk h}" "set (s # ps)"] distinct_card [of "s # ps"] by simp
  then show "length xs < 2 ^ 64"
    using assms len by (simp add: olist_rep_def heap_ok_def)
qed

lemma olist_rep_size_0:
  assumes "olist_rep l h s ps q xs"
  shows "ol_size l = 0 \<longleftrightarrow> xs = []"
proof -
  have "of_nat (length xs) = (0 :: u64) \<longleftrightarrow> length xs = 0"
    using olist_rep_length(2) [OF assms]
    by (simp add: word_unat_eq_iff unat_of_nat)
  then show ?thesis using assms by (simp add: olist_rep_def)
qed

section \<open>Refinement\<close>

lemma upd_Some [simp]: "mem h a = Some nd \<Longrightarrow> upd (Some a) f h = Some (h\<lparr>mem := (mem h)(a \<mapsto> f nd)\<rparr>)"
  by (simp add: upd_def)

lemma load_Some [simp]: "load h (Some a) = mem h a"
  by (simp add: load_def)

lemma CreateOptionNode_eq:
  assumes "opt_wf opt"
  shows "CreateOptionNode opt h =
    (if brk h < hp_limit h then
       if opt_length opt = 0 then Some (None, h\<lparr>mem := (mem h)(brk h := None), brk := brk h + 1\<rparr>)
       else Some (Some (brk h), h\<lparr>mem := (mem h)(brk h \<mapsto>
               \<lparr>nd_previous = None, nd_next = None, nd_option = stored_option opt\<rparr>), brk := brk h + 1\<rparr>)
     else Some (None, h))"
proof -
  have "unat (opt_length opt) \<le> 256" "unat (opt_length opt) \<le> length (opt_data opt)"
    using unat_u8_less [of "opt_length opt"] assms by (simp_all add: opt_wf_def)
  then show ?thesis
    by (auto simp: CreateOptionNode_def calloc_node_def zero_node_def free_node_def stored_option_def
        mk_option_def opt_payload_def)
qed

lemma GetOptionNode_loop_dlseg:
  assumes "dlseg (mem h) pv as qs None"
  shows "GetOptionNode_loop h code (head_ptr as None) =
    Some (map_option fst (find (\<lambda>(a, q). opt_code q = code) (zip as qs)))"
  using assms
proof (induction as arbitrary: pv qs)
  case Nil
  then show ?case by (simp add: GetOptionNode_loop.simps)
next
  case (Cons a as)
  then obtain q rs where "qs = q # rs" by (cases qs) auto
  with Cons show ?case by (auto simp: GetOptionNode_loop.simps [of h code "Some a"])
qed

lemma olist_rep_snoc:
  assumes "olist_rep l h s ps q xs"
  obtains init la where "s # ps = init @ [la]" "ol_last l = Some la" "la \<notin> set init" "la \<noteq> brk h"
proof (cases "s # ps" rule: rev_cases)
  case Nil
  then show ?thesis by simp
next
  case (snoc init la)
  have "ol_last l = Some la"
    using assms snoc by (simp add: olist_rep_def last_ptr_def) (metis last.simps last_snoc)
  moreover have "distinct (init @ [la])" "\<forall>a \<in> set (init @ [la]). a < brk h"
    using assms unfolding olist_rep_def snoc by blast+
  ultimately show ?thesis
    using snoc by (intro that [of init la]) auto
qed

lemma PushBackOption_rep:
  assumes rep: "olist_rep l h s ps q xs" and wf: "opt_wf opt" "opt_length opt \<noteq> 0" "brk h < hp_limit h"
  shows "\<exists>l' h'. PushBackOption l opt h = Some (RET_SUCCESS, l', h')
    \<and> olist_rep l' h' s (ps @ [brk h]) q (xs @ [stored_option opt])"
proof -
  obtain init la where la: "s # ps = init @ [la]" "ol_last l = Some la" "la \<notin> set init" "la \<noteq> brk h"
    using rep by (rule olist_rep_snoc)
  let ?m = "(mem h)(brk h \<mapsto> \<lparr>nd_previous = ol_last l, nd_next = None, nd_option = stored_option opt\<rparr>)"
  have fresh: "brk h \<notin> set (s # ps)" and seg: "dlseg (mem h) None (s # ps) (q # xs) None"
    using rep unfolding olist_rep_def by blast+
  then have "dlseg ?m None (init @ [la]) (q # xs) None"
    unfolding la(1) [symmetric] by (simp del: dlseg.simps)
  then obtain nd where nd: "?m la = Some nd"
    "dlseg (?m(la \<mapsto> nd\<lparr>nd_next := Some (brk h)\<rparr>)) None (init @ [la]) (q # xs) (Some (brk h))"
    using dlseg_set_next la(3) by blast
  let ?m' = "?m(la \<mapsto> nd\<lparr>nd_next := Some (brk h)\<rparr>)"
  have "ol_first l = Some s"
    using rep by (simp add: olist_rep_def)
  then have "PushBackOption l opt h = Some (RET_SUCCESS, l\<lparr>ol_last := Some (brk h), ol_size := ol_size l + 1\<rparr>,
      h\<lparr>mem := ?m', brk := brk h + 1\<rparr>)"
    using wf la(2,4) nd(1) by (simp add: PushBackOption_def CreateOptionNode_eq)
  moreover have "dlseg ?m' None ((init @ [la]) @ [brk h]) ((q # xs) @ [stored_option opt]) None"
    using nd(2) la(2,4) dlseg_length [OF nd(2)] by (subst dlseg_append) auto
  then have "dlseg ?m' None (s # (ps @ [brk h])) (q # (xs @ [stored_option opt])) None"
    unfolding la(1) [symmetric] by simp
  ultimately show ?thesis
    using rep wf fresh by (auto simp: olist_rep_def heap_ok_def simp del: dlseg.simps)
qed

lemma dlseg_middle:
  assumes "dlseg m pv (as @ a # bs) (qs @ q # rs) nx" "length as = length qs"
  shows "m a = Some \<lparr>nd_previous = last_ptr pv as, nd_next = head_ptr bs nx, nd_option = q\<rparr>"
    "dlseg m pv as qs (Some a)" "dlseg m (Some a) bs rs nx"
  using assms by (simp_all add: dlseg_append)

lemma PushFrontOption_rep:
  assumes rep: "olist_rep l h s ps q xs" and wf: "opt_wf opt" "opt_length opt \<noteq> 0" "brk h < hp_limit h"
  shows "\<exists>l' h'. PushFrontOption l opt h = Some (RET_SUCCESS, l', h')
    \<and> olist_rep l' h' s (brk h # ps) q (stored_option opt # xs)"
proof (cases ps)
  case Nil
  with olist_rep_length [OF rep] have "xs = []" by simp
  with rep wf Nil show ?thesis
    by (auto simp: PushFrontOption_def CreateOptionNode_eq olist_rep_def heap_ok_def)
next
  case (Cons b bs)
  with olist_rep_length [OF rep] obtain x ys where xs: "xs = x # ys" by (cases xs) auto
  have "ol_first l \<noteq> ol_last l"
    using rep Cons by (auto simp: olist_rep_def last_ptr_def)
  with rep wf Cons xs show ?thesis
    by (auto simp: PushFrontOption_def CreateOptionNode_eq olist_rep_def heap_ok_def)
qed

lemma GetOption_rep:
  assumes "olist_rep l h s ps q xs"
  shows "GetOption l code h = Some (opts_get (Some xs) code)"
proof -
  have seg: "dlseg (mem h) (Some s) ps xs None" and s: "ol_first l = Some s"
    "mem h s = Some \<lparr>nd_previous = None, nd_next = head_ptr ps None, nd_option = q\<rparr>"
    using assms by (simp_all add: olist_rep_def)
  from seg have "(case map_option fst (find (\<lambda>(a, q). opt_code q = code) (zip ps xs)) of None \<Rightarrow> Some None
      | Some a \<Rightarrow> (case mem h a of None \<Rightarrow> None | Some nd \<Rightarrow> Some (Some (nd_option nd)))) =
     Some (find (\<lambda>q. opt_code q = code) xs)"
    by (induction "mem h" "Some s" ps xs "None :: nat option" arbitrary: s rule: dlseg.induct) auto
  with s show ?thesis
    by (simp add: GetOption_def GetOptionNode_def GetOptionNode_loop_dlseg [OF seg] opts_get_def
        Option.bind_eq_Some_conv cong: option.case_cong) (auto split: option.splits simp: bind_eq_Some_conv)
qed

lemma remove_first_append:
  "(\<forall>y \<in> set qs. \<not> P y) \<Longrightarrow> P x \<Longrightarrow> remove_first P (qs @ x # rs) = qs @ rs"
  by (induction qs) auto

text \<open>Taking the node \<open>a\<close> out of the middle of a segment.\<close>

lemma dlseg_unlink:
  assumes seg: "dlseg m pv (as @ a # b # bs) (qs @ x # rs) nx" and len: "length as = length qs" "as \<noteq> []"
    and dist: "distinct (as @ a # b # bs)"
  obtains nb np where "m b = Some nb" "(m(b \<mapsto> nb\<lparr>nd_previous := Some (last as)\<rparr>)) (last as) = Some np"
    "dlseg ((m(b \<mapsto> nb\<lparr>nd_previous := Some (last as)\<rparr>, last as \<mapsto> np\<lparr>nd_next := Some b\<rparr>))(a := None))
       pv (as @ b # bs) (qs @ rs) nx"
proof -
  obtain init la where as: "as = init @ [la]" using len(2) by (cases as rule: rev_cases) auto
  obtain y ys where rs: "rs = y # ys"
    using dlseg_middle(3) [OF seg len(1)] by (cases rs) auto
  obtain nb where nb: "m b = Some nb" "dlseg (m(b \<mapsto> nb\<lparr>nd_previous := Some la\<rparr>)) (Some la) (b # bs) rs nx"
    using dlseg_set_prev [OF dlseg_middle(3) [OF seg len(1)], of "Some la"] dist by auto
  let ?m = "m(b \<mapsto> nb\<lparr>nd_previous := Some la\<rparr>)"
  have "dlseg ?m pv (init @ [la]) qs (Some a)"
    using dlseg_middle(2) [OF seg len(1)] dist as by simp
  moreover have "la \<notin> set init" using dist as by auto
  ultimately obtain np where np: "?m la = Some np" "dlseg (?m(la \<mapsto> np\<lparr>nd_next := Some b\<rparr>)) pv as qs (Some b)"
    using dlseg_set_next [of ?m pv init la qs "Some a" "Some b"] as by auto
  let ?m' = "(?m(la \<mapsto> np\<lparr>nd_next := Some b\<rparr>))(a := None)"
  have "dlseg ?m' pv as qs (Some b)" using np(2) dist by simp
  moreover have "dlseg ?m' (Some la) (b # bs) rs nx"
    using nb(2) dist as by (simp del: dlseg.simps)
  moreover have "last_ptr pv as = Some la" by (simp add: as)
  ultimately have "dlseg ?m' pv (as @ b # bs) (qs @ rs) nx"
    by (simp only: dlseg_append [OF len(1)] head_ptr_simps)
  with nb(1) np(1) as show ?thesis by (intro that [of nb np]) auto
qed

lemma GetOptionNode_split:
  assumes rep: "olist_rep l h s (as @ a # bs) q (qs @ x # rs)" "length as = length qs"
    and "\<forall>y \<in> set qs. opt_code y \<noteq> code" "opt_code x = code"
  shows "GetOptionNode l code h = Some (Some a)"
proof -
  have "find (\<lambda>(a, q). opt_code q = code) (zip (as @ a # bs) (qs @ x # rs)) = Some (a, x)"
    using rep(2) assms(3,4) by (induction as qs rule: list_induct2) auto
  moreover have "dlseg (mem h) (Some s) (as @ a # bs) (qs @ x # rs) None" and "ol_first l = Some s"
    "mem h s = Some \<lparr>nd_previous = None, nd_next = head_ptr (as @ a # bs) None, nd_option = q\<rparr>"
    using rep(1) by (auto simp: olist_rep_def)
  ultimately show ?thesis
    by (simp add: GetOptionNode_def GetOptionNode_loop_dlseg)
qed

lemma RemoveOption_rep:
  assumes rep: "olist_rep l h s (as @ a # bs) q (qs @ x # rs)" and len: "length as = length qs"
    and code: "\<forall>y \<in> set qs. opt_code y \<noteq> code" "opt_code x = code"
  shows "\<exists>l' h'. RemoveOption l code h = Some (RET_SUCCESS, l', h') \<and> olist_rep l' h' s (as @ bs) q (qs @ rs)"
proof -
  note get = GetOptionNode_split [OF rep len code]
  have size: "ol_size l \<noteq> 0" "ol_size l - 1 = of_nat (length (qs @ rs))"
    using olist_rep_size_0 [OF rep] rep by (auto simp: olist_rep_def)
  have seg: "dlseg (mem h) None ((s # as) @ a # bs) ((q # qs) @ x # rs) None"
    and dist: "distinct ((s # as) @ a # bs)" and lt: "\<forall>a \<in> set ((s # as) @ a # bs). a < brk h" and ok: "heap_ok h"
    and first: "ol_first l = Some s" and last: "ol_last l = last_ptr (Some s) (as @ a # bs)"
    using rep by (simp_all add: olist_rep_def)
  have len': "length (s # as) = length (q # qs)" using len by simp
  note mid = dlseg_middle [OF seg len']
  have pa: "last_ptr None (s # as) = Some (last (s # as))" by (simp add: last_ptr_def)
  show ?thesis
  proof (cases bs)
    case Nil
    then have rs: "rs = []" using mid(3) by (cases rs) auto
    have "dlseg (mem h) None (butlast (s # as) @ [last (s # as)]) (q # qs) (Some a)"
      using mid(2) by (metis append_butlast_last_id list.distinct(1))
    moreover have "last (s # as) \<notin> set (butlast (s # as))"
      using dist by (metis append_butlast_last_id distinct_append list.distinct(1) not_distinct_conv_prefix)
    ultimately obtain nd where nd: "mem h (last (s # as)) = Some nd"
      "dlseg ((mem h)(last (s # as) \<mapsto> nd\<lparr>nd_next := None\<rparr>)) None (s # as) (q # qs) None"
      using dlseg_set_next by (metis append_butlast_last_id list.distinct(1))
    from nd(2) dist have "dlseg (((mem h)(last (s # as) \<mapsto> nd\<lparr>nd_next := None\<rparr>))(a := None)) None (s # as) (q # qs) None"
      by (simp del: dlseg.simps)
    with nd(1) get size mid(1) pa dist lt ok first last Nil rs show ?thesis
      by (auto simp: RemoveOption_def free_node_def olist_rep_def heap_ok_def last_ptr_def simp del: dlseg.simps)
  next
    case (Cons b bs')
    obtain nb np where unl: "mem h b = Some nb"
      "((mem h)(b \<mapsto> nb\<lparr>nd_previous := Some (last (s # as))\<rparr>)) (last (s # as)) = Some np"
      "dlseg (((mem h)(b \<mapsto> nb\<lparr>nd_previous := Some (last (s # as))\<rparr>, last (s # as) \<mapsto> np\<lparr>nd_next := Some b\<rparr>))(a := None))
         None ((s # as) @ b # bs') ((q # qs) @ rs) None"
      using dlseg_unlink [OF seg [unfolded Cons] len' _ dist [unfolded Cons]] by auto
    have "Some a \<noteq> ol_last l"
      using last dist Cons by (auto simp: last_ptr_def)
    with unl get size mid(1) pa dist lt ok first last Cons show ?thesis
      by (auto simp: RemoveOption_def free_node_def olist_rep_def heap_ok_def last_ptr_def simp del: dlseg.simps)
  qed
qed

text \<open>The loop frees every node but the sentinel, and returns.\<close>

lemma ClearOptions_loop_rep:
  assumes "dlseg (mem h) None (s # ps) (q # xs) None" "distinct (s # ps)"
    and "ol_first l = Some s" "ol_last l = last_ptr (Some s) ps"
  shows "\<exists>m. ClearOptions_loop l (head_ptr ps None) h = Some (l\<lparr>ol_last := Some s\<rparr>, h\<lparr>mem := m\<rparr>)
    \<and> dlseg m None [s] [q] None \<and> (\<forall>a \<in> set ps. m a = None)
    \<and> (\<forall>a. a \<notin> set (s # ps) \<longrightarrow> m a = mem h a)"
  using assms
proof (induction ps arbitrary: h l xs)
  case Nil
  then show ?case
    by (intro exI [of _ "mem h"]) (cases xs, auto simp: ClearOptions_loop.simps)
next
  case (Cons a ps)
  from Cons.prems(1) obtain x ys where xs: "xs = x # ys" by (cases xs) auto
  show ?case
  proof (cases ps)
    case Nil
    with Cons.prems xs show ?thesis
      by (auto simp: ClearOptions_loop.simps [of _ "Some a"] ClearOptions_loop.simps [of _ None]
          free_node_def split: list.splits)
  next
    case (Cons b bs)
    with Cons.prems xs obtain y zs where ys: "ys = y # zs" by (cases ys) auto
    let ?m = "((mem h)(b \<mapsto> \<lparr>nd_previous = Some s, nd_next = head_ptr bs None, nd_option = y\<rparr>,
        s \<mapsto> \<lparr>nd_previous = None, nd_next = Some b, nd_option = q\<rparr>))(a := None)"
    have step: "ClearOptions_loop l (Some a) h = ClearOptions_loop l (head_ptr ps None) (h\<lparr>mem := ?m\<rparr>)"
      using Cons.prems Cons xs ys
      by (subst ClearOptions_loop.simps) (auto simp: free_node_def last_ptr_def split: if_splits)
    let ?h = "h\<lparr>mem := ?m\<rparr>"
    have "dlseg (mem ?h) None (s # ps) (q # ys) None" "ol_last l = last_ptr (Some s) ps" "distinct (s # ps)"
      using Cons.prems Cons xs ys by (auto simp: last_ptr_def)
    from Cons.IH [OF this(1,3) Cons.prems(3) this(2)] obtain m where
      "ClearOptions_loop l (head_ptr ps None) ?h = Some (l\<lparr>ol_last := Some s\<rparr>, ?h\<lparr>mem := m\<rparr>)"
      "dlseg m None [s] [q] None" "\<forall>a \<in> set ps. m a = None" "\<forall>c. c \<notin> set (s # ps) \<longrightarrow> m c = mem ?h c"
      by blast
    then have m: "ClearOptions_loop l (head_ptr ps None) (h\<lparr>mem := ?m\<rparr>) = Some (l\<lparr>ol_last := Some s\<rparr>, h\<lparr>mem := m\<rparr>)"
        "dlseg m None [s] [q] None" "\<forall>a \<in> set ps. m a = None" "\<forall>c. c \<notin> set (s # ps) \<longrightarrow> m c = ?m c"
      by simp_all
    from m(4) Cons.prems(2) have "m a = None" "\<forall>c. c \<notin> set (s # a # ps) \<longrightarrow> m c = mem h c"
      using Cons by auto
    with m step show ?thesis by (intro exI [of _ m]) auto
  qed
qed

lemma ClearOptions_rep:
  assumes rep: "olist_rep l h s ps q xs"
  shows "\<exists>l' h'. ClearOptions l h = Some (l', h') \<and> olist_rep l' h' s [] q []"
proof (cases "xs = []")
  case True
  with olist_rep_length [OF rep] olist_rep_size_0 [OF rep] rep show ?thesis
    by (auto simp: ClearOptions_def)
next
  case False
  have pre: "dlseg (mem h) None (s # ps) (q # xs) None" "distinct (s # ps)" "ol_first l = Some s"
    "ol_last l = last_ptr (Some s) ps" and rest: "\<forall>a \<in> set (s # ps). a < brk h" "heap_ok h"
    using rep unfolding olist_rep_def by blast+
  from ClearOptions_loop_rep [OF pre] obtain m where
    "ClearOptions_loop l (head_ptr ps None) h = Some (l\<lparr>ol_last := Some s\<rparr>, h\<lparr>mem := m\<rparr>)"
    "dlseg m None [s] [q] None" by auto
  with pre rest False olist_rep_size_0 [OF rep] show ?thesis
    by (auto simp: ClearOptions_def olist_rep_def heap_ok_def)
qed

lemma FreeOptionList_rep:
  assumes rep: "olist_rep l h s ps q xs"
  shows "\<exists>m. FreeOptionList l h = Some (\<lparr>ol_first = None, ol_last = None, ol_size = 0\<rparr>, h\<lparr>mem := m\<rparr>)
    \<and> (\<forall>a. m a = (if a \<in> set (s # ps) then None else mem h a))"
proof -
  have pre: "dlseg (mem h) None (s # ps) (q # xs) None" "distinct (s # ps)" "ol_first l = Some s"
    "ol_last l = last_ptr (Some s) ps"
    using rep unfolding olist_rep_def by blast+
  from ClearOptions_loop_rep [OF pre] obtain m where
    "ClearOptions_loop l (head_ptr ps None) h = Some (l\<lparr>ol_last := Some s\<rparr>, h\<lparr>mem := m\<rparr>)"
    "\<forall>a \<in> set ps. m a = None" "\<forall>a. a \<notin> set (s # ps) \<longrightarrow> m a = mem h a" by auto
  with pre show ?thesis
    by (intro exI [of _ "m(s := None)"]) (auto simp: FreeOptionList_def free_node_def)
qed

lemma InitOptionList_rep:
  assumes "ol_first l = None" "heap_ok h" "brk h < hp_limit h"
  shows "\<exists>l' h'. InitOptionList l h = Some (RET_SUCCESS, l', h') \<and> olist_rep l' h' (brk h) [] (mk_option 0 0 []) []"
  using assms by (auto simp: InitOptionList_def calloc_node_def zero_node_def olist_rep_def heap_ok_def)

lemma olist_rep_empty_option:
  assumes "olist_rep l h s ps q xs" "brk h < hp_limit h"
  shows "olist_rep l (h\<lparr>mem := (mem h)(brk h := None), brk := brk h + 1\<rparr>) s ps q xs"
  using assms by (auto simp: olist_rep_def heap_ok_def simp del: dlseg.simps)

lemma PushBackOption_abs:
  assumes "olist_abs (l, h) xs" "opt_wf opt" "brk h < hp_limit h"
  shows "\<exists>l' h' xs'. PushBackOption l opt h = Some (fst (opts_push_back (Some xs) opt), l', h')
    \<and> snd (opts_push_back (Some xs) opt) = Some xs' \<and> olist_abs (l', h') xs'"
proof -
  from assms(1) obtain s ps q where rep: "olist_rep l h s ps q xs" by (auto simp: olist_abs_def)
  show ?thesis
  proof (cases "opt_length opt = 0")
    case True
    have "ol_first l = Some s" using rep by (simp add: olist_rep_def)
    with True assms(2,3) olist_rep_empty_option [OF rep assms(3)] show ?thesis
      by (auto simp: PushBackOption_def CreateOptionNode_eq opts_push_back_def olist_abs_def)
  next
    case False
    with PushBackOption_rep [OF rep assms(2) False assms(3)] show ?thesis
      by (fastforce simp: opts_push_back_def olist_abs_def)
  qed
qed

lemma PushFrontOption_abs:
  assumes "olist_abs (l, h) xs" "opt_wf opt" "brk h < hp_limit h"
  shows "\<exists>l' h'. PushFrontOption l opt h = Some (fst (opts_push_front xs opt), l', h')
    \<and> olist_abs (l', h') (snd (opts_push_front xs opt))"
proof -
  from assms(1) obtain s ps q where rep: "olist_rep l h s ps q xs" by (auto simp: olist_abs_def)
  show ?thesis
  proof (cases "opt_length opt = 0")
    case True
    with assms(2,3) olist_rep_empty_option [OF rep assms(3)] show ?thesis
      by (auto simp: PushFrontOption_def CreateOptionNode_eq opts_push_front_def olist_abs_def)
  next
    case False
    with PushFrontOption_rep [OF rep assms(2) False assms(3)] show ?thesis
      by (fastforce simp: opts_push_front_def olist_abs_def)
  qed
qed

lemma GetOption_abs: "olist_abs (l, h) xs \<Longrightarrow> GetOption l code h = Some (opts_get (Some xs) code)"
  by (auto simp: olist_abs_def dest: GetOption_rep)

lemma RemoveOption_abs:
  assumes "olist_abs (l, h) xs"
  shows "\<exists>l' h' xs'. RemoveOption l code h = Some (fst (opts_remove (Some xs) code), l', h')
    \<and> snd (opts_remove (Some xs) code) = Some xs' \<and> olist_abs (l', h') xs'"
proof -
  from assms obtain s ps q where rep: "olist_rep l h s ps q xs" by (auto simp: olist_abs_def)
  show ?thesis
  proof (cases "\<exists>x \<in> set xs. opt_code x = code")
    case True
    from split_list_first_prop [OF this] obtain qs x rs where
      xs: "xs = qs @ x # rs" "opt_code x = code" "\<forall>y \<in> set qs. opt_code y \<noteq> code"
      by blast
    define as where "as = take (length qs) ps"
    define cs where "cs = drop (length qs) ps"
    have split: "ps = as @ cs" by (simp add: as_def cs_def)
    have len: "length as = length qs" and "length cs = Suc (length rs)"
      using olist_rep_length [OF rep] xs(1) by (simp_all add: as_def cs_def)
    then obtain a bs where "cs = a # bs" by (auto simp: length_Suc_conv)
    with rep xs(1) split have "olist_rep l h s (as @ a # bs) q (qs @ x # rs)" by simp
    from RemoveOption_rep [OF this len xs(3,2)] obtain l' h' where
      "RemoveOption l code h = Some (RET_SUCCESS, l', h')" "olist_rep l' h' s (as @ bs) q (qs @ rs)"
      by blast
    moreover have "opts_remove (Some xs) code = (RET_SUCCESS, Some (qs @ rs))"
      using xs by (simp add: opts_remove_def remove_first_append)
    ultimately show ?thesis by (auto simp: olist_abs_def)
  next
    case False
    have seg: "dlseg (mem h) (Some s) ps xs None" and "ol_first l = Some s"
      "mem h s = Some \<lparr>nd_previous = None, nd_next = head_ptr ps None, nd_option = q\<rparr>"
      using rep by (simp_all add: olist_rep_def)
    moreover have "find (\<lambda>(a, q). opt_code q = code) (zip ps xs) = None"
      using False by (auto simp: find_None_iff dest: set_zip_rightD)
    ultimately have "GetOptionNode l code h = Some None"
      by (simp add: GetOptionNode_def GetOptionNode_loop_dlseg [OF seg])
    with False rep show ?thesis
      by (auto simp: RemoveOption_def opts_remove_def olist_abs_def)
  qed
qed

lemma ClearOptions_abs:
  assumes "olist_abs (l, h) xs"
  shows "\<exists>l' h'. ClearOptions l h = Some (l', h') \<and> olist_abs (l', h') []"
proof -
  from assms obtain s ps q where "olist_rep l h s ps q xs" by (auto simp: olist_abs_def)
  from ClearOptions_rep [OF this] show ?thesis unfolding olist_abs_def fst_conv snd_conv by blast
qed

text \<open>What the message code relies on: an option list that is simulated by \<open>R\<close>.\<close>

locale option_list_impl =
  fixes R :: "'s \<Rightarrow> DhcpOption list \<Rightarrow> bool"
    and room :: "'s \<Rightarrow> bool"
    and push_back :: "DhcpOption \<Rightarrow> 's \<Rightarrow> (int \<times> 's) option"
    and get :: "u8 \<Rightarrow> 's \<Rightarrow> DhcpOption option option"
    and clear :: "'s \<Rightarrow> 's option"
  assumes push_back_sim: "R s xs \<Longrightarrow> opt_wf opt \<Longrightarrow> room s \<Longrightarrow>
      \<exists>s' xs'. push_back opt s = Some (fst (opts_push_back (Some xs) opt), s')
        \<and> snd (opts_push_back (Some xs) opt) = Some xs' \<and> R s' xs'"
    and get_sim: "R s xs \<Longrightarrow> get code s = Some (opts_get (Some xs) code)"
    and clear_sim: "R s xs \<Longrightarrow> \<exists>s'. clear s = Some s' \<and> R s' []"
begin

lemma get_after_push:
  assumes "R s xs" "opt_wf opt" "room s" "opt_length opt \<noteq> 0" "get (opt_code opt) s = Some None"
  shows "\<exists>s'. push_back opt s = Some (RET_SUCCESS, s') \<and> get (opt_code opt) s' = Some (Some (stored_option opt))"
proof -
  obtain s' xs' where s': "push_back opt s = Some (fst (opts_push_back (Some xs) opt), s')"
    "snd (opts_push_back (Some xs) opt) = Some xs'" "R s' xs'"
    using push_back_sim assms(1-3) by blast
  moreover have "opts_get (Some xs) (opt_code opt) = None"
    using get_sim [OF assms(1)] assms(5) by simp
  ultimately show ?thesis
    using get_sim [OF s'(3)] assms(4) opts_get_push_back [of "Some xs" opt "opt_code opt"]
    by (simp add: opts_push_back_def)
qed

lemma get_after_clear: "R s xs \<Longrightarrow> \<exists>s'. clear s = Some s' \<and> (\<forall>code. get code s' = Some None)"
  using clear_sim get_sim by (fastforce simp: opts_get_def)

end

interpretation linked: option_list_impl olist_abs "\<lambda>(l, h). brk h < hp_limit h"
  "\<lambda>opt (l, h). PushBackOption l opt h" "\<lambda>code (l, h). GetOption l code h" "\<lambda>(l, h). ClearOptions l h"
proof unfold_locales
  fix s xs opt
  assume "olist_abs s xs" "opt_wf opt" "case s of (l, h) \<Rightarrow> brk h < hp_limit h"
  then show "\<exists>s' xs'. (case s of (l, h) \<Rightarrow> PushBackOption l opt h) = Some (fst (opts_push_back (Some xs) opt), s')
      \<and> snd (opts_push_back (Some xs) opt) = Some xs' \<and> olist_abs s' xs'"
    using PushBackOption_abs [of "fst s" "snd s" xs opt] by (auto simp: split_beta)
next
  show "olist_abs s xs \<Longrightarrow> (case s of (l, h) \<Rightarrow> GetOption l code h) = Some (opts_get (Some xs) code)" for s xs code
    by (cases s) (simp add: GetOption_abs)
next
  show "olist_abs s xs \<Longrightarrow> \<exists>s'. (case s of (l, h) \<Rightarrow> ClearOptions l h) = Some s' \<and> olist_abs s' []" for s xs
    by (cases s) (auto dest: ClearOptions_abs)
qed

section \<open>Properties of the linked list\<close>

text \<open>C7: On a well-formed list, with memory for one more node, the pointer operations never touch a null
  or freed node, they return, and each one does to the list of options what its abstract counterpart
  does: \<^verbatim>\<open>PushBackOption\<close> and \<^verbatim>\<open>PushFrontOption\<close> add a copy at the end or the front, and refuse an option
  of length 0; \<^verbatim>\<open>RemoveOption\<close> takes out the first option with the code; \<^verbatim>\<open>GetOption\<close> finds it;
  \<^verbatim>\<open>ClearOptions\<close> empties the list.\<close>

theorem option_list_refinement:
  assumes "olist_abs (l, h) xs" "opt_wf opt" "brk h < hp_limit h"
  shows "(\<exists>l' h' xs'. PushBackOption l opt h = Some (fst (opts_push_back (Some xs) opt), l', h')
      \<and> snd (opts_push_back (Some xs) opt) = Some xs' \<and> olist_abs (l', h') xs')
    \<and> (\<exists>l' h'. PushFrontOption l opt h = Some (fst (opts_push_front xs opt), l', h')
      \<and> olist_abs (l', h') (snd (opts_push_front xs opt)))
    \<and> (\<exists>l' h' xs'. RemoveOption l code h = Some (fst (opts_remove (Some xs) code), l', h')
      \<and> snd (opts_remove (Some xs) code) = Some xs' \<and> olist_abs (l', h') xs')
    \<and> GetOption l code h = Some (opts_get (Some xs) code)
    \<and> (\<exists>l' h'. ClearOptions l h = Some (l', h') \<and> olist_abs (l', h') [])"
  using assms by (intro conjI PushBackOption_abs PushFrontOption_abs RemoveOption_abs GetOption_abs
      ClearOptions_abs)

definition demo_heap :: heap where
  "demo_heap = \<lparr>mem = Map.empty, brk = 0, hp_limit = 8\<rparr>"

text \<open>A list set up by \<^verbatim>\<open>InitOptionList\<close> satisfies the hypotheses.\<close>

theorem option_list_refinement_witness:
  "\<exists>l h l' h'. InitOptionList \<lparr>ol_first = None, ol_last = None, ol_size = 0\<rparr> demo_heap = Some (RET_SUCCESS, l, h)
     \<and> PushBackOption l (mk_option 53 1 [1]) h = Some (RET_SUCCESS, l', h') \<and> olist_abs (l', h') [stored_option (mk_option 53 1 [1])]"
proof -
  have "heap_ok demo_heap" "brk demo_heap < hp_limit demo_heap"
    by (simp_all add: demo_heap_def heap_ok_def)
  from InitOptionList_rep [OF _ this, of "\<lparr>ol_first = None, ol_last = None, ol_size = 0\<rparr>"]
  obtain l h where init: "InitOptionList \<lparr>ol_first = None, ol_last = None, ol_size = 0\<rparr> demo_heap = Some (RET_SUCCESS, l, h)"
    and rep: "olist_abs (l, h) []"
    unfolding olist_abs_def fst_conv snd_conv by force
  from init have "brk h < hp_limit h"
    by (auto simp: InitOptionList_def calloc_node_def demo_heap_def)
  from option_list_refinement [OF rep _ this, of "mk_option 53 1 [1]"] init show ?thesis
    by (auto simp: opts_push_back_def mk_option_def opt_wf_def)
qed

end
