(* ===== verification/DhcpAddressUtils.thy ===== *)
theory DhcpAddressUtils
  imports DhcpPrelude
begin

text \<open>
  \<^verbatim>\<open>services/dhcp_server/src/address_utils.cpp\<close>: arithmetic on IPv4 addresses, which the server keeps
  in network byte order in a \<^verbatim>\<open>uint32_t\<close>, and the text form of hardware addresses. The loops
  over bits and characters are recursive functions with the loop's own counter. \<^verbatim>\<open>ParseIpAddr\<close> and
  \<^verbatim>\<open>ParseStrIp\<close>, which go through \<^verbatim>\<open>inet_aton\<close> and \<^verbatim>\<open>inet_ntop\<close>, are in \<open>DhcpText\<close>.
\<close>

section \<open>Networks\<close>

definition NetworkAddress :: "u32 \<Rightarrow> u32 \<Rightarrow> u32" where
  "NetworkAddress ip netmask = ip AND netmask"

definition FirstIpAddress :: "u32 \<Rightarrow> u32 \<Rightarrow> u32" where
  "FirstIpAddress ip netmask =
     (let network = NetworkAddress ip netmask;
          firstIp = htonl network + 1
      in htonl firstIp)"

text \<open>\<^verbatim>\<open>for (int i = 32; i > 0; --i) { bits++; net >>= 1; if ((net & 1) != 0) break; }\<close>\<close>

fun HostBits_loop :: "nat \<Rightarrow> u32 \<Rightarrow> u32 \<Rightarrow> u32" where
  "HostBits_loop 0 bits net = bits"
| "HostBits_loop (Suc i) bits net =
     (let bits = bits + 1; net = drop_bit 1 net
      in if net AND 1 \<noteq> 0 then bits else HostBits_loop i bits net)"

definition HostBits :: "u32 \<Rightarrow> u32" where
  "HostBits netmask = HostBits_loop 32 0 (htonl netmask)"

fun HostTotal_loop :: "nat \<Rightarrow> u32 \<Rightarrow> u32" where
  "HostTotal_loop 0 tot = tot"
| "HostTotal_loop (Suc i) tot = HostTotal_loop i (tot * 2)"

definition HostTotal :: "u32 \<Rightarrow> u32" where
  "HostTotal netmask = HostTotal_loop (unat (HostBits netmask)) 1 - 1"

definition BroadCastAddress :: "u32 \<Rightarrow> u32 \<Rightarrow> u32" where
  "BroadCastAddress ip netmask =
     (let network = NetworkAddress ip netmask
      in htonl (htonl network + HostTotal netmask))"

definition LastIpAddress :: "u32 \<Rightarrow> u32 \<Rightarrow> u32" where
  "LastIpAddress ip netmask =
     (let network = NetworkAddress ip netmask;
          lastIp = htonl network + HostTotal netmask
      in htonl (if lastIp \<noteq> 0 then lastIp - 1 else lastIp))"

definition NextIpAddress :: "u32 \<Rightarrow> u32 \<Rightarrow> u32 \<Rightarrow> u32" where
  "NextIpAddress currIp netmask offset =
     (let network = NetworkAddress currIp netmask;
          broadcast = BroadCastAddress currIp netmask;
          lastIp = LastIpAddress currIp netmask;
          hostTotal = HostTotal netmask;
          next = offset
      in if currIp = lastIp \<or> currIp = broadcast then FirstIpAddress currIp netmask
         else
           let next = (if next > hostTotal \<and> hostTotal > 0 then next mod hostTotal else next);
               nextIp = htonl currIp + next + 1;
               nextIp = (if next \<noteq> 0 \<and> nextIp > htonl lastIp
                         then htonl network + (nextIp - htonl lastIp) else nextIp)
           in htonl nextIp)"

definition FirstNetIpAddress :: "u32 \<Rightarrow> u32" where
  "FirstNetIpAddress network = htonl (htonl network + 1)"

text \<open>The comparisons are on the words as stored, i.e. in network byte order.\<close>

definition IpInNetwork :: "u32 \<Rightarrow> u32 \<Rightarrow> u32 \<Rightarrow> bool" where
  "IpInNetwork ip network netmask =
     (let firstNet = NetworkAddress ip netmask;
          secondNet = NetworkAddress network netmask;
          beginIp = FirstIpAddress network netmask;
          broadCast = BroadCastAddress network netmask
      in firstNet = secondNet \<and> ip \<ge> beginIp \<and> ip \<le> broadCast)"

definition IpInRange :: "u32 \<Rightarrow> u32 \<Rightarrow> u32 \<Rightarrow> u32 \<Rightarrow> bool" where
  "IpInRange ip beginIp endIp netmask =
     (let network = NetworkAddress ip netmask;
          firstNet = NetworkAddress beginIp netmask;
          secondNet = NetworkAddress endIp netmask
      in if network \<noteq> firstNet \<or> firstNet \<noteq> secondNet then False
         else ip \<ge> beginIp \<and> ip \<le> endIp)"

definition ParseIp :: "bytes \<Rightarrow> u32" where
  "ParseIp ipAddr = u32_of_bytes (take 4 ipAddr)"

definition HostToNetwork :: "u32 \<Rightarrow> u32" where
  "HostToNetwork host = htonl host"

definition NetworkToHost :: "u32 \<Rightarrow> u32" where
  "NetworkToHost network = ntohl network"

section \<open>Hardware addresses\<close>

text \<open>\<^verbatim>\<open>%02x\<close>\<close>

definition hex_digit :: "nat \<Rightarrow> char" where
  "hex_digit n = ''0123456789abcdef'' ! n"

definition hex2 :: "u8 \<Rightarrow> string" where
  "hex2 b = [hex_digit (unat b div 16), hex_digit (unat b mod 16)]"

text \<open>A null result is \<open>None\<close>.\<close>

definition ParseStrMac :: "bytes \<Rightarrow> nat \<Rightarrow> string option" where
  "ParseStrMac macAddr addrSize =
     (if addrSize < MAC_ADDR_LENGTH then None
      else Some (hex2 (macAddr ! 0) @ '':'' @ hex2 (macAddr ! 1) @ '':'' @ hex2 (macAddr ! 2) @ '':'' @
                 hex2 (macAddr ! 3) @ '':'' @ hex2 (macAddr ! 4) @ '':'' @ hex2 (macAddr ! 5)))"

definition IsValidHexCharAndConvert :: "char \<Rightarrow> int" where
  "IsValidHexCharAndConvert c =
     (let n = of_char c in
      if 48 \<le> n \<and> n \<le> 57 then n - 48
      else if 97 \<le> n \<and> n \<le> 102 then n - 97 + 10
      else if 65 \<le> n \<and> n \<le> 70 then n - 65 + 10
      else -1)"

text \<open>The loop of \<^verbatim>\<open>ParseMacAddress\<close>: the rest of the string, the index \<open>i\<close> of its first character, the
  digit counter \<open>j\<close>, the byte \<open>tmp\<close> being read and the array written so far.\<close>

fun ParseMacAddress_loop :: "string \<Rightarrow> nat \<Rightarrow> nat \<Rightarrow> u8 \<Rightarrow> bytes \<Rightarrow> bool \<times> bytes" where
  "ParseMacAddress_loop [] i j tmp macAddr = (True, macAddr[17 div 3 := tmp])"
| "ParseMacAddress_loop (c # cs) i j tmp macAddr =
     (if j = 0 \<or> j = 1 then
        let v = IsValidHexCharAndConvert c in
        if v < 0 then (False, macAddr)
        else ParseMacAddress_loop cs (i + 1) (j + 1) (push_bit 4 tmp OR word_of_int v) macAddr
      else if c \<noteq> CHR '':'' then (False, macAddr)
      else ParseMacAddress_loop cs (i + 1) 0 0 (macAddr[i div 3 := tmp]))"

definition ParseMacAddress :: "string \<Rightarrow> bytes \<Rightarrow> bool \<times> bytes" where
  "ParseMacAddress strMac macAddr =
     (if length strMac \<noteq> 17 then (False, macAddr)
      else ParseMacAddress_loop strMac 0 0 0 macAddr)"

definition IsEmptyHWAddr :: "bytes \<Rightarrow> bool" where
  "IsEmptyHWAddr macAddr = list_all (\<lambda>i. macAddr ! i = 0) [0..<MAC_ADDR_LENGTH]"

definition AddrEquels :: "bytes \<Rightarrow> bytes \<Rightarrow> nat \<Rightarrow> bool" where
  "AddrEquels firstAddr secondAddr addrLength =
     (let len = (if addrLength > DHCP_HWADDR_LENGTH then DHCP_HWADDR_LENGTH else addrLength)
      in list_all (\<lambda>i. firstAddr ! i = secondAddr ! i) [0..<len])"

text \<open>The copy announces room for \<^verbatim>\<open>DHCP_BOOT_FILE_LENGTH\<close> (128) bytes, whatever the array is.
  \<open>hostName\<close> is the memory from the array on.\<close>

definition ParseHostName :: "string \<Rightarrow> bytes \<Rightarrow> bool \<times> bytes" where
  "ParseHostName strHostName hostName =
     memcpy_s 128 hostName (map of_char strHostName) (length strHostName)"

section \<open>Lemmas on hardware addresses\<close>

lemma AddrEquels_take:
  assumes "length a = 16" "length b = 16"
  shows "AddrEquels a b MAC_ADDR_LENGTH \<longleftrightarrow> take 6 a = take 6 b"
  using assms by (auto simp: AddrEquels_def list_all_iff list_eq_iff_nth_eq)

lemma IsEmptyHWAddr_take:
  "length a = 16 \<Longrightarrow> IsEmptyHWAddr a \<longleftrightarrow> take 6 a = replicate 6 0"
  by (auto simp: IsEmptyHWAddr_def list_all_iff list_eq_iff_nth_eq)

lemma AddrEquels_refl [simp]: "AddrEquels a a n"
  by (simp add: AddrEquels_def list_all_iff)

lemma AddrEquels_sym: "AddrEquels a b n \<longleftrightarrow> AddrEquels b a n"
  by (auto simp: AddrEquels_def list_all_iff)

lemma AddrEquels_IsEmpty:
  "AddrEquels a b MAC_ADDR_LENGTH \<Longrightarrow> IsEmptyHWAddr a = IsEmptyHWAddr b"
  by (auto simp: AddrEquels_def IsEmptyHWAddr_def list_all_iff)

lemma IsValidHexCharAndConvert_hex_digit [simp]:
  assumes "n < 16"
  shows "IsValidHexCharAndConvert (hex_digit n) = int n"
proof -
  have "list_all (\<lambda>n. IsValidHexCharAndConvert (hex_digit n) = int n) [0..<16]"
    by code_simp
  with assms show ?thesis by (simp add: list_all_iff)
qed

lemma hex2_value [simp]:
  "push_bit 4 (word_of_nat (unat b div 16)) OR word_of_nat (unat b mod 16) = (b :: u8)"
proof -
  have "unat b div 16 = unat (drop_bit 4 b)" "unat b mod 16 = unat (take_bit 4 b)"
    by (simp_all add: drop_bit_eq_div take_bit_eq_mod unat_div unat_mod)
  then have "push_bit 4 (word_of_nat (unat b div 16)) OR word_of_nat (unat b mod 16)
      = push_bit 4 (drop_bit 4 b) OR take_bit 4 b"
    by simp
  also have "\<dots> = b"
    by (rule bit_word_eqI) (auto simp: bit_simps)
  finally show ?thesis .
qed

lemma length_hex2 [simp]: "length (hex2 b) = 2"
  by (simp add: hex2_def)

lemma ParseMacAddress_hex2:
  "ParseMacAddress_loop (hex2 b @ cs) i 0 0 mac = ParseMacAddress_loop cs (i + 2) 2 b mac"
proof -
  have "unat b div 16 < 16" "unat b mod 16 < 16"
    using unat_u8_less [of b] by (simp_all add: div_less_iff_less_mult)
  then show ?thesis
    by (simp add: hex2_def Let_def del: of_nat_div of_nat_mod) (simp add: numeral_2_eq_2)
qed

text \<open>The text form of a hardware address that the lease file holds is read back to the same six
  bytes; the other bytes of the array are left alone.\<close>

lemma ParseMacAddress_ParseStrMac:
  assumes "length mac = 16" "length old = 16" "ParseStrMac mac 16 = Some s"
  shows "ParseMacAddress s old = (True, take 6 mac @ drop 6 old)"
proof -
  obtain m0 m1 m2 m3 m4 m5 ms where mac: "mac = m0 # m1 # m2 # m3 # m4 # m5 # ms"
    using assms(1) by (auto simp: numeral_eq_Suc length_Suc_conv)
  obtain o0 o1 o2 o3 o4 o5 os where old: "old = o0 # o1 # o2 # o3 # o4 # o5 # os"
    using assms(2) by (auto simp: numeral_eq_Suc length_Suc_conv)
  from assms(3) mac have s: "s = hex2 m0 @ '':'' @ hex2 m1 @ '':'' @ hex2 m2 @ '':'' @
      hex2 m3 @ '':'' @ hex2 m4 @ '':'' @ hex2 m5 @ []"
    by (simp add: ParseStrMac_def)
  have "ParseMacAddress s old = (True, old[0 := m0, 1 := m1, 2 := m2, 3 := m3, 4 := m4, 5 := m5])"
    unfolding s ParseMacAddress_def by (simp add: ParseMacAddress_hex2 ParseMacAddress_hex2 [where cs = "[]", simplified])
  then show ?thesis
    by (simp add: old mac eval_nat_numeral)
qed

section \<open>Prefix masks\<close>

text \<open>The netmask of prefix length \<open>p\<close>, in network byte order as the server stores it.\<close>

definition prefix_netmask :: "nat \<Rightarrow> u32" where
  "prefix_netmask p = htonl (NOT (mask (32 - p)))"

lemma htonl_prefix_netmask [simp]: "htonl (prefix_netmask p) = NOT (mask (32 - p))"
  by (simp add: prefix_netmask_def)

lemma HostBits_loop_first:
  assumes "1 \<le> h" "h \<le> i" "bit net h" "\<And>j. 1 \<le> j \<Longrightarrow> j < h \<Longrightarrow> \<not> bit net j"
  shows "HostBits_loop i bits net = bits + of_nat h"
  using assms
proof (induction i arbitrary: h bits net)
  case 0
  then show ?case by simp
next
  case (Suc i)
  show ?case
  proof (cases "h = 1")
    case True
    with Suc.prems have "odd (drop_bit 1 net)"
      by (simp add: bit_iff_odd_drop_bit)
    with True show ?thesis
      by (simp add: and_one_eq odd_iff_mod_2_eq_one)
  next
    case False
    with Suc.prems have "\<not> bit net 1" and h: "1 \<le> h - 1" "h - 1 \<le> i" by auto
    then have "even (drop_bit 1 net)"
      by (simp add: bit_iff_odd_drop_bit)
    moreover have "HostBits_loop i (bits + 1) (drop_bit 1 net) = (bits + 1) + of_nat (h - 1)"
      using h Suc.prems by (intro Suc.IH) (auto simp: bit_drop_bit_eq)
    ultimately show ?thesis
      using False Suc.prems(1) by (simp add: and_one_eq even_iff_mod_2_eq_zero of_nat_diff)
  qed
qed

lemma HostBits_prefix: "1 \<le> p \<Longrightarrow> p \<le> 31 \<Longrightarrow> HostBits (prefix_netmask p) = of_nat (32 - p)"
  using HostBits_loop_first [of "32 - p" 32 "NOT (mask (32 - p))" 0]
  by (simp add: HostBits_def bit_simps)

lemma HostTotal_loop_eq: "HostTotal_loop n t = t * 2 ^ n"
  by (induction n arbitrary: t) (auto simp: algebra_simps)

lemma HostTotal_prefix:
  assumes "1 \<le> p" "p \<le> 31"
  shows "HostTotal (prefix_netmask p) = mask (32 - p)"
proof -
  have "unat (HostBits (prefix_netmask p)) = 32 - p"
    using assms by (simp only: HostBits_prefix unat_of_nat) simp
  then show ?thesis
    by (simp add: HostTotal_def HostTotal_loop_eq mask_eq_exp_minus_1)
qed

text \<open>The network part of an address, as a number.\<close>

definition net_part :: "nat \<Rightarrow> u32 \<Rightarrow> nat" where
  "net_part n x = unat (x AND NOT (mask n))"

lemma net_part_eq: "net_part n x = unat x div 2 ^ n * 2 ^ n"
proof -
  have split: "x = (x AND NOT (mask n)) + take_bit n x"
    by (subst disjunctive_add) (auto intro!: bit_word_eqI simp: bit_simps)
  then have "x AND NOT (mask n) = x - take_bit n x"
    by (metis add_diff_cancel_right')
  moreover have "take_bit n x \<le> x"
    by (simp add: word_le_nat_alt unsigned_take_bit_eq)
  ultimately have "net_part n x = unat x - take_bit n (unat x)"
    by (simp add: net_part_def unat_sub unsigned_take_bit_eq)
  then show ?thesis
    by (simp add: take_bit_eq_mod minus_mod_eq_div_mult)
qed

lemma net_part_le: "net_part n x \<le> unat x"
  by (simp add: net_part_eq)

lemma less_net_part: "unat x < net_part n x + 2 ^ n"
proof -
  have "unat x = unat x div 2 ^ n * 2 ^ n + unat x mod 2 ^ n"
    by (simp only: div_mult_mod_eq)
  also have "\<dots> < unat x div 2 ^ n * 2 ^ n + 2 ^ n" by simp
  finally show ?thesis by (simp add: net_part_eq)
qed

lemma net_part_bound: "n \<le> 32 \<Longrightarrow> net_part n x + 2 ^ n \<le> 2 ^ 32"
proof -
  assume n: "n \<le> 32"
  then have pow: "(2::nat) ^ 32 = 2 ^ (32 - n) * 2 ^ n"
    by (simp flip: power_add)
  have "unat x < 2 ^ 32"
    using unsigned_less [of x, where ?'a = nat] by simp
  then have "unat x div 2 ^ n < 2 ^ (32 - n)"
    by (simp only: pow) (simp add: div_less_iff_less_mult)
  then have "(unat x div 2 ^ n + 1) * 2 ^ n \<le> 2 ^ (32 - n) * 2 ^ n"
    by (intro mult_right_mono) auto
  then show ?thesis
    by (simp only: net_part_eq pow) simp
qed

lemma net_part_same:
  assumes "net_part n x \<le> k" "k < net_part n x + 2 ^ n" "unat y = k"
  shows "net_part n y = net_part n x"
proof -
  have "k div 2 ^ n = unat x div 2 ^ n"
    using assms(1,2) by (intro div_nat_eqI) (auto simp: net_part_eq mult.commute)
  with assms(3) show ?thesis
    by (simp add: net_part_eq)
qed

lemma unat_network [simp]: "unat (x AND NOT (mask n)) = net_part n x"
  by (simp add: net_part_def)

section \<open>Network arithmetic in host order\<close>

text \<open>For the netmask of a prefix of \<open>p\<close> bits, with \<open>N\<close> the network number and \<open>T\<close> the number
  of addresses of the network less one, the first address is \<open>N + 1\<close>, the last \<open>N + T - 1\<close>, the
  broadcast address \<open>N + T\<close>.\<close>

lemma unat_mask_u32 [simp]: "n < 32 \<Longrightarrow> unat (mask n :: u32) = 2 ^ n - 1"
proof -
  assume "n < 32"
  then have "unat (mask n :: u32) = mask n"
    by (intro bit_eqI) (auto simp: bit_simps)
  then show ?thesis
    by (simp add: mask_eq_exp_minus_1)
qed

lemma unat_network_plus:
  assumes "unat k < 2 ^ n" "n < 32"
  shows "unat ((x AND NOT (mask n)) + (k :: u32)) = net_part n x + unat k"
proof -
  have "net_part n x + unat k < 2 ^ 32"
    using assms net_part_bound [of n x] by linarith
  then show ?thesis
    by (simp add: unat_word_ariths)
qed

lemma NetworkAddress_host: "htonl (NetworkAddress ip (prefix_netmask p)) = htonl ip AND NOT (mask (32 - p))"
  by (simp add: NetworkAddress_def htonl_and)

lemma four_le_pow: "p \<le> 30 \<Longrightarrow> (4::nat) \<le> 2 ^ (32 - p)"
  using power_increasing [of 2 "32 - p" "2::nat"] by simp

lemma FirstIpAddress_host:
  assumes "1 \<le> p" "p \<le> 30"
  shows "unat (htonl (FirstIpAddress ip (prefix_netmask p))) = net_part (32 - p) (htonl ip) + 1"
  using assms four_le_pow [of p]
  by (simp add: FirstIpAddress_def NetworkAddress_host unat_network_plus)

lemma BroadCastAddress_host:
  assumes "1 \<le> p" "p \<le> 30"
  shows "unat (htonl (BroadCastAddress ip (prefix_netmask p))) = net_part (32 - p) (htonl ip) + (2 ^ (32 - p) - 1)"
  using assms four_le_pow [of p]
  by (simp add: BroadCastAddress_def NetworkAddress_host HostTotal_prefix unat_network_plus)

lemma LastIpAddress_host:
  assumes "1 \<le> p" "p \<le> 30"
  shows "unat (htonl (LastIpAddress ip (prefix_netmask p))) = net_part (32 - p) (htonl ip) + (2 ^ (32 - p) - 2)"
proof -
  let ?b = "(htonl ip AND NOT (mask (32 - p))) + (mask (32 - p) :: u32)"
  have b: "unat ?b = net_part (32 - p) (htonl ip) + (2 ^ (32 - p) - 1)"
    using assms by (subst unat_network_plus) auto
  then have "?b \<noteq> 0" and "1 \<le> ?b"
    using four_le_pow [OF assms(2)] by (auto simp: word_le_nat_alt unat_eq_0)
  then have "unat (?b - 1) = net_part (32 - p) (htonl ip) + (2 ^ (32 - p) - 2)"
    using b four_le_pow [OF assms(2)] by (subst unat_sub) (simp_all add: numeral_2_eq_2)
  with \<open>?b \<noteq> 0\<close> show ?thesis
    using assms by (simp add: LastIpAddress_def NetworkAddress_host HostTotal_prefix)
qed

lemma htonl_eq_iff_unat: "x = y \<longleftrightarrow> unat (htonl x) = unat (htonl y)"
  by (simp add: word_unat_eq_iff [symmetric])

text \<open>The address after \<open>c\<close> in sequence mode.\<close>

lemma NextIpAddress_sequence:
  fixes c :: u32
  assumes "1 \<le> p" "p \<le> 30"
  defines "n \<equiv> 32 - p"
  defines "N \<equiv> net_part n (htonl c)"
  shows "unat (htonl (NextIpAddress c (prefix_netmask p) 0)) =
    (if unat (htonl c) \<ge> N + 2 ^ n - 2 then N + 1 else unat (htonl c) + 1)"
proof -
  have h: "unat (htonl c) < N + 2 ^ n"
    unfolding N_def by (rule less_net_part)
  have four: "(4::nat) \<le> 2 ^ n"
    unfolding n_def using assms(2) by (rule four_le_pow)
  have bound: "N + 2 ^ n \<le> 2 ^ 32"
    unfolding N_def n_def by (rule net_part_bound) simp
  have wrap: "c = LastIpAddress c (prefix_netmask p) \<or> c = BroadCastAddress c (prefix_netmask p)
      \<longleftrightarrow> unat (htonl c) \<ge> N + 2 ^ n - 2"
  proof -
    have "c = LastIpAddress c (prefix_netmask p) \<longleftrightarrow> unat (htonl c) = N + (2 ^ n - 2)"
      and "c = BroadCastAddress c (prefix_netmask p) \<longleftrightarrow> unat (htonl c) = N + (2 ^ n - 1)"
      using assms(1,2)
      by (simp_all only: htonl_eq_iff_unat [of c] LastIpAddress_host BroadCastAddress_host N_def n_def)
    with h four show ?thesis by linarith
  qed
  have plus: "unat (htonl c) < N + 2 ^ n - 2 \<Longrightarrow> unat (htonl c + 1) = unat (htonl c) + 1"
    using bound four by (simp add: unat_word_ariths)
  show ?thesis
    using wrap plus FirstIpAddress_host [OF assms(1,2), of c]
    by (auto simp: NextIpAddress_def Let_def N_def n_def not_le)
qed

lemma NextIpAddress_network:
  assumes "1 \<le> p" "p \<le> 30"
  shows "net_part (32 - p) (htonl (NextIpAddress c (prefix_netmask p) 0)) = net_part (32 - p) (htonl c)"
proof (rule net_part_same [OF _ _ refl])
  have four: "(4::nat) \<le> 2 ^ (32 - p)"
    using assms(2) by (rule four_le_pow)
  show "net_part (32 - p) (htonl c) \<le> unat (htonl (NextIpAddress c (prefix_netmask p) 0))"
    using net_part_le [of "32 - p" "htonl c"] by (simp add: NextIpAddress_sequence [OF assms])
  show "unat (htonl (NextIpAddress c (prefix_netmask p) 0)) < net_part (32 - p) (htonl c) + 2 ^ (32 - p)"
    using four less_net_part [of "htonl c" "32 - p"]
    by (simp add: NextIpAddress_sequence [OF assms]) linarith
qed

text \<open>\<open>k\<close> steps of the address loop in sequence mode.\<close>

fun NextIp_iter :: "u32 \<Rightarrow> nat \<Rightarrow> u32 \<Rightarrow> u32" where
  "NextIp_iter netmask 0 c = c"
| "NextIp_iter netmask (Suc k) c = NextIpAddress (NextIp_iter netmask k c) netmask 0"

lemma NextIp_iter_add: "NextIp_iter m (j + k) c = NextIp_iter m j (NextIp_iter m k c)"
  by (induction j) auto

lemma NextIp_iter_network:
  "1 \<le> p \<Longrightarrow> p \<le> 30 \<Longrightarrow>
    net_part (32 - p) (htonl (NextIp_iter (prefix_netmask p) k c)) = net_part (32 - p) (htonl c)"
  by (induction k) (auto simp: NextIpAddress_network)

lemma NextIp_iter_ascend:
  assumes "1 \<le> p" "p \<le> 30"
  assumes "unat (htonl c) + k \<le> net_part (32 - p) (htonl c) + 2 ^ (32 - p) - 2"
  shows "unat (htonl (NextIp_iter (prefix_netmask p) k c)) = unat (htonl c) + k"
  using assms(3)
proof (induction k)
  case 0
  then show ?case by simp
next
  case (Suc k)
  then have IH: "unat (htonl (NextIp_iter (prefix_netmask p) k c)) = unat (htonl c) + k" by simp
  show ?case
    using Suc.prems
    by (simp add: NextIpAddress_sequence [OF assms(1,2)] NextIp_iter_network [OF assms(1,2)] IH)
qed

lemma NextIp_iter_reaches:
  assumes p: "1 \<le> p" "p \<le> 30"
  defines "n \<equiv> 32 - p"
  assumes t: "net_part n (htonl c) < unat (htonl t)" "unat (htonl t) \<le> net_part n (htonl c) + 2 ^ n - 2"
  shows "\<exists>k. 1 \<le> k \<and> k \<le> 2 ^ n - 1 \<and> NextIp_iter (prefix_netmask p) k c = t"
proof -
  let ?m = "prefix_netmask p" and ?N = "net_part n (htonl c)"
  note t' = t [unfolded n_def]
  have four: "(4::nat) \<le> 2 ^ n"
    unfolding n_def using p(2) by (rule four_le_pow)
  have from_first: "NextIp_iter ?m (unat (htonl t) - ?N - 1) c' = t"
    if c': "net_part n (htonl c') = ?N" "unat (htonl c') = ?N + 1" for c'
  proof -
    have "unat (htonl (NextIp_iter ?m (unat (htonl t) - ?N - 1) c')) = unat (htonl t)"
      using c' t four by (subst NextIp_iter_ascend [OF p]) (auto simp: n_def)
    then show ?thesis by (simp add: htonl_eq_iff_unat)
  qed
  have wrap: "\<exists>k. 1 \<le> k \<and> k \<le> unat (htonl t) - ?N \<and> NextIp_iter ?m k c' = t"
    if c': "net_part n (htonl c') = ?N" "unat (htonl c') \<ge> ?N + 2 ^ n - 2" for c'
  proof -
    have "NextIp_iter ?m (unat (htonl t) - ?N - 1) (NextIpAddress c' ?m 0) = t"
      using c' by (intro from_first)
        (simp_all add: n_def NextIpAddress_network [OF p] NextIpAddress_sequence [OF p])
    then have "NextIp_iter ?m (unat (htonl t) - ?N - 1 + 1) c' = t"
      by (subst NextIp_iter_add) simp
    then show ?thesis
      using t by (intro exI [of _ "unat (htonl t) - ?N - 1 + 1"]) auto
  qed
  have hN: "?N \<le> unat (htonl c)" "unat (htonl c) < ?N + 2 ^ n"
    by (simp_all add: net_part_le less_net_part)
  consider "unat (htonl c) < unat (htonl t)" | "unat (htonl c) \<ge> ?N + 2 ^ n - 2"
    | "unat (htonl t) \<le> unat (htonl c)" "unat (htonl c) < ?N + 2 ^ n - 2"
    by linarith
  then show ?thesis
  proof cases
    case 1
    then have "unat (htonl (NextIp_iter ?m (unat (htonl t) - unat (htonl c)) c)) = unat (htonl t)"
      using t' by (subst NextIp_iter_ascend [OF p]) auto
    then show ?thesis
      using 1 t hN by (intro exI [of _ "unat (htonl t) - unat (htonl c)"]) (auto simp: htonl_eq_iff_unat)
  next
    case 2
    with wrap [of c] obtain k where "1 \<le> k" "k \<le> unat (htonl t) - ?N" "NextIp_iter ?m k c = t"
      by auto
    with t four show ?thesis by (intro exI [of _ k]) auto
  next
    case 3
    let ?k = "?N + 2 ^ n - 2 - unat (htonl c)"
    have "unat (htonl (NextIp_iter ?m ?k c)) = ?N + 2 ^ n - 2"
      using 3 by (subst NextIp_iter_ascend [OF p]) (auto simp: n_def)
    with wrap [of "NextIp_iter ?m ?k c"] obtain j
      where j: "1 \<le> j" "j \<le> unat (htonl t) - ?N" "NextIp_iter ?m (j + ?k) c = t"
      by (auto simp: n_def NextIp_iter_network [OF p] NextIp_iter_add)
    have "j + ?k \<le> 2 ^ n - 1" using j 3 t by linarith
    with j show ?thesis by (intro exI [of _ "j + ?k"]) auto
  qed
qed

text \<open>With an offset below the number of addresses, as a number.\<close>

lemma NextIpAddress_offset:
  fixes c off :: u32
  assumes "1 \<le> p" "p \<le> 30" "off < HostTotal (prefix_netmask p)"
  defines "n \<equiv> 32 - p"
  defines "N \<equiv> net_part n (htonl c)" and "h \<equiv> unat (htonl c)" and "k \<equiv> unat off"
  assumes "N + 2 * 2 ^ n \<le> 2 ^ 32"
  shows "unat (htonl (NextIpAddress c (prefix_netmask p) off)) =
    (if h \<ge> N + 2 ^ n - 2 then N + 1
     else if h + k + 1 > N + 2 ^ n - 2 then N + (h + k + 1 - (N + 2 ^ n - 2)) else h + k + 1)"
proof (cases "h \<ge> N + 2 ^ n - 2")
  case True
  have "unat (htonl (LastIpAddress c (prefix_netmask p))) = N + (2 ^ n - 2)"
    "unat (htonl (BroadCastAddress c (prefix_netmask p))) = N + (2 ^ n - 1)"
    using assms(1,2) by (simp_all only: LastIpAddress_host BroadCastAddress_host N_def n_def)
  moreover have "h < N + 2 ^ n" unfolding h_def N_def by (rule less_net_part)
  ultimately have "c = LastIpAddress c (prefix_netmask p) \<or> c = BroadCastAddress c (prefix_netmask p)"
    using True four_le_pow [OF assms(2)] by (simp only: htonl_eq_iff_unat [of c] h_def n_def) linarith
  with True show ?thesis
    using FirstIpAddress_host [OF assms(1,2), of c] by (simp add: NextIpAddress_def N_def n_def)
next
  case False
  let ?last = "htonl (LastIpAddress c (prefix_netmask p))" and ?s = "htonl c + off + 1"
  have four: "(4::nat) \<le> 2 ^ n"
    unfolding n_def using assms(2) by (rule four_le_pow)
  have off: "k < 2 ^ n - 1"
    using assms(1-3) by (simp add: word_less_nat_alt HostTotal_prefix n_def k_def)
  have last: "unat ?last = N + 2 ^ n - 2"
    and bcast: "unat (htonl (BroadCastAddress c (prefix_netmask p))) = N + 2 ^ n - 1"
    using assms(1,2) four
    by (simp_all add: LastIpAddress_host BroadCastAddress_host N_def n_def)
  have "c \<noteq> LastIpAddress c (prefix_netmask p)" "c \<noteq> BroadCastAddress c (prefix_netmask p)"
    using False four by (auto simp: htonl_eq_iff_unat [of c] last bcast h_def)
  then have next_eq: "htonl (NextIpAddress c (prefix_netmask p) off) =
      (if off \<noteq> 0 \<and> ?s > ?last then (htonl c AND NOT (mask n)) + (?s - ?last) else ?s)"
    using assms(3) by (auto simp: NextIpAddress_def Let_def NetworkAddress_host n_def)
  have s: "unat ?s = h + k + 1"
    using False off assms(8) by (simp add: unat_word_ariths h_def k_def)
  have wrap: "(off \<noteq> 0 \<and> ?s > ?last) \<longleftrightarrow> h + k + 1 > N + 2 ^ n - 2"
    using False by (auto simp: word_less_nat_alt s last k_def unat_eq_0)
  have "unat ((htonl c AND NOT (mask n)) + (?s - ?last)) = N + (h + k + 1 - (N + 2 ^ n - 2))"
    if "h + k + 1 > N + 2 ^ n - 2"
  proof -
    have "unat (?s - ?last) = h + k + 1 - (N + 2 ^ n - 2)"
      using that by (subst unat_sub) (auto simp: word_le_nat_alt s last)
    moreover from this have "unat (?s - ?last) < 2 ^ n"
      using False off by linarith
    moreover have "n < 32"
      using assms(1) by (simp add: n_def)
    ultimately show ?thesis
      using unat_network_plus [of "?s - ?last" n "htonl c"] by (simp only: N_def)
  qed
  with False wrap s next_eq show ?thesis by simp
qed

lemma offset_arith:
  fixes N T h k :: nat
  assumes "4 \<le> T" "N \<le> h" "k < T - 1"
  defines "r \<equiv> (if h \<ge> N + T - 2 then N + 1
    else if h + k + 1 > N + T - 2 then N + (h + k + 1 - (N + T - 2)) else h + k + 1)"
  shows "N < r \<and> r < N + (T - 1)"
  using assms(1-3) unfolding r_def by (auto split: if_split)

text \<open>Addresses that differ in their last octet only are ordered alike in both byte orders.\<close>

lemma same_prefix_le:
  assumes "take_bit 24 x = take_bit 24 (y :: u32)"
  shows "x \<le> y \<longleftrightarrow> htonl x \<le> htonl y"
proof -
  obtain a b c d where x: "x = u32_of_bytes [a, b, c, d]" "u32_bytes x = [a, b, c, d]"
    "htonl x = u32_of_bytes [d, c, b, a]" by (rule u32_cases_bytes)
  obtain a' b' c' d' where y: "y = u32_of_bytes [a', b', c', d']" "u32_bytes y = [a', b', c', d']"
    "htonl y = u32_of_bytes [d', c', b', a']" by (rule u32_cases_bytes)
  have "bit x n = bit y n" if "n < 24" for n
    using that assms by (metis bit_take_bit_iff)
  then have "take 3 (u32_bytes x) = take 3 (u32_bytes y)"
    by (auto simp: u32_bytes_def bit_simps intro!: bit_word_eqI)
  then have "a = a'" "b = b'" "c = c'"
    using x(2) y(2) by auto
  then show ?thesis
    unfolding x(3) y(3) by (simp only: x(1) y(1) word_le_nat_alt unat_u32_of_bytes4) auto
qed

section \<open>Properties of the address arithmetic\<close>

text \<open>C15: The address that follows another in the address loop, in sequence mode or with any random
  offset the loop draws (below the number of addresses of the network), is again a host address of
  the same network: never the network or the broadcast address. The networks are those of prefix 1 to 30
  that do not touch the end of the address space.\<close>

theorem NextIpAddress_in_network:
  assumes "1 \<le> p" "p \<le> 30" "off < HostTotal (prefix_netmask p)"
  assumes "net_part (32 - p) (htonl c) + 2 * 2 ^ (32 - p) \<le> 2 ^ 32"
  shows "net_part (32 - p) (htonl c) < unat (htonl (NextIpAddress c (prefix_netmask p) off))
       \<and> htonl (NextIpAddress c (prefix_netmask p) off) < htonl (BroadCastAddress c (prefix_netmask p))"
proof -
  let ?N = "net_part (32 - p) (htonl c)" and ?T = "2 ^ (32 - p) :: nat"
  have "4 \<le> ?T" "?N \<le> unat (htonl c)" "unat off < ?T - 1"
    using assms(1-3) four_le_pow [of p]
    by (simp_all add: net_part_le word_less_nat_alt HostTotal_prefix)
  then have "?N < unat (htonl (NextIpAddress c (prefix_netmask p) off))
    \<and> unat (htonl (NextIpAddress c (prefix_netmask p) off)) < ?N + (?T - 1)"
    unfolding NextIpAddress_offset [OF assms] by (rule offset_arith)
  then show ?thesis
    by (simp only: word_less_nat_alt BroadCastAddress_host [OF assms(1,2)])
qed

theorem NextIpAddress_in_network_witness:
  "192 * 2 ^ 24 + 168 * 2 ^ 16 + 256 < unat (htonl (NextIpAddress (htonl 0xC0A801FA) (prefix_netmask 24) 9))
   \<and> htonl (NextIpAddress (htonl 0xC0A801FA) (prefix_netmask 24) 9) < htonl (BroadCastAddress (htonl 0xC0A801FA) (prefix_netmask 24))"
proof -
  have off: "9 < HostTotal (prefix_netmask 24)"
    by (simp add: HostTotal_prefix mask_eq_exp_minus_1)
  have net: "net_part (32 - 24) (htonl (htonl 0xC0A801FA)) = 192 * 2 ^ 24 + 168 * 2 ^ 16 + 256"
    by (simp add: net_part_eq)
  show ?thesis
    using NextIpAddress_in_network [of 24 9 "htonl 0xC0A801FA"] off unfolding net by simp
qed

text \<open>C16: On networks of prefix 24 or longer the range test, which compares addresses as stored in
  network byte order, agrees with the numeric range in host order.\<close>

theorem IpInRange_numeric:
  assumes "netmask AND 0x00FFFFFF = 0x00FFFFFF"
  shows "IpInRange ip beginIp endIp netmask \<longleftrightarrow>
    NetworkAddress beginIp netmask = NetworkAddress ip netmask \<and>
    NetworkAddress endIp netmask = NetworkAddress ip netmask \<and>
    ntohl beginIp \<le> ntohl ip \<and> ntohl ip \<le> ntohl endIp"
proof -
  have low: "take_bit 24 x = take_bit 24 y" if "NetworkAddress x netmask = NetworkAddress y netmask" for x y
  proof -
    have "(x AND netmask) AND 0x00FFFFFF = (y AND netmask) AND 0x00FFFFFF"
      using that by (simp only: NetworkAddress_def)
    then show ?thesis
      using assms by (simp add: and.assoc take_bit_eq_mask mask_eq_exp_minus_1)
  qed
  have "beginIp \<le> ip \<longleftrightarrow> ntohl beginIp \<le> ntohl ip"
    if "NetworkAddress beginIp netmask = NetworkAddress ip netmask"
    by (rule same_prefix_le) (rule low [OF that])
  moreover have "ip \<le> endIp \<longleftrightarrow> ntohl ip \<le> ntohl endIp"
    if "NetworkAddress endIp netmask = NetworkAddress ip netmask"
    by (rule same_prefix_le) (rule low [OF that [symmetric]])
  ultimately show ?thesis
    by (metis IpInRange_def)
qed

theorem IpInRange_numeric_witness:
  "IpInRange (htonl 0xC0A80164) (htonl 0xC0A80102) (htonl 0xC0A801C8) (htonl 0xFFFFFF00)
   \<and> ntohl (htonl 0xC0A80102) \<le> ntohl (htonl 0xC0A80164)"
proof -
  have mask: "htonl 0xFFFFFF00 AND 0x00FFFFFF = (0x00FFFFFF :: u32)" by code_simp
  have nets: "NetworkAddress (htonl 0xC0A80102) (htonl 0xFFFFFF00) = NetworkAddress (htonl 0xC0A80164) (htonl 0xFFFFFF00)"
    "NetworkAddress (htonl 0xC0A801C8) (htonl 0xFFFFFF00) = NetworkAddress (htonl 0xC0A80164) (htonl 0xFFFFFF00)"
    by code_simp+
  show ?thesis
    using IpInRange_numeric [OF mask, of "htonl 0xC0A80164" "htonl 0xC0A80102" "htonl 0xC0A801C8"] nets
    by simp
qed

text \<open>On a shorter prefix it does not agree: 192.168.1.200 lies between 192.168.1.1 and 192.168.2.100
  on the network 192.168.0.0/16, and the test rejects it, while it accepts 192.168.9.50, which is
  outside the range.\<close>

theorem IpInRange_wrong_on_16:
  "\<not> IpInRange (htonl 0xC0A801C8) (htonl 0xC0A80101) (htonl 0xC0A80264) (prefix_netmask 16)
   \<and> IpInRange (htonl 0xC0A80932) (htonl 0xC0A80101) (htonl 0xC0A80264) (prefix_netmask 16)"
  by code_simp


end
