(* ===== verification/DhcpText.thy ===== *)
theory DhcpText
  imports DhcpAddressUtils
begin

text \<open>
  The text layer: what the sources use of the C library on strings (\<^verbatim>\<open>strtol\<close>, \<^verbatim>\<open>strtoul\<close>, \<^verbatim>\<open>strtoull\<close>,
  \<^verbatim>\<open>inet_aton\<close>, \<^verbatim>\<open>inet_ntop\<close>, \<^verbatim>\<open>strstr\<close>, \<^verbatim>\<open>isspace\<close>, \<^verbatim>\<open>fgets\<close>), the checked number readers of
  \<^verbatim>\<open>services/utils/src/dhcp_common_utils.cpp\<close>, the text form of addresses (\<^verbatim>\<open>ParseIpAddr\<close> and
  \<^verbatim>\<open>ParseStrIp\<close> of \<^verbatim>\<open>address_utils.cpp\<close>) and the trimming functions of \<^verbatim>\<open>common_util.cpp\<close>. A C string is the
  list of its characters before the terminating zero. The round trips between the writers
  and the readers are proved here.
\<close>

section \<open>Characters\<close>

definition is_digit :: "char \<Rightarrow> bool" where
  "is_digit c \<longleftrightarrow> c \<in> set ''0123456789''"

text \<open>\<^verbatim>\<open>isspace\<close>: space, tab, newline, vertical tab, form feed, carriage return.\<close>

definition isspace :: "char \<Rightarrow> bool" where
  "isspace c \<longleftrightarrow> (let n = (of_char c :: nat) in n = 32 \<or> (9 \<le> n \<and> n \<le> 13))"

definition is_blank :: "char \<Rightarrow> bool" where
  "is_blank c \<longleftrightarrow> c = CHR '' '' \<or> c = CHR 0x09"

text \<open>The value of a digit in the bases up to 16.\<close>

definition digit_val :: "char \<Rightarrow> nat option" where
  "digit_val c =
     (let v = IsValidHexCharAndConvert c in if v < 0 then None else Some (nat v))"

text \<open>The C string that starts an array, and the array a string is stored in.\<close>

definition c_str :: "bytes \<Rightarrow> string" where
  "c_str bs = map (\<lambda>b. char_of (unat b)) (takeWhile (\<lambda>b. b \<noteq> 0) bs)"

definition char_bytes :: "string \<Rightarrow> bytes" where
  "char_bytes s = map of_char s"

section \<open>Numbers in text\<close>

text \<open>\<^verbatim>\<open>%llu\<close>, \<^verbatim>\<open>%d\<close>\<close>

fun dec_of_nat :: "nat \<Rightarrow> string" where
  "dec_of_nat n = (if n < 10 then [hex_digit n] else dec_of_nat (n div 10) @ [hex_digit (n mod 10)])"

declare dec_of_nat.simps [simp del]

definition dec_of_int :: "int \<Rightarrow> string" where
  "dec_of_int n = (if n < 0 then CHR ''-'' # dec_of_nat (nat (- n)) else dec_of_nat (nat n))"

text \<open>The longest run of digits of the base: its value after \<open>acc\<close>, and what follows it.\<close>

fun strto_digits :: "nat \<Rightarrow> nat \<Rightarrow> string \<Rightarrow> nat \<times> string" where
  "strto_digits base acc [] = (acc, [])"
| "strto_digits base acc (c # cs) =
     (case digit_val c of
        Some d \<Rightarrow> if d < base then strto_digits base (base * acc + d) cs else (acc, c # cs)
      | None \<Rightarrow> (acc, c # cs))"

text \<open>The subject sequence of the \<^verbatim>\<open>strto*\<close> functions in base 10: white space, an optional sign, digits.
  The result is the sign and the magnitude (0 when there are no digits).\<close>

definition strto_dec :: "string \<Rightarrow> bool \<times> nat" where
  "strto_dec s =
     (case dropWhile isspace s of
        [] \<Rightarrow> (False, 0)
      | c # cs \<Rightarrow>
        if c = CHR ''-'' then (True, fst (strto_digits 10 0 cs))
        else if c = CHR ''+'' then (False, fst (strto_digits 10 0 cs))
        else (False, fst (strto_digits 10 0 (c # cs))))"

text \<open>The integer conversions: \<open>None\<close> is \<^verbatim>\<open>errno == ERANGE\<close>. The unsigned ones negate in the type
  after a minus sign. \<^verbatim>\<open>long\<close> has 64 bits.\<close>

definition strtol :: "string \<Rightarrow> int option" where
  "strtol s =
     (let (neg, m) = strto_dec s; v = (if neg then - int m else int m)
      in if - (2 ^ 63) \<le> v \<and> v < 2 ^ 63 then Some v else None)"

definition strtoull :: "string \<Rightarrow> u64 option" where
  "strtoull s =
     (let (neg, m) = strto_dec s
      in if m < 2 ^ 64 then Some (if neg then - of_nat m else of_nat m) else None)"

text \<open>\<^verbatim>\<open>std::regex_search\<close> with \<^verbatim>\<open>\d+\<close> and \<^verbatim>\<open>-\d+\<close>\<close>

definition has_digits :: "string \<Rightarrow> bool" where
  "has_digits s \<longleftrightarrow> list_ex is_digit s"

fun has_minus_digits :: "string \<Rightarrow> bool" where
  "has_minus_digits (c # d # s) \<longleftrightarrow> (c = CHR ''-'' \<and> is_digit d) \<or> has_minus_digits (d # s)"
| "has_minus_digits _ \<longleftrightarrow> False"

definition CheckDataLegal :: "string \<Rightarrow> int" where
  "CheckDataLegal data =
     (if \<not> has_digits data then 0
      else case strtol data of None \<Rightarrow> 0 | Some num \<Rightarrow> sint (word_of_int num :: u32))"

definition CheckDataToUint :: "string \<Rightarrow> u32" where
  "CheckDataToUint data =
     (if \<not> has_digits data \<or> has_minus_digits data then 0
      else case strtoull data of None \<Rightarrow> 0 | Some num \<Rightarrow> ucast num)"

definition CheckDataTolonglong :: "string \<Rightarrow> int" where
  "CheckDataTolonglong data =
     (if \<not> has_digits data then 0
      else case strtol data of None \<Rightarrow> 0 | Some num \<Rightarrow> num)"

definition CheckDataToUint64 :: "string \<Rightarrow> u64" where
  "CheckDataToUint64 data =
     (if \<not> has_digits data then 0
      else case strtoull data of None \<Rightarrow> 0 | Some num \<Rightarrow> num)"

section \<open>Addresses in text\<close>

text \<open>\<^verbatim>\<open>strtoul(s, &z, 0)\<close> at a digit: hexadecimal after \<^verbatim>\<open>0x\<close>, octal after \<^verbatim>\<open>0\<close>, decimal otherwise.\<close>

definition strtoul0 :: "string \<Rightarrow> nat \<times> string" where
  "strtoul0 s =
     (case s of
        z # x # h # cs \<Rightarrow>
          if z = CHR ''0'' \<and> (x = CHR ''x'' \<or> x = CHR ''X'') \<and> digit_val h \<noteq> None
          then strto_digits 16 0 (h # cs)
          else if z = CHR ''0'' then strto_digits 8 0 s else strto_digits 10 0 s
      | z # cs \<Rightarrow> if z = CHR ''0'' then strto_digits 8 0 s else strto_digits 10 0 s
      | [] \<Rightarrow> (0, []))"

text \<open>\<^verbatim>\<open>inet_aton\<close> reads up to four parts separated by dots; the last part fills the bytes that are left. The
  first argument bounds the number of parts still allowed.\<close>

fun inet_aton_parts :: "nat \<Rightarrow> string \<Rightarrow> nat list option" where
  "inet_aton_parts 0 s = None"
| "inet_aton_parts (Suc n) s =
     (if s = [] \<or> \<not> is_digit (hd s) then None
      else case strtoul0 s of (a, z) \<Rightarrow>
        (case z of
           [] \<Rightarrow> Some [a]
         | c # s' \<Rightarrow> if c = CHR ''.'' then map_option ((#) a) (inet_aton_parts n s') else None))"

fun inet_aton_bytes :: "nat list \<Rightarrow> nat list" where
  "inet_aton_bytes [a] = [a div 2 ^ 24, a div 2 ^ 16 mod 256, a div 2 ^ 8 mod 256, a mod 256]"
| "inet_aton_bytes [a, b] = [a, b div 2 ^ 16, b div 2 ^ 8 mod 256, b mod 256]"
| "inet_aton_bytes [a, b, c] = [a, b, c div 2 ^ 8, c mod 256]"
| "inet_aton_bytes as = as"

definition inet_aton :: "string \<Rightarrow> bytes option" where
  "inet_aton s =
     (case inet_aton_parts 4 s of
        None \<Rightarrow> None
      | Some as \<Rightarrow>
        (let bs = inet_aton_bytes as in if list_all (\<lambda>a. a \<le> 255) bs then Some (map of_nat bs) else None))"

definition inet_ntop :: "bytes \<Rightarrow> string" where
  "inet_ntop bs =
     dec_of_nat (unat (bs ! 0)) @ ''.'' @ dec_of_nat (unat (bs ! 1)) @ ''.'' @
     dec_of_nat (unat (bs ! 2)) @ ''.'' @ dec_of_nat (unat (bs ! 3))"

definition ParseIpAddr :: "string \<Rightarrow> u32" where
  "ParseIpAddr strIp = (case inet_aton strIp of None \<Rightarrow> 0 | Some inAddr \<Rightarrow> u32_of_bytes inAddr)"

definition ParseStrIp :: "u32 \<Rightarrow> string" where
  "ParseStrIp ipAddr = inet_ntop (u32_bytes ipAddr)"

section \<open>Trimming and splitting\<close>

definition RightTrim :: "string \<Rightarrow> string" where
  "RightTrim buf = rev (dropWhile is_blank (rev buf))"

definition LeftTrim :: "string \<Rightarrow> string" where
  "LeftTrim buf = dropWhile is_blank buf"

definition TrimString :: "string \<Rightarrow> string" where
  "TrimString buf = LeftTrim (RightTrim buf)"

text \<open>\<open>None\<close> is the result \<^verbatim>\<open>DHCP_FALSE\<close> for an empty string.\<close>

definition RemoveSpaceCharacters :: "string \<Rightarrow> string option" where
  "RemoveSpaceCharacters buf =
     (if buf = [] then None else Some (dropWhile isspace (rev (dropWhile isspace (rev buf)))))"

text \<open>\<^verbatim>\<open>strstr\<close>: what precedes the first occurrence and what follows it.\<close>

fun strstr :: "string \<Rightarrow> string \<Rightarrow> (string \<times> string) option" where
  "strstr [] split = (if split = [] then Some ([], []) else None)"
| "strstr (c # cs) split =
     (if take (length split) (c # cs) = split then Some ([], drop (length split) (c # cs))
      else map_option (\<lambda>(pre, post). (c # pre, post)) (strstr cs split))"

text \<open>What precedes the first occurrence of a character, and what follows it.\<close>

fun split_at :: "char \<Rightarrow> string \<Rightarrow> string \<times> string option" where
  "split_at d [] = ([], None)"
| "split_at d (c # s) = (if c = d then ([], Some s) else let (t, r) = split_at d s in (c # t, r))"

text \<open>\<^verbatim>\<open>fgets(line, n, fp)\<close> until the end of the file: lines with their newline, cut at \<open>n - 1\<close> characters.\<close>

fun fgets_one :: "nat \<Rightarrow> string \<Rightarrow> string \<times> string" where
  "fgets_one 0 s = ([], s)"
| "fgets_one (Suc n) [] = ([], [])"
| "fgets_one (Suc n) (c # s) =
     (if c = CHR 0x0A then ([c], s) else (let (l, r) = fgets_one n s in (c # l, r)))"

lemma fgets_one_shorter: "n \<noteq> 0 \<Longrightarrow> s \<noteq> [] \<Longrightarrow> length (snd (fgets_one n s)) < length s"
proof -
  have le: "length (snd (fgets_one n s)) \<le> length s" for n s
    by (induction n s rule: fgets_one.induct) (auto simp: split_beta)
  assume "n \<noteq> 0" "s \<noteq> []"
  then show ?thesis
    using le by (cases n; cases s) (auto simp: split_beta le_imp_less_Suc)
qed

function fgets_lines :: "nat \<Rightarrow> string \<Rightarrow> string list" where
  "fgets_lines n s =
     (if n \<le> 1 \<or> s = [] then []
      else let (l, r) = fgets_one (n - 1) s in l # fgets_lines n r)"
  by auto
termination
  by (relation "measure (\<lambda>(n, s). length s)") (simp_all add: fgets_one_shorter, metis fgets_one_shorter snd_conv not_one_le_zero diff_is_0_eq not_le)

declare fgets_lines.simps [simp del]

lemma strstr_shorter: "strstr s split = Some (pre, post) \<Longrightarrow> split \<noteq> [] \<Longrightarrow> length post < length s"
  by (induction s split arbitrary: pre post rule: strstr.induct)
    (auto split: if_splits simp: le_eq_less_or_eq)

section \<open>Lemmas on numbers in text\<close>

lemma digit_val_hex_digit [simp]: "n < 16 \<Longrightarrow> digit_val (hex_digit n) = Some n"
  by (simp add: digit_val_def)

lemma is_digit_hex_digit [simp]:
  assumes "n < 10"
  shows "is_digit (hex_digit n)"
proof -
  have "list_all (\<lambda>n. is_digit (hex_digit n)) [0..<10]"
    by code_simp
  with assms show ?thesis by (simp add: list_all_iff)
qed

lemma hex_digit_not_0 [simp]:
  assumes "n < 10"
  shows "hex_digit n = CHR ''0'' \<longleftrightarrow> n = 0"
proof -
  have "list_all (\<lambda>n. (hex_digit n = CHR ''0'') = (n = 0)) [0..<10]"
    by code_simp
  with assms show ?thesis by (simp add: list_all_iff)
qed

lemma is_digit_not_space:
  assumes "is_digit c"
  shows "\<not> isspace c" "c \<noteq> CHR ''-''" "c \<noteq> CHR ''+''" "c \<noteq> CHR '' ''" "c \<noteq> CHR ''.''"
  using assms by (auto simp: is_digit_def isspace_def)

lemma dec_of_nat_digits: "list_all is_digit (dec_of_nat n)"
  by (induction n rule: dec_of_nat.induct) (subst dec_of_nat.simps, auto)

lemma dec_of_nat_not_Nil [simp]: "dec_of_nat n \<noteq> []"
  by (subst dec_of_nat.simps) auto

lemma dec_of_nat_hd_0: "hd (dec_of_nat n) = CHR ''0'' \<longleftrightarrow> n = 0"
proof (induction n rule: dec_of_nat.induct)
  case (1 n)
  then show ?case
    by (subst dec_of_nat.simps) (auto simp: hd_append div_eq_0_iff)
qed

lemma strto_digits_dec_of_nat [simp]:
  "strto_digits 10 0 (dec_of_nat n @ rest) = strto_digits 10 n rest"
proof (induction n arbitrary: rest rule: dec_of_nat.induct)
  case (1 n)
  show ?case
  proof (cases "n < 10")
    case True
    then show ?thesis by (subst dec_of_nat.simps) simp
  next
    case False
    then show ?thesis
      using "1" by (subst dec_of_nat.simps) simp
  qed
qed

lemma dec_of_nat_Cons:
  obtains c cs where "dec_of_nat n = c # cs" "is_digit c" "list_all is_digit cs"
  using dec_of_nat_digits [of n] dec_of_nat_not_Nil [of n] by (cases "dec_of_nat n") auto

lemma strto_dec_dec_of_nat [simp]: "strto_dec (dec_of_nat n) = (False, n)"
proof (cases "dec_of_nat n")
  case (Cons c cs)
  then have "is_digit c" using dec_of_nat_digits [of n] by simp
  with Cons show ?thesis
    using strto_digits_dec_of_nat [of n "[]"]
    by (simp add: strto_dec_def is_digit_not_space del: strto_digits_dec_of_nat strto_digits.simps(2))
qed simp

lemma has_digits_dec_of_nat [simp]: "has_digits (dec_of_nat n)" "has_digits (dec_of_int i)"
proof -
  show dec: "has_digits (dec_of_nat n)" for n
    by (rule dec_of_nat_Cons [of n]) (simp add: has_digits_def)
  then show "has_digits (dec_of_int i)"
    by (auto simp: dec_of_int_def) (simp add: has_digits_def)
qed

lemma CheckDataToUint64_dec [simp]: "CheckDataToUint64 (dec_of_nat (unat (w :: u64))) = w"
  using unsigned_less [of w, where ?'a = nat] by (simp add: CheckDataToUint64_def strtoull_def)

lemma strto_dec_dec_of_int: "strto_dec (dec_of_int i) = (i < 0, nat \<bar>i\<bar>)"
proof (cases "i < 0")
  case True
  then show ?thesis
    using strto_digits_dec_of_nat [of "nat (- i)" "[]"]
    by (simp add: dec_of_int_def strto_dec_def isspace_def)
qed (simp add: dec_of_int_def)

lemma CheckDataLegal_dec [simp]:
  assumes "- (2 ^ 31) \<le> i" "i < 2 ^ 31"
  shows "CheckDataLegal (dec_of_int i) = i"
proof -
  have "strtol (dec_of_int i) = Some i"
    using assms by (simp add: strtol_def strto_dec_dec_of_int)
  then show ?thesis
    using assms by (simp add: CheckDataLegal_def signed_of_int signed_take_bit_int_eq_self)
qed

section \<open>Lemmas on addresses in text\<close>

lemma strtoul0_dec_of_nat:
  assumes "rest = [] \<or> hd rest = CHR ''.''"
  shows "strtoul0 (dec_of_nat n @ rest) = (n, rest)"
proof -
  have stop: "strto_digits 10 m rest = (m, rest)" for m
    using assms by (cases rest) (auto simp: digit_val_def IsValidHexCharAndConvert_def)
  show ?thesis
  proof (cases "n = 0")
    case True
    then have "dec_of_nat n = ''0''" by (simp add: dec_of_nat.simps hex_digit_def)
    moreover have "strto_digits 8 0 (CHR ''0'' # rest) = (0, rest)"
      using assms by (cases rest) (auto simp: digit_val_def IsValidHexCharAndConvert_def)
    ultimately show ?thesis
      using assms True by (auto simp: strtoul0_def split: list.split)
  next
    case False
    then obtain c cs where c: "dec_of_nat n = c # cs" "c \<noteq> CHR ''0''"
      using dec_of_nat_hd_0 [of n] dec_of_nat_not_Nil [of n] by (cases "dec_of_nat n") auto
    then have "strtoul0 (dec_of_nat n @ rest) = strto_digits 10 0 (dec_of_nat n @ rest)"
      by (auto simp: strtoul0_def split: list.split simp del: strto_digits_dec_of_nat strto_digits.simps)
    then show ?thesis by (simp add: stop)
  qed
qed

lemma inet_aton_parts_dec:
  assumes "rest = [] \<or> hd rest = CHR ''.''"
  shows "inet_aton_parts (Suc k) (dec_of_nat n @ rest) =
    (if rest = [] then Some [n] else map_option ((#) n) (inet_aton_parts k (tl rest)))"
proof -
  have "is_digit (hd (dec_of_nat n @ rest))"
    using dec_of_nat_digits [of n] dec_of_nat_not_Nil [of n] by (cases "dec_of_nat n") auto
  with assms show ?thesis
    using strtoul0_dec_of_nat [OF assms, of n] by (cases rest) simp_all
qed

lemma inet_aton_inet_ntop:
  assumes "length bs = 4"
  shows "inet_aton (inet_ntop bs) = Some bs"
proof -
  obtain a b c d where bs: "bs = [a, b, c, d]"
    using assms by (auto simp: numeral_eq_Suc length_Suc_conv)
  have le: "unat x \<le> 255" for x :: u8
    using unat_u8_less [of x] by simp
  have "inet_aton_parts 4 (inet_ntop bs) = Some [unat a, unat b, unat c, unat d]"
    using inet_aton_parts_dec [of "[]" 0 "unat d"]
    by (simp add: bs inet_ntop_def inet_aton_parts_dec numeral_eq_Suc del: inet_aton_parts.simps)
  then show ?thesis
    using le by (simp add: inet_aton_def bs)
qed

lemma ParseIpAddr_ParseStrIp [simp]: "ParseIpAddr (ParseStrIp ip) = ip"
  by (simp add: ParseIpAddr_def ParseStrIp_def inet_aton_inet_ntop)

section \<open>Lemmas on lines and lengths\<close>

lemma split_at_shorter: "split_at d s = (t, Some r) \<Longrightarrow> length r < length s"
  by (induction d s arbitrary: t rule: split_at.induct) (auto split: if_splits prod.splits intro: less_SucI)

lemma split_at_append: "d \<notin> set k \<Longrightarrow> split_at d (k @ d # v) = (k, Some v)"
  by (induction k) auto

lemma split_at_last: "d \<notin> set k \<Longrightarrow> split_at d k = (k, None)"
  by (induction k) auto

lemma fgets_one_line: "CHR 0x0A \<notin> set l \<Longrightarrow> length l < n \<Longrightarrow> fgets_one n (l @ CHR 0x0A # r) = (l @ [CHR 0x0A], r)"
proof (induction l arbitrary: n)
  case Nil
  then show ?case by (cases n) auto
next
  case (Cons c l)
  then show ?case by (cases n) auto
qed

lemma fgets_lines_line:
  "CHR 0x0A \<notin> set l \<Longrightarrow> length l + 1 < n \<Longrightarrow>
     fgets_lines n (l @ CHR 0x0A # r) = (l @ [CHR 0x0A]) # fgets_lines n r"
  by (subst fgets_lines.simps) (simp add: fgets_one_line)

lemma fgets_lines_unlines:
  "list_all (\<lambda>l. CHR 0x0A \<notin> set l \<and> length l + 1 < n) ls \<Longrightarrow>
     fgets_lines n (concat (map (\<lambda>l. l @ [CHR 0x0A]) ls)) = map (\<lambda>l. l @ [CHR 0x0A]) ls"
proof (induction ls)
  case Nil
  show ?case by (subst fgets_lines.simps) simp
qed (simp add: fgets_lines_line)

lemma length_dec_of_nat: "0 < k \<Longrightarrow> n < 10 ^ k \<Longrightarrow> length (dec_of_nat n) \<le> k"
proof (induction k arbitrary: n)
  case (Suc k)
  show ?case
  proof (cases "n < 10")
    case False
    with Suc.prems have "0 < k" by (cases k) auto
    moreover have "n div 10 < 10 ^ k" using Suc.prems by (simp add: div_less_iff_less_mult)
    ultimately show ?thesis
      using Suc.IH False by (subst dec_of_nat.simps) simp
  qed (subst dec_of_nat.simps, simp)
qed simp

lemma length_ParseStrIp: "length (ParseStrIp ip) \<le> 15"
proof -
  have "length (dec_of_nat (unat b)) \<le> 3" for b :: u8
    using unat_u8_less [of b] by (intro length_dec_of_nat) simp_all
  from this [of "u32_bytes ip ! 0"] this [of "u32_bytes ip ! 1"] this [of "u32_bytes ip ! 2"] this [of "u32_bytes ip ! 3"]
  show ?thesis unfolding ParseStrIp_def inet_ntop_def length_append by simp
qed

lemma dropWhile_none: "list_all (\<lambda>c. \<not> P c) s \<Longrightarrow> dropWhile P s = s"
  by (cases s) auto

end
