(* ===== verification/DhcpBinding.thy ===== *)
theory DhcpBinding
  imports DhcpText
begin

text \<open>
  \<^verbatim>\<open>services/dhcp_server/src/dhcp_binding.cpp\<close>: the record of a lease, when it expires, and its line in the
  lease file. The clock of the host is part of the process state: \<open>g_clock\<close> gives the value
  of \<^verbatim>\<open>gettimeofday\<close> (seconds, microseconds) at each successive reading and \<open>g_ticks\<close>
  counts the readings; nothing is assumed of it, so it may jump. The other globals of the server
  (\<^verbatim>\<open>dhcp_address_pool.cpp\<close>, \<^verbatim>\<open>dhcp_s_server.cpp\<close>) are in the same record.
\<close>

section \<open>Data\<close>

record AddressBinding =
  ab_ipAddress :: u32
  ab_chaddr :: bytes
  ab_clientId :: u32
  ab_bindingTime :: u64
  ab_pendingTime :: u64
  ab_expireIn :: u64
  ab_leaseTime :: u64
  ab_pendingInterval :: u64
  ab_bindingStatus :: int
  ab_bindingMode :: int
  ab_deviceName :: bytes
  ab_userClass :: bytes
  ab_portalUrl :: bytes
  ab_rapidCommit :: bool
  ab_ipv6Only :: int

text \<open>\<^verbatim>\<open>AddressBinding bind = {0};\<close>\<close>

definition zero_binding :: AddressBinding where
  "zero_binding = \<lparr>ab_ipAddress = 0, ab_chaddr = replicate 16 0, ab_clientId = 0, ab_bindingTime = 0,
     ab_pendingTime = 0, ab_expireIn = 0, ab_leaseTime = 0, ab_pendingInterval = 0, ab_bindingStatus = 0,
     ab_bindingMode = 0, ab_deviceName = replicate 64 0, ab_userClass = replicate 64 0,
     ab_portalUrl = replicate 64 0, ab_rapidCommit = False, ab_ipv6Only = 0\<rparr>"

text \<open>The arrays have their sizes.\<close>

definition binding_wf :: "AddressBinding \<Rightarrow> bool" where
  "binding_wf b \<longleftrightarrow> length (ab_chaddr b) = 16 \<and> length (ab_deviceName b) = 64
     \<and> length (ab_userClass b) = 64 \<and> length (ab_portalUrl b) = 64"

text \<open>The globals: the bindings by the hash of the hardware address, the two modes, the time of the last
  save, the addresses of the packet being handled, whether a pointer to an erased binding has been
  used, and the clock.\<close>

record Globals =
  g_bindingRecoders :: "(u64, AddressBinding) smap"
  g_releaseRemoveMode :: int
  g_distributeMode :: int
  g_lastTime :: u64
  g_sourceIpAddr :: u32
  g_destIpAddr :: u32
  g_dangling :: bool
  g_clock :: "nat \<Rightarrow> nat \<times> nat"
  g_ticks :: nat

definition Tmspsec :: "Globals \<Rightarrow> u64 \<times> Globals" where
  "Tmspsec g = (of_nat (fst (g_clock g (g_ticks g))), g\<lparr>g_ticks := g_ticks g + 1\<rparr>)"

definition Tmspusec :: "Globals \<Rightarrow> u64 \<times> Globals" where
  "Tmspusec g = (let t = g_clock g (g_ticks g) in
     (of_nat (fst t * 1000000 + snd t), g\<lparr>g_ticks := g_ticks g + 1\<rparr>))"

section \<open>Operations\<close>

definition NextPendingInterval :: "u64 \<Rightarrow> u64" where
  "NextPendingInterval pendingInterval =
     (let next = pendingInterval in
      if next < 3 then next + 1
      else if next < 10 then next + 2
      else if next < 30 then next + 5
      else 1200)"

text \<open>The time after which a binding has expired; a binding that is neither pending nor associated keeps
  the stored \<open>expireIn\<close>.\<close>

definition expiry :: "AddressBinding \<Rightarrow> u64" where
  "expiry binding =
     (let leaseTime = (if ab_leaseTime binding = 0 then of_nat DHCP_LEASE_TIME else ab_leaseTime binding)
      in if ab_bindingStatus binding = BIND_PENDING then ab_pendingTime binding + leaseTime
         else if ab_bindingStatus binding = BIND_ASSOCIATED then ab_bindingTime binding + leaseTime
         else ab_expireIn binding)"

definition IsExpire :: "AddressBinding \<Rightarrow> Globals \<Rightarrow> bool \<times> AddressBinding \<times> Globals" where
  "IsExpire binding g =
     (let expireIn = expiry binding;
          (curr, g) = Tmspsec g
      in if curr > expireIn then (True, binding\<lparr>ab_bindingStatus := BIND_EXPIRED\<rparr>, g)
         else (False, binding, g))"

text \<open>\<^verbatim>\<open>snprintf_s(out, size, size - 1, ...)\<close> fails when the text has more than \<open>size - 1\<close> characters.
  \<open>None\<close> is \<^verbatim>\<open>RET_FAILED\<close>. \<^verbatim>\<open>%s\<close> reads the device name up to the first zero byte, on into the arrays
  that follow it.\<close>

definition WriteAddressBinding :: "AddressBinding \<Rightarrow> nat \<Rightarrow> string option" where
  "WriteAddressBinding binding outSize =
     (case ParseStrMac (ab_chaddr binding) (length (ab_chaddr binding)) of
        None \<Rightarrow> None
      | Some mac \<Rightarrow>
        if outSize < 20 then None
        else
          (let out = mac @ '' '' @ ParseStrIp (ab_ipAddress binding) @ '' '' @
                 dec_of_nat (unat (ab_leaseTime binding)) @ '' '' @
                 dec_of_nat (unat (ab_bindingTime binding)) @ '' '' @
                 dec_of_nat (unat (ab_pendingTime binding)) @ '' '' @
                 dec_of_nat (unat (ab_pendingInterval binding)) @ '' '' @
                 dec_of_int (ab_bindingMode binding) @ '' '' @
                 dec_of_int (ab_bindingStatus binding) @ '' '' @
                 c_str (ab_deviceName binding @ ab_userClass binding @ ab_portalUrl binding)
           in if length out \<le> outSize - 1 then Some out else None))"

definition CheckValidSplitString :: "string \<Rightarrow> string \<Rightarrow> bool" where
  "CheckValidSplitString buf split \<longleftrightarrow>
     buf \<noteq> [] \<and> split \<noteq> [] \<and> \<not> length buf < length split \<and> length split \<noteq> 0 \<and> \<not> length buf > 4096"

text \<open>The pieces between the separators; empty ones are skipped.\<close>

function SplitString_loop :: "string \<Rightarrow> string \<Rightarrow> string list" where
  "SplitString_loop split pos =
     (if split = [] then []
      else case strstr pos split of
        None \<Rightarrow> if pos = [] then [] else [pos]
      | Some (piece, pos') \<Rightarrow> (if piece = [] then [] else [piece]) @ SplitString_loop split pos')"
  by auto
termination
  by (relation "measure (\<lambda>(split, pos). length pos)") (auto dest: strstr_shorter)

declare SplitString_loop.simps [simp del]

definition SplitString :: "string \<Rightarrow> string \<Rightarrow> string list option" where
  "SplitString buf split =
     (if \<not> CheckValidSplitString buf split then None
      else let strs = SplitString_loop split buf in if strs = [] then None else Some strs)"

text \<open>The pieces of a line into the fields; \<open>num\<close> is the number of pieces. The fields written
  before a rejection stay written.\<close>

definition ParseAddressBinding :: "AddressBinding \<Rightarrow> string \<Rightarrow> Globals \<Rightarrow> int \<times> AddressBinding \<times> Globals" where
  "ParseAddressBinding binding buf g =
     (let (curr, g) = Tmspsec g in
      case SplitString buf '' '' of
        None \<Rightarrow> (-1, binding, g)
      | Some strs \<Rightarrow>
        let num = length strs in
        if num < 8 then (-1, binding, g)
        else
          let binding = binding\<lparr>ab_chaddr := snd (ParseMacAddress (strs ! 0) (ab_chaddr binding)),
                ab_ipAddress := ParseIpAddr (strs ! 1),
                ab_leaseTime := CheckDataToUint64 (strs ! 2),
                ab_bindingTime := CheckDataToUint64 (strs ! 3),
                ab_pendingTime := CheckDataToUint64 (strs ! 4)\<rparr>
          in if ab_bindingTime binding \<noteq> 0 \<and> ab_bindingTime binding < ab_pendingTime binding
             then (-1, binding, g)
             else
               let binding = (if ab_pendingTime binding > curr
                     then binding\<lparr>ab_bindingTime := ab_bindingTime binding - ab_pendingTime binding + curr,
                                  ab_pendingTime := curr\<rparr>
                     else binding);
                   binding = binding\<lparr>ab_pendingInterval := CheckDataToUint64 (strs ! 5),
                     ab_bindingMode := CheckDataLegal (strs ! 6),
                     ab_bindingStatus := CheckDataLegal (strs ! 7)\<rparr>;
                   binding = (if ab_bindingStatus binding = BIND_ASSOCIATED
                     then binding\<lparr>ab_expireIn := ab_bindingTime binding + ab_leaseTime binding\<rparr>
                     else binding);
                   binding = (if num \<ge> 9
                     then let room = snd (ParseHostName (strs ! 8)
                                (ab_deviceName binding @ ab_userClass binding @ ab_portalUrl binding))
                          in binding\<lparr>ab_deviceName := take 64 room, ab_userClass := take 64 (drop 64 room),
                               ab_portalUrl := drop 128 room\<rparr>
                     else binding)
               in (0, binding, g))"

section \<open>Lemmas\<close>

lemma binding_wf_zero [simp]: "binding_wf zero_binding"
  by (simp add: binding_wf_def zero_binding_def)

lemma Tmspsec_globals [simp]:
  "g_bindingRecoders (snd (Tmspsec g)) = g_bindingRecoders g"
  "g_distributeMode (snd (Tmspsec g)) = g_distributeMode g"
  "g_releaseRemoveMode (snd (Tmspsec g)) = g_releaseRemoveMode g"
  by (simp_all add: Tmspsec_def)

lemma IsExpire_simps:
  "fst (IsExpire b g) \<longleftrightarrow> fst (Tmspsec g) > expiry b"
  "fst (snd (IsExpire b g)) = (if fst (Tmspsec g) > expiry b then b\<lparr>ab_bindingStatus := BIND_EXPIRED\<rparr> else b)"
  "snd (snd (IsExpire b g)) = snd (Tmspsec g)"
  by (simp_all add: IsExpire_def Let_def split_beta)

text \<open>Splitting a line at single blanks.\<close>

definition no_blank :: "string \<Rightarrow> bool" where
  "no_blank s \<longleftrightarrow> CHR '' '' \<notin> set s"

lemma strstr_blank: "no_blank s \<Longrightarrow> strstr (s @ CHR '' '' # rest) '' '' = Some (s, rest)"
  by (induction s) (auto simp: no_blank_def)

lemma strstr_no_blank: "no_blank s \<Longrightarrow> strstr s '' '' = None"
  by (induction s) (auto simp: no_blank_def)

lemma SplitString_loop_blank [simp]:
  "no_blank s \<Longrightarrow> s \<noteq> [] \<Longrightarrow>
    SplitString_loop '' '' (s @ CHR '' '' # rest) = s # SplitString_loop '' '' rest"
  by (subst SplitString_loop.simps) (simp add: strstr_blank)

lemma SplitString_loop_last:
  "no_blank s \<Longrightarrow> SplitString_loop '' '' s = (if s = [] then [] else [s])"
  by (subst SplitString_loop.simps) (simp add: strstr_no_blank)

lemma no_blank_dec [simp]: "no_blank (dec_of_nat n)" "no_blank (dec_of_int i)"
proof -
  show dec: "no_blank (dec_of_nat n)" for n
    using dec_of_nat_digits [of n] is_digit_not_space(4)
    by (auto simp: no_blank_def list_all_iff)
  then show "no_blank (dec_of_int i)"
    by (auto simp: dec_of_int_def no_blank_def)
qed

lemma dec_of_int_not_Nil [simp]: "dec_of_int i \<noteq> []"
  by (simp add: dec_of_int_def)

lemma no_blank_append [simp]: "no_blank (a @ b) \<longleftrightarrow> no_blank a \<and> no_blank b"
  by (simp add: no_blank_def)

lemma no_blank_Cons [simp]: "no_blank (c # s) \<longleftrightarrow> c \<noteq> CHR '' '' \<and> no_blank s" "no_blank []"
  by (auto simp: no_blank_def)

lemma no_blank_ParseStrIp [simp]: "no_blank (ParseStrIp ip)" "ParseStrIp ip \<noteq> []"
  by (simp_all add: ParseStrIp_def inet_ntop_def)

lemma no_blank_hex2 [simp]: "no_blank (hex2 b)"
proof -
  have "list_all (\<lambda>n. hex_digit n \<noteq> CHR '' '') [0..<16]" by code_simp
  then have "n < 16 \<Longrightarrow> hex_digit n \<noteq> CHR '' ''" for n by (simp add: list_all_iff)
  moreover have "unat b div 16 < 16" "unat b mod 16 < 16"
    using unat_u8_less [of b] by (simp_all add: div_less_iff_less_mult)
  ultimately show ?thesis by (auto simp: no_blank_def hex2_def dest: sym)
qed

lemma ParseStrMac_no_blank: "ParseStrMac mac n = Some s \<Longrightarrow> no_blank s \<and> s \<noteq> []"
  by (auto simp: ParseStrMac_def split: if_splits)

lemma WriteAddressBinding_line:
  assumes "WriteAddressBinding b n = Some line" "length (ab_chaddr b) = 16"
  obtains mac where "ParseStrMac (ab_chaddr b) 16 = Some mac"
    "line = mac @ CHR '' '' # ParseStrIp (ab_ipAddress b) @ CHR '' '' # dec_of_nat (unat (ab_leaseTime b)) @
       CHR '' '' # dec_of_nat (unat (ab_bindingTime b)) @ CHR '' '' # dec_of_nat (unat (ab_pendingTime b)) @
       CHR '' '' # dec_of_nat (unat (ab_pendingInterval b)) @ CHR '' '' # dec_of_int (ab_bindingMode b) @
       CHR '' '' # dec_of_int (ab_bindingStatus b) @
       CHR '' '' # c_str (ab_deviceName b @ ab_userClass b @ ab_portalUrl b)"
    "length line < n"
  using assms by (auto simp: WriteAddressBinding_def Let_def split: option.splits if_splits)

lemma SplitString_written:
  assumes "WriteAddressBinding b n = Some line" "length (ab_chaddr b) = 16" "n \<le> 4096"
    and name: "c_str (ab_deviceName b @ ab_userClass b @ ab_portalUrl b) = name" "no_blank name"
  shows "\<exists>mac. ParseStrMac (ab_chaddr b) 16 = Some mac \<and> SplitString line '' '' =
    Some ([mac, ParseStrIp (ab_ipAddress b), dec_of_nat (unat (ab_leaseTime b)),
      dec_of_nat (unat (ab_bindingTime b)), dec_of_nat (unat (ab_pendingTime b)),
      dec_of_nat (unat (ab_pendingInterval b)), dec_of_int (ab_bindingMode b),
      dec_of_int (ab_bindingStatus b)] @ (if name = [] then [] else [name]))"
proof -
  from WriteAddressBinding_line [OF assms(1,2)] obtain mac where mac: "ParseStrMac (ab_chaddr b) 16 = Some mac"
    and line: "line = mac @ CHR '' '' # ParseStrIp (ab_ipAddress b) @ CHR '' '' # dec_of_nat (unat (ab_leaseTime b)) @
       CHR '' '' # dec_of_nat (unat (ab_bindingTime b)) @ CHR '' '' # dec_of_nat (unat (ab_pendingTime b)) @
       CHR '' '' # dec_of_nat (unat (ab_pendingInterval b)) @ CHR '' '' # dec_of_int (ab_bindingMode b) @
       CHR '' '' # dec_of_int (ab_bindingStatus b) @ CHR '' '' # name"
    and "length line < n" using name by blast
  then have "CheckValidSplitString line '' ''"
    using assms(3) by (auto simp: CheckValidSplitString_def)
  with mac ParseStrMac_no_blank [OF mac] name(2) show ?thesis
    by (simp add: SplitString_def line SplitString_loop_last)
qed

text \<open>The device name in the array: the bytes of its text, the rest zero.\<close>

lemma char_of_unat_of_char [simp]: "of_char (char_of (unat (b :: u8)) :: char) = b"
proof -
  have "of_char (char_of (unat b) :: char) = (of_nat (of_char (char_of (unat b))) :: u8)"
    by (rule of_nat_of_char [symmetric])
  also have "\<dots> = b" using unat_u8_less [of b] by simp
  finally show ?thesis .
qed

lemma length_char_bytes [simp]: "length (char_bytes s) = length s"
  by (simp add: char_bytes_def)

lemma c_str_zeros [simp]: "c_str (replicate n 0) = []"
  by (cases n) (simp_all add: c_str_def)

lemma c_str_bytes: "char_bytes (c_str bs) = takeWhile (\<lambda>b. b \<noteq> 0) bs"
  by (simp add: c_str_def char_bytes_def o_def)

lemma c_str_append: "0 \<in> set bs \<Longrightarrow> c_str (bs @ cs) = c_str bs"
  by (simp add: c_str_def takeWhile_append1)

lemma c_str_length: "0 \<in> set bs \<Longrightarrow> length (c_str bs) < length bs"
  by (induction bs) (auto simp: c_str_def)

lemma c_str_stored: "c_str (char_bytes (c_str bs) @ replicate (Suc n) 0 @ cs) = c_str bs"
  by (simp add: c_str_bytes)
    (simp add: c_str_def takeWhile_append2 del: takeWhile_eq_all_conv, metis (mono_tags, lifting) append_Nil2 set_takeWhileD takeWhile.simps(2) takeWhile_append2)

lemma ParseHostName_short:
  assumes "length s < 64" "length rest = 128"
  shows "ParseHostName s (replicate 64 0 @ rest) = (True, char_bytes s @ replicate (64 - length s) 0 @ rest)"
  using assms by (simp add: ParseHostName_def char_bytes_def)

section \<open>Properties\<close>

text \<open>C11: A binding that the server writes to the lease file is read back with the same hardware address,
  IP address, times, mode, state and device name, when the device name is terminated and has no
  blank, and the times are in order and not in the future; an associated binding gets its
  expiry time back.\<close>

theorem lease_line_round_trip:
  assumes wf: "binding_wf b" and wr: "WriteAddressBinding b 1024 = Some line"
    and times: "ab_bindingTime b = 0 \<or> ab_pendingTime b \<le> ab_bindingTime b"
      "ab_pendingTime b \<le> fst (Tmspsec g)"
    and name: "0 \<in> set (ab_deviceName b)" "no_blank (c_str (ab_deviceName b))"
    and ints: "ab_bindingMode b \<in> {-(2^31)..<2^31}" "ab_bindingStatus b \<in> {-(2^31)..<2^31}"
  shows "\<exists>b'. ParseAddressBinding zero_binding line g = (0, b', snd (Tmspsec g))
    \<and> ab_chaddr b' = take 6 (ab_chaddr b) @ replicate 10 0 \<and> ab_ipAddress b' = ab_ipAddress b
    \<and> ab_leaseTime b' = ab_leaseTime b \<and> ab_bindingTime b' = ab_bindingTime b
    \<and> ab_pendingTime b' = ab_pendingTime b \<and> ab_pendingInterval b' = ab_pendingInterval b
    \<and> ab_bindingMode b' = ab_bindingMode b \<and> ab_bindingStatus b' = ab_bindingStatus b
    \<and> c_str (ab_deviceName b') = c_str (ab_deviceName b)
    \<and> (ab_bindingStatus b = BIND_ASSOCIATED \<longrightarrow> ab_expireIn b' = ab_bindingTime b + ab_leaseTime b)
    \<and> binding_wf b'"
proof -
  let ?name = "c_str (ab_deviceName b)"
  have chaddr: "length (ab_chaddr b) = 16" and len: "length ?name < 64"
    using wf c_str_length [OF name(1)] by (auto simp: binding_wf_def)
  from SplitString_written [OF wr chaddr _ c_str_append [OF name(1)] name(2)] obtain mac where
    mac: "ParseStrMac (ab_chaddr b) 16 = Some mac" and split: "SplitString line '' '' =
      Some ([mac, ParseStrIp (ab_ipAddress b), dec_of_nat (unat (ab_leaseTime b)),
      dec_of_nat (unat (ab_bindingTime b)), dec_of_nat (unat (ab_pendingTime b)),
      dec_of_nat (unat (ab_pendingInterval b)), dec_of_int (ab_bindingMode b),
      dec_of_int (ab_bindingStatus b)] @ (if ?name = [] then [] else [?name]))"
    by auto
  obtain n where n: "64 - length ?name = Suc n" using len by (metis Suc_diff_Suc)
  have room: "snd (ParseHostName ?name (replicate 64 0 @ replicate 64 0 @ replicate 64 0))
      = char_bytes ?name @ replicate (64 - length ?name) 0 @ replicate 64 0 @ replicate 64 0"
    using ParseHostName_short [OF len, of "replicate 64 0 @ replicate 64 0"] by simp
  have named: "c_str (char_bytes ?name @ replicate (64 - length ?name) 0) = ?name"
    using c_str_stored [of "ab_deviceName b" n "[]"] n by simp
  show ?thesis
    using ints len times(1) leD [OF times(2)] ParseMacAddress_ParseStrMac [OF chaddr _ mac, of "replicate 16 0"]
    by (cases "?name = []")
      (simp_all add: ParseAddressBinding_def split_beta split Let_def zero_binding_def room named
        binding_wf_def not_less nth_append chaddr)
qed

definition sample_globals :: Globals where
  "sample_globals = \<lparr>g_bindingRecoders = [], g_releaseRemoveMode = 0, g_distributeMode = 0, g_lastTime = 0,
     g_sourceIpAddr = 0, g_destIpAddr = 0, g_dangling = False, g_clock = (\<lambda>n. (1700000000 + n, 250000)), g_ticks = 0\<rparr>"

definition sample_binding :: AddressBinding where
  "sample_binding = zero_binding\<lparr>ab_ipAddress := htonl 0xC0A80114,
     ab_chaddr := [0x0A, 0x1B, 0x2C, 0x3D, 0x4E, 0xFF] @ replicate 10 0, ab_bindingTime := 1699999000,
     ab_pendingTime := 1699998000, ab_leaseTime := 21600, ab_bindingStatus := BIND_ASSOCIATED,
     ab_bindingMode := BIND_MODE_DYNAMIC, ab_deviceName := char_bytes ''phone'' @ replicate 59 0\<rparr>"

theorem lease_line_round_trip_witness:
  "WriteAddressBinding sample_binding 1024 =
     Some ''0a:1b:2c:3d:4e:ff 192.168.1.20 21600 1699999000 1699998000 0 1 2 phone''
   \<and> (\<exists>b'. ParseAddressBinding zero_binding
        ''0a:1b:2c:3d:4e:ff 192.168.1.20 21600 1699999000 1699998000 0 1 2 phone'' sample_globals
          = (0, b', snd (Tmspsec sample_globals))
        \<and> ab_ipAddress b' = htonl 0xC0A80114 \<and> c_str (ab_deviceName b') = ''phone'')"
proof -
  have line: "WriteAddressBinding sample_binding 1024 =
     Some ''0a:1b:2c:3d:4e:ff 192.168.1.20 21600 1699999000 1699998000 0 1 2 phone''"
  proof -
    have "ParseStrMac (ab_chaddr sample_binding) 16 = Some ''0a:1b:2c:3d:4e:ff''"
      "ParseStrIp (ab_ipAddress sample_binding) = ''192.168.1.20''"
      "c_str (ab_deviceName sample_binding @ ab_userClass sample_binding @ ab_portalUrl sample_binding) = ''phone''"
      by code_simp+
    moreover have "dec_of_nat 21600 = ''21600''" "dec_of_nat 1699999000 = ''1699999000''"
      "dec_of_nat 1699998000 = ''1699998000''" "dec_of_nat 0 = ''0''" "dec_of_int 1 = ''1''" "dec_of_int 2 = ''2''"
      by (simp_all add: dec_of_nat.simps dec_of_int_def hex_digit_def)
    ultimately show ?thesis
      by (simp add: WriteAddressBinding_def) (simp add: sample_binding_def zero_binding_def)
  qed
  moreover have "binding_wf sample_binding"
    "ab_bindingTime sample_binding = 0 \<or> ab_pendingTime sample_binding \<le> ab_bindingTime sample_binding"
    "ab_pendingTime sample_binding \<le> fst (Tmspsec sample_globals)" "0 \<in> set (ab_deviceName sample_binding)"
    by (simp_all add: sample_binding_def zero_binding_def binding_wf_def Tmspsec_def sample_globals_def)
  moreover have "no_blank (c_str (ab_deviceName sample_binding))"
    by code_simp
  moreover have "ab_bindingMode sample_binding \<in> {-(2^31)..<2^31}" "ab_bindingStatus sample_binding \<in> {-(2^31)..<2^31}"
    "ab_ipAddress sample_binding = htonl 0xC0A80114"
    by (simp_all add: sample_binding_def)
  moreover have "c_str (ab_deviceName sample_binding) = ''phone''"
    by code_simp
  ultimately show ?thesis
    using lease_line_round_trip [of sample_binding _ sample_globals] by metis
qed

text \<open>A device name of 65 to 128 characters in the lease file runs over the array of 64 bytes into the
  array behind it.\<close>

theorem ParseHostName_overflows:
  assumes "64 < length s" "length s \<le> 128" "length room = 192"
  shows "\<exists>room'. ParseHostName s room = (True, room') \<and> take 64 room' = char_bytes (take 64 s)
    \<and> take (length s - 64) (drop 64 room') = char_bytes (drop 64 s)"
  using assms by (simp add: ParseHostName_def char_bytes_def take_map drop_map)

theorem ParseHostName_overflows_witness:
  "\<exists>room'. ParseHostName (replicate 70 (CHR ''x'')) (replicate 192 0) = (True, room')
    \<and> take 64 room' = replicate 64 120 \<and> take 6 (drop 64 room') = replicate 6 120"
  using ParseHostName_overflows [of "replicate 70 (CHR ''x'')" "replicate 192 0"]
  by (simp add: char_bytes_def)

end
