(* ===== verification/DhcpAddressPool.thy ===== *)
theory DhcpAddressPool
  imports DhcpBinding DhcpOptionList
begin

text \<open>
  \<^verbatim>\<open>services/dhcp_server/src/dhcp_address_pool.cpp\<close>: the pool of addresses with its lease table
  (\<^verbatim>\<open>leaseTable\<close>, leases by IP address), the bindings by the hash of the hardware address
  (\<^verbatim>\<open>g_bindingRecoders\<close>), the search for a free address and the lease file. A pointer to a
  lease or a binding is the key of its entry: writes through it are \<open>smap_modify\<close>. The three function
  pointers of the pool have one value each in the sources (\<^verbatim>\<open>AddressDistribute\<close>, \<^verbatim>\<open>QueryBinding\<close>, \<^verbatim>\<open>AddNewBinding\<close>),
  so the callers here call those functions. Operations take and return the pool and the globals; the
  mutexes are left out, each operation being one step. Null pools do not occur: the only pool is a
  member of the server context.
\<close>

section \<open>Data\<close>

record DhcpAddressPool =
  ap_ifname :: string
  ap_netmask :: u32
  ap_beginAddress :: u32
  ap_endAddress :: u32
  ap_serverId :: u32
  ap_gateway :: u32
  ap_leaseTime :: u32
  ap_renewalTime :: u32
  ap_rebindingTime :: u32
  ap_distribution :: u32
  ap_leaseTable :: "(u32, AddressBinding) smap"
  ap_fixedOptions :: option_list
  ap_initialized :: int

text \<open>The file system, as far as the lease and the configuration files need it: the content of the
  files that can be opened, the paths that \<^verbatim>\<open>realpath\<close> resolves and those that can be written.\<close>

record Files =
  fs_content :: "string \<Rightarrow> string option"
  fs_realpath :: "string \<Rightarrow> bool"
  fs_writable :: "string \<Rightarrow> bool"

section \<open>Bindings by hardware address\<close>

definition macAddrHash :: "bytes \<Rightarrow> u64" where
  "macAddrHash macAddr =
     foldl (\<lambda>hash b. (push_bit 5 hash + hash) XOR ucast b) 5381 (take DHCP_HWADDR_LENGTH macAddr)"

definition GetBindingByMac :: "bytes \<Rightarrow> Globals \<Rightarrow> AddressBinding option" where
  "GetBindingByMac macAddr g = map_of (g_bindingRecoders g) (macAddrHash macAddr)"

definition QueryBinding :: "bytes \<Rightarrow> option_list \<Rightarrow> Globals \<Rightarrow> AddressBinding option" where
  "QueryBinding macAddr cliOptins g = GetBindingByMac macAddr g"

definition AddNewBinding :: "bytes \<Rightarrow> option_list \<Rightarrow> Globals \<Rightarrow> AddressBinding option \<times> Globals" where
  "AddNewBinding macAddr cliOptins g =
     (let newBind = zero_binding\<lparr>ab_bindingMode := BIND_MODE_DYNAMIC, ab_bindingStatus := BIND_PENDING\<rparr>;
          (ok, chaddr) = memcpy_s DHCP_HWADDR_LENGTH (ab_chaddr newBind) macAddr DHCP_HWADDR_LENGTH
      in if \<not> ok then (None, g)
         else
           let newBind = newBind\<lparr>ab_chaddr := chaddr\<rparr>;
               (t, g) = Tmspsec g;
               newBind = newBind\<lparr>ab_bindingTime := t\<rparr>;
               (t, g) = Tmspsec g;
               newBind = newBind\<lparr>ab_pendingTime := t,
                 ab_expireIn := ab_bindingTime newBind + of_nat DHCP_LEASE_TIME,
                 ab_leaseTime := of_nat DHCP_LEASE_TIME\<rparr>;
               g = g\<lparr>g_bindingRecoders := smap_assign (macAddrHash macAddr) newBind (g_bindingRecoders g)\<rparr>
           in (GetBindingByMac macAddr g, g))"

definition IsReserved :: "bytes \<Rightarrow> Globals \<Rightarrow> bool" where
  "IsReserved macAddr g =
     (case map_of (g_bindingRecoders g) (macAddrHash macAddr) of
        None \<Rightarrow> False
      | Some binding \<Rightarrow> ab_bindingMode binding = BIND_MODE_RESERVED)"

definition AddBinding :: "AddressBinding \<Rightarrow> Globals \<Rightarrow> int \<times> Globals" where
  "AddBinding binding g =
     (if IsEmptyHWAddr (ab_chaddr binding) then (RET_ERROR, g)
      else if ab_ipAddress binding = 0 then (RET_ERROR, g)
      else if map_of (g_bindingRecoders g) (macAddrHash (ab_chaddr binding)) \<noteq> None then (RET_FAILED, g)
      else (RET_SUCCESS, g\<lparr>g_bindingRecoders :=
              smap_assign (macAddrHash (ab_chaddr binding)) binding (g_bindingRecoders g)\<rparr>))"

definition AddReservedBinding :: "bytes \<Rightarrow> Globals \<Rightarrow> int \<times> Globals" where
  "AddReservedBinding macAddr g =
     (case GetBindingByMac macAddr g of
        Some _ \<Rightarrow> (RET_SUCCESS, g\<lparr>g_bindingRecoders := smap_modify (macAddrHash macAddr)
           (\<lambda>b. b\<lparr>ab_bindingMode := BIND_MODE_RESERVED\<rparr>) (g_bindingRecoders g)\<rparr>)
      | None \<Rightarrow>
        let (t, g) = Tmspsec g;
            bind = zero_binding\<lparr>ab_bindingMode := BIND_MODE_RESERVED, ab_bindingTime := t, ab_pendingTime := t\<rparr>
        in (RET_SUCCESS, g\<lparr>g_bindingRecoders := smap_assign (macAddrHash macAddr) bind (g_bindingRecoders g)\<rparr>))"

definition RemoveBinding :: "bytes \<Rightarrow> Globals \<Rightarrow> int \<times> Globals" where
  "RemoveBinding macAddr g =
     (if map_of (g_bindingRecoders g) (macAddrHash macAddr) \<noteq> None
      then (RET_SUCCESS, g\<lparr>g_bindingRecoders := smap_erase (macAddrHash macAddr) (g_bindingRecoders g)\<rparr>)
      else (RET_FAILED, g))"

definition RemoveReservedBinding :: "bytes \<Rightarrow> Globals \<Rightarrow> int \<times> Globals" where
  "RemoveReservedBinding macAddr g =
     (case map_of (g_bindingRecoders g) (macAddrHash macAddr) of
        None \<Rightarrow> (RET_FAILED, g)
      | Some binding \<Rightarrow>
        if ab_bindingMode binding = BIND_MODE_RESERVED
        then (RET_SUCCESS, g\<lparr>g_bindingRecoders := smap_erase (macAddrHash macAddr) (g_bindingRecoders g)\<rparr>)
        else (RET_FAILED, g))"

definition ReleaseBinding :: "bytes \<Rightarrow> Globals \<Rightarrow> int \<times> Globals" where
  "ReleaseBinding macAddr g =
     (if map_of (g_bindingRecoders g) (macAddrHash macAddr) \<noteq> None
      then if g_releaseRemoveMode g \<noteq> 0
           then (RET_SUCCESS, g\<lparr>g_bindingRecoders := smap_erase (macAddrHash macAddr) (g_bindingRecoders g)\<rparr>)
           else (RET_SUCCESS, g\<lparr>g_bindingRecoders := smap_modify (macAddrHash macAddr)
                   (\<lambda>b. b\<lparr>ab_bindingStatus := BIND_RELEASED\<rparr>) (g_bindingRecoders g)\<rparr>)
      else (RET_FAILED, g))"

definition SetDistributeMode :: "int \<Rightarrow> Globals \<Rightarrow> Globals" where
  "SetDistributeMode mode g = g\<lparr>g_distributeMode := mode\<rparr>"

definition GetDistributeMode :: "Globals \<Rightarrow> int" where
  "GetDistributeMode g = g_distributeMode g"

section \<open>Leases by address\<close>

definition IsReservedIp :: "DhcpAddressPool \<Rightarrow> u32 \<Rightarrow> bool" where
  "IsReservedIp pool ipAddress =
     (if ipAddress = 0 then False
      else case map_of (ap_leaseTable pool) ipAddress of
             None \<Rightarrow> False
           | Some lease \<Rightarrow> ab_bindingMode lease = BIND_MODE_RESERVED)"

definition put_lease :: "AddressBinding \<Rightarrow> DhcpAddressPool \<Rightarrow> DhcpAddressPool" where
  "put_lease lease pool =
     pool\<lparr>ap_leaseTable := smap_assign (ab_ipAddress lease) lease (ap_leaseTable pool)\<rparr>"

definition AddLease :: "DhcpAddressPool \<Rightarrow> AddressBinding \<Rightarrow> int \<times> DhcpAddressPool" where
  "AddLease pool lease =
     (if ab_ipAddress lease = 0 \<or> IsEmptyHWAddr (ab_chaddr lease) then (RET_ERROR, pool)
      else (RET_SUCCESS, put_lease lease pool))"

definition GetLease :: "DhcpAddressPool \<Rightarrow> u32 \<Rightarrow> AddressBinding option" where
  "GetLease pool ipAddress =
     (if ipAddress = 0 then None else map_of (ap_leaseTable pool) ipAddress)"

text \<open>A write through the pointer that \<^verbatim>\<open>GetLease\<close> returned for the address.\<close>

definition modify_lease :: "u32 \<Rightarrow> (AddressBinding \<Rightarrow> AddressBinding) \<Rightarrow> DhcpAddressPool \<Rightarrow> DhcpAddressPool" where
  "modify_lease ip f pool = pool\<lparr>ap_leaseTable := smap_modify ip f (ap_leaseTable pool)\<rparr>"

definition UpdateLease :: "DhcpAddressPool \<Rightarrow> AddressBinding \<Rightarrow> int \<times> DhcpAddressPool" where
  "UpdateLease pool lease =
     (if ab_ipAddress lease = 0 \<or> IsEmptyHWAddr (ab_chaddr lease) then (RET_ERROR, pool)
      else if map_of (ap_leaseTable pool) (ab_ipAddress lease) \<noteq> None
      then (RET_SUCCESS, put_lease lease pool)
      else (RET_FAILED, pool))"

definition RemoveLease :: "DhcpAddressPool \<Rightarrow> AddressBinding \<Rightarrow> int \<times> DhcpAddressPool" where
  "RemoveLease pool lease =
     (if ab_ipAddress lease = 0 \<or> IsEmptyHWAddr (ab_chaddr lease) then (RET_ERROR, pool)
      else if map_of (ap_leaseTable pool) (ab_ipAddress lease) \<noteq> None
      then (RET_SUCCESS, pool\<lparr>ap_leaseTable := smap_erase (ab_ipAddress lease) (ap_leaseTable pool)\<rparr>)
      else (RET_FAILED, pool))"

definition DeleteMacInLease :: "DhcpAddressPool \<Rightarrow> AddressBinding \<Rightarrow> int \<times> DhcpAddressPool" where
  "DeleteMacInLease pool lease =
     (RET_SUCCESS, pool\<lparr>ap_leaseTable :=
        filter (\<lambda>(ip, binding). \<not> AddrEquels (ab_chaddr binding) (ab_chaddr lease) MAC_ADDR_LENGTH)
          (ap_leaseTable pool)\<rparr>)"

section \<open>The search for an address\<close>

definition CheckIpAvailability ::
    "DhcpAddressPool \<Rightarrow> bytes \<Rightarrow> u32 \<Rightarrow> Globals \<Rightarrow> bool \<times> DhcpAddressPool \<times> Globals" where
  "CheckIpAvailability pool macAddr distIp g =
     (if IsReserved macAddr g then (False, pool, g)
      else case GetLease pool distIp of
        None \<Rightarrow> (True, pool, g)
      | Some lease \<Rightarrow>
        let same = AddrEquels (ab_chaddr lease) macAddr MAC_ADDR_LENGTH in
        if distIp = ap_serverId pool \<or> distIp = ap_gateway pool then (False, pool, g)
        else if ab_bindingMode lease = BIND_MODE_STATIC \<and> \<not> same then (False, pool, g)
        else if IsReservedIp pool distIp \<and> \<not> same then (False, pool, g)
        else if same then
          let (t, g) = Tmspsec g
          in (True, modify_lease distIp (\<lambda>l. l\<lparr>ab_pendingTime := t, ab_bindingTime := t\<rparr>) pool, g)
        else
          let (expired, lease, g) = IsExpire lease g;
              pool = modify_lease distIp (\<lambda>_. lease) pool
          in if expired then
               let (t, g) = Tmspsec g;
                   lease = lease\<lparr>ab_pendingTime := t, ab_bindingTime := t\<rparr>;
                   (_, g) = RemoveBinding (ab_chaddr lease) g;
                   (_, chaddr) = memcpy_s DHCP_HWADDR_LENGTH (ab_chaddr lease) macAddr MAC_ADDR_LENGTH;
                   lease = lease\<lparr>ab_chaddr := chaddr\<rparr>
               in (True, modify_lease distIp (\<lambda>_. lease) pool, g)
             else (False, pool, g))"

definition CheckRangeAvailability ::
    "DhcpAddressPool \<Rightarrow> bytes \<Rightarrow> u32 \<Rightarrow> bool \<Rightarrow> Globals \<Rightarrow> int \<times> bool \<times> DhcpAddressPool \<times> Globals" where
  "CheckRangeAvailability pool macAddr distIp outOfRange g =
     (if ap_beginAddress pool = 0 \<or> ap_endAddress pool = 0 then (RET_ERROR, outOfRange, pool, g)
      else if ap_netmask pool = 0 \<or> IsEmptyHWAddr macAddr then (RET_ERROR, outOfRange, pool, g)
      else if IpInRange distIp (ap_beginAddress pool) (ap_endAddress pool) (ap_netmask pool) then
        let (t, g) = Tmspsec g;
            lease = zero_binding\<lparr>ab_pendingTime := t, ab_bindingMode := BIND_PENDING, ab_ipAddress := distIp,
              ab_bindingTime := t, ab_leaseTime := ucast (ap_leaseTime pool)\<rparr>;
            (ok, chaddr) = memcpy_s DHCP_HWADDR_LENGTH (ab_chaddr lease) macAddr MAC_ADDR_LENGTH
        in if \<not> ok then (RET_ERROR, outOfRange, pool, g)
           else
             let (ret, pool) = AddLease pool (lease\<lparr>ab_chaddr := chaddr\<rparr>)
             in if ret \<noteq> RET_SUCCESS then (RET_ERROR, outOfRange, pool, g)
                else (RET_SUCCESS, outOfRange, pool, g)
      else (RET_FAILED, True, pool, g))"

definition NextIpOffset :: "u32 \<Rightarrow> Globals \<Rightarrow> u32 \<times> Globals" where
  "NextIpOffset netmask g =
     (if g_distributeMode g \<noteq> 0 \<and> netmask \<noteq> 0 then
        let tot = HostTotal netmask in
        if tot \<noteq> 0 then let (t, g) = Tmspusec g in (ucast (t mod ucast tot), g)
        else (0, g)
      else (0, g))"

text \<open>The loop: the iterations left, the counter \<open>i\<close>, the address tried last and the out-of-range mark. The
  result has the success flag and the address.\<close>

fun AddressDistribute_loop ::
    "nat \<Rightarrow> nat \<Rightarrow> u32 \<Rightarrow> bool \<Rightarrow> bytes \<Rightarrow> DhcpAddressPool \<Rightarrow> Globals \<Rightarrow> bool \<times> u32 \<times> DhcpAddressPool \<times> Globals" where
  "AddressDistribute_loop 0 i distIp outOfRange macAddr pool g = (False, distIp, pool, g)"
| "AddressDistribute_loop (Suc n) i distIp outOfRange macAddr pool g =
     (let (offset, g) = (if i = 0 then NextIpOffset (ap_netmask pool) g else (0, g));
          distIp = NextIpAddress distIp (ap_netmask pool) offset;
          (avail, pool, g) = CheckIpAvailability pool macAddr distIp g
      in if \<not> avail then AddressDistribute_loop n (i + 1) distIp outOfRange macAddr pool g
         else
           let (ret, outOfRange, pool, g) = CheckRangeAvailability pool macAddr distIp outOfRange g
           in if ret = RET_ERROR then (False, distIp, pool, g)
              else if ret = RET_SUCCESS then (True, distIp, pool, g)
              else AddressDistribute_loop n (i + 1) distIp outOfRange macAddr pool g)"

definition AddressDistribute ::
    "DhcpAddressPool \<Rightarrow> bytes \<Rightarrow> Globals \<Rightarrow> u32 \<times> DhcpAddressPool \<times> Globals" where
  "AddressDistribute pool macAddr g =
     (if ap_beginAddress pool = 0 \<or> ap_endAddress pool = 0 then (0, pool, g)
      else if ap_netmask pool = 0 \<or> IsEmptyHWAddr macAddr then (0, pool, g)
      else
        let pool = (if ap_distribution pool = 0 then pool\<lparr>ap_distribution := ap_beginAddress pool\<rparr> else pool);
            tot = HostTotal (ap_netmask pool);
            distIp = ap_distribution pool;
            distIp = (if distIp = 0 \<or> distIp < ap_beginAddress pool then ap_beginAddress pool else distIp);
            (distSucess, distIp, pool, g) = AddressDistribute_loop (unat tot) 0 distIp False macAddr pool g
        in if \<not> distSucess \<or> distIp = 0 then (0, pool, g)
           else (distIp, pool\<lparr>ap_distribution := distIp\<rparr>, g))"

section \<open>Set-up and the lease file\<close>

text \<open>\<^verbatim>\<open>InitAddressPool\<close> clears the whole pool, which also empties the lease table, and the bindings. The first
  branch is the failure of \<^verbatim>\<open>strncpy_s\<close> for a name that does not fit.\<close>

definition zero_pool :: DhcpAddressPool where
  "zero_pool = \<lparr>ap_ifname = [], ap_netmask = 0, ap_beginAddress = 0, ap_endAddress = 0, ap_serverId = 0,
     ap_gateway = 0, ap_leaseTime = 0, ap_renewalTime = 0, ap_rebindingTime = 0, ap_distribution = 0,
     ap_leaseTable = [], ap_fixedOptions = None, ap_initialized = 0\<rparr>"

definition InitAddressPool :: "string \<Rightarrow> Globals \<Rightarrow> int \<times> DhcpAddressPool \<times> Globals" where
  "InitAddressPool ifname g =
     (let pool = zero_pool in
      if length ifname \<ge> 50 then (RET_ERROR, pool, g)
      else
        let pool = pool\<lparr>ap_ifname := ifname, ap_fixedOptions := Some []\<rparr>;
            g = g\<lparr>g_bindingRecoders := []\<rparr>
        in (RET_SUCCESS, pool\<lparr>ap_leaseTable := []\<rparr>, g))"

definition FreeAddressPool :: "DhcpAddressPool \<Rightarrow> DhcpAddressPool" where
  "FreeAddressPool pool = pool\<lparr>ap_leaseTable := [], ap_fixedOptions := None\<rparr>"

definition lease_file :: "DhcpAddressPool \<Rightarrow> string" where
  "lease_file pool = ''/data/service/el1/public/dhcp/dhcpd_lease.lease'' @ ''.'' @ ap_ifname pool"

definition IsValidPath :: "Files \<Rightarrow> string \<Rightarrow> bool" where
  "IsValidPath fs filePath =
     (if filePath = [] then False
      else let name = takeWhile (\<lambda>c. c \<noteq> CHR ''/'') (rev filePath)
           in if length name = length filePath \<or> name = [] then False
              else fs_realpath fs (take (length filePath - length name - 1) filePath))"

fun LoadBindingRecoders_loop :: "string list \<Rightarrow> DhcpAddressPool \<Rightarrow> Globals \<Rightarrow> DhcpAddressPool \<times> Globals" where
  "LoadBindingRecoders_loop [] pool g = (pool, g)"
| "LoadBindingRecoders_loop (line # ls) pool g =
     (let line = TrimString line in
      if line = [] then LoadBindingRecoders_loop ls pool g
      else
        let (ret, bind, g) = ParseAddressBinding zero_binding line g in
        if ret \<noteq> 0 then LoadBindingRecoders_loop ls pool g
        else if IpInRange (ab_ipAddress bind) (ap_beginAddress pool) (ap_endAddress pool) (ap_netmask pool)
        then LoadBindingRecoders_loop ls (put_lease bind pool) g
        else LoadBindingRecoders_loop ls pool g)"

definition LoadBindingRecoders :: "Files \<Rightarrow> DhcpAddressPool \<Rightarrow> Globals \<Rightarrow> int \<times> DhcpAddressPool \<times> Globals" where
  "LoadBindingRecoders fs pool g =
     (let filePath = lease_file pool in
      if length filePath > 255 then (RET_FAILED, pool, g)
      else if \<not> IsValidPath fs filePath then (RET_FAILED, pool, g)
      else case fs_content fs filePath of
        None \<Rightarrow> (RET_FAILED, pool, g)
      | Some content \<Rightarrow>
        let (pool, g) = LoadBindingRecoders_loop (fgets_lines 1024 content) pool g
        in (RET_SUCCESS, pool, g))"

definition lease_lines :: "DhcpAddressPool \<Rightarrow> string" where
  "lease_lines pool = concat (map (\<lambda>(ip, binding).
     case WriteAddressBinding binding 1024 of None \<Rightarrow> [] | Some line \<Rightarrow> line @ [CHR 0x0A]) (ap_leaseTable pool))"

definition SaveBindingRecoders :: "Files \<Rightarrow> DhcpAddressPool \<Rightarrow> int \<Rightarrow> Globals \<Rightarrow> int \<times> Files \<times> Globals" where
  "SaveBindingRecoders fs pool force g =
     (let (currTime, g) = Tmspsec g in
      if force = 0 \<and> currTime < g_lastTime g + 120 then (RET_WAIT_SAVE, fs, g)
      else
        let filePath = lease_file pool in
        if length filePath > 255 then (RET_FAILED, fs, g)
        else if \<not> IsValidPath fs filePath then (RET_FAILED, fs, g)
        else if \<not> fs_writable fs filePath then (RET_FAILED, fs, g)
        else (RET_SUCCESS, fs\<lparr>fs_content := (fs_content fs)(filePath \<mapsto> lease_lines pool)\<rparr>,
              g\<lparr>g_lastTime := currTime\<rparr>))"

section \<open>Lemmas on the tables\<close>

lemma pool_lease_simps [simp]:
  "ap_leaseTable (put_lease l pool) = smap_assign (ab_ipAddress l) l (ap_leaseTable pool)"
  "ap_leaseTable (modify_lease ip f pool) = smap_modify ip f (ap_leaseTable pool)"
  by (simp_all add: put_lease_def modify_lease_def)

text \<open>The lease table as a keyed store of leases.\<close>

interpretation lease_store: keyed_store "\<lambda>pool. map_of (ap_leaseTable pool)"
  "\<lambda>ip l pool. pool\<lparr>ap_leaseTable := smap_assign ip l (ap_leaseTable pool)\<rparr>"
  "\<lambda>ip pool. pool\<lparr>ap_leaseTable := smap_erase ip (ap_leaseTable pool)\<rparr>" modify_lease
  by unfold_locales simp_all

interpretation binding_store: keyed_store "\<lambda>g. map_of (g_bindingRecoders g)"
  "\<lambda>h b g. g\<lparr>g_bindingRecoders := smap_assign h b (g_bindingRecoders g)\<rparr>"
  "\<lambda>h g. g\<lparr>g_bindingRecoders := smap_erase h (g_bindingRecoders g)\<rparr>"
  "\<lambda>h f g. g\<lparr>g_bindingRecoders := smap_modify h f (g_bindingRecoders g)\<rparr>"
  by unfold_locales simp_all

text \<open>What the address search keeps of the globals: the clock and the modes; bindings are only removed.\<close>

definition globals_le :: "Globals \<Rightarrow> Globals \<Rightarrow> bool" where
  "globals_le g g' \<longleftrightarrow> g_clock g' = g_clock g \<and> g_ticks g \<le> g_ticks g'
     \<and> g_distributeMode g' = g_distributeMode g \<and> g_dangling g' = g_dangling g
     \<and> (\<forall>h b. map_of (g_bindingRecoders g') h = Some b \<longrightarrow> map_of (g_bindingRecoders g) h = Some b)"

lemma globals_le_refl [simp]: "globals_le g g"
  by (simp add: globals_le_def)

lemma globals_le_trans: "globals_le g g' \<Longrightarrow> globals_le g' g'' \<Longrightarrow> globals_le g g''"
  by (auto simp: globals_le_def)

lemma globals_le_Tmspsec [simp]: "globals_le g (snd (Tmspsec g))"
  by (simp add: globals_le_def Tmspsec_def)

lemma globals_le_RemoveBinding [simp]: "globals_le g (snd (RemoveBinding mac g))"
  by (auto simp: globals_le_def RemoveBinding_def split: if_splits)

lemma globals_le_NextIpOffset: "NextIpOffset m g = (off, g') \<Longrightarrow> globals_le g g'"
  by (auto simp: NextIpOffset_def Let_def Tmspusec_def globals_le_def split: if_splits)

lemma globals_le_not_reserved: "globals_le g g' \<Longrightarrow> \<not> IsReserved mac g \<Longrightarrow> \<not> IsReserved mac g'"
  by (auto simp: globals_le_def IsReserved_def split: option.splits)

text \<open>An address that the client may take, seen at one of the clock readings in a window: it has no lease, or
  the client's own, or one that is neither static nor reserved and has expired.\<close>

definition takeable :: "DhcpAddressPool \<Rightarrow> bytes \<Rightarrow> u32 \<Rightarrow> (nat \<Rightarrow> nat \<times> nat) \<Rightarrow> nat \<Rightarrow> nat \<Rightarrow> bool" where
  "takeable pool mac ip clk lo hi \<longleftrightarrow>
     (case GetLease pool ip of
        None \<Rightarrow> True
      | Some l \<Rightarrow> ip \<noteq> ap_serverId pool \<and> ip \<noteq> ap_gateway pool
          \<and> (AddrEquels (ab_chaddr l) mac MAC_ADDR_LENGTH
             \<or> ab_bindingMode l \<noteq> BIND_MODE_STATIC \<and> ab_bindingMode l \<noteq> BIND_MODE_RESERVED
               \<and> (\<exists>t. lo \<le> t \<and> t < hi \<and> of_nat (fst (clk t)) > expiry l)))"

lemma takeable_window:
  "takeable pool mac ip clk lo hi \<Longrightarrow> lo' \<le> lo \<Longrightarrow> hi \<le> hi' \<Longrightarrow> takeable pool mac ip clk lo' hi'"
  unfolding takeable_def by (cases "GetLease pool ip") (auto, meson le_trans less_le_trans)

lemma CheckIpAvailability_frame:
  assumes "CheckIpAvailability pool mac ip g = (avail, pool', g')"
  obtains tbl where "pool' = pool\<lparr>ap_leaseTable := tbl\<rparr>"
    "\<And>a. a \<noteq> ip \<Longrightarrow> map_of tbl a = map_of (ap_leaseTable pool) a"
    "\<not> avail \<or> ip = 0 \<Longrightarrow> map_of tbl = map_of (ap_leaseTable pool)"
    "globals_le g g'"
proof (cases "IsReserved mac g \<or> GetLease pool ip = None")
  case True
  with assms have "pool' = pool" "g' = g"
    by (auto simp: CheckIpAvailability_def split: if_splits)
  then show ?thesis by (intro that [of "ap_leaseTable pool"]) auto
next
  case False
  then obtain l where l: "GetLease pool ip = Some l" "\<not> IsReserved mac g" by auto
  then have ip: "ip \<noteq> 0" "map_of (ap_leaseTable pool) ip = Some l"
    by (auto simp: GetLease_def split: if_splits)
  have same: "modify_lease ip (\<lambda>_. l) pool = pool\<lparr>ap_leaseTable := smap_modify ip (\<lambda>_. l) (ap_leaseTable pool)\<rparr>"
    "map_of (smap_modify ip (\<lambda>_. l) (ap_leaseTable pool)) = map_of (ap_leaseTable pool)"
    using ip by (auto simp: modify_lease_def)
  have pool: "pool = pool\<lparr>ap_leaseTable := ap_leaseTable pool\<rparr>" by simp
  let ?same = "AddrEquels (ab_chaddr l) mac MAC_ADDR_LENGTH"
  consider "ip = ap_serverId pool \<or> ip = ap_gateway pool
      \<or> ab_bindingMode l = BIND_MODE_STATIC \<and> \<not> ?same \<or> IsReservedIp pool ip \<and> \<not> ?same"
    | "\<not> (ip = ap_serverId pool \<or> ip = ap_gateway pool
      \<or> ab_bindingMode l = BIND_MODE_STATIC \<and> \<not> ?same \<or> IsReservedIp pool ip \<and> \<not> ?same)" "?same"
    | "\<not> (ip = ap_serverId pool \<or> ip = ap_gateway pool
      \<or> ab_bindingMode l = BIND_MODE_STATIC \<and> \<not> ?same \<or> IsReservedIp pool ip \<and> \<not> ?same)" "\<not> ?same"
    by blast
  then show ?thesis
  proof cases
    case 1
    with assms l have "pool' = pool" "g' = g"
      by (auto simp: CheckIpAvailability_def split: if_splits)
    then show ?thesis by (intro that [of "ap_leaseTable pool"]) auto
  next
    case 2
    with assms l have "avail" "g' = snd (Tmspsec g)"
      "pool' = modify_lease ip (\<lambda>l. l\<lparr>ab_pendingTime := fst (Tmspsec g), ab_bindingTime := fst (Tmspsec g)\<rparr>) pool"
      by (auto simp: CheckIpAvailability_def split_beta Let_def)
    with ip show ?thesis
      by (intro that [of "ap_leaseTable pool'"]) (auto simp: modify_lease_def)
  next
    case 3
    show ?thesis
    proof (cases "fst (IsExpire l g)")
      case True
      obtain lease where "avail" "pool' = modify_lease ip (\<lambda>_. lease)
          (modify_lease ip (\<lambda>_. fst (snd (IsExpire l g))) pool)"
        "g' = snd (RemoveBinding (ab_chaddr l) (snd (Tmspsec (snd (snd (IsExpire l g))))))"
        using assms l 3 True by (auto simp: CheckIpAvailability_def split_beta Let_def IsExpire_simps)
      moreover have "globals_le g g'"
        unfolding calculation(3) IsExpire_simps
        by (meson globals_le_RemoveBinding globals_le_Tmspsec globals_le_trans)
      ultimately show ?thesis
        using ip by (intro that [of "ap_leaseTable pool'"]) (auto simp: modify_lease_def)
    next
      case False
      with assms l 3 have "\<not> avail" "pool' = modify_lease ip (\<lambda>_. l) pool" "g' = snd (Tmspsec g)"
        by (auto simp: CheckIpAvailability_def split_beta Let_def IsExpire_simps)
      with same show ?thesis by (intro that [of "ap_leaseTable pool'"]) auto
    qed
  qed
qed

lemma CheckIpAvailability_takeable:
  assumes "CheckIpAvailability pool mac ip g = (True, pool', g')"
  shows "takeable pool mac ip (g_clock g) (g_ticks g) (Suc (g_ticks g))"
proof (cases "GetLease pool ip")
  case (Some l)
  then have ip: "ip \<noteq> 0" "map_of (ap_leaseTable pool) ip = Some l"
    by (auto simp: GetLease_def split: if_splits)
  let ?same = "AddrEquels (ab_chaddr l) mac MAC_ADDR_LENGTH"
  have "\<not> (ip = ap_serverId pool \<or> ip = ap_gateway pool
      \<or> ab_bindingMode l = BIND_MODE_STATIC \<and> \<not> ?same \<or> IsReservedIp pool ip \<and> \<not> ?same)"
    "?same \<or> fst (IsExpire l g)"
    using assms Some by (auto simp: CheckIpAvailability_def Let_def split_beta split: if_splits)
  then show ?thesis
    using Some ip by (auto simp: takeable_def IsReservedIp_def IsExpire_simps Tmspsec_def intro: exI [of _ "g_ticks g"])
qed (simp add: takeable_def)

lemma CheckIpAvailability_free:
  "GetLease pool ip = None \<Longrightarrow> \<not> IsReserved mac g \<Longrightarrow> CheckIpAvailability pool mac ip g = (True, pool, g)"
  by (simp add: CheckIpAvailability_def)

definition in_range :: "DhcpAddressPool \<Rightarrow> u32 \<Rightarrow> bool" where
  "in_range pool ip = IpInRange ip (ap_beginAddress pool) (ap_endAddress pool) (ap_netmask pool)"

lemma in_range_update [simp]: "in_range (pool\<lparr>ap_leaseTable := tbl\<rparr>) = in_range pool"
  "in_range (pool\<lparr>ap_distribution := d\<rparr>) = in_range pool"
  by (simp_all add: in_range_def fun_eq_iff)

text \<open>The lease that the search enters for a client.\<close>

definition new_lease :: "DhcpAddressPool \<Rightarrow> bytes \<Rightarrow> u32 \<Rightarrow> u64 \<Rightarrow> AddressBinding" where
  "new_lease pool mac ip t = zero_binding\<lparr>ab_ipAddress := ip, ab_chaddr := take 6 mac @ replicate 10 0,
     ab_bindingTime := t, ab_pendingTime := t, ab_leaseTime := ucast (ap_leaseTime pool),
     ab_bindingMode := BIND_PENDING\<rparr>"

lemma CheckRangeAvailability_cases:
  assumes "CheckRangeAvailability pool mac ip oor g = (ret, oor', pool', g')"
    and mac: "length mac = 16" "\<not> IsEmptyHWAddr mac"
  obtains (ok) "ret = RET_SUCCESS" "in_range pool ip" "ip \<noteq> 0"
      "pool' = put_lease (new_lease pool mac ip (fst (Tmspsec g))) pool" "g' = snd (Tmspsec g)"
    | (outside) "ret = RET_FAILED" "\<not> in_range pool ip" "pool' = pool" "g' = g"
    | (broken) "ret = RET_ERROR" "pool' = pool" "globals_le g g'"
      "ip = 0 \<or> ap_beginAddress pool = 0 \<or> ap_endAddress pool = 0 \<or> ap_netmask pool = 0"
proof (cases "ap_beginAddress pool = 0 \<or> ap_endAddress pool = 0 \<or> ap_netmask pool = 0")
  case True
  with assms(1) show ?thesis
    by (intro broken) (auto simp: CheckRangeAvailability_def split: if_splits)
next
  case False
  have empty: "\<not> IsEmptyHWAddr (take 6 mac @ replicate 10 0)"
    using mac by (simp add: IsEmptyHWAddr_take)
  show ?thesis
  proof (cases "in_range pool ip")
    case True
    have "CheckRangeAvailability pool mac ip oor g =
      (if ip = 0 then (RET_ERROR, oor, pool, snd (Tmspsec g))
       else (RET_SUCCESS, oor, put_lease (new_lease pool mac ip (fst (Tmspsec g))) pool, snd (Tmspsec g)))"
      using False True mac empty
      by (simp add: CheckRangeAvailability_def Let_def split_beta AddLease_def zero_binding_def new_lease_def in_range_def)
    with assms(1) have res: "(ret, oor', pool', g') = (if ip = 0 then (RET_ERROR, oor, pool, snd (Tmspsec g))
       else (RET_SUCCESS, oor, put_lease (new_lease pool mac ip (fst (Tmspsec g))) pool, snd (Tmspsec g)))"
      by simp
    show ?thesis
    proof (cases "ip = 0")
      case True
      with res show ?thesis by (intro broken) auto
    next
      case ip: False
      with res True show ?thesis by (intro ok) auto
    qed
  next
    case out: False
    with False assms(1) mac(2) show ?thesis
      by (intro outside) (auto simp: CheckRangeAvailability_def in_range_def)
  qed
qed

text \<open>The state that the loop has reached: only leases outside the range may differ from those it
  started with.\<close>

definition same_leases :: "DhcpAddressPool \<Rightarrow> DhcpAddressPool \<Rightarrow> bool" where
  "same_leases pool pool' \<longleftrightarrow> (\<exists>tbl. pool' = pool\<lparr>ap_leaseTable := tbl\<rparr>
     \<and> (\<forall>a. in_range pool a \<longrightarrow> map_of tbl a = map_of (ap_leaseTable pool) a))"

lemma same_leases_refl [simp]: "same_leases pool pool"
  unfolding same_leases_def by (intro exI [of _ "ap_leaseTable pool"]) simp

lemma same_leases_trans: "same_leases p q \<Longrightarrow> same_leases q r \<Longrightarrow> same_leases p r"
  unfolding same_leases_def by (auto intro!: exI [of _ "ap_leaseTable r"])

lemma same_leases_config:
  "same_leases p q \<Longrightarrow> ap_beginAddress q = ap_beginAddress p \<and> ap_endAddress q = ap_endAddress p
    \<and> ap_netmask q = ap_netmask p \<and> ap_leaseTime q = ap_leaseTime p \<and> ap_serverId q = ap_serverId p
    \<and> ap_gateway q = ap_gateway p \<and> ap_distribution q = ap_distribution p"
  by (auto simp: same_leases_def)

lemma same_leases_GetLease: "same_leases p q \<Longrightarrow> in_range p a \<Longrightarrow> GetLease q a = GetLease p a"
  by (auto simp: same_leases_def GetLease_def)

lemma same_leases_takeable:
  "same_leases p q \<Longrightarrow> in_range p a \<Longrightarrow> takeable q mac a clk lo hi \<longleftrightarrow> takeable p mac a clk lo hi"
  using same_leases_config [of p q] same_leases_GetLease [of p q a]
  by (simp add: takeable_def split: option.split)

text \<open>The client has got the address: it lies in the range, was takeable during the search, is now leased to
  the client, and no other lease of the range has changed.\<close>

definition distributed :: "DhcpAddressPool \<Rightarrow> bytes \<Rightarrow> u32 \<Rightarrow> Globals \<Rightarrow> DhcpAddressPool \<Rightarrow> Globals \<Rightarrow> bool" where
  "distributed pool mac ip g pool' g' \<longleftrightarrow> in_range pool ip \<and> ip \<noteq> 0
     \<and> takeable pool mac ip (g_clock g) (g_ticks g) (g_ticks g')
     \<and> (\<exists>t. map_of (ap_leaseTable pool') ip = Some (new_lease pool mac ip t))
     \<and> (\<forall>a. in_range pool a \<longrightarrow> a \<noteq> ip \<longrightarrow> map_of (ap_leaseTable pool') a = map_of (ap_leaseTable pool) a)"

lemma distributed_later:
  assumes "same_leases p q" "globals_le g h" "distributed q mac ip h r h'"
  shows "distributed p mac ip g r h'"
proof -
  have "in_range q = in_range p" "new_lease q mac ip = new_lease p mac ip"
    using same_leases_config [OF assms(1)] by (auto simp: fun_eq_iff new_lease_def in_range_def)
  moreover have "takeable p mac ip (g_clock g) (g_ticks g) (g_ticks h')"
  proof -
    have "in_range p ip" "takeable q mac ip (g_clock h) (g_ticks h) (g_ticks h')"
      using assms(3) calculation(1) by (auto simp: distributed_def)
    then have "takeable p mac ip (g_clock g) (g_ticks h) (g_ticks h')" "g_ticks g \<le> g_ticks h"
      using same_leases_takeable [OF assms(1)] assms(2) by (auto simp: globals_le_def)
    then show ?thesis by (auto intro: takeable_window)
  qed
  ultimately show ?thesis
    using assms(1,3) by (auto simp: distributed_def same_leases_def)
qed

text \<open>One iteration.\<close>

lemma AddressDistribute_step:
  assumes chk: "CheckIpAvailability pool mac ip g = (avail, pool1, g1)"
    and rng: "CheckRangeAvailability pool1 mac ip oor g1 = (ret, oor', pool2, g2)"
    and mac: "length mac = 16" "\<not> IsEmptyHWAddr mac"
  shows "globals_le g g1" "globals_le g g2" "\<not> avail \<Longrightarrow> same_leases pool pool1"
    "avail \<Longrightarrow> ret = RET_SUCCESS \<Longrightarrow> distributed pool mac ip g pool2 g2"
    "ret \<noteq> RET_SUCCESS \<Longrightarrow> ap_beginAddress pool \<noteq> 0 \<Longrightarrow> ap_endAddress pool \<noteq> 0 \<Longrightarrow> ap_netmask pool \<noteq> 0
      \<Longrightarrow> same_leases pool pool2 \<and> (ret = RET_ERROR \<longrightarrow> ip = 0)"
proof -
  from CheckIpAvailability_frame [OF chk] obtain tbl where tbl: "pool1 = pool\<lparr>ap_leaseTable := tbl\<rparr>"
    "\<And>a. a \<noteq> ip \<Longrightarrow> map_of tbl a = map_of (ap_leaseTable pool) a"
    "\<not> avail \<or> ip = 0 \<Longrightarrow> map_of tbl = map_of (ap_leaseTable pool)" and le: "globals_le g g1" by blast
  show "globals_le g g1" by (rule le)
  show "globals_le g g2"
    using le by (cases rule: CheckRangeAvailability_cases [OF rng mac]) (auto intro: globals_le_trans)
  show "\<not> avail \<Longrightarrow> same_leases pool pool1"
    using tbl by (auto simp: same_leases_def)
  show "avail \<Longrightarrow> ret = RET_SUCCESS \<Longrightarrow> distributed pool mac ip g pool2 g2"
  proof -
    assume "avail" "ret = RET_SUCCESS"
    with CheckRangeAvailability_cases [OF rng mac] have ok: "in_range pool1 ip" "ip \<noteq> 0"
      "pool2 = put_lease (new_lease pool1 mac ip (fst (Tmspsec g1))) pool1" "g2 = snd (Tmspsec g1)"
      by auto
    have "g_ticks g1 < g_ticks g2"
      by (simp add: ok(4) Tmspsec_def)
    then have "takeable pool mac ip (g_clock g) (g_ticks g) (g_ticks g2)"
      using CheckIpAvailability_takeable [of pool mac ip g pool1 g1] chk \<open>avail\<close> le
      by (auto simp: globals_le_def elim: takeable_window)
    with ok tbl show ?thesis
      by (auto simp: distributed_def new_lease_def)
  qed
  assume "ret \<noteq> RET_SUCCESS" "ap_beginAddress pool \<noteq> 0" "ap_endAddress pool \<noteq> 0" "ap_netmask pool \<noteq> 0"
  with tbl(1) have cases: "\<not> in_range pool ip \<and> ret = RET_FAILED \<and> pool2 = pool1
      \<or> ip = 0 \<and> ret = RET_ERROR \<and> pool2 = pool1"
    by (cases rule: CheckRangeAvailability_cases [OF rng mac]) auto
  moreover have "same_leases pool pool1" if "\<not> in_range pool ip \<or> ip = 0"
    unfolding same_leases_def
  proof (intro exI [of _ tbl] conjI allI impI)
    show "pool1 = pool\<lparr>ap_leaseTable := tbl\<rparr>" by (rule tbl(1))
    fix a assume "in_range pool a"
    with that tbl(2) [of a] tbl(3) show "map_of tbl a = map_of (ap_leaseTable pool) a" by metis
  qed
  ultimately show "same_leases pool pool2 \<and> (ret = RET_ERROR \<longrightarrow> ip = 0)" by auto
qed

lemma AddressDistribute_loop_sound:
  assumes "AddressDistribute_loop n i ip oor mac pool g = (success, ip', pool', g')"
    and mac: "length mac = 16" "\<not> IsEmptyHWAddr mac"
    and cfg: "ap_beginAddress pool \<noteq> 0" "ap_endAddress pool \<noteq> 0" "ap_netmask pool \<noteq> 0"
  shows "globals_le g g' \<and> (if success then distributed pool mac ip' g pool' g' else same_leases pool pool')"
  using assms(1) cfg
proof (induction n arbitrary: i ip oor pool g)
  case 0
  then show ?case by auto
next
  case (Suc n)
  obtain off g0 where off: "(if i = 0 then NextIpOffset (ap_netmask pool) g else (0, g)) = (off, g0)"
    by fastforce
  then have le0: "globals_le g g0"
    by (auto simp: globals_le_NextIpOffset split: if_splits)
  let ?ip = "NextIpAddress ip (ap_netmask pool) off"
  obtain avail pool1 g1 where chk: "CheckIpAvailability pool mac ?ip g0 = (avail, pool1, g1)"
    by (metis prod_cases3)
  obtain ret oor' pool2 g2 where rng: "CheckRangeAvailability pool1 mac ?ip oor g1 = (ret, oor', pool2, g2)"
    by (metis prod_cases4)
  note step = AddressDistribute_step [OF chk rng mac]
  have res: "(success, ip', pool', g') =
    (if \<not> avail then AddressDistribute_loop n (i + 1) ?ip oor mac pool1 g1
     else if ret = RET_ERROR then (False, ?ip, pool2, g2)
     else if ret = RET_SUCCESS then (True, ?ip, pool2, g2)
     else AddressDistribute_loop n (i + 1) ?ip oor' mac pool2 g2)"
    using Suc.prems(1) by (simp add: off chk rng Let_def split del: if_split cong: if_cong)
  have later: "globals_le g h' \<and> (if success then distributed pool mac ip' g pool' h' else same_leases pool pool')"
    if "same_leases pool q" "globals_le g h"
      "globals_le h h' \<and> (if success then distributed q mac ip' h pool' h' else same_leases q pool')" for q h h'
    using that by (auto intro: globals_le_trans distributed_later same_leases_trans split: if_splits)
  show ?case
  proof (cases "avail \<and> (ret = RET_ERROR \<or> ret = RET_SUCCESS)")
    case True
    with res step(2,4,5) Suc.prems(2-4) le0 show ?thesis
      by (auto intro: globals_le_trans distributed_later [OF same_leases_refl])
  next
    case False
    then obtain q h oor'' where q: "(q, h) = (if avail then (pool2, g2) else (pool1, g1))"
      "AddressDistribute_loop n (i + 1) ?ip oor'' mac q h = (success, ip', pool', g')"
      using res by (auto split: if_splits)
    have sq: "same_leases pool q" "globals_le g h"
      using q(1) step(1,2,3,5) False Suc.prems(2-4) le0
      by (auto split: if_splits intro: globals_le_trans)
    with Suc.IH [OF q(2)] Suc.prems(2-4) same_leases_config [OF sq(1)] show ?thesis
      by (intro later [OF sq]) simp
  qed
qed

section \<open>The search finds a free address\<close>

lemma AddressDistribute_loop_finds:
  assumes mac: "length mac = 16" "\<not> IsEmptyHWAddr mac" "\<not> IsReserved mac g"
    and cfg: "ap_beginAddress pool \<noteq> 0" "ap_endAddress pool \<noteq> 0" "ap_netmask pool \<noteq> 0"
    and seq: "g_distributeMode g = 0"
    and nz: "\<And>j. 1 \<le> j \<Longrightarrow> j \<le> n \<Longrightarrow> NextIp_iter (ap_netmask pool) j ip \<noteq> 0"
    and free: "1 \<le> k" "k \<le> n" "NextIp_iter (ap_netmask pool) k ip = a"
      "in_range pool a" "GetLease pool a = None"
  shows "fst (AddressDistribute_loop n i ip oor mac pool g)"
  using assms(3-)
proof (induction n arbitrary: i ip oor pool g k)
  case 0
  then show ?case by simp
next
  case (Suc n)
  let ?ip = "NextIpAddress ip (ap_netmask pool) 0"
  obtain avail pool1 g1 where chk: "CheckIpAvailability pool mac ?ip g = (avail, pool1, g1)"
    by (metis prod_cases3)
  obtain ret oor' pool2 g2 where rng: "CheckRangeAvailability pool1 mac ?ip oor g1 = (ret, oor', pool2, g2)"
    by (metis prod_cases4)
  note step = AddressDistribute_step [OF chk rng mac(1,2)]
  have off: "(if i = 0 then NextIpOffset (ap_netmask pool) g else (0, g)) = (0, g)"
    using Suc.prems(5) by (simp add: NextIpOffset_def)
  have res: "AddressDistribute_loop (Suc n) i ip oor mac pool g =
    (if \<not> avail then AddressDistribute_loop n (i + 1) ?ip oor mac pool1 g1
     else if ret = RET_ERROR then (False, ?ip, pool2, g2)
     else if ret = RET_SUCCESS then (True, ?ip, pool2, g2)
     else AddressDistribute_loop n (i + 1) ?ip oor' mac pool2 g2)"
    by (simp add: off chk rng Let_def split del: if_split cong: if_cong)
  have "?ip \<noteq> 0" using Suc.prems(6) [of 1] by simp
  with step(5) Suc.prems(2-4) have no_error: "ret \<noteq> RET_ERROR" by auto
  have iter: "NextIp_iter m j (NextIpAddress ip m 0) = NextIp_iter m (Suc j) ip" for m j
    using NextIp_iter_add [of m j 1 ip] by simp
  show ?case
  proof (cases "avail \<and> ret = RET_SUCCESS")
    case True
    with res show ?thesis by simp
  next
    case False
    define q h where "q = (if avail then pool2 else pool1)" and "h = (if avail then g2 else g1)"
    have sq: "same_leases pool q" "globals_le g h"
      using step(1,2,3,5) False Suc.prems(2-4) by (auto simp: q_def h_def)
    note cfg' = same_leases_config [OF sq(1)]
    have "k \<noteq> 1"
    proof
      assume "k = 1"
      with Suc.prems(9) have a: "?ip = a" by simp
      with CheckIpAvailability_free Suc.prems(1,11) chk have "avail" "pool1 = pool" by auto
      with rng a Suc.prems(10) False no_error show False
        by (cases rule: CheckRangeAvailability_cases [OF rng mac(1,2)]) auto
    qed
    then obtain k' where k: "k = Suc k'" "1 \<le> k'" "k' \<le> n"
      using Suc.prems(7,8) by (cases k) auto
    have "in_range q a" "GetLease q a = None"
      using same_leases_GetLease [OF sq(1)] Suc.prems(10,11) cfg' by (auto simp: in_range_def)
    moreover have "\<not> IsReserved mac h" "g_distributeMode h = 0"
      using sq(2) globals_le_not_reserved Suc.prems(1,5) by (auto simp: globals_le_def)
    moreover have "NextIp_iter (ap_netmask q) j ?ip \<noteq> 0" if "1 \<le> j" "j \<le> n" for j
      using Suc.prems(6) [of "Suc j"] that iter cfg' by simp
    moreover have "NextIp_iter (ap_netmask q) k' ?ip = a"
      using Suc.prems(9) k(1) iter cfg' by simp
    ultimately have "fst (AddressDistribute_loop n (i + 1) ?ip oor'' mac q h)" for oor''
      using cfg' Suc.prems(2,3,4) k(2,3) by (intro Suc.IH) auto
    with res False no_error show ?thesis by (auto simp: q_def h_def)
  qed
qed

lemma NextIp_iter_nonzero:
  assumes "1 \<le> p" "p \<le> 30" "1 \<le> j"
  shows "NextIp_iter (prefix_netmask p) j c \<noteq> 0"
proof -
  obtain i where "j = Suc i" using assms(3) by (cases j) auto
  then have "unat (htonl (NextIp_iter (prefix_netmask p) j c)) \<ge> 1"
    using NextIpAddress_sequence [OF assms(1,2), of "NextIp_iter (prefix_netmask p) i c"] by simp
  then show ?thesis by auto
qed

lemma prefix_netmask_nonzero: "1 \<le> p \<Longrightarrow> prefix_netmask p \<noteq> 0"
proof -
  assume "1 \<le> p"
  then have "bit (NOT (mask (32 - p)) :: u32) 31" by (simp add: bit_simps)
  then have "NOT (mask (32 - p)) \<noteq> (0 :: u32)" by force
  then show ?thesis by (simp add: prefix_netmask_def)
qed

lemma same_network_net_part:
  "NetworkAddress a (prefix_netmask p) = NetworkAddress b (prefix_netmask p)
    \<Longrightarrow> net_part (32 - p) (htonl a) = net_part (32 - p) (htonl b)"
  by (metis NetworkAddress_host net_part_def)

lemma host_address_bounds:
  assumes "1 \<le> p" "p \<le> 30" "NetworkAddress a (prefix_netmask p) = NetworkAddress b (prefix_netmask p)"
    "a \<noteq> NetworkAddress b (prefix_netmask p)" "a \<noteq> BroadCastAddress b (prefix_netmask p)"
  shows "net_part (32 - p) (htonl b) < unat (htonl a)"
    "unat (htonl a) \<le> net_part (32 - p) (htonl b) + 2 ^ (32 - p) - 2"
proof -
  let ?N = "net_part (32 - p) (htonl b)"
  have N: "?N \<le> unat (htonl a)" "unat (htonl a) < ?N + 2 ^ (32 - p)"
    using net_part_le [of "32 - p" "htonl a"] less_net_part [of "htonl a" "32 - p"]
      same_network_net_part [OF assms(3)] by auto
  have "unat (htonl (NetworkAddress b (prefix_netmask p))) = ?N"
    by (simp add: NetworkAddress_host)
  then have "unat (htonl a) \<noteq> ?N"
    using assms(4) by (metis htonl_eq_iff_unat)
  moreover have "unat (htonl a) \<noteq> ?N + (2 ^ (32 - p) - 1)"
    using assms(5) BroadCastAddress_host [OF assms(1,2), of b] by (metis htonl_eq_iff_unat)
  ultimately show "?N < unat (htonl a)" "unat (htonl a) \<le> ?N + 2 ^ (32 - p) - 2"
    using N four_le_pow [OF assms(2)] by linarith+
qed

lemma AddressDistribute_loop_of:
  assumes "ap_beginAddress pool \<noteq> 0" "ap_endAddress pool \<noteq> 0" "ap_netmask pool \<noteq> 0" "\<not> IsEmptyHWAddr mac"
  defines "pool0 \<equiv> if ap_distribution pool = 0 then pool\<lparr>ap_distribution := ap_beginAddress pool\<rparr> else pool"
    and "start \<equiv> if ap_distribution pool = 0 \<or> ap_distribution pool < ap_beginAddress pool
                 then ap_beginAddress pool else ap_distribution pool"
  shows "AddressDistribute pool mac g =
    (case AddressDistribute_loop (unat (HostTotal (ap_netmask pool))) 0 start False mac pool0 g of
       (ok, ip, pool', g') \<Rightarrow> if \<not> ok \<or> ip = 0 then (0, pool', g') else (ip, pool'\<lparr>ap_distribution := ip\<rparr>, g'))"
  using assms(1-4) by (simp add: AddressDistribute_def Let_def pool0_def start_def)

lemma takeable_distribution [simp]:
  "takeable (pool\<lparr>ap_distribution := d\<rparr>) mac ip clk lo hi \<longleftrightarrow> takeable pool mac ip clk lo hi"
  "new_lease (pool\<lparr>ap_distribution := d\<rparr>) mac ip t = new_lease pool mac ip t"
  by (simp_all add: takeable_def GetLease_def new_lease_def split: option.split)

lemma distributed_distribution [simp]:
  "distributed (pool\<lparr>ap_distribution := d\<rparr>) mac ip g pool' g' \<longleftrightarrow> distributed pool mac ip g pool' g'"
  "distributed pool mac ip g (pool'\<lparr>ap_distribution := d\<rparr>) g' \<longleftrightarrow> distributed pool mac ip g pool' g'"
  by (simp_all add: distributed_def)

lemma AddressDistribute_outcome:
  assumes "AddressDistribute pool mac g = (ip, pool', g')" "length mac = 16"
  shows "globals_le g g' \<and> (ip \<noteq> 0 \<longrightarrow> distributed pool mac ip g pool' g' \<and> ap_distribution pool' = ip)
    \<and> (ip = 0 \<longrightarrow> (\<forall>a. in_range pool a \<longrightarrow> map_of (ap_leaseTable pool') a = map_of (ap_leaseTable pool) a))"
proof (cases "ap_beginAddress pool = 0 \<or> ap_endAddress pool = 0 \<or> ap_netmask pool = 0 \<or> IsEmptyHWAddr mac")
  case True
  with assms(1) show ?thesis by (auto simp: AddressDistribute_def split: if_splits)
next
  case False
  then have cfg: "ap_beginAddress pool \<noteq> 0" "ap_endAddress pool \<noteq> 0" "ap_netmask pool \<noteq> 0" "\<not> IsEmptyHWAddr mac"
    by auto
  let ?pool0 = "if ap_distribution pool = 0 then pool\<lparr>ap_distribution := ap_beginAddress pool\<rparr> else pool"
  let ?start = "if ap_distribution pool = 0 \<or> ap_distribution pool < ap_beginAddress pool
                 then ap_beginAddress pool else ap_distribution pool"
  obtain ok ip1 pool1 g1 where
    loop: "AddressDistribute_loop (unat (HostTotal (ap_netmask pool))) 0 ?start False mac ?pool0 g = (ok, ip1, pool1, g1)"
    by (metis prod_cases4)
  have le: "globals_le g g1" and "if ok then distributed ?pool0 mac ip1 g pool1 g1 else same_leases ?pool0 pool1"
    using AddressDistribute_loop_sound [OF loop assms(2) cfg(4)] cfg by auto
  then have "if ok then distributed pool mac ip1 g pool1 g1
      else (\<forall>a. in_range pool a \<longrightarrow> map_of (ap_leaseTable pool1) a = map_of (ap_leaseTable pool) a)"
    by (auto simp: same_leases_def split: if_splits)
  then show ?thesis
    using assms(1) loop le by (auto simp: AddressDistribute_loop_of [OF cfg] distributed_def split: if_splits)
qed

lemma AddressDistribute_sound:
  "AddressDistribute pool mac g = (ip, pool', g') \<Longrightarrow> length mac = 16 \<Longrightarrow> ip \<noteq> 0 \<Longrightarrow> distributed pool mac ip g pool' g'"
  using AddressDistribute_outcome by blast

section \<open>Properties\<close>

text \<open>C4: When the search for an address succeeds, the address lies in the configured range, it had no lease, or
  the client's own, or an expired lease that was neither static nor reserved (and then not the
  server's or the gateway's address); it is now leased to the client's hardware address, and no
  other lease of the range has changed. When the search fails no lease of the range has changed.\<close>

theorem AddressDistribute_safe:
  assumes "AddressDistribute pool mac g = (ip, pool', g')" "length mac = 16"
  shows "(ip \<noteq> 0 \<longrightarrow> distributed pool mac ip g pool' g' \<and> ap_distribution pool' = ip)
    \<and> (ip = 0 \<longrightarrow> (\<forall>a. in_range pool a \<longrightarrow> map_of (ap_leaseTable pool') a = map_of (ap_leaseTable pool) a))"
  using AddressDistribute_outcome [OF assms] by blast

definition sample_pool :: DhcpAddressPool where
  "sample_pool = zero_pool\<lparr>ap_ifname := ''wlan0'', ap_netmask := prefix_netmask 24,
     ap_beginAddress := htonl 0xC0A82B03, ap_endAddress := htonl 0xC0A82BFE, ap_serverId := htonl 0xC0A82B01,
     ap_gateway := htonl 0xC0A82B01, ap_leaseTime := 21600, ap_fixedOptions := Some []\<rparr>"

definition sample_mac :: bytes where
  "sample_mac = [0x0A, 0x1B, 0x2C, 0x3D, 0x4E, 0xFF] @ replicate 10 0"

text \<open>The first search in a /24 network takes the address after the begin of the range when it is free.\<close>

lemma AddressDistribute_first:
  assumes "g_distributeMode g = 0" "\<not> IsReserved sample_mac g" "ap_distribution pool = 0" "ap_netmask pool = prefix_netmask 24"
    and "ap_beginAddress pool \<noteq> 0" "ap_endAddress pool \<noteq> 0" "ap_leaseTable pool = []"
    and "NextIpAddress (ap_beginAddress pool) (prefix_netmask 24) 0 = ip" "ip \<noteq> 0"
    and "IpInRange ip (ap_beginAddress pool) (ap_endAddress pool) (prefix_netmask 24)"
  shows "fst (AddressDistribute pool sample_mac g) = ip"
proof -
  have m: "prefix_netmask 24 \<noteq> 0" "\<not> IsEmptyHWAddr sample_mac"
    "\<not> IsEmptyHWAddr (take 6 sample_mac @ drop 6 (ab_chaddr zero_binding))"
    by code_simp+
  have "unat (HostTotal (prefix_netmask 24)) = 255"
    by (simp add: HostTotal_prefix)
  then obtain n where tot: "unat (HostTotal (prefix_netmask 24)) = Suc n"
    by (cases "unat (HostTotal (prefix_netmask 24))") auto
  show ?thesis
    using m assms
    by (simp add: AddressDistribute_def tot NextIpOffset_def CheckIpAvailability_def GetLease_def CheckRangeAvailability_def
        Tmspsec_def AddLease_def split_beta Let_def)
qed

lemma AddressDistribute_sample:
  assumes "g_distributeMode g = 0" "\<not> IsReserved sample_mac g"
  shows "fst (AddressDistribute sample_pool sample_mac g) = htonl 0xC0A82B04"
proof -
  have "NextIpAddress (htonl 0xC0A82B03) (prefix_netmask 24) 0 = htonl 0xC0A82B04"
    "IpInRange (htonl 0xC0A82B04) (htonl 0xC0A82B03) (htonl 0xC0A82BFE) (prefix_netmask 24)"
    by code_simp+
  with assms show ?thesis
    by (intro AddressDistribute_first) (simp_all add: sample_pool_def zero_pool_def)
qed

theorem AddressDistribute_safe_witness:
  "\<exists>pool' g'. AddressDistribute sample_pool sample_mac sample_globals = (htonl 0xC0A82B04, pool', g')
    \<and> distributed sample_pool sample_mac (htonl 0xC0A82B04) sample_globals pool' g'"
proof -
  have len: "length sample_mac = 16" by (simp add: sample_mac_def)
  obtain pool' g' where res: "AddressDistribute sample_pool sample_mac sample_globals = (htonl 0xC0A82B04, pool', g')"
    using AddressDistribute_sample [of sample_globals] by (simp add: sample_globals_def IsReserved_def prod_eq_iff)
  moreover have "htonl 0xC0A82B04 \<noteq> (0::u32)" by simp
  ultimately show ?thesis
    using AddressDistribute_safe [OF res len] by blast
qed

text \<open>C5: On a network of prefix 1 to 30, in sequence mode, the search succeeds whenever some host address of the
  range has no lease: the loop makes enough steps to reach it from wherever the last search stopped in
  the network.\<close>

theorem AddressDistribute_finds:
  assumes p: "1 \<le> p" "p \<le> 30" "ap_netmask pool = prefix_netmask p"
    and mac: "length mac = 16" "\<not> IsEmptyHWAddr mac" "\<not> IsReserved mac g"
    and seq: "g_distributeMode g = 0"
    and cfg: "ap_beginAddress pool \<noteq> 0" "ap_endAddress pool \<noteq> 0"
    and pos: "ap_distribution pool = 0 \<or> NetworkAddress (ap_distribution pool) (ap_netmask pool)
                = NetworkAddress (ap_beginAddress pool) (ap_netmask pool)"
    and free: "in_range pool a" "GetLease pool a = None"
      "a \<noteq> NetworkAddress (ap_beginAddress pool) (ap_netmask pool)"
      "a \<noteq> BroadCastAddress (ap_beginAddress pool) (ap_netmask pool)"
  shows "fst (AddressDistribute pool mac g) \<noteq> 0"
proof -
  let ?pool0 = "if ap_distribution pool = 0 then pool\<lparr>ap_distribution := ap_beginAddress pool\<rparr> else pool"
  let ?start = "if ap_distribution pool = 0 \<or> ap_distribution pool < ap_beginAddress pool
                 then ap_beginAddress pool else ap_distribution pool"
  let ?loop = "AddressDistribute_loop (unat (HostTotal (ap_netmask pool))) 0 ?start False mac ?pool0 g"
  have mask: "ap_netmask pool \<noteq> 0"
    using p prefix_netmask_nonzero by simp
  have net: "NetworkAddress ?start (prefix_netmask p) = NetworkAddress (ap_beginAddress pool) (prefix_netmask p)"
    using pos p(3) by auto
  have "NetworkAddress a (prefix_netmask p) = NetworkAddress (ap_beginAddress pool) (prefix_netmask p)"
    using free(1) p(3) by (auto simp: in_range_def IpInRange_def Let_def split: if_splits)
  from host_address_bounds [OF p(1,2) this] free(3,4) p(3) same_network_net_part [OF net]
  have "net_part (32 - p) (htonl ?start) < unat (htonl a)"
    "unat (htonl a) \<le> net_part (32 - p) (htonl ?start) + 2 ^ (32 - p) - 2"
    by simp_all
  from NextIp_iter_reaches [OF p(1,2) this] obtain k where
    k: "1 \<le> k" "k \<le> 2 ^ (32 - p) - 1" "NextIp_iter (prefix_netmask p) k ?start = a" by blast
  have tot: "unat (HostTotal (ap_netmask pool)) = 2 ^ (32 - p) - 1"
    using p by (simp add: HostTotal_prefix)
  have "fst ?loop"
    using mac cfg mask seq k free(1,2) p(3)
    by (intro AddressDistribute_loop_finds [where k = k and a = a])
      (auto simp: tot [unfolded p(3)] GetLease_def NextIp_iter_nonzero [OF p(1,2)])
  moreover obtain ok ip1 pool1 g1 where loop: "?loop = (ok, ip1, pool1, g1)"
    by (metis prod_cases4)
  moreover have "ok \<Longrightarrow> ip1 \<noteq> 0"
    using AddressDistribute_loop_sound [OF loop mac(1,2)] cfg mask by (auto simp: distributed_def)
  ultimately show ?thesis
    by (simp add: AddressDistribute_loop_of [OF cfg mask mac(2)])
qed

theorem AddressDistribute_finds_witness:
  "GetLease sample_pool (htonl 0xC0A82B64) = None
   \<and> fst (AddressDistribute sample_pool sample_mac sample_globals) \<noteq> 0"
proof -
  have "in_range sample_pool (htonl 0xC0A82B64)" "GetLease sample_pool (htonl 0xC0A82B64) = None"
    "htonl 0xC0A82B64 \<noteq> NetworkAddress (ap_beginAddress sample_pool) (ap_netmask sample_pool)"
    "htonl 0xC0A82B64 \<noteq> BroadCastAddress (ap_beginAddress sample_pool) (ap_netmask sample_pool)"
    "\<not> IsEmptyHWAddr sample_mac" "length sample_mac = 16"
    by code_simp+
  moreover have "\<not> IsReserved sample_mac sample_globals" "g_distributeMode sample_globals = 0"
    "ap_beginAddress sample_pool \<noteq> 0" "ap_endAddress sample_pool \<noteq> 0" "ap_distribution sample_pool = 0"
    "ap_netmask sample_pool = prefix_netmask 24"
    by (simp_all add: IsReserved_def sample_globals_def sample_pool_def zero_pool_def)
  ultimately show ?thesis
    using AddressDistribute_finds [of 24 sample_pool sample_mac sample_globals "htonl 0xC0A82B64"] by simp
qed

text \<open>The bindings are kept by a hash of the hardware address, and different clients can have the same hash:
  the second then finds, and overwrites, the binding of the first.\<close>

theorem binding_slot_collision:
  "\<exists>mac mac'. take 6 mac \<noteq> take 6 mac' \<and> length mac = 16 \<and> length mac' = 16
    \<and> (\<forall>g opts. QueryBinding mac' opts (snd (AddNewBinding mac opts g)) = fst (AddNewBinding mac opts g)
                \<and> fst (AddNewBinding mac opts g) \<noteq> None)"
proof -
  let ?m = "[0x00, 0x1B, 0x2C, 0x3D, 0x4E, 0xFF] @ replicate 10 0 :: bytes"
  let ?m' = "[0x01, 0x7A, 0x2C, 0x3D, 0x4E, 0xFF] @ replicate 10 0 :: bytes"
  have "macAddrHash ?m' = macAddrHash ?m" by code_simp
  then have "QueryBinding ?m' opts (snd (AddNewBinding ?m opts g)) = fst (AddNewBinding ?m opts g)
      \<and> fst (AddNewBinding ?m opts g) \<noteq> None" for opts g
    by (simp add: QueryBinding_def AddNewBinding_def GetBindingByMac_def Let_def split_beta)
  then show ?thesis
    by (intro exI [of _ ?m] exI [of _ ?m']) simp
qed

end
