(* ===== verification/DhcpMessage.thy ===== *)
theory DhcpMessage
  imports DhcpOptionList
begin

text \<open>
  The messages of the server (\<^verbatim>\<open>dhcp_message.h\<close>) and the functions of \<^verbatim>\<open>dhcp_s_server.cpp\<close> that read and
  write their option field. A message in memory is \<open>msg_image\<close>, 548 bytes with the options at offset
  236; multi-byte fields are kept as the machine word that the bytes form on a little-endian
  host, as the code does. The sources take the header to have \<^verbatim>\<open>DHCP_MSG_HEADER_SIZE\<close> = 234 bytes.
\<close>

section \<open>Constants\<close>

abbreviation (input) DHCP_MSG_HEADER_SIZE :: nat where "DHCP_MSG_HEADER_SIZE \<equiv> 234"
abbreviation (input) DHCP_OPTIONS_SIZE :: nat where "DHCP_OPTIONS_SIZE \<equiv> 312"
abbreviation (input) PAD_OPTION :: u8 where "PAD_OPTION \<equiv> 0"
abbreviation (input) END_OPTION :: u8 where "END_OPTION \<equiv> 255"
abbreviation (input) SUBNET_MASK_OPTION :: u8 where "SUBNET_MASK_OPTION \<equiv> 1"
abbreviation (input) TIME_OFFSET_OPTION :: u8 where "TIME_OFFSET_OPTION \<equiv> 2"
abbreviation (input) ROUTER_OPTION :: u8 where "ROUTER_OPTION \<equiv> 3"
abbreviation (input) DOMAIN_NAME_SERVER_OPTION :: u8 where "DOMAIN_NAME_SERVER_OPTION \<equiv> 6"
abbreviation (input) HOST_NAME_OPTION :: u8 where "HOST_NAME_OPTION \<equiv> 12"
abbreviation (input) BROADCAST_ADDRESS_OPTION :: u8 where "BROADCAST_ADDRESS_OPTION \<equiv> 28"
abbreviation (input) VENDOR_SPECIFIC_INFO_OPTION :: u8 where "VENDOR_SPECIFIC_INFO_OPTION \<equiv> 43"
abbreviation (input) REQUESTED_IP_ADDRESS_OPTION :: u8 where "REQUESTED_IP_ADDRESS_OPTION \<equiv> 50"
abbreviation (input) IP_ADDRESS_LEASE_TIME_OPTION :: u8 where "IP_ADDRESS_LEASE_TIME_OPTION \<equiv> 51"
abbreviation (input) DHCP_MESSAGE_TYPE_OPTION :: u8 where "DHCP_MESSAGE_TYPE_OPTION \<equiv> 53"
abbreviation (input) SERVER_IDENTIFIER_OPTION :: u8 where "SERVER_IDENTIFIER_OPTION \<equiv> 54"
abbreviation (input) MESSAGE_OPTION :: u8 where "MESSAGE_OPTION \<equiv> 56"
abbreviation (input) RENEWAL_TIME_VALUE_OPTION :: u8 where "RENEWAL_TIME_VALUE_OPTION \<equiv> 58"
abbreviation (input) REBINDING_TIME_VALUE_OPTION :: u8 where "REBINDING_TIME_VALUE_OPTION \<equiv> 59"
abbreviation (input) VENDOR_CLASS_IDENTIFIER_OPTION :: u8 where "VENDOR_CLASS_IDENTIFIER_OPTION \<equiv> 60"
abbreviation (input) USER_CLASS_OPTION :: u8 where "USER_CLASS_OPTION \<equiv> 77"
abbreviation (input) RAPID_COMMIT_OPTION :: u8 where "RAPID_COMMIT_OPTION \<equiv> 80"
abbreviation (input) IPV6_ONLY_PREFERRED_OPTION :: u8 where "IPV6_ONLY_PREFERRED_OPTION \<equiv> 108"

abbreviation (input) DHCPDISCOVER :: u8 where "DHCPDISCOVER \<equiv> 1"
abbreviation (input) DHCPOFFER :: u8 where "DHCPOFFER \<equiv> 2"
abbreviation (input) DHCPREQUEST :: u8 where "DHCPREQUEST \<equiv> 3"
abbreviation (input) DHCPDECLINE :: u8 where "DHCPDECLINE \<equiv> 4"
abbreviation (input) DHCPACK :: u8 where "DHCPACK \<equiv> 5"
abbreviation (input) DHCPNAK :: u8 where "DHCPNAK \<equiv> 6"
abbreviation (input) DHCPRELEASE :: u8 where "DHCPRELEASE \<equiv> 7"
abbreviation (input) DHCPINFORM :: u8 where "DHCPINFORM \<equiv> 8"

section \<open>Data\<close>

record DhcpMessage =
  dm_op :: u8
  dm_htype :: u8
  dm_hlen :: u8
  dm_hops :: u8
  dm_xid :: u32
  dm_secs :: u16
  dm_flags :: u16
  dm_ciaddr :: u32
  dm_yiaddr :: u32
  dm_siaddr :: u32
  dm_giaddr :: u32
  dm_chaddr :: bytes
  dm_sname :: bytes
  dm_file :: bytes
  dm_options :: bytes

record DhcpMsgInfo =
  mi_packet :: DhcpMessage
  mi_length :: nat
  mi_options :: option_list

definition u16_bytes :: "u16 \<Rightarrow> bytes" where
  "u16_bytes w = [ucast w, ucast (drop_bit 8 w)]"

definition u16_of_bytes :: "bytes \<Rightarrow> u16" where
  "u16_of_bytes bs = ucast (bs ! 0) OR push_bit 8 (ucast (bs ! 1))"

text \<open>The memory of a message, and the message that a block of 548 bytes holds.\<close>

definition msg_image :: "DhcpMessage \<Rightarrow> bytes" where
  "msg_image m = [dm_op m, dm_htype m, dm_hlen m, dm_hops m] @ u32_bytes (dm_xid m) @ u16_bytes (dm_secs m) @
     u16_bytes (dm_flags m) @ u32_bytes (dm_ciaddr m) @ u32_bytes (dm_yiaddr m) @ u32_bytes (dm_siaddr m) @
     u32_bytes (dm_giaddr m) @ dm_chaddr m @ dm_sname m @ dm_file m @ dm_options m"

definition image_msg :: "bytes \<Rightarrow> DhcpMessage" where
  "image_msg bs = \<lparr>dm_op = bs ! 0, dm_htype = bs ! 1, dm_hlen = bs ! 2, dm_hops = bs ! 3,
     dm_xid = u32_of_bytes (take 4 (drop 4 bs)), dm_secs = u16_of_bytes (take 2 (drop 8 bs)),
     dm_flags = u16_of_bytes (take 2 (drop 10 bs)), dm_ciaddr = u32_of_bytes (take 4 (drop 12 bs)),
     dm_yiaddr = u32_of_bytes (take 4 (drop 16 bs)), dm_siaddr = u32_of_bytes (take 4 (drop 20 bs)),
     dm_giaddr = u32_of_bytes (take 4 (drop 24 bs)), dm_chaddr = take 16 (drop 28 bs),
     dm_sname = take 64 (drop 44 bs), dm_file = take 128 (drop 108 bs), dm_options = take 312 (drop 236 bs)\<rparr>"

definition msg_wf :: "DhcpMessage \<Rightarrow> bool" where
  "msg_wf m \<longleftrightarrow> length (dm_chaddr m) = 16 \<and> length (dm_sname m) = 64 \<and> length (dm_file m) = 128
     \<and> length (dm_options m) = 312"

section \<open>Reading the options of a message\<close>

definition MAGIC_COOKIE_DATA :: bytes where
  "MAGIC_COOKIE_DATA = [0x63, 0x82, 0x53, 0x63]"

text \<open>The loop of \<^verbatim>\<open>ParseMessageOptions\<close>: \<open>mem\<close> is the memory from the option array on, \<open>cur\<close> and
  \<open>e\<close> the offsets of the pointers \<^verbatim>\<open>current\<close> and \<^verbatim>\<open>end\<close>, \<open>pos\<close> the running total that is compared with
  \<^verbatim>\<open>maxPos\<close>.\<close>

function ParseMessageOptions_loop :: "bytes \<Rightarrow> nat \<Rightarrow> nat \<Rightarrow> nat \<Rightarrow> option_list \<Rightarrow> int \<times> option_list" where
  "ParseMessageOptions_loop mem e cur pos opts =
     (if cur < e \<and> mem ! cur \<noteq> END_OPTION then
        let code = mem ! cur; len = mem ! (cur + 1) in
        if e < cur + unat len + 2 then (RET_FAILED, opts)
        else if code = PAD_OPTION then ParseMessageOptions_loop mem e (cur + 1) pos opts
        else if code = TIME_OFFSET_OPTION then ParseMessageOptions_loop mem e (cur + 2 + unat len) pos opts
        else
          let pos = pos + 2 + unat len in
          if pos \<ge> 4 + (DHCP_OPTION_SIZE - 4 - 2 - 1) then (RET_FAILED, opts)
          else ParseMessageOptions_loop mem e (cur + 2 + unat len) pos
                 (snd (opts_push_back opts (mk_option code len (take (unat len) (drop (cur + 2) mem)))))
      else if cur < e \<and> mem ! cur = END_OPTION then (RET_SUCCESS, opts)
      else (RET_FAILED, opts))"
  by auto
termination
  by (relation "measure (\<lambda>(mem, e, cur, pos, opts). e - cur)") auto

declare ParseMessageOptions_loop.simps [simp del]

text \<open>The pointer \<^verbatim>\<open>end\<close> is two bytes too far, since the options start at offset 236: the bytes behind the array are
  those of the field \<^verbatim>\<open>length\<close>.\<close>

definition ParseMessageOptions :: "DhcpMsgInfo \<Rightarrow> int \<times> DhcpMsgInfo" where
  "ParseMessageOptions msg =
     (if mi_length msg < DHCP_MSG_HEADER_SIZE + 4 then (RET_FAILED, msg)
      else
        let mem = dm_options (mi_packet msg) @ u32_bytes (of_nat (mi_length msg));
            e = mi_length msg - DHCP_MSG_HEADER_SIZE
        in if take 4 mem \<noteq> MAGIC_COOKIE_DATA then (RET_FAILED, msg)
           else let (ret, opts) = ParseMessageOptions_loop mem e 4 8 (mi_options msg)
                in (ret, msg\<lparr>mi_options := opts\<rparr>))"

section \<open>Adding options to a reply\<close>

definition push_option :: "DhcpMsgInfo \<Rightarrow> DhcpOption \<Rightarrow> DhcpMsgInfo" where
  "push_option reply opt = reply\<lparr>mi_options := snd (opts_push_back (mi_options reply) opt)\<rparr>"

definition AddAddressOption :: "DhcpMsgInfo \<Rightarrow> u8 \<Rightarrow> u32 \<Rightarrow> DhcpMsgInfo" where
  "AddAddressOption reply code address =
     (let (ret, optAddress) = AppendAddressOption (mk_option code 0 []) address
      in if ret \<noteq> RET_SUCCESS then reply else push_option reply optAddress)"

definition AddReplyServerIdOption :: "DhcpMsgInfo \<Rightarrow> u32 \<Rightarrow> int \<times> DhcpMsgInfo" where
  "AddReplyServerIdOption reply serverId =
     (if serverId = 0 \<or> serverId = INADDR_BROADCAST then (RET_FAILED, reply)
      else
        let (ret, optSrvId) = AppendAddressOption (mk_option SERVER_IDENTIFIER_OPTION 0 []) serverId
        in if ret \<noteq> RET_SUCCESS then (RET_FAILED, reply)
           else if opts_get (mi_options reply) SERVER_IDENTIFIER_OPTION \<noteq> None then (RET_SUCCESS, reply)
           else (RET_SUCCESS, push_option reply optSrvId))"

definition AddReplyMessageTypeOption :: "DhcpMsgInfo \<Rightarrow> u8 \<Rightarrow> DhcpMsgInfo" where
  "AddReplyMessageTypeOption reply replyMessageType =
     push_option reply (mk_option DHCP_MESSAGE_TYPE_OPTION 1 [replyMessageType, 0])"

definition AppendReplyTypeOption :: "DhcpMsgInfo \<Rightarrow> int \<Rightarrow> int \<times> DhcpMsgInfo" where
  "AppendReplyTypeOption reply replyType =
     (if replyType = 0 then (RET_FAILED, reply)
      else
        let msgType = (if replyType = REPLY_OFFER then DHCPOFFER
                       else if replyType = REPLY_ACK then DHCPACK
                       else if replyType = REPLY_NAK then DHCPNAK else 0)
        in case opts_get (mi_options reply) DHCP_MESSAGE_TYPE_OPTION of
             None \<Rightarrow> (RET_SUCCESS, reply\<lparr>mi_options := map_option (\<lambda>xs.
                 snd (opts_push_front xs (mk_option DHCP_MESSAGE_TYPE_OPTION 1 [msgType, 0]))) (mi_options reply)\<rparr>)
           | Some pOptMsgType \<Rightarrow>
               if opt_data pOptMsgType ! 0 \<noteq> msgType then (RET_FAILED, reply) else (RET_SUCCESS, reply))"

section \<open>Writing the options of a reply\<close>

definition ResetMessageOptions :: "DhcpMsgInfo \<Rightarrow> int \<times> DhcpMsgInfo" where
  "ResetMessageOptions reply =
     (if opts_size (mi_options reply) = 0 then (RET_ERROR, reply)
      else (RET_SUCCESS, reply\<lparr>mi_packet := (mi_packet reply)\<lparr>dm_options := replicate DHCP_OPTIONS_SIZE 0\<rparr>\<rparr>))"

text \<open>A reply without the message type option is returned as if it were valid: \<^verbatim>\<open>ret\<close> is
  \<^verbatim>\<open>RET_SUCCESS\<close> there.\<close>

definition ValidateReplyOptions :: "DhcpMsgInfo \<Rightarrow> int \<times> DhcpMsgInfo" where
  "ValidateReplyOptions reply =
     (let (ret, reply) = ResetMessageOptions reply in
      if ret \<noteq> RET_SUCCESS then (ret, reply)
      else
        let reply = reply\<lparr>mi_length := DHCP_MSG_HEADER_SIZE\<rparr> in
        if mi_options reply = None then (RET_ERROR, reply)
        else if opts_get (mi_options reply) DHCP_MESSAGE_TYPE_OPTION = None then (ret, reply)
        else (RET_SUCCESS, reply))"

text \<open>The memory of an option, and the copies of the options behind each other. \<open>olen\<close> is an 8-bit variable;
  \<open>n\<close> is \<^verbatim>\<open>replyOptsLength\<close> and the offset of \<^verbatim>\<open>current\<close>.\<close>

definition option_image :: "DhcpOption \<Rightarrow> bytes" where
  "option_image opt = opt_code opt # opt_length opt # opt_data opt"

definition option_olen :: "DhcpOption \<Rightarrow> nat" where
  "option_olen opt = unat (if opt_code opt = END_OPTION then 3 else 2 + opt_length opt :: u8)"

fun ParseReplyOptions_loop :: "DhcpOption list \<Rightarrow> bytes \<Rightarrow> nat \<Rightarrow> int \<times> bytes \<times> nat" where
  "ParseReplyOptions_loop [] buf n = (RET_SUCCESS, buf, n)"
| "ParseReplyOptions_loop (opt # pNode) buf n =
     (let (ok, mem) = memcpy_s (DHCP_OPTIONS_SIZE - n) (drop n buf) (option_image opt) (option_olen opt);
          buf = take n buf @ mem
      in if \<not> ok then (RET_FAILED, buf, n)
         else
           let n = n + option_olen opt in
           if opt_code opt = END_OPTION then (RET_SUCCESS, buf, n)
           else if n \<ge> DHCP_OPTIONS_SIZE then (RET_FAILED, buf, n)
           else ParseReplyOptions_loop pNode buf n)"

definition ParseReplyOptions :: "DhcpMsgInfo \<Rightarrow> int \<times> DhcpMsgInfo" where
  "ParseReplyOptions reply =
     (let (ret, reply) = ValidateReplyOptions reply in
      if ret \<noteq> RET_SUCCESS then (ret, reply)
      else
        let reply = push_option reply (mk_option END_OPTION 0 []);
            buf = u32_bytes (htonl 0x63825363) @ drop 4 (dm_options (mi_packet reply));
            (ret, buf, n) = ParseReplyOptions_loop (opts_list (mi_options reply)) buf 4
        in (ret, reply\<lparr>mi_packet := (mi_packet reply)\<lparr>dm_options := buf\<rparr>, mi_length := mi_length reply + n\<rparr>))"

section \<open>Lemmas on messages\<close>

lemma u16_of_bytes_u16_bytes [simp]: "u16_of_bytes (u16_bytes w) = w"
  by (rule bit_word_eqI) (auto simp: u16_of_bytes_def u16_bytes_def bit_simps not_less)

lemma length_u16_bytes [simp]: "length (u16_bytes w) = 2"
  by (simp add: u16_bytes_def)

lemma length_msg_image: "msg_wf m \<Longrightarrow> length (msg_image m) = 548"
  by (simp add: msg_image_def msg_wf_def)

lemma image_msg_msg_image: "msg_wf m \<Longrightarrow> image_msg (msg_image m) = m"
  by (simp add: image_msg_def msg_image_def msg_wf_def)

lemma msg_wf_image_msg: "length bs = 548 \<Longrightarrow> msg_wf (image_msg bs)"
  by (simp add: image_msg_def msg_wf_def)

text \<open>The text of an option on the wire.\<close>

definition option_wire :: "DhcpOption \<Rightarrow> bytes" where
  "option_wire opt = opt_code opt # opt_length opt # opt_payload opt"

lemma length_option_wire [simp]: "opt_wf opt \<Longrightarrow> length (option_wire opt) = 2 + unat (opt_length opt)"
  using unat_u8_less [of "opt_length opt"] by (simp add: option_wire_def opt_payload_def opt_wf_def)

lemma option_image_take:
  assumes "opt_wf opt" "opt_code opt \<noteq> END_OPTION" "opt_length opt \<le> 253"
  shows "option_olen opt = 2 + unat (opt_length opt)"
    "take (option_olen opt) (option_image opt) = option_wire opt"
proof -
  have "unat (opt_length opt) \<le> 253" using assms(3) by (simp add: word_le_nat_alt)
  then show *: "option_olen opt = 2 + unat (opt_length opt)"
    using assms(2) by (simp add: option_olen_def unat_word_ariths)
  show "take (option_olen opt) (option_image opt) = option_wire opt"
    by (simp add: * option_image_def option_wire_def opt_payload_def)
qed

definition plain_option :: "DhcpOption \<Rightarrow> bool" where
  "plain_option opt \<longleftrightarrow> opt_wf opt \<and> opt_code opt \<notin> {PAD_OPTION, TIME_OFFSET_OPTION, END_OPTION}
     \<and> opt_length opt \<noteq> 0 \<and> opt_length opt \<le> 253"

lemma ParseReplyOptions_loop_wire:
  assumes "list_all plain_option xs" "n + length (concat (map option_wire xs)) < 312" "length buf = 312"
  shows "ParseReplyOptions_loop xs buf n =
    (RET_SUCCESS, take n buf @ concat (map option_wire xs) @ drop (n + length (concat (map option_wire xs))) buf,
     n + length (concat (map option_wire xs)))"
  using assms
proof (induction xs arbitrary: buf n)
  case Nil
  then show ?case by simp
next
  case (Cons x xs)
  have x: "opt_wf x" "opt_code x \<noteq> END_OPTION" "opt_length x \<le> 253"
    using Cons.prems(1) by (auto simp: plain_option_def)
  let ?k = "2 + unat (opt_length x)"
  note olen = option_image_take [OF x]
  have k: "n + ?k < 312" using Cons.prems(2) x(1) by simp
  let ?buf = "take n buf @ option_wire x @ drop ?k (drop n buf)"
  have mem: "memcpy_s (312 - n) (drop n buf) (option_image x) (option_olen x)
      = (True, option_wire x @ drop ?k (drop n buf))"
    using k olen by simp
  have len: "length ?buf = 312" using Cons.prems(3) k x(1) by simp
  have "ParseReplyOptions_loop (x # xs) buf n = ParseReplyOptions_loop xs ?buf (n + ?k)"
    using mem k x(2) olen(1) by simp
  also have "\<dots> = (RET_SUCCESS, take (n + ?k) ?buf @ concat (map option_wire xs)
      @ drop (n + ?k + length (concat (map option_wire xs))) ?buf, n + ?k + length (concat (map option_wire xs)))"
    using Cons.prems x(1) len by (intro Cons.IH) auto
  also have "\<dots> = (RET_SUCCESS, take n buf @ concat (map option_wire (x # xs))
      @ drop (n + length (concat (map option_wire (x # xs)))) buf, n + length (concat (map option_wire (x # xs))))"
    using Cons.prems(3) k x(1) by (simp add: algebra_simps)
  finally show ?case .
qed

text \<open>The reading loop on the text of options: at a list of options followed by the end option it stores them.\<close>

lemma ParseMessageOptions_loop_wire:
  assumes "list_all plain_option xs"
    and "drop cur mem = concat (map option_wire xs) @ END_OPTION # rest"
    and "cur + length (concat (map option_wire xs)) < e" "cur \<le> length mem"
    and "pos + length (concat (map option_wire xs)) < 253"
  shows "ParseMessageOptions_loop mem e cur pos (Some ys) = (RET_SUCCESS, Some (ys @ map stored_option xs))"
  using assms
proof (induction xs arbitrary: cur pos ys)
  case Nil
  then have "mem ! cur = END_OPTION" "cur < e"
    by (auto simp: nth_via_drop)
  then show ?case by (simp add: ParseMessageOptions_loop.simps)
next
  case (Cons x xs)
  let ?k = "unat (opt_length x)"
  have x: "opt_wf x" "opt_code x \<noteq> END_OPTION" "opt_code x \<noteq> PAD_OPTION" "opt_code x \<noteq> TIME_OFFSET_OPTION"
    "opt_length x \<noteq> 0" and xs: "list_all plain_option xs"
    using Cons.prems(1) by (simp_all add: plain_option_def [of x])
  have mem: "drop cur mem = opt_code x # opt_length x # opt_payload x @ concat (map option_wire xs) @ END_OPTION # rest"
    using Cons.prems(2) by (simp add: option_wire_def [of x])
  have c0: "mem ! cur = opt_code x" using mem by (rule nth_via_drop)
  have d1: "drop (cur + 1) mem = opt_length x # opt_payload x @ concat (map option_wire xs) @ END_OPTION # rest"
    using arg_cong [OF mem, of "drop 1"] by simp
  then have c1: "mem ! (cur + 1) = opt_length x" by (rule nth_via_drop)
  have d2: "drop (cur + 2) mem = opt_payload x @ concat (map option_wire xs) @ END_OPTION # rest"
    using arg_cong [OF d1, of "drop 1"] by simp
  have pay: "length (opt_payload x) = ?k"
    using x(1) unat_u8_less [of "opt_length x"] by (simp add: opt_payload_def opt_wf_def)
  have d3: "drop (cur + 2 + ?k) mem = concat (map option_wire xs) @ END_OPTION # rest"
    using arg_cong [OF d2, of "drop (length (opt_payload x))"] pay by (simp add: add.commute)
  have t: "take ?k (drop (cur + 2) mem) = opt_payload x" using d2 pay by simp
  have lens: "cur + 2 + ?k + length (concat (map option_wire xs)) < e"
    "pos + 2 + ?k + length (concat (map option_wire xs)) < 253" "cur + 2 + ?k \<le> length mem"
    using Cons.prems(3,5) x(1) arg_cong [OF d2, of length] arg_cong [OF Cons.prems(2), of length] Cons.prems(4) pay
    by simp_all
  have stored: "stored_option (mk_option (opt_code x) (opt_length x) (opt_payload x)) = stored_option x"
    using pay unat_u8_less [of "opt_length x"] by (simp add: stored_option_def mk_option_def opt_payload_def)
  have "ParseMessageOptions_loop mem e cur pos (Some ys) =
    ParseMessageOptions_loop mem e (cur + 2 + ?k) (pos + 2 + ?k) (Some (ys @ [stored_option x]))"
    using lens x c0 c1 t stored
    by (subst ParseMessageOptions_loop.simps) (simp add: opts_push_back_def Let_def, simp add: mk_option_def)
  also have "\<dots> = (RET_SUCCESS, Some ((ys @ [stored_option x]) @ map stored_option xs))"
    using xs d3 lens by (intro Cons.IH) auto
  finally show ?case by simp
qed

section \<open>Properties\<close>


definition sample_request :: DhcpMsgInfo where
  "sample_request = \<lparr>mi_packet = (image_msg (replicate 548 0))\<lparr>dm_options := MAGIC_COOKIE_DATA @
       concat (map option_wire [mk_option 53 1 [3], mk_option 50 4 [192, 168, 43, 4]]) @ END_OPTION # replicate 298 0\<rparr>,
     mi_length = 548, mi_options = Some []\<rparr>"


text \<open>A padding byte right before the end option makes the message invalid: the code takes the end code
  for the length of the padding. So does every message with fewer than 257 bytes after the padding.\<close>

theorem pad_before_end_rejected:
  assumes "cur < e" "mem ! cur = PAD_OPTION" "mem ! (cur + 1) = END_OPTION" "e < cur + 257"
  shows "ParseMessageOptions_loop mem e cur pos opts = (RET_FAILED, opts)"
  using assms by (subst ParseMessageOptions_loop.simps) simp

theorem pad_before_end_rejected_witness:
  "ParseMessageOptions_loop (MAGIC_COOKIE_DATA @ [53, 1, 3, 0, 255]) 9 7 8 (Some []) = (RET_FAILED, Some [])"
  by (rule pad_before_end_rejected) (simp_all add: MAGIC_COOKIE_DATA_def eval_nat_numeral)

text \<open>C9: The option field of a reply holds the magic cookie and the options in the order of the list, but no end
  option, because an option of length 0 cannot be added to the list; and the length given to
  \<^verbatim>\<open>sendto\<close> is two bytes short of the end of the last option.\<close>

theorem ParseReplyOptions_layout:
  assumes "mi_options reply = Some xs" "xs \<noteq> []" "list_all plain_option xs"
    and "length (concat (map option_wire xs)) < 308" "length (dm_options (mi_packet reply)) = 312"
  shows "\<exists>reply'. ParseReplyOptions reply = (RET_SUCCESS, reply')
    \<and> dm_options (mi_packet reply') = MAGIC_COOKIE_DATA @ concat (map option_wire xs)
          @ replicate (308 - length (concat (map option_wire xs))) 0
    \<and> mi_length reply' + 2 = 236 + 4 + length (concat (map option_wire xs))"
proof -
  have cookie: "u32_bytes (htonl 0x63825363) = MAGIC_COOKIE_DATA" by code_simp
  have push: "opts_push_back (Some xs) (mk_option END_OPTION 0 []) = (RET_FAILED, Some xs)"
    by (simp add: opts_push_back_def mk_option_def)
  have len4: "length MAGIC_COOKIE_DATA = 4" by (simp add: MAGIC_COOKIE_DATA_def)
  let ?buf = "MAGIC_COOKIE_DATA @ replicate 308 0"
  have "ParseReplyOptions_loop xs ?buf 4 = (RET_SUCCESS, take 4 ?buf @ concat (map option_wire xs)
      @ drop (4 + length (concat (map option_wire xs))) ?buf, 4 + length (concat (map option_wire xs)))"
    using assms by (intro ParseReplyOptions_loop_wire) (auto simp: MAGIC_COOKIE_DATA_def)
  then have "ParseReplyOptions_loop xs ?buf 4 = (RET_SUCCESS, MAGIC_COOKIE_DATA @ concat (map option_wire xs)
      @ replicate (308 - length (concat (map option_wire xs))) 0, 4 + length (concat (map option_wire xs)))"
    by (simp add: len4)
  then show ?thesis
    using assms(1,2) push cookie
    by (simp add: ParseReplyOptions_def ValidateReplyOptions_def ResetMessageOptions_def opts_size_def
        push_option_def opts_list_def)
qed

theorem ParseReplyOptions_layout_witness:
  "\<exists>reply'. ParseReplyOptions (sample_request\<lparr>mi_options := Some [mk_option 53 1 [2]]\<rparr>) = (RET_SUCCESS, reply')
    \<and> take 7 (dm_options (mi_packet reply')) = [0x63, 0x82, 0x53, 0x63, 53, 1, 2] \<and> mi_length reply' = 241"
proof -
  let ?r = "sample_request\<lparr>mi_options := Some [mk_option 53 1 [2]]\<rparr>"
  have wire: "concat (map option_wire [mk_option 53 1 [2]]) = [53, 1, 2]"
    by (simp add: option_wire_def mk_option_def opt_payload_def)
  have "length (dm_options (mi_packet ?r)) = 312"
    by (simp add: sample_request_def MAGIC_COOKIE_DATA_def option_wire_def mk_option_def opt_payload_def)
  moreover have "list_all plain_option [mk_option 53 1 [2]]"
    by (simp add: plain_option_def opt_wf_def mk_option_def)
  ultimately show ?thesis
    using ParseReplyOptions_layout [of ?r "[mk_option 53 1 [2]]"] unfolding wire
    by (auto simp: MAGIC_COOKIE_DATA_def)
qed

end
