(* ===== verification/DhcpServer.thy ===== *)
theory DhcpServer
  imports DhcpAddressPool DhcpMessage
begin

text \<open>
  \<^verbatim>\<open>services/dhcp_server/src/dhcp_s_server.cpp\<close>: the message handlers, the replies and the message loop. The record
  \<open>Server\<close> is the context with everything the code reaches from it: the instance (\<open>None\<close> for a null
  pointer), the globals, the file system, the log of what leaves the process (callbacks, datagrams, ARP
  entries) and the results of the system calls \<^verbatim>\<open>sendto\<close> and \<^verbatim>\<open>AddArpEntry\<close> by their place in that
  log. A handler takes the received message, the reply under construction and the server, and
  returns the reply type, the reply and the server. A pointer to a binding is its key.
\<close>

section \<open>Data\<close>

datatype LooperState = LS_IDLE | LS_STARING | LS_RUNNING | LS_RELOADNG | LS_STOPING | LS_STOPED

datatype ServerState = ST_IDEL | ST_STARTING | ST_RUNNING | ST_RELOADNG | ST_STOPING | ST_STOPED

text \<open>What leaves the process: a callback with its state and code, the notification of a new device, a
  datagram with its destination, an ARP entry.\<close>

datatype ServerEvent =
    EvCallback ServerState int string
  | EvDeviceConnect string
  | EvSend u32 bytes
  | EvArp string string string

record ServerContext =
  sc_broadCastFlagEnable :: int
  sc_addressPool :: DhcpAddressPool
  sc_callback :: bool
  sc_deviceConnectFun :: bool
  sc_serverFd :: int
  sc_looperState :: LooperState
  sc_initialized :: int

record Server =
  sv_ifname :: string
  sv_instance :: "ServerContext option"
  sv_globals :: Globals
  sv_files :: Files
  sv_events :: "ServerEvent list"
  sv_sendto :: "nat \<Rightarrow> int"
  sv_arp :: "nat \<Rightarrow> int"

definition set_pool :: "DhcpAddressPool \<Rightarrow> Server \<Rightarrow> Server" where
  "set_pool pool s = s\<lparr>sv_instance := map_option (\<lambda>srv. srv\<lparr>sc_addressPool := pool\<rparr>) (sv_instance s)\<rparr>"

definition set_globals :: "Globals \<Rightarrow> Server \<Rightarrow> Server" where
  "set_globals g s = s\<lparr>sv_globals := g\<rparr>"

definition log_event :: "ServerEvent \<Rightarrow> Server \<Rightarrow> Server" where
  "log_event e s = s\<lparr>sv_events := sv_events s @ [e]\<rparr>"

text \<open>The object a binding pointer points to; the globals record a use after the binding was erased.\<close>

definition deref_binding :: "u64 \<Rightarrow> Globals \<Rightarrow> AddressBinding" where
  "deref_binding h g = (case map_of (g_bindingRecoders g) h of Some b \<Rightarrow> b | None \<Rightarrow> zero_binding)"

definition write_binding :: "u64 \<Rightarrow> AddressBinding \<Rightarrow> Globals \<Rightarrow> Globals" where
  "write_binding h b g =
     (if map_of (g_bindingRecoders g) h = None then g\<lparr>g_dangling := True\<rparr>
      else g\<lparr>g_bindingRecoders := smap_modify h (\<lambda>_. b) (g_bindingRecoders g)\<rparr>)"

section \<open>Addresses of the current packet\<close>

text \<open>\<^verbatim>\<open>SourceAddrIn\<close> returns the static object and sets its address to \<^verbatim>\<open>INADDR_ANY\<close> each time.\<close>

definition SourceAddrIn :: "Globals \<Rightarrow> Globals" where
  "SourceAddrIn g = g\<lparr>g_sourceIpAddr := INADDR_ANY\<rparr>"

definition ResetSourceAddr :: "Globals \<Rightarrow> Globals" where
  "ResetSourceAddr g = (SourceAddrIn g)\<lparr>g_sourceIpAddr := INADDR_ANY\<rparr>"

definition SourceIpAddress :: "Globals \<Rightarrow> u32 \<times> Globals" where
  "SourceIpAddress g = (let g = SourceAddrIn g in (g_sourceIpAddr g, g))"

definition DestinationAddr :: "u32 \<Rightarrow> Globals \<Rightarrow> Globals" where
  "DestinationAddr ipAddress g = g\<lparr>g_destIpAddr := htonl ipAddress\<rparr>"

section \<open>Receiving\<close>

text \<open>What the socket gives: an error of \<^verbatim>\<open>select\<close>, a timeout, a wake-up without the socket, an error or an empty
  result of \<^verbatim>\<open>recvfrom\<close>, or a datagram with its source address. A datagram is copied over the start of the
  packet; the rest keeps the bytes of the previous one.\<close>

datatype Received = RecvSelectError | RecvTimeout | RecvNotSet | RecvEmpty | RecvError | RecvDatagram u32 bytes

definition ReceiveDhcpMessage :: "Received \<Rightarrow> DhcpMsgInfo \<Rightarrow> Globals \<Rightarrow> int \<times> DhcpMsgInfo \<times> Globals" where
  "ReceiveDhcpMessage r msgInfo g =
     (case r of
        RecvSelectError \<Rightarrow> (ERR_SELECT, msgInfo, g)
      | RecvTimeout \<Rightarrow> (RET_SELECT_TIME_OUT, msgInfo, g)
      | RecvNotSet \<Rightarrow> (RET_ERROR, msgInfo, g)
      | RecvEmpty \<Rightarrow> (RET_FAILED, msgInfo, ResetSourceAddr g)
      | RecvError \<Rightarrow> (RET_FAILED, msgInfo, ResetSourceAddr g)
      | RecvDatagram src data \<Rightarrow>
        let g = (ResetSourceAddr g)\<lparr>g_sourceIpAddr := src\<rparr>;
            recvBuffer = take 2048 data;
            rsize = length recvBuffer
        in if rsize = 0 then (RET_FAILED, msgInfo, g)
           else if rsize > 548 \<or> rsize < DHCP_MSG_HEADER_SIZE then (RET_FAILED, msgInfo, g)
           else
             let msgInfo = msgInfo\<lparr>mi_length := rsize,
                   mi_packet := image_msg (snd (memcpy_s 548 (msg_image (mi_packet msgInfo)) recvBuffer rsize))\<rparr>
             in if dm_op (mi_packet msgInfo) \<noteq> 1 then (RET_FAILED, msgInfo, g)
                else if dm_hlen (mi_packet msgInfo) > of_nat DHCP_HWADDR_LENGTH then (RET_FAILED, msgInfo, g)
                else if IsEmptyHWAddr (dm_chaddr (mi_packet msgInfo)) then (RET_FAILED, msgInfo, g)
                else if IsReserved (dm_chaddr (mi_packet msgInfo)) g then (RET_FAILED, msgInfo, g)
                else (RET_SUCCESS, msgInfo, g))"

text \<open>\<open>True\<close> means that the loop goes on to the next message.\<close>

definition ContinueReceive :: "DhcpMsgInfo \<Rightarrow> int \<Rightarrow> bool \<times> DhcpMsgInfo" where
  "ContinueReceive from recvRet =
     (if recvRet \<noteq> RET_SUCCESS then (True, from)
      else
        let (ret, from) = ParseMessageOptions from in
        if ret \<noteq> 0 then (True, from)
        else if opts_get (mi_options from) DHCP_MESSAGE_TYPE_OPTION = None then (True, from)
        else (False, from))"

section \<open>The reply header\<close>

definition FillReply :: "Server \<Rightarrow> DhcpMsgInfo \<Rightarrow> DhcpMsgInfo \<Rightarrow> int \<times> DhcpMsgInfo" where
  "FillReply s received reply =
     (case sv_instance s of
        None \<Rightarrow> (RET_FAILED, reply)
      | Some srvIns \<Rightarrow>
        let rp = mi_packet received; p = mi_packet reply;
            p = (if dm_ciaddr rp \<noteq> 0 \<and> dm_ciaddr rp \<noteq> INADDR_BROADCAST then p\<lparr>dm_ciaddr := dm_ciaddr rp\<rparr> else p);
            p = p\<lparr>dm_flags := dm_flags rp\<rparr>;
            p = (if dm_xid rp \<noteq> 0 then p\<lparr>dm_xid := dm_xid rp\<rparr> else p);
            p = (if dm_siaddr rp \<noteq> 0 \<and> dm_siaddr rp \<noteq> INADDR_BROADCAST then p\<lparr>dm_siaddr := dm_siaddr rp\<rparr>
                 else p\<lparr>dm_siaddr := ap_serverId (sc_addressPool srvIns)\<rparr>);
            p = (if dm_giaddr rp \<noteq> 0 \<and> dm_giaddr rp \<noteq> INADDR_BROADCAST then p\<lparr>dm_giaddr := dm_giaddr rp\<rparr>
                 else if ap_gateway (sc_addressPool srvIns) \<noteq> 0
                 then p\<lparr>dm_giaddr := ap_gateway (sc_addressPool srvIns)\<rparr> else p);
            p = (if dm_hlen rp \<noteq> 0 then p\<lparr>dm_hlen := dm_hlen rp,
                    dm_chaddr := snd (memcpy_s 16 (replicate 16 0) (dm_chaddr rp) 16)\<rparr> else p);
            p = (if dm_giaddr rp \<noteq> 0 then p\<lparr>dm_giaddr := dm_giaddr rp\<rparr> else p)
        in (0, reply\<lparr>mi_packet := p\<rparr>))"

definition InitReply :: "Server \<Rightarrow> DhcpMsgInfo \<Rightarrow> DhcpMsgInfo \<Rightarrow> DhcpMsgInfo" where
  "InitReply s received reply =
     (let reply = reply\<lparr>mi_packet := (mi_packet reply)\<lparr>dm_op := 2, dm_htype := 1, dm_hlen := 6, dm_secs := 0,
            dm_ciaddr := 0, dm_sname := replicate 64 0, dm_file := replicate 128 0\<rparr>\<rparr>
      in snd (FillReply s received reply))"

section \<open>Options of the replies\<close>

definition AppendReplyTimeOptions :: "Server \<Rightarrow> DhcpMsgInfo \<Rightarrow> int \<times> DhcpMsgInfo" where
  "AppendReplyTimeOptions s reply =
     (case sv_instance s of
        None \<Rightarrow> (RET_FAILED, reply)
      | Some srvIns \<Rightarrow>
        let pool = sc_addressPool srvIns;
            leaseTime = HostToNetwork (if ap_leaseTime pool \<noteq> 0 then ap_leaseTime pool else of_nat DHCP_LEASE_TIME);
            reply = push_option reply (snd (FillU32Option (mk_option IP_ADDRESS_LEASE_TIME_OPTION 4 []) leaseTime));
            t1Time = HostToNetwork (if ap_renewalTime pool \<noteq> 0 then ap_renewalTime pool else of_nat DHCP_RENEWAL_TIME);
            reply = push_option reply (snd (FillU32Option (mk_option RENEWAL_TIME_VALUE_OPTION 4 []) t1Time));
            t2Time = HostToNetwork (if ap_rebindingTime pool \<noteq> 0 then ap_rebindingTime pool
                                    else of_nat DHCP_REBINDING_TIME);
            reply = push_option reply (snd (FillU32Option (mk_option REBINDING_TIME_VALUE_OPTION 4 []) t2Time))
        in (RET_SUCCESS, reply))"

definition ReplyCommontOption :: "Server \<Rightarrow> DhcpMsgInfo \<Rightarrow> int \<times> DhcpMsgInfo" where
  "ReplyCommontOption s reply =
     (case sv_instance s of
        None \<Rightarrow> (REPLY_NONE, reply)
      | Some srvIns \<Rightarrow>
        let pool = sc_addressPool srvIns;
            reply = AddAddressOption reply SUBNET_MASK_OPTION (ap_netmask pool);
            reply = (if ap_gateway pool \<noteq> 0 then AddAddressOption reply ROUTER_OPTION (ap_gateway pool) else reply);
            reply = push_option reply
              (mk_option VENDOR_SPECIFIC_INFO_OPTION 12 (char_bytes ''OPEN_HARMONY''));
            netAddress = dm_yiaddr (mi_packet reply) AND ap_netmask pool;
            boastAddress = NOT (ap_netmask pool) OR netAddress
        in (REPLY_OFFER, AddAddressOption reply BROADCAST_ADDRESS_OPTION boastAddress))"

text \<open>The loop over the fixed options: an option whose code the reply has already is left out.\<close>

definition append_fixed :: "DhcpOption \<Rightarrow> DhcpMsgInfo \<Rightarrow> DhcpMsgInfo" where
  "append_fixed opt reply =
     (if opt_code opt \<noteq> 0 \<and> opts_get (mi_options reply) (opt_code opt) \<noteq> None then reply
      else push_option reply opt)"

definition AppendFixedOptions :: "Server \<Rightarrow> DhcpMsgInfo \<Rightarrow> int \<times> DhcpMsgInfo" where
  "AppendFixedOptions s reply =
     (case sv_instance s of
        None \<Rightarrow> (RET_FAILED, reply)
      | Some srvIns \<Rightarrow> (RET_SUCCESS, fold append_fixed (opts_list (ap_fixedOptions (sc_addressPool srvIns))) reply))"

section \<open>Bindings\<close>

text \<open>\<^verbatim>\<open>Repending\<close> and \<^verbatim>\<open>Rebinding\<close> work on the binding that the caller's pointer points to; the caller
  stores the result.\<close>

definition Repending ::
    "DhcpAddressPool \<Rightarrow> AddressBinding \<Rightarrow> Globals \<Rightarrow> int \<times> DhcpAddressPool \<times> AddressBinding \<times> Globals" where
  "Repending pool binding g =
     (let bindingIp = ab_ipAddress binding;
          binding = binding\<lparr>ab_pendingInterval := NextPendingInterval (ab_pendingInterval binding)\<rparr>;
          (curTime, g) = Tmspsec g;
          tms = (if curTime > ab_pendingTime binding then curTime - ab_pendingTime binding else 0)
      in if tms < ab_pendingInterval binding
         then (REPLY_NONE, pool, binding\<lparr>ab_pendingTime := curTime\<rparr>, g)
         else
           let binding = binding\<lparr>ab_pendingTime := curTime, ab_pendingInterval := 0,
                 ab_bindingStatus := BIND_PENDING\<rparr>;
               (srcIp, g) = SourceIpAddress g
           in if srcIp \<noteq> 0 \<and> srcIp \<noteq> INADDR_BROADCAST \<and> bindingIp \<noteq> INADDR_BROADCAST \<and> srcIp \<noteq> bindingIp
              then (REPLY_NAK, pool, binding, g)
              else
                let pool = (if srcIp \<noteq> 0 \<and> srcIp = bindingIp
                      then pool\<lparr>ap_leaseTable := smap_assign srcIp binding (ap_leaseTable pool)\<rparr> else pool)
                in (REPLY_OFFER, pool, binding, g))"

definition Rebinding ::
    "DhcpAddressPool \<Rightarrow> AddressBinding \<Rightarrow> Globals \<Rightarrow> int \<times> DhcpAddressPool \<times> AddressBinding \<times> Globals" where
  "Rebinding pool binding g =
     (let pendingTime = ab_pendingTime binding;
          (replyType, pool, binding, g) = Repending pool binding g;
          binding = binding\<lparr>ab_bindingStatus := BIND_ASSOCIATED\<rparr>;
          binding = (if ab_leaseTime binding = 0 then binding\<lparr>ab_leaseTime := ucast (ap_leaseTime pool)\<rparr> else binding);
          (t, g) = Tmspsec g;
          binding = binding\<lparr>ab_bindingTime := t, ab_expireIn := t + ab_leaseTime binding, ab_pendingTime := pendingTime\<rparr>;
          replyType = (if replyType = REPLY_OFFER then REPLY_ACK else replyType)
      in (replyType, pool, binding, g))"

text \<open>The result is the key of the binding. The address is written through the pointer that \<^verbatim>\<open>newBinding\<close> returned, after
  the search for an address, which can erase bindings.\<close>

definition GetBinding :: "DhcpAddressPool \<Rightarrow> DhcpMsgInfo \<Rightarrow> Globals \<Rightarrow> u64 option \<times> DhcpAddressPool \<times> Globals" where
  "GetBinding pool received g =
     (let chaddr = dm_chaddr (mi_packet received); h = macAddrHash chaddr in
      case QueryBinding chaddr (mi_options received) g of
        Some _ \<Rightarrow> (Some h, pool, g)
      | None \<Rightarrow>
        (case AddNewBinding chaddr (mi_options received) g of
           (None, g) \<Rightarrow> (None, pool, g)
         | (Some binding, g) \<Rightarrow>
           let g = (if ap_leaseTime pool \<noteq> 0
                    then write_binding h (binding\<lparr>ab_leaseTime := ucast (ap_leaseTime pool)\<rparr>) g else g);
               (ip, pool, g) = AddressDistribute pool chaddr g;
               g = write_binding h ((deref_binding h g)\<lparr>ab_ipAddress := ip\<rparr>) g
           in (Some h, pool, g)))"

section \<open>Discover\<close>

definition DiscoverReplyLeaseMessage :: "u64 \<Rightarrow> DhcpMsgInfo \<Rightarrow> Server \<Rightarrow> int \<times> DhcpMsgInfo \<times> Server" where
  "DiscoverReplyLeaseMessage h reply s =
     (case sv_instance s of
        None \<Rightarrow> (REPLY_NONE, reply, s)
      | Some srvIns \<Rightarrow>
        let binding = deref_binding h (sv_globals s);
            pool = sc_addressPool srvIns;
            pool = (if GetLease pool (ab_ipAddress binding) = None then snd (AddLease pool binding) else pool);
            s = set_pool pool s
        in case GetLease pool (ab_ipAddress binding) of
             None \<Rightarrow> (REPLY_NONE, reply, s)
           | Some lease \<Rightarrow>
             let reply = AddReplyMessageTypeOption reply DHCPOFFER;
                 reply = reply\<lparr>mi_packet := (mi_packet reply)\<lparr>dm_yiaddr := ab_ipAddress lease\<rparr>\<rparr>;
                 reply = snd (ReplyCommontOption s reply)
             in (REPLY_OFFER, reply, s))"

definition OnReceivedDiscover :: "DhcpMsgInfo \<Rightarrow> DhcpMsgInfo \<Rightarrow> Server \<Rightarrow> int \<times> DhcpMsgInfo \<times> Server" where
  "OnReceivedDiscover received reply s =
     (case sv_instance s of
        None \<Rightarrow> (REPLY_NONE, reply, s)
      | Some srvIns \<Rightarrow>
        let (srcIp, g) = SourceIpAddress (sv_globals s);
            g = (if sc_broadCastFlagEnable srvIns = 0
                 then DestinationAddr (if srcIp \<noteq> 0 then srcIp else INADDR_BROADCAST) g else g);
            (binding, pool, g) = GetBinding (sc_addressPool srvIns) received g;
            s = set_globals g (set_pool pool s)
        in case binding of
             None \<Rightarrow> (REPLY_NONE, reply, s)
           | Some h \<Rightarrow>
             if ab_ipAddress (deref_binding h g) = 0 then (REPLY_NONE, reply, s)
             else
               let (_, pool) = DeleteMacInLease pool (deref_binding h g)
               in DiscoverReplyLeaseMessage h reply (set_pool pool s))"

section \<open>Request\<close>

definition GetRequestIpAddress :: "DhcpMsgInfo \<Rightarrow> u32" where
  "GetRequestIpAddress received =
     (case opts_get (mi_options received) REQUESTED_IP_ADDRESS_OPTION of
        None \<Rightarrow> 0 | Some optReqIp \<Rightarrow> ParseIp (opt_data optReqIp))"

definition GetYourIpAddress ::
    "DhcpMsgInfo \<Rightarrow> u32 \<Rightarrow> DhcpAddressPool \<Rightarrow> Globals \<Rightarrow> int \<times> u32 \<times> Globals" where
  "GetYourIpAddress received yourIpAddr pool g =
     (let cliIp = dm_ciaddr (mi_packet received);
          (srcIp, g) = SourceIpAddress g;
          reqIp = GetRequestIpAddress received
      in if cliIp \<noteq> 0 \<and> srcIp \<noteq> 0 \<and> cliIp \<noteq> srcIp then (RET_FAILED, yourIpAddr, g)
         else if reqIp \<noteq> 0 \<and> srcIp \<noteq> 0 \<and> reqIp \<noteq> srcIp then (RET_FAILED, yourIpAddr, g)
         else if cliIp \<noteq> 0 \<and> reqIp \<noteq> 0 \<and> cliIp \<noteq> reqIp then (RET_FAILED, yourIpAddr, g)
         else if srcIp = 0 \<and> cliIp = 0 \<and> reqIp = 0 then (RET_FAILED, yourIpAddr, g)
         else
           let yourIpAddr = (if srcIp \<noteq> 0 \<and> srcIp \<noteq> INADDR_BROADCAST then srcIp
                 else if cliIp \<noteq> 0 \<and> cliIp \<noteq> INADDR_BROADCAST then cliIp
                 else if reqIp \<noteq> 0 \<and> reqIp \<noteq> INADDR_BROADCAST then reqIp else yourIpAddr)
           in if ntohl yourIpAddr < ntohl (ap_beginAddress pool) \<or> ntohl yourIpAddr > ntohl (ap_endAddress pool)
              then (RET_FAILED, yourIpAddr, g)
              else if srcIp \<noteq> 0 \<and> srcIp \<noteq> INADDR_BROADCAST then (RET_SUCCESS, yourIpAddr, DestinationAddr srcIp g)
              else if srcIp = INADDR_ANY then (RET_SUCCESS, yourIpAddr, DestinationAddr INADDR_BROADCAST g)
              else (RET_SUCCESS, yourIpAddr, g))"

text \<open>The last part of \<^verbatim>\<open>NotBindingRequest\<close>, from the new binding on.\<close>

definition NotBindingRequest_bind ::
    "u32 \<Rightarrow> DhcpAddressPool \<Rightarrow> DhcpMsgInfo \<Rightarrow> DhcpMsgInfo \<Rightarrow> Globals \<Rightarrow> int \<times> DhcpAddressPool \<times> DhcpMsgInfo \<times> Globals" where
  "NotBindingRequest_bind yourIpAddr pool received reply g =
     (let h = macAddrHash (dm_chaddr (mi_packet received)) in
      case AddNewBinding (dm_chaddr (mi_packet received)) (mi_options received) g of
        (None, g) \<Rightarrow> (REPLY_NONE, pool, reply, g)
      | (Some binding, g) \<Rightarrow>
        let binding = binding\<lparr>ab_ipAddress := yourIpAddr\<rparr>;
            binding = (if ap_leaseTime pool \<noteq> 0 then binding\<lparr>ab_leaseTime := ucast (ap_leaseTime pool)\<rparr> else binding);
            (replyType, pool, binding, g) = Repending pool binding g;
            g = write_binding h binding g
        in if replyType \<noteq> REPLY_OFFER then (replyType, pool, reply, g)
           else
             let found = GetLease pool yourIpAddr \<noteq> None;
                 pool = (if found then pool else snd (AddLease pool binding));
                 leaseIp = (if found then yourIpAddr else ab_ipAddress binding)
             in case GetLease pool leaseIp of
                  None \<Rightarrow> (REPLY_NONE, pool, reply, g)
                | Some lease \<Rightarrow>
                  let (t, g) = Tmspsec g;
                      lease = lease\<lparr>ab_bindingStatus := BIND_ASSOCIATED, ab_bindingTime := t,
                        ab_expireIn := t + ab_leaseTime binding\<rparr>;
                      pool = modify_lease leaseIp (\<lambda>_. lease) pool;
                      reply = reply\<lparr>mi_packet := (mi_packet reply)\<lparr>dm_yiaddr := ab_ipAddress lease\<rparr>\<rparr>
                  in (REPLY_ACK, pool, reply, g))"

definition NotBindingRequest ::
    "DhcpAddressPool \<Rightarrow> DhcpMsgInfo \<Rightarrow> DhcpMsgInfo \<Rightarrow> Globals \<Rightarrow> int \<times> DhcpAddressPool \<times> DhcpMsgInfo \<times> Globals" where
  "NotBindingRequest pool received reply g =
     (let (ret, yourIpAddr, g) = GetYourIpAddress received 0 pool g in
      if ret \<noteq> RET_SUCCESS then (REPLY_NONE, pool, reply, g)
      else case GetLease pool yourIpAddr of
        None \<Rightarrow>
          let (srcIp, g) = SourceIpAddress g
          in if srcIp \<noteq> 0 then (REPLY_ACK, pool, reply, g) else (REPLY_NAK, pool, reply, g)
      | Some lease \<Rightarrow>
        let sameAddr = AddrEquels (ab_chaddr lease) (dm_chaddr (mi_packet received)) MAC_ADDR_LENGTH in
        if ab_bindingStatus lease = BIND_ASSOCIATED \<and> \<not> sameAddr then
          let (expired, lease, g) = IsExpire lease g;
              pool = modify_lease yourIpAddr (\<lambda>_. lease) pool
          in if \<not> expired then (REPLY_NAK, pool, reply, g)
             else NotBindingRequest_bind yourIpAddr (snd (RemoveLease pool lease)) received reply g
        else NotBindingRequest_bind yourIpAddr pool received reply g)"

text \<open>The result has the address for the caller's \<^verbatim>\<open>yourIp\<close>, which is set only when the reply type is
  \<^verbatim>\<open>REPLY_ACK\<close>. A null instance gives \<^verbatim>\<open>RET_FAILED\<close>, which the caller takes for \<^verbatim>\<open>REPLY_OFFER\<close>.\<close>

definition ValidateRequestMessage :: "DhcpMsgInfo \<Rightarrow> Server \<Rightarrow> int \<times> u32 \<times> Server" where
  "ValidateRequestMessage received s =
     (case sv_instance s of
        None \<Rightarrow> (RET_FAILED, 0, s)
      | Some srvIns \<Rightarrow>
        let pool = sc_addressPool srvIns;
            (ret, yourIpAddr, g) = GetYourIpAddress received INADDR_BROADCAST pool (sv_globals s)
        in if ret \<noteq> RET_SUCCESS then
             if yourIpAddr \<noteq> 0 \<and> yourIpAddr \<noteq> INADDR_BROADCAST then
               let pool = (case GetLease pool yourIpAddr of
                             None \<Rightarrow> pool | Some lease \<Rightarrow> snd (RemoveLease pool lease));
                   (_, g) = RemoveBinding (dm_chaddr (mi_packet received)) g
               in (REPLY_NAK, 0, set_globals g (set_pool pool s))
             else (REPLY_NONE, 0, set_globals g s)
           else
             let s = set_globals g s in
             case opts_get (mi_options received) SERVER_IDENTIFIER_OPTION of
               None \<Rightarrow> (REPLY_ACK, yourIpAddr, s)
             | Some optReqSrvId \<Rightarrow>
                 if ParseIp (opt_data optReqSrvId) \<noteq> ap_serverId pool then (REPLY_NONE, 0, s)
                 else (REPLY_ACK, yourIpAddr, s))"

definition HasNobindgRequest :: "DhcpMsgInfo \<Rightarrow> DhcpMsgInfo \<Rightarrow> Server \<Rightarrow> int \<times> DhcpMsgInfo \<times> Server" where
  "HasNobindgRequest received reply s =
     (case sv_instance s of
        None \<Rightarrow> (REPLY_NONE, reply, s)
      | Some srvIns \<Rightarrow>
        let pool = sc_addressPool srvIns; g = sv_globals s in
        if QueryBinding (dm_chaddr (mi_packet received)) (mi_options received) g = None then
          let (srcIp, g) = SourceIpAddress g;
              reqIp = GetRequestIpAddress received
          in if reqIp = 0 \<and> srcIp = 0 then (REPLY_NONE, reply, set_globals g s)
             else if \<not> IpInNetwork reqIp (ap_serverId pool) (ap_netmask pool) then (REPLY_NAK, reply, set_globals g s)
             else
               let (ret, pool, reply, g) = NotBindingRequest pool received reply g
               in (ret, reply, set_globals g (set_pool pool s))
        else (REPLY_NONE, reply, s))"

section \<open>Options of a request that go into the lease\<close>

text \<open>A copy into a local array of 64 bytes, of which only the success matters.\<close>

definition copy_check :: "DhcpMsgInfo \<Rightarrow> u8 \<Rightarrow> bool" where
  "copy_check received code =
     (case opts_get (mi_options received) code of
        None \<Rightarrow> True
      | Some opt \<Rightarrow> fst (memcpy_s DEVICE_NAME_STRING_LENGTH (replicate 64 0) (opt_data opt) (unat (opt_length opt))))"

definition GetVendorIdentifierOption :: "DhcpMsgInfo \<Rightarrow> int" where
  "GetVendorIdentifierOption received =
     (if copy_check received VENDOR_CLASS_IDENTIFIER_OPTION then REPLY_NAK else REPLY_NONE)"

text \<open>\<^verbatim>\<open>memchr\<close> finds a newline (10) or a carriage return (13) in the name. \<^verbatim>\<open>strncpy_s\<close> writes the default name
  and its terminator.\<close>

definition GetHostNameOption :: "DhcpMsgInfo \<Rightarrow> AddressBinding \<Rightarrow> int \<times> AddressBinding" where
  "GetHostNameOption received bindin =
     (case opts_get (mi_options received) HOST_NAME_OPTION of
        Some optHostName \<Rightarrow>
          let len = unat (opt_length optHostName); name = take len (opt_data optHostName) in
          if len \<ge> DEVICE_NAME_STRING_LENGTH then (REPLY_NONE, bindin)
          else if 10 \<in> set name \<or> 13 \<in> set name then (REPLY_NONE, bindin)
          else
            let (ok, mem) = memcpy_s DEVICE_NAME_STRING_LENGTH (ab_deviceName bindin) (opt_data optHostName) len
            in if \<not> ok then (REPLY_NONE, bindin\<lparr>ab_deviceName := mem\<rparr>)
               else (REPLY_ACK, bindin\<lparr>ab_deviceName := mem[len := 0]\<rparr>)
      | None \<Rightarrow>
          (REPLY_NONE, bindin\<lparr>ab_deviceName :=
             char_bytes ''unknown-device'' @ [0] @ drop 15 (ab_deviceName bindin)\<rparr>))"

definition GetUserClassOption :: "DhcpMsgInfo \<Rightarrow> AddressBinding \<Rightarrow> int \<times> AddressBinding" where
  "GetUserClassOption received bindin =
     (case opts_get (mi_options received) USER_CLASS_OPTION of
        None \<Rightarrow> (REPLY_ACK, bindin)
      | Some opt \<Rightarrow>
        let (ok, mem) = memcpy_s DEVICE_NAME_STRING_LENGTH (ab_userClass bindin) (opt_data opt) (unat (opt_length opt))
        in (if ok then REPLY_ACK else REPLY_NONE, bindin\<lparr>ab_userClass := mem\<rparr>))"

definition GetRapidCommitOption :: "DhcpMsgInfo \<Rightarrow> int" where
  "GetRapidCommitOption received = (if copy_check received RAPID_COMMIT_OPTION then REPLY_ACK else REPLY_NONE)"

definition GetOnlyIpv6Option :: "DhcpMsgInfo \<Rightarrow> int" where
  "GetOnlyIpv6Option received = (if copy_check received IPV6_ONLY_PREFERRED_OPTION then REPLY_ACK else REPLY_NONE)"

definition GetPortalUrlOption :: "DhcpMsgInfo \<Rightarrow> int" where
  "GetPortalUrlOption received = (if copy_check received IPV6_ONLY_PREFERRED_OPTION then REPLY_ACK else REPLY_NONE)"

text \<open>Four of the six calls change nothing and their results are ignored.\<close>

definition ParseDhcpOption :: "DhcpMsgInfo \<Rightarrow> AddressBinding \<Rightarrow> int \<times> AddressBinding" where
  "ParseDhcpOption received bindin =
     (let (_, bindin) = GetHostNameOption received bindin;
          _ = GetVendorIdentifierOption received;
          (_, bindin) = GetUserClassOption received bindin;
          _ = GetRapidCommitOption received;
          _ = GetOnlyIpv6Option received;
          _ = GetPortalUrlOption received
      in (REPLY_ACK, bindin))"

text \<open>The part of \<^verbatim>\<open>OnReceivedRequest\<close> that updates the lease: the flag is false for the answer \<^verbatim>\<open>REPLY_NAK\<close>.
  \<^verbatim>\<open>IsExpire\<close> is called twice for a lease of another client.\<close>

definition request_lease ::
    "DhcpMsgInfo \<Rightarrow> AddressBinding \<Rightarrow> AddressBinding \<Rightarrow> Globals \<Rightarrow> bool \<times> AddressBinding \<times> Globals" where
  "request_lease received binding lease g =
     (let (_, lease) = ParseDhcpOption received lease;
          sameAddr = AddrEquels (ab_chaddr lease) (dm_chaddr (mi_packet received)) MAC_ADDR_LENGTH;
          (expired, lease, g) = (if sameAddr then (True, lease, g) else IsExpire lease g)
      in if \<not> sameAddr \<and> \<not> expired then (False, lease, g)
         else
           let (expired, lease, g) = (if sameAddr then (False, lease, g) else IsExpire lease g);
               lease = (if \<not> sameAddr \<and> expired
                        then lease\<lparr>ab_chaddr := snd (memcpy_s DHCP_HWADDR_LENGTH (ab_chaddr lease)
                                 (ab_chaddr binding) MAC_ADDR_LENGTH)\<rparr>
                        else lease);
               lease = lease\<lparr>ab_bindingStatus := BIND_ASSOCIATED, ab_bindingTime := ab_bindingTime binding,
                 ab_expireIn := ab_expireIn binding\<rparr>
           in (True, lease, g))"

definition request_update ::
    "DhcpMsgInfo \<Rightarrow> u32 \<Rightarrow> AddressBinding \<Rightarrow> DhcpAddressPool \<Rightarrow> Globals \<Rightarrow> bool \<times> DhcpAddressPool \<times> Globals" where
  "request_update received yourIpAddr binding pool g =
     (case GetLease pool yourIpAddr of
        None \<Rightarrow> (True, pool, g)
      | Some lease \<Rightarrow>
        let (go, lease, g) = request_lease received binding lease g
        in (go, modify_lease yourIpAddr (\<lambda>_. lease) pool, g))"

definition OnReceivedRequest :: "DhcpMsgInfo \<Rightarrow> DhcpMsgInfo \<Rightarrow> Server \<Rightarrow> int \<times> DhcpMsgInfo \<times> Server" where
  "OnReceivedRequest received reply s =
     (let (ret, yourIpAddr, s) = ValidateRequestMessage received s in
      if ret \<noteq> REPLY_ACK then (ret, reply, s)
      else case sv_instance s of
        None \<Rightarrow> (REPLY_NONE, reply, s)
      | Some srvIns \<Rightarrow>
        (case QueryBinding (dm_chaddr (mi_packet received)) (mi_options received) (sv_globals s) of
           None \<Rightarrow> HasNobindgRequest received reply s
         | Some binding \<Rightarrow>
           let h = macAddrHash (dm_chaddr (mi_packet received));
               (_, pool, binding, g) = Rebinding (sc_addressPool srvIns) binding (sv_globals s);
               g = write_binding h binding g;
               (go, pool, g) = request_update received yourIpAddr binding pool g;
               s = set_globals g (set_pool pool s);
               bindingIp = ab_ipAddress binding
           in if \<not> go then (REPLY_NAK, reply, s)
              else if bindingIp \<noteq> 0 \<and> yourIpAddr \<noteq> INADDR_BROADCAST \<and> yourIpAddr \<noteq> bindingIp
              then (REPLY_NAK, reply, s)
              else
                let reply = reply\<lparr>mi_packet := (mi_packet reply)\<lparr>dm_yiaddr := bindingIp\<rparr>\<rparr>;
                    reply = snd (ReplyCommontOption s reply)
                in (REPLY_ACK, reply, s)))"

section \<open>Decline, release, inform\<close>

definition OnReceivedDecline :: "DhcpMsgInfo \<Rightarrow> DhcpMsgInfo \<Rightarrow> Server \<Rightarrow> int \<times> DhcpMsgInfo \<times> Server" where
  "OnReceivedDecline received reply s =
     (case sv_instance s of
        None \<Rightarrow> (REPLY_NONE, reply, s)
      | Some srvIns \<Rightarrow>
        let pool = sc_addressPool srvIns; reqIp = GetRequestIpAddress received in
        if reqIp = 0 then (REPLY_NONE, reply, s)
        else case QueryBinding (dm_chaddr (mi_packet received)) (mi_options received) (sv_globals s) of
          None \<Rightarrow> (REPLY_NONE, reply, s)
        | Some binding \<Rightarrow>
          if ab_ipAddress binding \<noteq> reqIp then (REPLY_NONE, reply, s)
          else
            let (pool, g) = (case map_of (ap_leaseTable pool) reqIp of
                  None \<Rightarrow> (pool, sv_globals s)
                | Some lease \<Rightarrow>
                  let (t, g) = Tmspsec (sv_globals s)
                  in (modify_lease reqIp (\<lambda>l. l\<lparr>ab_bindingStatus := BIND_MODE_RESERVED,
                        ab_expireIn := t + ab_leaseTime l\<rparr>) pool, g));
                (_, g) = RemoveBinding (dm_chaddr (mi_packet received)) g
            in (REPLY_NONE, reply, set_globals g (set_pool pool s)))"

definition OnReceivedRelease :: "DhcpMsgInfo \<Rightarrow> DhcpMsgInfo \<Rightarrow> Server \<Rightarrow> int \<times> DhcpMsgInfo \<times> Server" where
  "OnReceivedRelease received reply s =
     (case sv_instance s of
        None \<Rightarrow> (RET_FAILED, reply, s)
      | Some srvIns \<Rightarrow>
        let pool = sc_addressPool srvIns in
        case QueryBinding (dm_chaddr (mi_packet received)) (mi_options received) (sv_globals s) of
          None \<Rightarrow> (REPLY_NONE, reply, s)
        | Some binding \<Rightarrow>
          let bindIp = ab_ipAddress binding;
              reqIp = GetRequestIpAddress received;
              (srcIp, g) = SourceIpAddress (sv_globals s)
          in if srcIp \<noteq> 0 \<and> reqIp \<noteq> 0 \<and> reqIp \<noteq> srcIp then (REPLY_NONE, reply, set_globals g s)
             else if bindIp \<noteq> 0 \<and> reqIp \<noteq> 0 \<and> reqIp \<noteq> bindIp then (REPLY_NONE, reply, set_globals g s)
             else
               let pool = (case GetLease pool bindIp of
                             None \<Rightarrow> pool | Some lease \<Rightarrow> snd (RemoveLease pool lease));
                   (_, g) = ReleaseBinding (dm_chaddr (mi_packet received)) g
               in (REPLY_NONE, reply, set_globals g (set_pool pool s)))"

definition OnReceivedInform :: "DhcpMsgInfo \<Rightarrow> DhcpMsgInfo \<Rightarrow> Server \<Rightarrow> int \<times> DhcpMsgInfo \<times> Server" where
  "OnReceivedInform received reply s =
     (if sv_instance s = None then (RET_FAILED, reply, s) else (REPLY_ACK, reply, s))"

definition MessageProcess :: "DhcpMsgInfo \<Rightarrow> DhcpMsgInfo \<Rightarrow> Server \<Rightarrow> int \<times> DhcpMsgInfo \<times> Server" where
  "MessageProcess received reply s =
     (case opts_get (mi_options received) DHCP_MESSAGE_TYPE_OPTION of
        None \<Rightarrow> (REPLY_NONE, reply, s)
      | Some opt \<Rightarrow>
        if opt_length opt = 0 then (REPLY_NONE, reply, s)
        else
          let messageType = opt_data opt ! 0 in
          if messageType = DHCPDISCOVER then OnReceivedDiscover received reply s
          else if messageType = DHCPREQUEST then OnReceivedRequest received reply s
          else if messageType = DHCPDECLINE then OnReceivedDecline received reply s
          else if messageType = DHCPRELEASE then OnReceivedRelease received reply s
          else if messageType = DHCPINFORM then OnReceivedInform received reply s
          else (REPLY_NONE, reply, s))"

section \<open>Sending\<close>

definition GetBroadCastFlag :: "DhcpMsgInfo \<Rightarrow> bool" where
  "GetBroadCastFlag reply =
     (let broadcastFlag = (drop_bit 7 (dm_flags (mi_packet reply)) \<noteq> 0)
      in dm_ciaddr (mi_packet reply) = 0 \<and> (broadcastFlag \<or> dm_yiaddr (mi_packet reply) = 0))"

text \<open>\<^verbatim>\<open>sendto\<close>: the first \<open>length\<close> bytes of the packet leave for the destination; the result of the call
  is the environment's.\<close>

definition sendto :: "u32 \<Rightarrow> DhcpMsgInfo \<Rightarrow> Server \<Rightarrow> int \<times> Server" where
  "sendto dest reply s =
     (sv_sendto s (length (sv_events s)), log_event (EvSend dest (take (mi_length reply) (msg_image (mi_packet reply)))) s)"

definition TransmitOfferOrAckPacket :: "DhcpMsgInfo \<Rightarrow> Server \<Rightarrow> int \<times> Server" where
  "TransmitOfferOrAckPacket reply s =
     (case sv_instance s of
        None \<Rightarrow> (RET_FAILED, s)
      | Some srvIns \<Rightarrow>
        if sc_broadCastFlagEnable srvIns = 1 \<and> \<not> GetBroadCastFlag reply then
          let yiaddr = dm_yiaddr (mi_packet reply);
              s = set_globals ((sv_globals s)\<lparr>g_destIpAddr := yiaddr\<rparr>) s
          in case ParseStrMac (dm_chaddr (mi_packet reply)) 16 of
               None \<Rightarrow> (RET_FAILED, s)
             | Some mac \<Rightarrow>
               if mac = [] then (RET_FAILED, s)
               else
                 let arp = sv_arp s (length (sv_events s));
                     s = log_event (EvArp (sv_ifname s) (ParseStrIp yiaddr) mac) s
                 in if arp < 0 then (RET_FAILED, s)
                    else if mi_length reply > 0 \<and> mi_length reply \<le> 1500 then
                      let (ret, s) = sendto yiaddr reply s
                      in (if ret = 0 then RET_FAILED else RET_SUCCESS, s)
                    else (RET_FAILED, s)
        else
          let (ret, s) = sendto INADDR_BROADCAST reply s
          in (if ret = 0 then RET_FAILED else RET_SUCCESS, s))"

definition SendDhcpOffer :: "DhcpMsgInfo \<Rightarrow> Server \<Rightarrow> int \<times> DhcpMsgInfo \<times> Server" where
  "SendDhcpOffer reply s =
     (case sv_instance s of
        None \<Rightarrow> (RET_FAILED, reply, s)
      | Some srvIns \<Rightarrow>
        let (ret, reply) = AppendReplyTypeOption reply REPLY_OFFER in
        if ret \<noteq> RET_SUCCESS then (RET_FAILED, reply, s)
        else
          let (ret, reply) = AppendReplyTimeOptions s reply in
          if ret \<noteq> RET_SUCCESS then (RET_FAILED, reply, s)
          else
            let (ret, reply) = AddReplyServerIdOption reply (ap_serverId (sc_addressPool srvIns)) in
            if ret \<noteq> RET_SUCCESS then (RET_FAILED, reply, s)
            else
              let (_, reply) = AppendFixedOptions s reply;
                  (ret, reply) = ParseReplyOptions reply
              in if ret \<noteq> RET_SUCCESS then (RET_FAILED, reply, s)
                 else
                   let (ret, s) = TransmitOfferOrAckPacket reply s
                   in (if ret \<noteq> RET_SUCCESS then RET_FAILED else RET_SUCCESS, reply, s))"

definition SendDhcpAck :: "DhcpMsgInfo \<Rightarrow> Server \<Rightarrow> int \<times> DhcpMsgInfo \<times> Server" where
  "SendDhcpAck reply s =
     (let (ret, reply) = AppendReplyTypeOption reply REPLY_ACK in
      if ret \<noteq> RET_SUCCESS then (RET_FAILED, reply, s)
      else
        let (_, reply) = AppendFixedOptions s reply in
        case sv_instance s of
          None \<Rightarrow> (RET_FAILED, reply, s)
        | Some srvIns \<Rightarrow>
          let (ret, reply) = AppendReplyTimeOptions s reply in
          if ret \<noteq> RET_SUCCESS then (RET_FAILED, reply, s)
          else
            let (ret, reply) = AddReplyServerIdOption reply (ap_serverId (sc_addressPool srvIns)) in
            if ret \<noteq> RET_SUCCESS then (RET_FAILED, reply, s)
            else
              let (ret, reply) = ParseReplyOptions reply in
              if ret \<noteq> RET_SUCCESS then (RET_FAILED, reply, s)
              else
                let (ret, s) = TransmitOfferOrAckPacket reply s
                in (if ret \<noteq> RET_SUCCESS then RET_FAILED else RET_SUCCESS, reply, s))"

definition SendDhcpNak :: "DhcpMsgInfo \<Rightarrow> Server \<Rightarrow> int \<times> DhcpMsgInfo \<times> Server" where
  "SendDhcpNak reply s =
     (let (ret, reply) = AppendReplyTypeOption reply REPLY_NAK in
      if ret \<noteq> RET_SUCCESS then (RET_FAILED, reply, s)
      else case sv_instance s of
        None \<Rightarrow> (RET_FAILED, reply, s)
      | Some srvIns \<Rightarrow>
        let (ret, reply) = AddReplyServerIdOption reply (ap_serverId (sc_addressPool srvIns)) in
        if ret \<noteq> RET_SUCCESS then (RET_FAILED, reply, s)
        else
          let reply = push_option reply (mk_option MESSAGE_OPTION 13 (char_bytes ''wrong network''));
              (ret, reply) = ParseReplyOptions reply
          in if ret \<noteq> RET_SUCCESS then (RET_FAILED, reply, s)
             else
               let (ret, s) = sendto INADDR_BROADCAST reply s
               in (if ret = 0 then RET_FAILED else RET_SUCCESS, reply, s))"

definition SendDhcpReply :: "int \<Rightarrow> DhcpMsgInfo \<Rightarrow> Server \<Rightarrow> int \<times> DhcpMsgInfo \<times> Server" where
  "SendDhcpReply replyType reply s =
     (case sv_instance s of
        None \<Rightarrow> (RET_FAILED, reply, s)
      | Some srvIns \<Rightarrow>
        let (sendRet, reply, s) =
              (if replyType = REPLY_OFFER then SendDhcpOffer reply s
               else if replyType = REPLY_ACK then SendDhcpAck reply s
               else if replyType = REPLY_NAK then SendDhcpNak reply s
               else (-1, reply, s))
        in (if replyType \<noteq> 0 \<and> sendRet \<noteq> RET_SUCCESS then RET_FAILED else RET_SUCCESS, reply, s))"

section \<open>Saving, callbacks and the message loop\<close>

definition SaveLease :: "Server \<Rightarrow> int \<times> Server" where
  "SaveLease s =
     (case sv_instance s of
        None \<Rightarrow> (RET_FAILED, s)
      | Some srvIns \<Rightarrow>
        let (ret, fs, g) = SaveBindingRecoders (sv_files s) (sc_addressPool srvIns) 1 (sv_globals s)
        in (ret, s\<lparr>sv_files := fs, sv_globals := g\<rparr>))"

definition run_callback :: "ServerState \<Rightarrow> int \<Rightarrow> Server \<Rightarrow> Server" where
  "run_callback st code s =
     (case sv_instance s of
        None \<Rightarrow> s
      | Some srvIns \<Rightarrow> if sc_callback srvIns then log_event (EvCallback st code (sv_ifname s)) s else s)"

definition OnUpdateServerConfig :: "Server \<Rightarrow> Server" where
  "OnUpdateServerConfig s = run_callback ST_RELOADNG 0 s"

definition OnServerStoping :: "Server \<Rightarrow> Server" where
  "OnServerStoping s = run_callback ST_STOPING 0 s"

definition OnServerStoped :: "int \<Rightarrow> Server \<Rightarrow> Server" where
  "OnServerStoped code s = run_callback ST_STOPED code s"

definition set_looper :: "LooperState \<Rightarrow> Server \<Rightarrow> Server" where
  "set_looper st s = s\<lparr>sv_instance := map_option (\<lambda>srv. srv\<lparr>sc_looperState := st\<rparr>) (sv_instance s)\<rparr>"

definition OnLooperStateChanged :: "Server \<Rightarrow> int \<times> Server" where
  "OnLooperStateChanged s =
     (case sv_instance s of
        None \<Rightarrow> (RET_FAILED, s)
      | Some srvIns \<Rightarrow>
        if sc_looperState srvIns = LS_RELOADNG then (RET_SUCCESS, set_looper LS_RUNNING (OnUpdateServerConfig s))
        else if sc_looperState srvIns = LS_STOPING then (RET_BREAK, OnServerStoping s)
        else (RET_SUCCESS, s))"

definition NotifyConnetDeviceChanged :: "int \<Rightarrow> Server \<Rightarrow> Server" where
  "NotifyConnetDeviceChanged replyType s =
     (if replyType = REPLY_ACK \<or> replyType = REPLY_OFFER then
        case sv_instance s of
          None \<Rightarrow> s
        | Some srvIns \<Rightarrow>
          let (_, fs, g) = SaveBindingRecoders (sv_files s) (sc_addressPool srvIns) 1 (sv_globals s);
              s = s\<lparr>sv_files := fs, sv_globals := g\<rparr>
          in if replyType = REPLY_ACK \<and> sc_deviceConnectFun srvIns
             then log_event (EvDeviceConnect (sv_ifname s)) s else s
      else s)"

text \<open>One iteration of \<^verbatim>\<open>BeginLooper\<close> on what the socket gives: the messages \<open>from\<close> and \<open>reply\<close> are locals of
  the loop and are not cleared between messages, only their option lists are. The flag tells
  whether the loop goes on.\<close>

definition looper_iteration ::
    "Received \<Rightarrow> DhcpMsgInfo \<Rightarrow> DhcpMsgInfo \<Rightarrow> Server \<Rightarrow> bool \<times> DhcpMsgInfo \<times> DhcpMsgInfo \<times> Server" where
  "looper_iteration r from reply s =
     (let (ret, s) = OnLooperStateChanged s in
      if ret \<noteq> RET_SUCCESS then (False, from, reply, s)
      else
        let from = from\<lparr>mi_options := opts_clear (mi_options from)\<rparr>;
            reply = reply\<lparr>mi_options := opts_clear (mi_options reply)\<rparr>;
            (recvRet, from, g) = ReceiveDhcpMessage r from (sv_globals s);
            s = set_globals g s
        in if recvRet = RET_ERROR \<or> recvRet = ERR_SELECT then (True, from, reply, s)
           else
             let (cont, from) = ContinueReceive from recvRet in
             if cont then (True, from, reply, s)
             else
               let reply = InitReply s from reply;
                   (replyType, reply, s) = MessageProcess from reply s;
                   (reply, s) = (if replyType \<noteq> 0 then snd (SendDhcpReply replyType reply s) else (reply, s))
               in (True, from, reply, NotifyConnetDeviceChanged replyType s))"

text \<open>\<^verbatim>\<open>BeginLooper\<close> on the sequence of what the socket gives, until the loop ends or the sequence does:
  \<open>fd\<close> is the result of \<^verbatim>\<open>InitServer\<close>. The first flag tells whether the thread has ended.\<close>

fun looper_run :: "Received list \<Rightarrow> DhcpMsgInfo \<Rightarrow> DhcpMsgInfo \<Rightarrow> Server \<Rightarrow> bool \<times> DhcpMsgInfo \<times> DhcpMsgInfo \<times> Server" where
  "looper_run [] from reply s = (False, from, reply, s)"
| "looper_run (r # rs) from reply s =
     (case sv_instance s of
        None \<Rightarrow> (True, from, reply, s)
      | Some srvIns \<Rightarrow>
        if sc_looperState srvIns = LS_IDLE then (True, from, reply, s)
        else
          let (go, from, reply, s) = looper_iteration r from reply s
          in if go then looper_run rs from reply s else (True, from, reply, s))"

definition set_fd :: "int \<Rightarrow> Server \<Rightarrow> Server" where
  "set_fd fd s = s\<lparr>sv_instance := map_option (\<lambda>srv. srv\<lparr>sc_serverFd := fd\<rparr>) (sv_instance s)\<rparr>"

definition BeginLooper :: "int \<Rightarrow> Received list \<Rightarrow> DhcpMessage \<Rightarrow> DhcpMessage \<Rightarrow> Server \<Rightarrow> bool \<times> Server" where
  "BeginLooper fd rs fromPacket replyPacket s =
     (if sv_instance s = None then (True, s)
      else
        let s = set_fd fd s in
        if fd < 0 then (True, s)
        else
          let from = \<lparr>mi_packet = fromPacket, mi_length = 0, mi_options = Some []\<rparr>;
              reply = \<lparr>mi_packet = replyPacket, mi_length = 0, mi_options = Some []\<rparr>;
              (ended, _, _, s) = looper_run rs from reply (set_looper LS_RUNNING s)
          in if ended then (True, set_looper LS_STOPED (set_fd (-1) s)) else (False, s))"

definition StopDhcpServer :: "Server \<Rightarrow> int \<times> Server" where
  "StopDhcpServer s =
     (if sv_instance s = None then (RET_FAILED, s) else (RET_SUCCESS, set_looper LS_STOPING s))"

definition GetServerStatus :: "Server \<Rightarrow> LooperState option" where
  "GetServerStatus s = map_option sc_looperState (sv_instance s)"

definition StartDhcpServer :: "bool \<Rightarrow> Server \<Rightarrow> int \<times> Server" where
  "StartDhcpServer threadCreated s =
     (if sv_ifname s = [] then (RET_FAILED, s)
      else case sv_instance s of
        None \<Rightarrow> (RET_FAILED, s)
      | Some srvIns \<Rightarrow>
        if sc_initialized srvIns = 0 then (RET_FAILED, s)
        else
          let s = run_callback ST_STARTING 1 s
          in (if threadCreated then RET_SUCCESS else RET_FAILED, s))"

definition RegisterDhcpCallback :: "bool \<Rightarrow> Server \<Rightarrow> Server" where
  "RegisterDhcpCallback callback s =
     s\<lparr>sv_instance := map_option (\<lambda>srv. srv\<lparr>sc_callback := callback\<rparr>) (sv_instance s)\<rparr>"

definition RegisterDeviceChangedCallback :: "bool \<Rightarrow> Server \<Rightarrow> Server" where
  "RegisterDeviceChangedCallback func s =
     s\<lparr>sv_instance := map_option (\<lambda>srv. srv\<lparr>sc_deviceConnectFun := func\<rparr>) (sv_instance s)\<rparr>"

end
