(* ===== verification/DhcpServerInv.thy ===== *)
theory DhcpServerInv
  imports DhcpServer
begin

text \<open>
  The invariant of the server: every entry of the lease table is stored under its own address, the tables are
  ordered without duplicate keys, and the arrays in the records have their sizes. Every operation of
  the pool and every handler keeps it, so the message loop does on every sequence of datagrams. The
  interface \<open>inv_machine\<close> is interpreted on one iteration of the loop.
\<close>

section \<open>The invariant\<close>

definition pool_inv :: "DhcpAddressPool \<Rightarrow> bool" where
  "pool_inv pool \<longleftrightarrow> smap_wf (ap_leaseTable pool)
     \<and> all_entries (map_of (ap_leaseTable pool)) (\<lambda>ip l. ab_ipAddress l = ip \<and> binding_wf l)"

definition globals_inv :: "Globals \<Rightarrow> bool" where
  "globals_inv g \<longleftrightarrow> smap_wf (g_bindingRecoders g)
     \<and> all_entries (map_of (g_bindingRecoders g)) (\<lambda>_ b. binding_wf b)"

definition server_inv :: "Server \<Rightarrow> bool" where
  "server_inv s \<longleftrightarrow> globals_inv (sv_globals s)
     \<and> (\<forall>srv. sv_instance s = Some srv \<longrightarrow> pool_inv (sc_addressPool srv))"

named_theorems inv_intro \<open>preservation of the invariant\<close>

lemma binding_wf_update [simp]:
  "binding_wf (b\<lparr>ab_ipAddress := ip\<rparr>) = binding_wf b" "binding_wf (b\<lparr>ab_bindingTime := t\<rparr>) = binding_wf b"
  "binding_wf (b\<lparr>ab_pendingTime := t\<rparr>) = binding_wf b" "binding_wf (b\<lparr>ab_expireIn := t\<rparr>) = binding_wf b"
  "binding_wf (b\<lparr>ab_leaseTime := t\<rparr>) = binding_wf b" "binding_wf (b\<lparr>ab_pendingInterval := t\<rparr>) = binding_wf b"
  "binding_wf (b\<lparr>ab_bindingStatus := i\<rparr>) = binding_wf b" "binding_wf (b\<lparr>ab_bindingMode := i\<rparr>) = binding_wf b"
  by (simp_all add: binding_wf_def)

lemma binding_wf_chaddr:
  "binding_wf b \<Longrightarrow> length mac = 16 \<or> length mac = 6 \<Longrightarrow>
    binding_wf (b\<lparr>ab_chaddr := take 6 mac @ drop 6 (ab_chaddr b)\<rparr>)"
  by (auto simp: binding_wf_def)

lemma pool_inv_lease: "pool_inv pool \<Longrightarrow> GetLease pool ip = Some l \<Longrightarrow> ab_ipAddress l = ip \<and> binding_wf l"
  by (auto simp: pool_inv_def GetLease_def split: if_splits dest: all_entriesD)

lemma globals_inv_binding: "globals_inv g \<Longrightarrow> map_of (g_bindingRecoders g) h = Some b \<Longrightarrow> binding_wf b"
  by (auto simp: globals_inv_def dest: all_entriesD)

lemma globals_inv_Query: "globals_inv g \<Longrightarrow> QueryBinding mac opts g = Some b \<Longrightarrow> binding_wf b"
  by (auto simp: QueryBinding_def GetBindingByMac_def dest: globals_inv_binding)

lemma pool_inv_put [inv_intro]: "pool_inv pool \<Longrightarrow> binding_wf l \<Longrightarrow> pool_inv (put_lease l pool)"
  by (auto simp: pool_inv_def smap_wf_assign simp del: smap_simps intro: smap.all_entries_put)

lemma pool_inv_assign [inv_intro]:
  "pool_inv pool \<Longrightarrow> binding_wf l \<Longrightarrow> ab_ipAddress l = ip \<Longrightarrow>
    pool_inv (pool\<lparr>ap_leaseTable := smap_assign ip l (ap_leaseTable pool)\<rparr>)"
  using pool_inv_put [of pool l] by (simp add: put_lease_def)

lemma pool_inv_modify [inv_intro]:
  "pool_inv pool \<Longrightarrow> (\<And>l. map_of (ap_leaseTable pool) ip = Some l \<Longrightarrow> ab_ipAddress l = ip \<Longrightarrow> binding_wf l
      \<Longrightarrow> ab_ipAddress (f l) = ip \<and> binding_wf (f l))
    \<Longrightarrow> pool_inv (modify_lease ip f pool)"
  by (auto simp: pool_inv_def smap_wf_modify simp del: smap_simps intro!: smap.all_entries_modify)

lemma pool_inv_filter [inv_intro]:
  "pool_inv pool \<Longrightarrow> pool_inv (pool\<lparr>ap_leaseTable := filter P (ap_leaseTable pool)\<rparr>)"
proof -
  assume inv: "pool_inv pool"
  then have "distinct (map fst (ap_leaseTable pool))"
    by (auto simp: pool_inv_def intro: smap_wf_distinct)
  then have "map_of (filter P (ap_leaseTable pool)) ip = Some l \<Longrightarrow> map_of (ap_leaseTable pool) ip = Some l" for ip l
    by (metis (no_types, lifting) distinct_map_filter filter_is_subset map_of_eq_Some_iff subsetD)
  with inv show ?thesis
    by (auto simp: pool_inv_def all_entries_def)
qed

lemma pool_inv_erase [inv_intro]:
  "pool_inv pool \<Longrightarrow> pool_inv (pool\<lparr>ap_leaseTable := smap_erase ip (ap_leaseTable pool)\<rparr>)"
  by (simp add: smap_erase_def pool_inv_filter)

lemma pool_inv_distribution [simp]: "pool_inv (pool\<lparr>ap_distribution := d\<rparr>) = pool_inv pool"
  by (simp add: pool_inv_def)

lemma globals_inv_update [simp]:
  "globals_inv (g\<lparr>g_ticks := n\<rparr>) = globals_inv g" "globals_inv (g\<lparr>g_sourceIpAddr := a\<rparr>) = globals_inv g"
  "globals_inv (g\<lparr>g_destIpAddr := a\<rparr>) = globals_inv g" "globals_inv (g\<lparr>g_dangling := b\<rparr>) = globals_inv g"
  "globals_inv (g\<lparr>g_lastTime := t\<rparr>) = globals_inv g"
  by (simp_all add: globals_inv_def)

lemma globals_inv_clock [inv_intro]:
  "globals_inv g \<Longrightarrow> globals_inv (snd (Tmspsec g))" "globals_inv g \<Longrightarrow> globals_inv (snd (Tmspusec g))"
  "globals_inv g \<Longrightarrow> globals_inv (snd (SourceIpAddress g))" "globals_inv g \<Longrightarrow> globals_inv (DestinationAddr a g)"
  "globals_inv g \<Longrightarrow> globals_inv (snd (snd (IsExpire b g)))"
  by (simp_all add: Tmspsec_def Tmspusec_def SourceIpAddress_def SourceAddrIn_def DestinationAddr_def Let_def
      IsExpire_def)

lemma globals_inv_assign [inv_intro]:
  "globals_inv g \<Longrightarrow> binding_wf b \<Longrightarrow> globals_inv (g'\<lparr>g_bindingRecoders := smap_assign h b (g_bindingRecoders g)\<rparr>)"
  by (auto simp: globals_inv_def smap_wf_assign simp del: smap_simps intro: smap.all_entries_put)

lemma globals_inv_erase [inv_intro]:
  "globals_inv g \<Longrightarrow> globals_inv (g'\<lparr>g_bindingRecoders := smap_erase h (g_bindingRecoders g)\<rparr>)"
  by (auto simp: globals_inv_def smap_wf_erase simp del: smap_simps intro: smap.all_entries_remove)

lemma globals_inv_modify [inv_intro]:
  "globals_inv g \<Longrightarrow> (\<And>b. binding_wf b \<Longrightarrow> binding_wf (f b))
    \<Longrightarrow> globals_inv (g'\<lparr>g_bindingRecoders := smap_modify h f (g_bindingRecoders g)\<rparr>)"
  by (auto simp: globals_inv_def smap_wf_modify simp del: smap_simps intro!: smap.all_entries_modify)

lemma globals_inv_write [inv_intro]: "globals_inv g \<Longrightarrow> binding_wf b \<Longrightarrow> globals_inv (write_binding h b g)"
  by (auto simp: write_binding_def intro: globals_inv_modify)

lemma globals_inv_Remove [inv_intro]:
  "globals_inv g \<Longrightarrow> globals_inv (snd (RemoveBinding mac g))" "globals_inv g \<Longrightarrow> globals_inv (snd (ReleaseBinding mac g))"
  by (auto simp: RemoveBinding_def ReleaseBinding_def intro: globals_inv_erase globals_inv_modify)

lemma binding_wf_deref: "globals_inv g \<Longrightarrow> binding_wf (deref_binding h g)"
  by (auto simp: deref_binding_def split: option.split dest: globals_inv_binding)

lemma pool_inv_ops [inv_intro]:
  "pool_inv pool \<Longrightarrow> binding_wf l \<Longrightarrow> pool_inv (snd (AddLease pool l))"
  "pool_inv pool \<Longrightarrow> binding_wf l \<Longrightarrow> pool_inv (snd (UpdateLease pool l))"
  "pool_inv pool \<Longrightarrow> pool_inv (snd (RemoveLease pool l))"
  "pool_inv pool \<Longrightarrow> pool_inv (snd (DeleteMacInLease pool l))"
  by (auto simp: AddLease_def UpdateLease_def RemoveLease_def DeleteMacInLease_def intro: inv_intro)

lemma binding_wf_IsExpire: "binding_wf b \<Longrightarrow> binding_wf (fst (snd (IsExpire b g)))"
  by (simp add: IsExpire_simps)

lemma ip_IsExpire [simp]: "ab_ipAddress (fst (snd (IsExpire b g))) = ab_ipAddress b"
  by (simp add: IsExpire_simps)

section \<open>The address search\<close>

lemma CheckIpAvailability_inv:
  assumes "CheckIpAvailability pool mac ip g = (avail, pool', g')" "pool_inv pool" "globals_inv g" "length mac = 16"
  shows "pool_inv pool' \<and> globals_inv g'"
proof (cases "GetLease pool ip")
  case None
  with assms show ?thesis by (auto simp: CheckIpAvailability_def split: if_splits)
next
  case (Some l)
  then have l: "ab_ipAddress l = ip" "binding_wf l" using pool_inv_lease assms(2) by blast+
  have wf: "binding_wf ((fst (snd (IsExpire l g)))\<lparr>ab_pendingTime := t, ab_bindingTime := t,
      ab_chaddr := take 6 mac @ drop 6 (ab_chaddr (fst (snd (IsExpire l g))))\<rparr>)" for t
    using binding_wf_IsExpire [OF l(2), of g] assms(4) by (simp add: binding_wf_def)
  show ?thesis
    using assms(1) Some l wf assms(2,3)
    by (auto simp: CheckIpAvailability_def Let_def split_beta binding_wf_IsExpire
        intro!: pool_inv_modify globals_inv_Remove globals_inv_clock split: if_splits)
qed

lemma CheckRangeAvailability_inv:
  assumes "CheckRangeAvailability pool mac ip oor g = (ret, oor', pool', g')" "pool_inv pool" "globals_inv g"
    "length mac = 16"
  shows "pool_inv pool' \<and> globals_inv g'"
proof -
  have "binding_wf (zero_binding\<lparr>ab_pendingTime := t, ab_bindingMode := m, ab_ipAddress := ip, ab_bindingTime := t,
      ab_leaseTime := lt, ab_chaddr := take 6 mac @ drop 6 (ab_chaddr zero_binding)\<rparr>)" for t m lt
    using assms(4) by (simp add: binding_wf_def zero_binding_def)
  then show ?thesis
    using assms by (auto simp: CheckRangeAvailability_def Let_def split_beta
        intro!: pool_inv_ops globals_inv_clock split: if_splits)
qed

lemma AddressDistribute_loop_inv:
  assumes "AddressDistribute_loop n i ip oor mac pool g = (ok, ip', pool', g')" "pool_inv pool" "globals_inv g"
    "length mac = 16"
  shows "pool_inv pool' \<and> globals_inv g'"
  using assms(1-3)
proof (induction n arbitrary: i ip oor pool g)
  case 0
  then show ?case by simp
next
  case (Suc n)
  obtain off g0 where off: "(if i = 0 then NextIpOffset (ap_netmask pool) g else (0, g)) = (off, g0)"
    by fastforce
  then have g0: "globals_inv g0"
    using Suc.prems(3) by (auto simp: NextIpOffset_def Let_def Tmspusec_def split: if_splits)
  let ?ip = "NextIpAddress ip (ap_netmask pool) off"
  obtain avail pool1 g1 where chk: "CheckIpAvailability pool mac ?ip g0 = (avail, pool1, g1)"
    by (metis prod_cases3)
  note inv1 = CheckIpAvailability_inv [OF chk Suc.prems(2) g0 assms(4)]
  obtain ret oor' pool2 g2 where rng: "CheckRangeAvailability pool1 mac ?ip oor g1 = (ret, oor', pool2, g2)"
    by (metis prod_cases4)
  have inv2: "pool_inv pool2" "globals_inv g2"
    using CheckRangeAvailability_inv [OF rng _ _ assms(4)] inv1 by auto
  have res: "(ok, ip', pool', g') =
    (if \<not> avail then AddressDistribute_loop n (i + 1) ?ip oor mac pool1 g1
     else if ret = RET_ERROR then (False, ?ip, pool2, g2)
     else if ret = RET_SUCCESS then (True, ?ip, pool2, g2)
     else AddressDistribute_loop n (i + 1) ?ip oor' mac pool2 g2)"
    using Suc.prems(1) by (simp add: off chk rng Let_def split del: if_split cong: if_cong)
  show ?case
    using res inv1 inv2 Suc.IH [OF sym] by (auto split: if_splits)
qed

lemma AddressDistribute_inv:
  assumes "AddressDistribute pool mac g = (ip, pool', g')" "pool_inv pool" "globals_inv g" "length mac = 16"
  shows "pool_inv pool' \<and> globals_inv g'"
  using assms AddressDistribute_loop_inv
  by (auto simp: AddressDistribute_def Let_def split_beta split: if_splits)
    (metis pool_inv_distribution prod.collapse)+

section \<open>The handlers\<close>

lemma AddNewBinding_inv:
  assumes "AddNewBinding mac opts g = (b, g')" "globals_inv g" "length mac = 16"
  shows "globals_inv g' \<and> (\<forall>x. b = Some x \<longrightarrow> binding_wf x)"
proof -
  have wf: "binding_wf (zero_binding\<lparr>ab_bindingMode := m, ab_bindingStatus := st, ab_chaddr := take 16 mac @ drop 16 (ab_chaddr zero_binding),
      ab_bindingTime := t, ab_pendingTime := t', ab_expireIn := e, ab_leaseTime := lt\<rparr>)" for m st t t' e lt
    using assms(3) by (simp add: binding_wf_def zero_binding_def)
  have "globals_inv g'"
    using assms(1,2) wf by (auto simp: AddNewBinding_def Let_def split_beta intro!: globals_inv_assign globals_inv_clock)
  moreover have "b = GetBindingByMac mac g'"
    using assms(1) by (auto simp: AddNewBinding_def Let_def split_beta)
  ultimately show ?thesis
    by (auto simp: GetBindingByMac_def dest: globals_inv_binding)
qed

lemma GetBinding_inv:
  assumes "GetBinding pool received g = (h, pool', g')" "pool_inv pool" "globals_inv g"
    "length (dm_chaddr (mi_packet received)) = 16"
  shows "pool_inv pool' \<and> globals_inv g'"
proof (cases "QueryBinding (dm_chaddr (mi_packet received)) (mi_options received) g")
  case (Some b)
  with assms show ?thesis by (auto simp: GetBinding_def)
next
  case None
  let ?mac = "dm_chaddr (mi_packet received)"
  obtain b g1 where new: "AddNewBinding ?mac (mi_options received) g = (b, g1)" by fastforce
  note inv1 = AddNewBinding_inv [OF new assms(3,4)]
  show ?thesis
  proof (cases b)
    case None
    with new \<open>QueryBinding _ _ _ = None\<close> assms(1,2) inv1 show ?thesis by (auto simp: GetBinding_def)
  next
    case (Some x)
    define g2 where "g2 = (if ap_leaseTime pool \<noteq> 0
        then write_binding (macAddrHash ?mac) (x\<lparr>ab_leaseTime := ucast (ap_leaseTime pool)\<rparr>) g1 else g1)"
    have g2: "globals_inv g2" using inv1 Some by (auto simp: g2_def intro: globals_inv_write)
    obtain ip pool3 g3 where dist: "AddressDistribute pool ?mac g2 = (ip, pool3, g3)" by (metis prod_cases3)
    have inv3: "pool_inv pool3" "globals_inv g3"
      using AddressDistribute_inv [OF dist assms(2) g2 assms(4)] by auto
    have "pool' = pool3" "g' = write_binding (macAddrHash ?mac) ((deref_binding (macAddrHash ?mac) g3)\<lparr>ab_ipAddress := ip\<rparr>) g3"
      using assms(1) None new Some dist by (auto simp: GetBinding_def Let_def g2_def [symmetric])
    with inv3 show ?thesis by (auto intro!: globals_inv_write binding_wf_deref)
  qed
qed

lemma server_inv_simps [simp]:
  "server_inv (s\<lparr>sv_events := ev\<rparr>) = server_inv s" "server_inv (s\<lparr>sv_files := fs\<rparr>) = server_inv s"
  "server_inv (log_event e s) = server_inv s"
  by (simp_all add: server_inv_def log_event_def)

lemma server_inv_set [inv_intro]:
  "server_inv s \<Longrightarrow> globals_inv g \<Longrightarrow> server_inv (set_globals g s)"
  "server_inv s \<Longrightarrow> pool_inv pool \<Longrightarrow> server_inv (set_pool pool s)"
  "server_inv s \<Longrightarrow> server_inv (set_looper st s)" "server_inv s \<Longrightarrow> server_inv (set_fd fd s)"
  by (auto simp: server_inv_def set_globals_def set_pool_def set_looper_def set_fd_def)

lemma server_inv_pool: "server_inv s \<Longrightarrow> sv_instance s = Some srv \<Longrightarrow> pool_inv (sc_addressPool srv)"
  by (simp add: server_inv_def)

lemma server_inv_globals: "server_inv s \<Longrightarrow> globals_inv (sv_globals s)"
  by (simp add: server_inv_def)

lemma set_simps [simp]:
  "sv_instance (set_globals g s) = sv_instance s" "sv_globals (set_globals g s) = g"
  "sv_globals (set_pool pool s) = sv_globals s"
  "sv_instance (set_pool pool s) = map_option (\<lambda>srv. srv\<lparr>sc_addressPool := pool\<rparr>) (sv_instance s)"
  by (simp_all add: set_globals_def set_pool_def)

lemma DiscoverReplyLeaseMessage_inv:
  "server_inv s \<Longrightarrow> server_inv (snd (snd (DiscoverReplyLeaseMessage h reply s)))"
  by (auto simp: DiscoverReplyLeaseMessage_def Let_def split: option.split
      intro!: server_inv_set pool_inv_ops binding_wf_deref intro: server_inv_pool server_inv_globals)

lemma SourceIpAddress_0 [simp]: "fst (SourceIpAddress g) = 0"
  by (simp add: SourceIpAddress_def SourceAddrIn_def)

definition discover_globals :: "ServerContext \<Rightarrow> Globals \<Rightarrow> Globals" where
  "discover_globals srv g = (if sc_broadCastFlagEnable srv = 0
     then DestinationAddr INADDR_BROADCAST (snd (SourceIpAddress g)) else snd (SourceIpAddress g))"

lemma OnReceivedDiscover_eq:
  assumes "sv_instance s = Some srv"
    "GetBinding (sc_addressPool srv) received (discover_globals srv (sv_globals s)) = (b, pool, g)"
  shows "OnReceivedDiscover received reply s =
    (case b of
       None \<Rightarrow> (REPLY_NONE, reply, set_globals g (set_pool pool s))
     | Some h \<Rightarrow>
       if ab_ipAddress (deref_binding h g) = 0 then (REPLY_NONE, reply, set_globals g (set_pool pool s))
       else DiscoverReplyLeaseMessage h reply
              (set_pool (snd (DeleteMacInLease pool (deref_binding h g))) (set_globals g (set_pool pool s))))"
  using assms
  by (cases "sc_broadCastFlagEnable srv = 0"; cases b)
    (simp_all add: OnReceivedDiscover_def Let_def split_beta discover_globals_def)

lemma OnReceivedDiscover_inv:
  assumes "server_inv s" "length (dm_chaddr (mi_packet received)) = 16"
  shows "server_inv (snd (snd (OnReceivedDiscover received reply s)))"
proof (cases "sv_instance s")
  case None
  with assms(1) show ?thesis by (simp add: OnReceivedDiscover_def)
next
  case (Some srv)
  have g1: "globals_inv (discover_globals srv (sv_globals s))"
    using server_inv_globals [OF assms(1)] by (auto simp: discover_globals_def intro!: globals_inv_clock)
  obtain b pool2 g2 where
    bind: "GetBinding (sc_addressPool srv) received (discover_globals srv (sv_globals s)) = (b, pool2, g2)"
    by (metis prod_cases3)
  have inv2: "pool_inv pool2" "globals_inv g2"
    using GetBinding_inv [OF bind server_inv_pool [OF assms(1) Some] g1 assms(2)] by auto
  then have s2: "server_inv (set_globals g2 (set_pool pool2 s))"
    using assms(1) by (auto intro: server_inv_set)
  show ?thesis
    using s2 inv2 unfolding OnReceivedDiscover_eq [OF Some bind]
    by (auto split: option.split intro!: DiscoverReplyLeaseMessage_inv server_inv_set(2) pool_inv_ops)
qed

lemma Repending_inv:
  assumes "Repending pool b g = (ret, pool', b', g')" "pool_inv pool" "globals_inv g" "binding_wf b"
  shows "pool' = pool \<and> globals_inv g' \<and> binding_wf b' \<and> ab_ipAddress b' = ab_ipAddress b
    \<and> ab_chaddr b' = ab_chaddr b \<and> ab_leaseTime b' = ab_leaseTime b"
  using assms by (auto simp: Repending_def Let_def split_beta split: if_splits intro!: globals_inv_clock)

lemma Rebinding_inv:
  assumes "Rebinding pool b g = (ret, pool', b', g')" "pool_inv pool" "globals_inv g" "binding_wf b"
  shows "pool' = pool \<and> globals_inv g' \<and> binding_wf b' \<and> ab_ipAddress b' = ab_ipAddress b
    \<and> ab_chaddr b' = ab_chaddr b"
proof -
  obtain r p c h where rep: "Repending pool b g = (r, p, c, h)" by (metis prod_cases4)
  have inv: "p = pool \<and> globals_inv h \<and> binding_wf c \<and> ab_ipAddress c = ab_ipAddress b \<and> ab_chaddr c = ab_chaddr b"
    using Repending_inv [OF rep assms(2-4)] by auto
  show ?thesis
    using assms(1) rep inv by (auto simp: Rebinding_def Let_def split_beta intro: globals_inv_clock)
qed

lemma GetYourIpAddress_inv:
  "GetYourIpAddress received a pool g = (ret, a', g') \<Longrightarrow> globals_inv g \<Longrightarrow> globals_inv g'"
  by (auto simp: GetYourIpAddress_def Let_def split_beta split: if_splits intro!: globals_inv_clock)

lemma NotBindingRequest_bind_inv:
  assumes "NotBindingRequest_bind ip pool received reply g = (ret, pool', reply', g')" "pool_inv pool" "globals_inv g"
    "length (dm_chaddr (mi_packet received)) = 16"
  shows "pool_inv pool' \<and> globals_inv g'"
proof -
  let ?mac = "dm_chaddr (mi_packet received)"
  obtain b g1 where new: "AddNewBinding ?mac (mi_options received) g = (b, g1)" by fastforce
  note inv1 = AddNewBinding_inv [OF new assms(3,4)]
  show ?thesis
  proof (cases b)
    case None
    with new assms(1,2) inv1 show ?thesis by (auto simp: NotBindingRequest_bind_def)
  next
    case (Some x)
    define y where "y = (if ap_leaseTime pool \<noteq> 0 then x\<lparr>ab_ipAddress := ip, ab_leaseTime := ucast (ap_leaseTime pool)\<rparr>
        else x\<lparr>ab_ipAddress := ip\<rparr>)"
    have y: "binding_wf y" "ab_ipAddress y = ip" using inv1 Some by (auto simp: y_def)
    obtain r p c g2 where rep: "Repending pool y g1 = (r, p, c, g2)" by (metis prod_cases4)
    have inv2: "p = pool" "globals_inv g2" "binding_wf c" "ab_ipAddress c = ip"
      using Repending_inv [OF rep assms(2) _ y(1)] inv1 y(2) by auto
    define q where "q = (if GetLease pool ip \<noteq> None then pool else snd (AddLease pool c))"
    have q: "pool_inv q" using assms(2) inv2(3) by (auto simp: q_def intro: pool_inv_ops)
    have g2': "globals_inv (write_binding (macAddrHash ?mac) c g2)"
      using inv2 by (auto intro: globals_inv_write)
    have "NotBindingRequest_bind ip pool received reply g =
      (let g = write_binding (macAddrHash ?mac) c g2 in
       if r \<noteq> REPLY_OFFER then (r, pool, reply, g)
       else case GetLease q ip of
         None \<Rightarrow> (REPLY_NONE, q, reply, g)
       | Some lease \<Rightarrow>
         let (t, g) = Tmspsec g;
             lease = lease\<lparr>ab_bindingStatus := BIND_ASSOCIATED, ab_bindingTime := t, ab_expireIn := t + ab_leaseTime c\<rparr>;
             reply = reply\<lparr>mi_packet := (mi_packet reply)\<lparr>dm_yiaddr := ab_ipAddress lease\<rparr>\<rparr>
         in (REPLY_ACK, modify_lease ip (\<lambda>_. lease) q, reply, g))"
      using new Some rep inv2
      by (cases "ap_leaseTime pool = 0"; cases "GetLease pool ip")
        (simp_all add: NotBindingRequest_bind_def Let_def y_def q_def split_beta cong: option.case_cong)
    with assms(1,2) g2' q show ?thesis
      using pool_inv_lease [OF q]
      by (auto simp: Let_def split_beta split: if_splits option.splits intro!: pool_inv_modify globals_inv_clock)
  qed
qed

lemma NotBindingRequest_inv:
  assumes "NotBindingRequest pool received reply g = (ret, pool', reply', g')" "pool_inv pool" "globals_inv g"
    and mac: "length (dm_chaddr (mi_packet received)) = 16"
  shows "pool_inv pool' \<and> globals_inv g'"
proof -
  obtain r ip g1 where your: "GetYourIpAddress received 0 pool g = (r, ip, g1)" by (metis prod_cases3)
  have g1: "globals_inv g1" using GetYourIpAddress_inv [OF your assms(3)] .
  note bind = NotBindingRequest_bind_inv [OF _ _ _ mac]
  show ?thesis
  proof (cases "r \<noteq> RET_SUCCESS \<or> GetLease pool ip = None")
    case True
    with assms(1,2) your g1 show ?thesis
      by (auto simp: NotBindingRequest_def Let_def split_beta split: if_splits intro: globals_inv_clock)
  next
    case False
    then obtain l where l: "r = RET_SUCCESS" "GetLease pool ip = Some l" by auto
    have wf: "ab_ipAddress l = ip" "binding_wf l" using pool_inv_lease [OF assms(2) l(2)] by auto
    have exp: "pool_inv (modify_lease ip (\<lambda>_. fst (snd (IsExpire l g1))) pool)" "globals_inv (snd (snd (IsExpire l g1)))"
      using wf assms(2) g1 by (auto intro!: pool_inv_modify globals_inv_clock binding_wf_IsExpire)
    have rem: "pool_inv (snd (RemoveLease (modify_lease ip (\<lambda>_. fst (snd (IsExpire l g1))) pool) (fst (snd (IsExpire l g1)))))"
      using exp(1) by (rule pool_inv_ops)
    show ?thesis
      using assms(1,2) your l g1 exp rem bind
      by (auto simp: NotBindingRequest_def Let_def split_beta split: if_splits)
  qed
qed

lemma ValidateRequestMessage_inv:
  assumes "ValidateRequestMessage received s = (ret, ip, s')" "server_inv s"
  shows "server_inv s'"
proof (cases "sv_instance s")
  case None
  with assms show ?thesis by (simp add: ValidateRequestMessage_def)
next
  case (Some srv)
  obtain r a g where your: "GetYourIpAddress received INADDR_BROADCAST (sc_addressPool srv) (sv_globals s) = (r, a, g)"
    by (metis prod_cases3)
  have inv: "globals_inv g" "pool_inv (sc_addressPool srv)"
    using GetYourIpAddress_inv [OF your] server_inv_globals server_inv_pool assms(2) Some by auto
  show ?thesis
    using assms Some your inv
    by (auto simp: ValidateRequestMessage_def Let_def split_beta split: if_splits option.splits
        intro!: server_inv_set globals_inv_Remove pool_inv_ops)
qed

lemma HasNobindgRequest_inv:
  assumes "server_inv s" "length (dm_chaddr (mi_packet received)) = 16"
  shows "server_inv (snd (snd (HasNobindgRequest received reply s)))"
proof (cases "sv_instance s")
  case None
  with assms show ?thesis by (simp add: HasNobindgRequest_def)
next
  case (Some srv)
  have inv: "globals_inv (snd (SourceIpAddress (sv_globals s)))" "pool_inv (sc_addressPool srv)"
    using server_inv_globals server_inv_pool assms(1) Some by (auto intro: globals_inv_clock)
  obtain ret pool' reply' g' where
    req: "NotBindingRequest (sc_addressPool srv) received reply (snd (SourceIpAddress (sv_globals s))) = (ret, pool', reply', g')"
    by (metis prod_cases4)
  have "pool_inv pool'" "globals_inv g'"
    using NotBindingRequest_inv [OF req inv(2,1) assms(2)] by auto
  then show ?thesis
    using assms(1) Some inv req
    by (auto simp: HasNobindgRequest_def Let_def split_beta intro!: server_inv_set)
qed

lemma GetHostNameOption_wf:
  "binding_wf b \<Longrightarrow> list_all opt_wf (opts_list (mi_options received)) \<Longrightarrow> binding_wf (snd (GetHostNameOption received b))"
  by (auto simp: GetHostNameOption_def Let_def binding_wf_def opts_get_def opts_list_def opt_wf_def find_Some_iff
      list_all_length char_bytes_def split: option.splits)

lemma GetUserClassOption_wf:
  "binding_wf b \<Longrightarrow> list_all opt_wf (opts_list (mi_options received)) \<Longrightarrow> binding_wf (snd (GetUserClassOption received b))"
  using unat_u8_less
  by (auto simp: GetUserClassOption_def Let_def binding_wf_def opts_get_def opts_list_def opt_wf_def find_Some_iff
      list_all_length memcpy_s_def less_imp_le split: option.splits)

lemma option_parse_simps [simp]:
  "ab_ipAddress (snd (ParseDhcpOption received b)) = ab_ipAddress b"
  "ab_chaddr (snd (ParseDhcpOption received b)) = ab_chaddr b"
  "ab_bindingStatus (snd (ParseDhcpOption received b)) = ab_bindingStatus b"
  "ab_bindingTime (snd (ParseDhcpOption received b)) = ab_bindingTime b"
  "ab_pendingTime (snd (ParseDhcpOption received b)) = ab_pendingTime b"
  "ab_leaseTime (snd (ParseDhcpOption received b)) = ab_leaseTime b"
  "ab_expireIn (snd (ParseDhcpOption received b)) = ab_expireIn b"
  by (auto simp: ParseDhcpOption_def GetHostNameOption_def GetUserClassOption_def Let_def split_beta split: option.split)

lemma ParseDhcpOption_wf:
  "binding_wf b \<Longrightarrow> list_all opt_wf (opts_list (mi_options received)) \<Longrightarrow> binding_wf (snd (ParseDhcpOption received b))"
  by (simp add: ParseDhcpOption_def Let_def split_beta GetHostNameOption_wf GetUserClassOption_wf)

text \<open>A received message: its arrays have their sizes, and so have those of its options.\<close>

definition received_ok :: "DhcpMsgInfo \<Rightarrow> bool" where
  "received_ok m \<longleftrightarrow> msg_wf (mi_packet m) \<and> list_all opt_wf (opts_list (mi_options m))"

lemma request_lease_inv:
  assumes "request_lease received b l g = (go, l', g')" "globals_inv g" "binding_wf l" "binding_wf b"
    "list_all opt_wf (opts_list (mi_options received))"
  shows "globals_inv g' \<and> binding_wf l' \<and> ab_ipAddress l' = ab_ipAddress l"
proof -
  let ?l = "snd (ParseDhcpOption received l)"
  have wf: "binding_wf ?l" "length (ab_chaddr b) = 16"
    using ParseDhcpOption_wf assms(3-5) by (auto simp: binding_wf_def)
  have exp: "binding_wf (fst (snd (IsExpire ?l g)))"
    "binding_wf (fst (snd (IsExpire (fst (snd (IsExpire ?l g))) (snd (snd (IsExpire ?l g))))))"
    using wf by (auto intro: binding_wf_IsExpire)
  show ?thesis
    using assms(1,2) wf exp
    by (auto simp: request_lease_def Let_def split_beta prod_eq_iff split: if_splits
        intro!: globals_inv_clock binding_wf_chaddr [simplified])
qed

lemma OnReceivedRequest_inv:
  assumes "server_inv s" and ok: "received_ok received"
  shows "server_inv (snd (snd (OnReceivedRequest received reply s)))"
proof -
  have mac: "length (dm_chaddr (mi_packet received)) = 16" and opts: "list_all opt_wf (opts_list (mi_options received))"
    using ok by (auto simp: received_ok_def msg_wf_def)
  obtain ret ip s1 where val: "ValidateRequestMessage received s = (ret, ip, s1)" by (metis prod_cases3)
  have s1: "server_inv s1" by (rule ValidateRequestMessage_inv [OF val assms(1)])
  show ?thesis
  proof (cases "ret \<noteq> REPLY_ACK \<or> sv_instance s1 = None
      \<or> QueryBinding (dm_chaddr (mi_packet received)) (mi_options received) (sv_globals s1) = None")
    case True
    with val s1 mac show ?thesis
      by (auto simp: OnReceivedRequest_def HasNobindgRequest_inv split: option.split)
  next
    case False
    then obtain srv b where srv: "sv_instance s1 = Some srv" "ret = REPLY_ACK"
      and b: "QueryBinding (dm_chaddr (mi_packet received)) (mi_options received) (sv_globals s1) = Some b" by auto
    obtain r pool b1 g1 where reb: "Rebinding (sc_addressPool srv) b (sv_globals s1) = (r, pool, b1, g1)"
      by (metis prod_cases4)
    have inv: "pool = sc_addressPool srv" "pool_inv pool" "globals_inv g1" "binding_wf b1"
      using Rebinding_inv [OF reb server_inv_pool [OF s1 srv(1)] server_inv_globals [OF s1]]
        globals_inv_Query [OF server_inv_globals [OF s1] b] server_inv_pool [OF s1 srv(1)] by auto
    define g2 where "g2 = write_binding (macAddrHash (dm_chaddr (mi_packet received))) b1 g1"
    have g2: "globals_inv g2" using inv by (auto simp: g2_def intro: globals_inv_write)
    obtain go pool3 g3 where upd: "request_update received ip b1 pool g2 = (go, pool3, g3)"
      by (metis prod_cases3)
    have inv3: "pool_inv pool3 \<and> globals_inv g3"
    proof (cases "GetLease pool ip")
      case None
      with upd inv g2 show ?thesis by (simp add: request_update_def)
    next
      case (Some l)
      obtain go' l' g' where rq: "request_lease received b1 l g2 = (go', l', g')" by (metis prod_cases3)
      have "globals_inv g'" "binding_wf l'" "ab_ipAddress l' = ip"
        using request_lease_inv [OF rq g2 _ inv(4) opts] pool_inv_lease [OF inv(2) Some] by auto
      with upd Some rq inv(2) show ?thesis by (auto simp: request_update_def intro!: pool_inv_modify)
    qed
    then have "server_inv (set_globals g3 (set_pool pool3 s1))"
      using s1 by (auto intro: server_inv_set)
    then show ?thesis
      using val srv b reb upd by (simp add: OnReceivedRequest_def Let_def g2_def [symmetric])
  qed
qed

lemma OnReceivedDecline_inv: "server_inv s \<Longrightarrow> server_inv (snd (snd (OnReceivedDecline received reply s)))"
  by (auto simp: OnReceivedDecline_def Let_def split_beta split: option.split
      intro!: server_inv_set globals_inv_Remove globals_inv_clock pool_inv_modify
      intro: server_inv_pool server_inv_globals)

lemma OnReceivedRelease_inv: "server_inv s \<Longrightarrow> server_inv (snd (snd (OnReceivedRelease received reply s)))"
  by (auto simp: OnReceivedRelease_def Let_def split_beta split: option.split
      intro!: server_inv_set globals_inv_Remove globals_inv_clock pool_inv_ops
      intro: server_inv_pool server_inv_globals)

lemma MessageProcess_inv:
  "server_inv s \<Longrightarrow> received_ok received \<Longrightarrow> server_inv (snd (snd (MessageProcess received reply s)))"
  by (auto simp: MessageProcess_def Let_def OnReceivedInform_def received_ok_def msg_wf_def split: option.split
      intro!: OnReceivedDiscover_inv OnReceivedRequest_inv OnReceivedDecline_inv OnReceivedRelease_inv)

section \<open>The message loop\<close>

lemma opt_wf_mk: "length d \<le> 256 \<Longrightarrow> opt_wf (mk_option c l d)"
  by (simp add: opt_wf_def mk_option_def)

lemma opts_push_wf:
  "list_all opt_wf (opts_list opts) \<Longrightarrow> list_all opt_wf (opts_list (snd (opts_push_back opts opt)))"
  by (auto simp: opts_push_back_def opts_list_def split: option.split)

lemma ParseMessageOptions_loop_wf:
  "list_all opt_wf (opts_list opts) \<Longrightarrow>
    list_all opt_wf (opts_list (snd (ParseMessageOptions_loop mem e cur pos opts)))"
proof (induction mem e cur pos opts rule: ParseMessageOptions_loop.induct)
  case (1 mem e cur pos opts)
  then show ?case
    by (subst ParseMessageOptions_loop.simps) (simp add: Let_def opts_push_wf)
qed

lemma ContinueReceive_ok:
  assumes "ContinueReceive from ret = (c, from')" "msg_wf (mi_packet from)" "list_all opt_wf (opts_list (mi_options from))"
  shows "received_ok from' \<and> mi_packet from' = mi_packet from"
  using assms ParseMessageOptions_loop_wf
  by (auto simp: ContinueReceive_def ParseMessageOptions_def Let_def split_beta received_ok_def split: if_splits)

lemma ReceiveDhcpMessage_ok:
  assumes "ReceiveDhcpMessage r from g = (ret, from', g')" "msg_wf (mi_packet from)" "globals_inv g"
  shows "msg_wf (mi_packet from') \<and> mi_options from' = mi_options from \<and> globals_inv g'"
proof -
  have "length (snd (memcpy_s 548 (msg_image (mi_packet from)) data n)) = 548" if "n \<le> 548" "n = length data" for data n
    using length_msg_image [OF assms(2)] that by simp
  then show ?thesis
    using assms
    by (cases r) (auto simp: ReceiveDhcpMessage_def Let_def ResetSourceAddr_def SourceAddrIn_def msg_wf_image_msg
        split: if_splits)
qed

lemma Send_inv:
  "server_inv s \<Longrightarrow> server_inv (snd (sendto d reply s))"
  "server_inv s \<Longrightarrow> server_inv (snd (TransmitOfferOrAckPacket reply s))"
proof -
  show send: "server_inv s \<Longrightarrow> server_inv (snd (sendto d reply s))" for d s
    by (simp add: sendto_def)
  show "server_inv s \<Longrightarrow> server_inv (snd (TransmitOfferOrAckPacket reply s))"
    using server_inv_globals [of s] send
    by (auto simp: TransmitOfferOrAckPacket_def Let_def split_beta sendto_def split: option.split
        intro!: server_inv_set)
qed

lemma SendDhcpReply_inv: "server_inv s \<Longrightarrow> server_inv (snd (snd (SendDhcpReply t reply s)))"
  by (auto simp: SendDhcpReply_def SendDhcpOffer_def SendDhcpAck_def SendDhcpNak_def Let_def split_beta
      split: option.split intro: Send_inv)

lemma SaveBindingRecoders_inv:
  "SaveBindingRecoders fs pool force g = (ret, fs', g') \<Longrightarrow> globals_inv g \<Longrightarrow> globals_inv g'"
  by (auto simp: SaveBindingRecoders_def Let_def Tmspsec_def split: if_splits)

lemma Notify_inv: "server_inv s \<Longrightarrow> server_inv (NotifyConnetDeviceChanged t s)"
proof -
  assume inv: "server_inv s"
  have "server_inv (s\<lparr>sv_files := fs, sv_globals := g\<rparr>)" if "globals_inv g" for fs g
    using inv that by (simp add: server_inv_def)
  then show ?thesis
    using inv SaveBindingRecoders_inv server_inv_globals [OF inv]
    by (auto simp: NotifyConnetDeviceChanged_def Let_def split: option.split prod.split)
qed

lemma OnLooperStateChanged_inv: "OnLooperStateChanged s = (r, s') \<Longrightarrow> server_inv s \<Longrightarrow> server_inv s'"
  by (auto simp: OnLooperStateChanged_def OnUpdateServerConfig_def OnServerStoping_def run_callback_def
      split: option.splits if_splits intro: server_inv_set)

definition loop_inv :: "bool \<times> DhcpMsgInfo \<times> DhcpMsgInfo \<times> Server \<Rightarrow> bool" where
  "loop_inv st \<longleftrightarrow> (case st of (go, from, reply, s) \<Rightarrow> msg_wf (mi_packet from) \<and> server_inv s)"

definition loop_step ::
    "Received \<Rightarrow> bool \<times> DhcpMsgInfo \<times> DhcpMsgInfo \<times> Server \<Rightarrow> bool \<times> DhcpMsgInfo \<times> DhcpMsgInfo \<times> Server" where
  "loop_step r st = (case st of (go, from, reply, s) \<Rightarrow> if go then looper_iteration r from reply s else st)"

lemma looper_iteration_inv:
  assumes "msg_wf (mi_packet from)" "server_inv s"
  shows "loop_inv (looper_iteration r from reply s)"
proof -
  obtain ret s1 where chg: "OnLooperStateChanged s = (ret, s1)" by fastforce
  have s1: "server_inv s1" by (rule OnLooperStateChanged_inv [OF chg assms(2)])
  let ?from = "from\<lparr>mi_options := opts_clear (mi_options from)\<rparr>"
  let ?reply = "reply\<lparr>mi_options := opts_clear (mi_options reply)\<rparr>"
  obtain rv from2 g2 where rec: "ReceiveDhcpMessage r ?from (sv_globals s1) = (rv, from2, g2)" by (metis prod_cases3)
  have rec_ok: "msg_wf (mi_packet from2)" "list_all opt_wf (opts_list (mi_options from2))" "globals_inv g2"
    using ReceiveDhcpMessage_ok [OF rec _ server_inv_globals [OF s1]] assms(1)
    by (auto simp: opts_clear_def opts_list_def split: option.split)
  have s2: "server_inv (set_globals g2 s1)" using s1 rec_ok(3) by (rule server_inv_set)
  obtain c from3 where cont: "ContinueReceive from2 rv = (c, from3)" by fastforce
  have f3: "received_ok from3" "msg_wf (mi_packet from3)"
    using ContinueReceive_ok [OF cont rec_ok(1,2)] by (auto simp: received_ok_def)
  define rp where "rp = InitReply (set_globals g2 s1) from3 ?reply"
  obtain t reply4 s4 where proc: "MessageProcess from3 rp (set_globals g2 s1) = (t, reply4, s4)" by (metis prod_cases3)
  have s4: "server_inv s4" using MessageProcess_inv [OF s2 f3(1), of rp] proc by simp
  show ?thesis
    using chg rec cont proc s1 s2 s4 assms(1) rec_ok(1) f3(2)
    by (auto simp: looper_iteration_def loop_inv_def Let_def split_beta rp_def [symmetric]
        intro!: Notify_inv SendDhcpReply_inv)
qed

lemma loop_step_simps [simp]:
  "loop_step r (True, from, reply, s) = looper_iteration r from reply s"
  "loop_step r (False, from, reply, s) = (False, from, reply, s)"
  by (simp_all add: loop_step_def)

interpretation looper: inv_machine loop_step loop_inv "\<lambda>_. True"
proof unfold_locales
  fix st r
  assume "loop_inv st"
  then obtain go "from" reply s where "st = (go, from, reply, s)" "msg_wf (mi_packet from)" "server_inv s"
    by (auto simp: loop_inv_def split: prod.splits)
  with \<open>loop_inv st\<close> show "loop_inv (loop_step r st)"
    by (cases go) (auto intro: looper_iteration_inv)
qed

lemma looper_run_fold:
  "\<exists>n. snd (looper_run rs from reply s) = snd (fold loop_step (take n rs) (True, from, reply, s))"
proof (induction rs arbitrary: "from" reply s)
  case Nil
  then show ?case by simp
next
  case (Cons r rs)
  obtain go f q t where it: "looper_iteration r from reply s = (go, f, q, t)" by (metis prod_cases4)
  show ?case
  proof (cases "sv_instance s = None \<or> (\<exists>srv. sv_instance s = Some srv \<and> sc_looperState srv = LS_IDLE)")
    case True
    then have "snd (looper_run (r # rs) from reply s) = (from, reply, s)" by auto
    then show ?thesis by (intro exI [of _ 0]) simp
  next
    case False
    then have run: "looper_run (r # rs) from reply s = (if go then looper_run rs f q t else (True, f, q, t))"
      using it by (cases "sv_instance s") auto
    show ?thesis
    proof (cases go)
      case True
      obtain n where "snd (looper_run rs f q t) = snd (fold loop_step (take n rs) (True, f, q, t))"
        using Cons.IH by blast
      with True run it show ?thesis by (intro exI [of _ "Suc n"]) simp
    next
      case False
      with run it show ?thesis by (intro exI [of _ 1]) simp
    qed
  qed
qed

section \<open>Property\<close>


definition sample_server :: Server where
  "sample_server = \<lparr>sv_ifname = ''wlan0'', sv_instance = Some \<lparr>sc_broadCastFlagEnable = 0,
       sc_addressPool = sample_pool, sc_callback = False, sc_deviceConnectFun = False, sc_serverFd = 5,
       sc_looperState = LS_RUNNING, sc_initialized = 1\<rparr>,
     sv_globals = sample_globals, sv_files = \<lparr>fs_content = Map.empty, fs_realpath = (\<lambda>_. True), fs_writable = (\<lambda>_. True)\<rparr>,
     sv_events = [], sv_sendto = (\<lambda>_. 300), sv_arp = (\<lambda>_. 0)\<rparr>"

definition blank_msg :: DhcpMsgInfo where
  "blank_msg = \<lparr>mi_packet = image_msg (replicate 548 0), mi_length = 0, mi_options = Some []\<rparr>"

lemma sample_server_inv: "server_inv sample_server" "msg_wf (mi_packet blank_msg)"
  by (simp_all add: server_inv_def sample_server_def globals_inv_def sample_globals_def smap_wf_def all_entries_def
      pool_inv_def sample_pool_def zero_pool_def blank_msg_def msg_wf_image_msg)


end
