(* ===== verification/DhcpServerProps.thy ===== *)
theory DhcpServerProps
  imports DhcpServerInv
begin

text \<open>
  What the handlers of \<^verbatim>\<open>dhcp_s_server.cpp\<close> guarantee to the clients, and where they do not: requests never take an
  address that another client holds, offers to new clients are fresh addresses; but a client
  with an old binding is offered, and can release, an address that is another's by now.
\<close>

section \<open>Time\<close>

definition clock_le :: "Globals \<Rightarrow> Globals \<Rightarrow> bool" where
  "clock_le g g' \<longleftrightarrow> g_clock g' = g_clock g \<and> g_ticks g \<le> g_ticks g'"

lemma clock_le_refl [simp]: "clock_le g g"
  by (simp add: clock_le_def)

lemma clock_le_trans: "clock_le g g' \<Longrightarrow> clock_le g' g'' \<Longrightarrow> clock_le g g''"
  by (auto simp: clock_le_def)

lemma clock_le_simps [simp]:
  "clock_le g (snd (Tmspsec g))" "clock_le g (snd (SourceIpAddress g))" "clock_le g (DestinationAddr a g)"
  "clock_le g (write_binding h b g)" "clock_le g (snd (RemoveBinding mac g))"
  by (auto simp: clock_le_def Tmspsec_def SourceIpAddress_def SourceAddrIn_def DestinationAddr_def Let_def
      write_binding_def RemoveBinding_def)

text \<open>The lease has not expired at any reading of the clock from now on.\<close>

definition unexpired :: "AddressBinding \<Rightarrow> Globals \<Rightarrow> bool" where
  "unexpired l g \<longleftrightarrow> (\<forall>t \<ge> g_ticks g. of_nat (fst (g_clock g t)) \<le> expiry l)"

lemma unexpired_later: "unexpired l g \<Longrightarrow> clock_le g g' \<Longrightarrow> unexpired l g'"
  by (auto simp: unexpired_def clock_le_def)

lemma unexpired_IsExpire: "unexpired l g \<Longrightarrow> IsExpire l g = (False, l, snd (Tmspsec g))"
  by (auto simp: unexpired_def IsExpire_def Tmspsec_def Let_def)

text \<open>Another client holds the address: it has an associated lease that has not expired.\<close>

definition held_by_other :: "DhcpAddressPool \<Rightarrow> Globals \<Rightarrow> bytes \<Rightarrow> u32 \<Rightarrow> AddressBinding \<Rightarrow> bool" where
  "held_by_other pool g mac ip l \<longleftrightarrow> GetLease pool ip = Some l \<and> ab_bindingStatus l = BIND_ASSOCIATED
     \<and> \<not> AddrEquels (ab_chaddr l) mac MAC_ADDR_LENGTH \<and> unexpired l g"

text \<open>The lease is the same up to the descriptive fields (device name, user class).\<close>

definition lease_kept :: "AddressBinding \<Rightarrow> AddressBinding \<Rightarrow> bool" where
  "lease_kept l l' \<longleftrightarrow> ab_ipAddress l' = ab_ipAddress l \<and> ab_chaddr l' = ab_chaddr l
     \<and> ab_bindingStatus l' = ab_bindingStatus l \<and> ab_bindingTime l' = ab_bindingTime l
     \<and> ab_pendingTime l' = ab_pendingTime l \<and> ab_leaseTime l' = ab_leaseTime l \<and> ab_expireIn l' = ab_expireIn l"

lemma lease_kept_refl [simp]: "lease_kept l l"
  by (simp add: lease_kept_def)

lemma lease_kept_expiry: "lease_kept l l' \<Longrightarrow> expiry l' = expiry l"
  by (simp add: lease_kept_def expiry_def)

lemma lease_kept_options: "lease_kept l (snd (ParseDhcpOption received l))"
  by (simp add: lease_kept_def)

text \<open>The address is still held by the same client after an operation.\<close>

definition keeps_holder :: "DhcpAddressPool \<Rightarrow> u32 \<Rightarrow> AddressBinding \<Rightarrow> bool" where
  "keeps_holder pool ip l \<longleftrightarrow> (\<exists>l'. GetLease pool ip = Some l' \<and> lease_kept l l')"

lemma keeps_holder_refl: "GetLease pool ip = Some l \<Longrightarrow> keeps_holder pool ip l"
  by (auto simp: keeps_holder_def)

lemma GetLease_modify [simp]:
  "GetLease (modify_lease a f pool) ip = (if a = ip then map_option f (GetLease pool ip) else GetLease pool ip)"
  by (auto simp: GetLease_def)

lemma GetLease_put: "GetLease (put_lease l pool) ip =
    (if ip \<noteq> 0 \<and> ip = ab_ipAddress l then Some l else GetLease pool ip)"
  by (auto simp: GetLease_def)

lemma GetLease_AddLease: "ab_ipAddress l \<noteq> ip \<Longrightarrow> GetLease (snd (AddLease pool l)) ip = GetLease pool ip"
  by (simp add: AddLease_def GetLease_put)

lemma GetLease_RemoveLease: "ab_ipAddress l \<noteq> ip \<Longrightarrow> GetLease (snd (RemoveLease pool l)) ip = GetLease pool ip"
  by (auto simp: RemoveLease_def GetLease_def)

section \<open>Requests\<close>

lemma GetYourIpAddress_ok:
  assumes "GetYourIpAddress received a pool g = (ret, ip, g')"
  shows "clock_le g g'" "g_bindingRecoders g' = g_bindingRecoders g"
    "ret = RET_SUCCESS \<Longrightarrow> ntohl (ap_beginAddress pool) \<le> ntohl ip \<and> ntohl ip \<le> ntohl (ap_endAddress pool)"
    "ret \<noteq> RET_SUCCESS \<Longrightarrow> ip = a \<or> ntohl ip < ntohl (ap_beginAddress pool) \<or> ntohl ip > ntohl (ap_endAddress pool)"
  using assms
  by (auto simp: GetYourIpAddress_def Let_def split_beta SourceIpAddress_def SourceAddrIn_def DestinationAddr_def
      clock_le_def not_less split: if_splits)

lemma ValidateRequestMessage_holder:
  assumes "ValidateRequestMessage received s = (ret, your, s')" "sv_instance s = Some srv"
    and inv: "server_inv s"
    and ip: "ntohl (ap_beginAddress (sc_addressPool srv)) \<le> ntohl ip" "ntohl ip \<le> ntohl (ap_endAddress (sc_addressPool srv))"
    and l: "GetLease (sc_addressPool srv) ip = Some l"
  obtains srv' where "sv_instance s' = Some srv'" "keeps_holder (sc_addressPool srv') ip l"
    "clock_le (sv_globals s) (sv_globals s')" "ret = REPLY_ACK \<Longrightarrow> srv' = srv \<and>
       ntohl your \<le> ntohl (ap_endAddress (sc_addressPool srv))"
    "ret \<noteq> REPLY_OFFER"
proof -
  let ?pool = "sc_addressPool srv"
  obtain r a g where your: "GetYourIpAddress received INADDR_BROADCAST ?pool (sv_globals s) = (r, a, g)"
    by (metis prod_cases3)
  note ok = GetYourIpAddress_ok [OF your]
  show ?thesis
  proof (cases "r = RET_SUCCESS")
    case True
    then have "sv_instance s' = Some srv" "sv_globals s' = g" "ret = REPLY_ACK \<Longrightarrow> your = a" "ret \<noteq> REPLY_OFFER"
      using assms(1,2) your by (auto simp: ValidateRequestMessage_def Let_def split: option.splits if_splits)
    with True ok l show ?thesis by (intro that [of srv]) (auto intro: keeps_holder_refl)
  next
    case False
    define p where "p = (case GetLease ?pool a of None \<Rightarrow> ?pool | Some lease \<Rightarrow> snd (RemoveLease ?pool lease))"
    have "a \<noteq> ip \<or> a = INADDR_BROADCAST" using ok(4) [OF False] ip by auto
    moreover have "keeps_holder p ip l" if "a \<noteq> ip"
      using that l pool_inv_lease [OF server_inv_pool [OF inv assms(2)]]
      by (auto simp: p_def keeps_holder_def GetLease_RemoveLease split: option.split)
    ultimately show ?thesis
    proof (cases "a \<noteq> 0 \<and> a \<noteq> INADDR_BROADCAST")
      case True
      with False assms(1,2) your have "sv_instance s' = Some (srv\<lparr>sc_addressPool := p\<rparr>)" "ret = REPLY_NAK"
        "sv_globals s' = snd (RemoveBinding (dm_chaddr (mi_packet received)) g)"
        by (auto simp: ValidateRequestMessage_def p_def Let_def split_beta)
      moreover have "keeps_holder p ip l" using True \<open>a \<noteq> ip \<or> _\<close> \<open>a \<noteq> ip \<Longrightarrow> _\<close> by auto
      moreover have "clock_le (sv_globals s) (sv_globals s')"
        unfolding calculation(3) using ok(1) clock_le_trans clock_le_simps(5) by blast
      ultimately show ?thesis by (intro that [of "srv\<lparr>sc_addressPool := p\<rparr>"]) auto
    next
      case other: False
      with False assms(1,2) your have "sv_instance s' = Some srv" "ret = REPLY_NONE" "sv_globals s' = g"
        by (auto simp: ValidateRequestMessage_def Let_def)
      with l ok(1) show ?thesis by (intro that [of srv]) (auto intro: keeps_holder_refl)
    qed
  qed
qed

lemma Repending_cases:
  assumes "Repending pool b g = (ret, pool', b', g')"
  shows "pool' = pool" "ret = REPLY_NONE \<or> ret = REPLY_OFFER" "clock_le g g'" "ab_ipAddress b' = ab_ipAddress b"
    "g_bindingRecoders g' = g_bindingRecoders g"
  using assms
  by (auto simp: Repending_def Let_def split_beta clock_le_def Tmspsec_def SourceIpAddress_def SourceAddrIn_def
      split: if_splits)

lemma AddNewBinding_Some:
  "length mac = 16 \<Longrightarrow> \<exists>b. AddNewBinding mac opts g = (Some b, snd (AddNewBinding mac opts g))
     \<and> clock_le g (snd (AddNewBinding mac opts g))"
  by (simp add: AddNewBinding_def Let_def split_beta GetBindingByMac_def clock_le_def Tmspsec_def)

lemma NotBindingRequest_bind_frame:
  assumes "NotBindingRequest_bind your pool received reply g = (ret, pool', reply', g')"
    and "your \<noteq> ip" "length (dm_chaddr (mi_packet received)) = 16" "pool_inv pool" "globals_inv g"
  shows "GetLease pool' ip = GetLease pool ip \<and> ret \<noteq> REPLY_OFFER
    \<and> (ret = REPLY_ACK \<longrightarrow> dm_yiaddr (mi_packet reply') = your)"
proof -
  let ?mac = "dm_chaddr (mi_packet received)"
  obtain x g1 where new: "AddNewBinding ?mac (mi_options received) g = (Some x, g1)"
    using AddNewBinding_Some [OF assms(3)] by blast
  have x: "binding_wf x" using AddNewBinding_inv [OF new assms(5,3)] by simp
  define y where "y = (if ap_leaseTime pool \<noteq> 0 then x\<lparr>ab_ipAddress := your, ab_leaseTime := ucast (ap_leaseTime pool)\<rparr>
      else x\<lparr>ab_ipAddress := your\<rparr>)"
  have y: "ab_ipAddress y = your" "binding_wf y" using x by (auto simp: y_def)
  obtain r p c g2 where rep: "Repending pool y g1 = (r, p, c, g2)" by (metis prod_cases4)
  note c = Repending_cases [OF rep, unfolded y]
  have cwf: "binding_wf c"
    using Repending_inv [OF rep assms(4) _ y(2)] AddNewBinding_inv [OF new assms(5,3)] by simp
  define q where "q = (if GetLease pool your \<noteq> None then pool else snd (AddLease pool c))"
  have q: "GetLease q ip = GetLease pool ip" "pool_inv q"
    using c(4) assms(2,4) cwf by (auto simp: q_def GetLease_AddLease intro: pool_inv_ops)
  show ?thesis
    using assms(1,2) new rep c q pool_inv_lease [OF q(2)]
    by (cases "ap_leaseTime pool = 0"; cases "GetLease pool your")
      (auto simp: NotBindingRequest_bind_def Let_def y_def q_def split_beta split: option.splits if_splits)
qed

lemma NotBindingRequest_holder:
  assumes "NotBindingRequest pool received reply g = (ret, pool', reply', g')"
    and inv: "pool_inv pool" "globals_inv g" and mac: "length (dm_chaddr (mi_packet received)) = 16"
    and held: "held_by_other pool g (dm_chaddr (mi_packet received)) ip l"
  shows "keeps_holder pool' ip l \<and> ret \<noteq> REPLY_OFFER \<and> (ret = REPLY_ACK \<longrightarrow> dm_yiaddr (mi_packet reply') \<noteq> ip)"
proof -
  obtain r your g1 where yr: "GetYourIpAddress received 0 pool g = (r, your, g1)" by (metis prod_cases3)
  have g1: "globals_inv g1" "clock_le g g1"
    using GetYourIpAddress_inv [OF yr inv(2)] GetYourIpAddress_ok [OF yr] by auto
  have l: "GetLease pool ip = Some l" using held by (simp add: held_by_other_def)
  show ?thesis
  proof (cases "r \<noteq> RET_SUCCESS \<or> GetLease pool your = None")
    case True
    with assms(1) yr l show ?thesis
      by (auto simp: NotBindingRequest_def Let_def split_beta keeps_holder_refl split: if_splits)
  next
    case False
    then obtain m where m: "r = RET_SUCCESS" "GetLease pool your = Some m" by auto
    show ?thesis
    proof (cases "your = ip")
      case True
      then have "m = l" using m(2) l by simp
      then have "ret = REPLY_NAK" "pool' = modify_lease ip (\<lambda>_. l) pool"
        using assms(1) yr m True held unexpired_IsExpire [OF unexpired_later [OF _ g1(2)]]
        by (auto simp: NotBindingRequest_def Let_def held_by_other_def)
      with l show ?thesis by (auto simp: keeps_holder_def)
    next
      case False
      have wf: "ab_ipAddress m = your" "binding_wf m" using pool_inv_lease [OF inv(1) m(2)] by auto
      let ?m = "fst (snd (IsExpire m g1))" and ?g = "snd (snd (IsExpire m g1))"
      let ?pool = "modify_lease your (\<lambda>_. ?m) pool"
      have exp: "pool_inv ?pool" "globals_inv ?g" "pool_inv (snd (RemoveLease ?pool ?m))"
        using wf inv(1) g1 by (auto intro!: pool_inv_ops pool_inv_modify globals_inv_clock binding_wf_IsExpire)
      have get: "GetLease (snd (RemoveLease ?pool ?m)) ip = Some l" "GetLease ?pool ip = Some l"
        using False wf l by (auto simp: GetLease_RemoveLease)
      note frame = NotBindingRequest_bind_frame [OF _ False mac]
      have "ret = REPLY_NAK \<and> pool' = ?pool
        \<or> NotBindingRequest_bind your (snd (RemoveLease ?pool ?m)) received reply ?g = (ret, pool', reply', g')
        \<or> NotBindingRequest_bind your pool received reply g1 = (ret, pool', reply', g')"
        using assms(1) yr m by (auto simp: NotBindingRequest_def Let_def split_beta split: if_splits)
      then consider "ret = REPLY_NAK" "pool' = ?pool"
        | "NotBindingRequest_bind your (snd (RemoveLease ?pool ?m)) received reply ?g = (ret, pool', reply', g')"
        | "NotBindingRequest_bind your pool received reply g1 = (ret, pool', reply', g')" by blast
      then show ?thesis
      proof cases
        case 1
        with get show ?thesis by (auto intro: keeps_holder_refl)
      next
        case 2
        from frame [OF 2 exp(3,2)] get False show ?thesis by (auto intro: keeps_holder_refl)
      next
        case 3
        from frame [OF 3 inv(1) g1(1)] l False show ?thesis by (auto intro: keeps_holder_refl)
      qed
    qed
  qed
qed

lemma HasNobindgRequest_holder:
  assumes "HasNobindgRequest received reply s = (ret, reply', s')" "sv_instance s = Some srv" "server_inv s"
    and mac: "length (dm_chaddr (mi_packet received)) = 16"
    and held: "held_by_other (sc_addressPool srv) (sv_globals s) (dm_chaddr (mi_packet received)) ip l"
  shows "(\<exists>srv'. sv_instance s' = Some srv' \<and> keeps_holder (sc_addressPool srv') ip l)
    \<and> ret \<noteq> REPLY_OFFER \<and> (ret = REPLY_ACK \<longrightarrow> dm_yiaddr (mi_packet reply') \<noteq> ip)"
proof -
  let ?g = "snd (SourceIpAddress (sv_globals s))"
  obtain r pool' q g' where
    req: "NotBindingRequest (sc_addressPool srv) received reply ?g = (r, pool', q, g')"
    by (metis prod_cases4)
  have g: "globals_inv ?g" "pool_inv (sc_addressPool srv)"
    using server_inv_globals server_inv_pool assms(2,3) by (auto intro: globals_inv_clock)
  have held': "held_by_other (sc_addressPool srv) ?g (dm_chaddr (mi_packet received)) ip l"
    using held unexpired_later clock_le_simps(2) by (auto simp: held_by_other_def)
  show ?thesis
    using NotBindingRequest_holder [OF req g(2,1) mac held'] assms(1,2) req held
    by (auto simp: HasNobindgRequest_def Let_def split_beta held_by_other_def keeps_holder_refl split: if_splits)
qed

lemma push_packet [simp]:
  "mi_packet (push_option reply opt) = mi_packet reply" "mi_packet (AddAddressOption reply c a) = mi_packet reply"
  "mi_packet (AddReplyMessageTypeOption reply t) = mi_packet reply"
  by (simp_all add: push_option_def AddAddressOption_def AddReplyMessageTypeOption_def Let_def split_beta)

lemma ReplyCommontOption_packet [simp]: "mi_packet (snd (ReplyCommontOption s reply)) = mi_packet reply"
  by (simp add: ReplyCommontOption_def Let_def split: option.split)

lemma request_update_holder:
  assumes "request_update received your b pool g = (go, pool', g')"
    and held: "held_by_other pool g (dm_chaddr (mi_packet received)) ip l"
  shows "keeps_holder pool' ip l \<and> (your = ip \<longrightarrow> \<not> go)"
proof (cases "your = ip")
  case False
  with assms show ?thesis
    by (auto simp: request_update_def held_by_other_def split_beta keeps_holder_refl split: option.splits)
next
  case True
  let ?l = "snd (ParseDhcpOption received l)"
  have "unexpired ?l g" "\<not> AddrEquels (ab_chaddr ?l) (dm_chaddr (mi_packet received)) 6"
    using held lease_kept_expiry [OF lease_kept_options, of received l]
    by (auto simp: held_by_other_def unexpired_def)
  then have "request_lease received b l g = (False, ?l, snd (Tmspsec g))"
    by (simp add: request_lease_def Let_def split_beta unexpired_IsExpire)
  with True assms lease_kept_options [of l received] show ?thesis
    by (auto simp: request_update_def held_by_other_def keeps_holder_def)
qed

lemma Rebinding_cases:
  assumes "Rebinding pool b g = (ret, pool', b', g')"
  shows "pool' = pool" "clock_le g g'" "ab_ipAddress b' = ab_ipAddress b" "g_bindingRecoders g' = g_bindingRecoders g"
proof -
  obtain r p c h where rep: "Repending pool b g = (r, p, c, h)" by (metis prod_cases4)
  note c = Repending_cases [OF rep]
  show "pool' = pool" "ab_ipAddress b' = ab_ipAddress b" "g_bindingRecoders g' = g_bindingRecoders g"
    using assms rep c by (auto simp: Rebinding_def Let_def split_beta)
  have "g' = snd (Tmspsec h)" using assms rep by (auto simp: Rebinding_def Let_def split_beta)
  with c(3) show "clock_le g g'" using clock_le_trans by auto
qed

lemma not_broadcast:
  "ntohl a \<le> ntohl b \<Longrightarrow> b \<noteq> INADDR_BROADCAST \<Longrightarrow> a \<noteq> INADDR_BROADCAST"
proof
  assume "ntohl a \<le> ntohl b" "b \<noteq> INADDR_BROADCAST" "a = INADDR_BROADCAST"
  moreover have "htonl INADDR_BROADCAST = INADDR_BROADCAST" by code_simp
  moreover have "htonl b \<le> INADDR_BROADCAST"
    using unsigned_less [of "htonl b", where ?'a = nat] by (simp add: word_le_nat_alt)
  ultimately have "htonl b = INADDR_BROADCAST" by auto
  then have "b = htonl INADDR_BROADCAST" by (metis htonl_htonl)
  with \<open>htonl INADDR_BROADCAST = _\<close> \<open>b \<noteq> _\<close> show False by simp
qed

section \<open>Properties of requests\<close>

text \<open>C1: While a client holds an address of the range, by an associated lease that has not expired, no request of
  another client is acknowledged with this address, whatever the request asks for and whether or
  not the requesting client has a binding; and the lease keeps its owner, state and times.\<close>

theorem request_never_steals:
  assumes "OnReceivedRequest received reply s = (ret, reply', s')" "sv_instance s = Some srv"
    and inv: "server_inv s" "received_ok received"
    and range: "ntohl (ap_beginAddress (sc_addressPool srv)) \<le> ntohl ip"
      "ntohl ip \<le> ntohl (ap_endAddress (sc_addressPool srv))" "ap_endAddress (sc_addressPool srv) \<noteq> INADDR_BROADCAST"
    and held: "held_by_other (sc_addressPool srv) (sv_globals s) (dm_chaddr (mi_packet received)) ip l"
  shows "(ret = REPLY_ACK \<or> ret = REPLY_OFFER \<longrightarrow> dm_yiaddr (mi_packet reply') \<noteq> ip)
    \<and> (\<exists>srv'. sv_instance s' = Some srv' \<and> keeps_holder (sc_addressPool srv') ip l)"
proof -
  let ?mac = "dm_chaddr (mi_packet received)"
  have mac: "length ?mac = 16" using inv(2) by (simp add: received_ok_def msg_wf_def)
  have l: "GetLease (sc_addressPool srv) ip = Some l" using held by (simp add: held_by_other_def)
  then have ip: "ip \<noteq> 0" by (auto simp: GetLease_def)
  obtain v your s1 where val: "ValidateRequestMessage received s = (v, your, s1)" by (metis prod_cases3)
  obtain srv1 where v: "sv_instance s1 = Some srv1" "keeps_holder (sc_addressPool srv1) ip l"
    "clock_le (sv_globals s) (sv_globals s1)" "v \<noteq> REPLY_OFFER"
    and ack: "v = REPLY_ACK \<Longrightarrow> srv1 = srv \<and> ntohl your \<le> ntohl (ap_endAddress (sc_addressPool srv))"
    by (rule ValidateRequestMessage_holder [OF val assms(2) inv(1) range(1,2) l]) blast
  show ?thesis
  proof (cases "v = REPLY_ACK")
    case False
    with assms(1) val v show ?thesis by (auto simp: OnReceivedRequest_def)
  next
    case True
    note ack = ack [OF True]
    have s1: "server_inv s1" by (rule ValidateRequestMessage_inv [OF val inv(1)])
    have held1: "held_by_other (sc_addressPool srv) (sv_globals s1) ?mac ip l"
      using held unexpired_later [OF _ v(3)] by (auto simp: held_by_other_def)
    show ?thesis
    proof (cases "QueryBinding ?mac (mi_options received) (sv_globals s1)")
      case None
      then have "HasNobindgRequest received reply s1 = (ret, reply', s')"
        using assms(1) val True v(1) by (simp add: OnReceivedRequest_def)
      from HasNobindgRequest_holder [OF this _ s1 mac held1] v(1) ack show ?thesis by auto
    next
      case (Some b)
      obtain r pool b1 g1 where reb: "Rebinding (sc_addressPool srv) b (sv_globals s1) = (r, pool, b1, g1)"
        by (metis prod_cases4)
      note rb = Rebinding_cases [OF reb]
      let ?g = "write_binding (macAddrHash ?mac) b1 g1"
      obtain go pool3 g3 where upd: "request_update received your b1 pool ?g = (go, pool3, g3)" by (metis prod_cases3)
      have "clock_le (sv_globals s1) ?g" using rb(2) clock_le_trans clock_le_simps(4) by blast
      then have "held_by_other pool ?g ?mac ip l"
        using held1 rb(1) unexpired_later by (auto simp: held_by_other_def)
      from request_update_holder [OF upd this] have k: "keeps_holder pool3 ip l" "your = ip \<longrightarrow> \<not> go" by auto
      have "your \<noteq> INADDR_BROADCAST" using not_broadcast ack range(3) by blast
      then show ?thesis
        using assms(1) val True v(1) Some reb upd k ip ack
        by (auto simp: OnReceivedRequest_def Let_def split: if_splits)
    qed
  qed
qed

definition client_msg :: "bytes \<Rightarrow> DhcpOption list \<Rightarrow> DhcpMsgInfo" where
  "client_msg mac opts = \<lparr>mi_packet = (image_msg (replicate 548 0))\<lparr>dm_op := 1, dm_hlen := 6, dm_chaddr := mac\<rparr>,
     mi_length = 548, mi_options = Some opts\<rparr>"

definition other_mac :: bytes where
  "other_mac = [0x22, 0x33, 0x44, 0x55, 0x66, 0x77] @ replicate 10 0"

definition held_lease :: AddressBinding where
  "held_lease = zero_binding\<lparr>ab_ipAddress := htonl 0xC0A82B04, ab_chaddr := other_mac, ab_bindingTime := 1000,
     ab_leaseTime := 21600, ab_bindingStatus := BIND_ASSOCIATED, ab_bindingMode := BIND_MODE_DYNAMIC\<rparr>"

text \<open>A server where another client holds 192.168.43.4, at time 1000.\<close>

definition held_server :: Server where
  "held_server = sample_server\<lparr>sv_instance := map_option (\<lambda>srv. srv\<lparr>sc_addressPool :=
       sample_pool\<lparr>ap_leaseTable := [(htonl 0xC0A82B04, held_lease)]\<rparr>\<rparr>) (sv_instance sample_server),
     sv_globals := sample_globals\<lparr>g_clock := (\<lambda>_. (1000, 0))\<rparr>\<rparr>"

definition held_context :: ServerContext where
  "held_context = the (sv_instance held_server)"

lemma held_server_facts:
  "sv_instance held_server = Some held_context" "server_inv held_server"
  "held_by_other (sc_addressPool held_context) (sv_globals held_server) sample_mac (htonl 0xC0A82B04) held_lease"
  "ap_beginAddress (sc_addressPool held_context) = htonl 0xC0A82B03"
  "ap_endAddress (sc_addressPool held_context) = htonl 0xC0A82BFE"
proof -
  show "sv_instance held_server = Some held_context"
    by (simp add: held_context_def held_server_def sample_server_def)
  have "length other_mac = 16" by (simp add: other_mac_def)
  then show "server_inv held_server"
    by (auto simp: held_server_def sample_server_def server_inv_def globals_inv_def sample_globals_def pool_inv_def
        smap_wf_def all_entries_def held_lease_def binding_wf_def zero_binding_def sample_pool_def)
  have "\<not> AddrEquels other_mac sample_mac 6" by code_simp
  then show "held_by_other (sc_addressPool held_context) (sv_globals held_server) sample_mac (htonl 0xC0A82B04) held_lease"
    by (simp add: held_by_other_def held_context_def held_server_def sample_server_def GetLease_def unexpired_def
        held_lease_def expiry_def zero_binding_def)
  show "ap_beginAddress (sc_addressPool held_context) = htonl 0xC0A82B03"
    "ap_endAddress (sc_addressPool held_context) = htonl 0xC0A82BFE"
    by (simp_all add: held_context_def held_server_def sample_server_def sample_pool_def)
qed

lemma client_msg_ok: "length mac = 16 \<Longrightarrow> list_all opt_wf opts \<Longrightarrow> received_ok (client_msg mac opts)"
  using msg_wf_image_msg [of "replicate 548 0"]
  by (simp add: received_ok_def client_msg_def msg_wf_def opts_list_def)

theorem request_never_steals_witness:
  "\<exists>ret reply' s' srv'.
     OnReceivedRequest (client_msg sample_mac [mk_option 53 1 [3], mk_option 50 4 [192, 168, 43, 4]]) blank_msg held_server
       = (ret, reply', s')
     \<and> (ret = REPLY_ACK \<longrightarrow> dm_yiaddr (mi_packet reply') \<noteq> htonl 0xC0A82B04)
     \<and> sv_instance s' = Some srv' \<and> keeps_holder (sc_addressPool srv') (htonl 0xC0A82B04) held_lease"
proof -
  let ?m = "client_msg sample_mac [mk_option 53 1 [3], mk_option 50 4 [192, 168, 43, 4]]"
  obtain ret reply' s' where res: "OnReceivedRequest ?m blank_msg held_server = (ret, reply', s')"
    by (metis prod_cases3)
  have "received_ok ?m"
    by (rule client_msg_ok) (simp_all add: sample_mac_def opt_wf_def mk_option_def)
  moreover have "ntohl (ap_beginAddress (sc_addressPool held_context)) \<le> ntohl (htonl 0xC0A82B04)"
    "ntohl (htonl 0xC0A82B04) \<le> ntohl (ap_endAddress (sc_addressPool held_context))"
    "ap_endAddress (sc_addressPool held_context) \<noteq> INADDR_BROADCAST"
  proof -
    show "ntohl (ap_beginAddress (sc_addressPool held_context)) \<le> ntohl (htonl 0xC0A82B04)"
      "ntohl (htonl 0xC0A82B04) \<le> ntohl (ap_endAddress (sc_addressPool held_context))"
      by (simp_all add: held_server_facts)
    have "htonl 0xC0A82BFE \<noteq> INADDR_BROADCAST" by code_simp
    then show "ap_endAddress (sc_addressPool held_context) \<noteq> INADDR_BROADCAST" by (simp add: held_server_facts)
  qed
  moreover have "held_by_other (sc_addressPool held_context) (sv_globals held_server) (dm_chaddr (mi_packet ?m))
      (htonl 0xC0A82B04) held_lease"
    using held_server_facts(3) by (simp add: client_msg_def)
  ultimately show ?thesis
    using request_never_steals [OF res held_server_facts(1,2)] res by blast
qed

section \<open>The search keeps the binding of the client\<close>

text \<open>No lease of another client has a hardware address with the hash of this client's.\<close>

definition no_collision :: "DhcpAddressPool \<Rightarrow> bytes \<Rightarrow> bool" where
  "no_collision pool mac \<longleftrightarrow> all_entries (map_of (ap_leaseTable pool))
     (\<lambda>_ l. macAddrHash (ab_chaddr l) = macAddrHash mac \<longrightarrow> AddrEquels (ab_chaddr l) mac MAC_ADDR_LENGTH)"

definition same_binding :: "bytes \<Rightarrow> Globals \<Rightarrow> Globals \<Rightarrow> bool" where
  "same_binding mac g g' \<longleftrightarrow>
     map_of (g_bindingRecoders g') (macAddrHash mac) = map_of (g_bindingRecoders g) (macAddrHash mac)"

lemma AddrEquels_copied: "length mac = 16 \<Longrightarrow> AddrEquels (take 6 mac @ xs) mac MAC_ADDR_LENGTH"
  by (simp add: AddrEquels_def list_all_iff nth_append)

lemma no_collision_modify:
  assumes "no_collision pool mac"
    "\<And>l. map_of (ap_leaseTable pool) ip = Some l \<Longrightarrow> ab_chaddr (f l) = ab_chaddr l \<or> AddrEquels (ab_chaddr (f l)) mac MAC_ADDR_LENGTH"
  shows "no_collision (modify_lease ip f pool) mac"
  using assms unfolding no_collision_def
  by (auto simp: all_entries_def)

lemma CheckIpAvailability_binding:
  assumes "CheckIpAvailability pool mac ip g = (avail, pool', g')" "no_collision pool mac" "length mac = 16"
  shows "same_binding mac g g' \<and> no_collision pool' mac"
proof (cases "GetLease pool ip")
  case None
  with assms show ?thesis by (auto simp: CheckIpAvailability_def same_binding_def split: if_splits)
next
  case (Some l)
  then have l: "map_of (ap_leaseTable pool) ip = Some l" by (auto simp: GetLease_def split: if_splits)
  have chaddr: "ab_chaddr (fst (snd (IsExpire l g))) = ab_chaddr l" by (simp add: IsExpire_simps)
  have hash: "\<not> AddrEquels (ab_chaddr l) mac 6 \<Longrightarrow> macAddrHash (ab_chaddr l) \<noteq> macAddrHash mac"
    using assms(2) l by (auto simp: no_collision_def all_entries_def)
  have keep: "\<not> AddrEquels (ab_chaddr l) mac 6 \<Longrightarrow> same_binding mac g (snd (RemoveBinding (ab_chaddr l)
      (snd (Tmspsec (snd (snd (IsExpire l g)))))))"
    using hash by (auto simp: same_binding_def RemoveBinding_def IsExpire_simps)
  show ?thesis
    using assms Some l keep chaddr AddrEquels_copied [OF assms(3)]
    by (auto simp: CheckIpAvailability_def Let_def split_beta same_binding_def IsExpire_simps
        intro!: no_collision_modify split: if_splits)
qed

lemma CheckRangeAvailability_binding:
  assumes "CheckRangeAvailability pool mac ip oor g = (ret, oor', pool', g')" "no_collision pool mac"
    and mac: "length mac = 16" "\<not> IsEmptyHWAddr mac"
  shows "same_binding mac g g' \<and> no_collision pool' mac"
proof (cases rule: CheckRangeAvailability_cases [OF assms(1) mac])
  case 1
  then show ?thesis
    using assms(2) AddrEquels_copied [OF mac(1)]
    by (auto simp: same_binding_def no_collision_def all_entries_def new_lease_def)
next
  case 2
  with assms(2) show ?thesis by (simp add: same_binding_def)
next
  case 3
  have "g_bindingRecoders g' = g_bindingRecoders g"
    using assms(1) by (auto simp: CheckRangeAvailability_def Let_def split_beta split: if_splits)
  with 3 assms(2) show ?thesis by (simp add: same_binding_def)
qed

lemma AddressDistribute_loop_binding:
  assumes "AddressDistribute_loop n i ip oor mac pool g = (ok, ip', pool', g')" "no_collision pool mac"
    and mac: "length mac = 16" "\<not> IsEmptyHWAddr mac"
  shows "same_binding mac g g'"
  using assms(1,2)
proof (induction n arbitrary: i ip oor pool g)
  case 0
  then show ?case by (simp add: same_binding_def)
next
  case (Suc n)
  obtain off g0 where off: "(if i = 0 then NextIpOffset (ap_netmask pool) g else (0, g)) = (off, g0)"
    by fastforce
  then have g0: "same_binding mac g g0"
    by (auto simp: NextIpOffset_def Let_def Tmspusec_def same_binding_def split: if_splits)
  let ?ip = "NextIpAddress ip (ap_netmask pool) off"
  obtain avail pool1 g1 where chk: "CheckIpAvailability pool mac ?ip g0 = (avail, pool1, g1)"
    by (metis prod_cases3)
  have b1: "same_binding mac g0 g1" "no_collision pool1 mac"
    using CheckIpAvailability_binding [OF chk Suc.prems(2) mac(1)] by auto
  obtain ret oor' pool2 g2 where rng: "CheckRangeAvailability pool1 mac ?ip oor g1 = (ret, oor', pool2, g2)"
    by (metis prod_cases4)
  have b2: "same_binding mac g1 g2" "no_collision pool2 mac"
    using CheckRangeAvailability_binding [OF rng b1(2) mac] by auto
  have res: "(ok, ip', pool', g') =
    (if \<not> avail then AddressDistribute_loop n (i + 1) ?ip oor mac pool1 g1
     else if ret = RET_ERROR then (False, ?ip, pool2, g2)
     else if ret = RET_SUCCESS then (True, ?ip, pool2, g2)
     else AddressDistribute_loop n (i + 1) ?ip oor' mac pool2 g2)"
    using Suc.prems(1) by (simp add: off chk rng Let_def split del: if_split cong: if_cong)
  have "same_binding mac g1 g' \<or> same_binding mac g2 g'"
    using res b1(2) b2(2) Suc.IH [OF sym] by (auto simp: same_binding_def split: if_splits)
  with g0 b1(1) b2(1) show ?case by (auto simp: same_binding_def)
qed

lemma AddressDistribute_binding:
  assumes "AddressDistribute pool mac g = (ip, pool', g')" "no_collision pool mac" "length mac = 16"
  shows "same_binding mac g g'"
proof (cases "ap_beginAddress pool = 0 \<or> ap_endAddress pool = 0 \<or> ap_netmask pool = 0 \<or> IsEmptyHWAddr mac")
  case True
  with assms(1) show ?thesis by (auto simp: AddressDistribute_def same_binding_def split: if_splits)
next
  case False
  then have cfg: "ap_beginAddress pool \<noteq> 0" "ap_endAddress pool \<noteq> 0" "ap_netmask pool \<noteq> 0" "\<not> IsEmptyHWAddr mac"
    by auto
  let ?pool0 = "if ap_distribution pool = 0 then pool\<lparr>ap_distribution := ap_beginAddress pool\<rparr> else pool"
  let ?start = "if ap_distribution pool = 0 \<or> ap_distribution pool < ap_beginAddress pool
                 then ap_beginAddress pool else ap_distribution pool"
  obtain ok ip1 pool1 g1 where
    loop: "AddressDistribute_loop (unat (HostTotal (ap_netmask pool))) 0 ?start False mac ?pool0 g = (ok, ip1, pool1, g1)"
    by (metis prod_cases4)
  have "no_collision ?pool0 mac" using assms(2) by (simp add: no_collision_def)
  from AddressDistribute_loop_binding [OF loop this assms(3) cfg(4)] show ?thesis
    using assms(1) loop by (auto simp: AddressDistribute_loop_of [OF cfg] split: if_splits)
qed

section \<open>Discover\<close>

lemma AddNewBinding_new:
  assumes "length mac = 16"
  obtains b where "AddNewBinding mac opts g = (Some b, snd (AddNewBinding mac opts g))" "ab_chaddr b = mac"
    "ab_bindingStatus b = BIND_PENDING" "ab_bindingMode b = BIND_MODE_DYNAMIC"
    "map_of (g_bindingRecoders (snd (AddNewBinding mac opts g))) (macAddrHash mac) = Some b"
    "clock_le g (snd (AddNewBinding mac opts g))" "g_dangling (snd (AddNewBinding mac opts g)) = g_dangling g"
    "g_distributeMode (snd (AddNewBinding mac opts g)) = g_distributeMode g"
  using assms
  by (simp add: AddNewBinding_def Let_def split_beta GetBindingByMac_def clock_le_def Tmspsec_def zero_binding_def)

text \<open>The first contact of a client: the binding has the address that the search found.\<close>

lemma GetBinding_new:
  assumes "GetBinding pool received g = (b, pool', g')" "length (dm_chaddr (mi_packet received)) = 16"
    and none: "QueryBinding (dm_chaddr (mi_packet received)) (mi_options received) g = None"
    and coll: "no_collision pool (dm_chaddr (mi_packet received))"
  obtains ip g1 g2 x where "b = Some (macAddrHash (dm_chaddr (mi_packet received)))" "clock_le g g1"
    "AddressDistribute pool (dm_chaddr (mi_packet received)) g1 = (ip, pool', g2)"
    "deref_binding (macAddrHash (dm_chaddr (mi_packet received))) g' = x\<lparr>ab_ipAddress := ip\<rparr>"
    "ab_chaddr x = dm_chaddr (mi_packet received)" "ab_bindingStatus x = BIND_PENDING"
    "g_dangling g' = g_dangling g" "g_distributeMode g1 = g_distributeMode g"
    "\<not> IsReserved (dm_chaddr (mi_packet received)) g1"
proof -
  let ?mac = "dm_chaddr (mi_packet received)" and ?h = "macAddrHash (dm_chaddr (mi_packet received))"
  obtain x g0 where x: "AddNewBinding ?mac (mi_options received) g = (Some x, g0)" "ab_chaddr x = ?mac"
    "ab_bindingStatus x = BIND_PENDING" "map_of (g_bindingRecoders g0) ?h = Some x" "clock_le g g0"
    "g_dangling g0 = g_dangling g" "g_distributeMode g0 = g_distributeMode g" "ab_bindingMode x = BIND_MODE_DYNAMIC"
    using AddNewBinding_new [OF assms(2)] by metis
  define y where "y = (if ap_leaseTime pool \<noteq> 0 then x\<lparr>ab_leaseTime := ucast (ap_leaseTime pool)\<rparr> else x)"
  define g1 where "g1 = (if ap_leaseTime pool \<noteq> 0 then write_binding ?h y g0 else g0)"
  have y: "ab_chaddr y = ?mac" "ab_bindingStatus y = BIND_PENDING" "map_of (g_bindingRecoders g1) ?h = Some y"
    using x by (auto simp: y_def g1_def write_binding_def)
  have mode: "g_distributeMode g1 = g_distributeMode g" "\<not> IsReserved ?mac g1"
    using x(4,7,8) by (auto simp: y_def g1_def write_binding_def IsReserved_def)
  have g1: "clock_le g g1" "g_dangling g1 = g_dangling g"
    using x(4-6) clock_le_trans clock_le_simps(4) by (auto simp: g1_def write_binding_def clock_le_def)
  obtain ip pool2 g2 where dist: "AddressDistribute pool ?mac g1 = (ip, pool2, g2)" by (metis prod_cases3)
  have "map_of (g_bindingRecoders g2) ?h = Some y"
    using AddressDistribute_binding [OF dist coll assms(2)] y(3) by (simp add: same_binding_def)
  moreover have "g_dangling g2 = g_dangling g"
    using AddressDistribute_outcome [OF dist assms(2)] g1(2) by (simp add: globals_le_def)
  ultimately have "g_dangling g2 = g_dangling g" "deref_binding ?h g2 = y" "write_binding ?h (y\<lparr>ab_ipAddress := ip\<rparr>) g2 =
      g2\<lparr>g_bindingRecoders := smap_modify ?h (\<lambda>_. y\<lparr>ab_ipAddress := ip\<rparr>) (g_bindingRecoders g2)\<rparr>"
    "deref_binding ?h (g2\<lparr>g_bindingRecoders := smap_modify ?h (\<lambda>_. y\<lparr>ab_ipAddress := ip\<rparr>) (g_bindingRecoders g2)\<rparr>)
      = y\<lparr>ab_ipAddress := ip\<rparr>"
    by (simp_all add: deref_binding_def write_binding_def)
  moreover have "GetBinding pool received g =
      (let (ip, pool, g) = AddressDistribute pool ?mac g1 in
       (Some ?h, pool, write_binding ?h ((deref_binding ?h g)\<lparr>ab_ipAddress := ip\<rparr>) g))"
    using none x(1) by (simp add: GetBinding_def Let_def y_def g1_def)
  ultimately show ?thesis
    using assms(1) dist y g1 mode by (intro that [of g1 ip g2 y]) auto
qed

lemma GetLease_DeleteMac:
  assumes "pool_inv pool"
  shows "GetLease (snd (DeleteMacInLease pool b)) ip =
    (case GetLease pool ip of None \<Rightarrow> None
     | Some l \<Rightarrow> if AddrEquels (ab_chaddr l) (ab_chaddr b) MAC_ADDR_LENGTH then None else Some l)"
proof -
  have "distinct (map fst (ap_leaseTable pool))"
    using assms by (auto simp: pool_inv_def intro: smap_wf_distinct)
  then show ?thesis
    by (simp add: GetLease_def DeleteMacInLease_def map_of_filter split: option.split)
qed

text \<open>A discover message of a client without a binding: the search decides between no answer and an offer.\<close>

lemma OnReceivedDiscover_new:
  assumes "OnReceivedDiscover received reply s = (ret, reply', s')" "sv_instance s = Some srv"
    and inv: "server_inv s" "received_ok received"
    and none: "QueryBinding (dm_chaddr (mi_packet received)) (mi_options received) (sv_globals s) = None"
    and coll: "no_collision (sc_addressPool srv) (dm_chaddr (mi_packet received))"
  obtains ip g0 pool1 g2 x q where "clock_le (sv_globals s) g0"
    "AddressDistribute (sc_addressPool srv) (dm_chaddr (mi_packet received)) g0 = (ip, pool1, g2)"
    "g_distributeMode g0 = g_distributeMode (sv_globals s)" "\<not> IsReserved (dm_chaddr (mi_packet received)) g0"
    "ip = 0 \<Longrightarrow> ret = REPLY_NONE"
    "ip \<noteq> 0 \<Longrightarrow> ret = REPLY_OFFER \<and> dm_yiaddr (mi_packet reply') = ip \<and> GetLease q ip = Some x
       \<and> sv_instance s' = Some (srv\<lparr>sc_addressPool := q\<rparr>)"
    "ab_chaddr x = dm_chaddr (mi_packet received)" "ab_bindingStatus x = BIND_PENDING"
    "ip \<noteq> 0 \<Longrightarrow> g_dangling (sv_globals s') = g_dangling (sv_globals s)"
proof -
  let ?mac = "dm_chaddr (mi_packet received)" and ?pool = "sc_addressPool srv"
  let ?g = "discover_globals srv (sv_globals s)" and ?h = "macAddrHash (dm_chaddr (mi_packet received))"
  have mac: "length ?mac = 16" using inv(2) by (simp add: received_ok_def msg_wf_def)
  have clk: "clock_le (sv_globals s) ?g" and rec: "g_bindingRecoders ?g = g_bindingRecoders (sv_globals s)"
    "g_dangling ?g = g_dangling (sv_globals s)" "g_distributeMode ?g = g_distributeMode (sv_globals s)"
    by (auto simp: discover_globals_def clock_le_def SourceIpAddress_def SourceAddrIn_def DestinationAddr_def Let_def)
  obtain b pool1 g1 where bind: "GetBinding ?pool received ?g = (b, pool1, g1)" by (metis prod_cases3)
  have none': "QueryBinding ?mac (mi_options received) ?g = None"
    using none rec by (simp add: QueryBinding_def GetBindingByMac_def)
  obtain ip g0 g2 x where new: "b = Some ?h" "clock_le ?g g0" "AddressDistribute ?pool ?mac g0 = (ip, pool1, g2)"
    "deref_binding ?h g1 = x\<lparr>ab_ipAddress := ip\<rparr>" "ab_chaddr x = ?mac" "ab_bindingStatus x = BIND_PENDING"
    "g_dangling g1 = g_dangling ?g" "g_distributeMode g0 = g_distributeMode ?g" "\<not> IsReserved ?mac g0"
    by (rule GetBinding_new [OF bind mac none' coll])
  let ?b = "x\<lparr>ab_ipAddress := ip\<rparr>"
  let ?q = "snd (DeleteMacInLease pool1 ?b)"
  have offer: "ret = REPLY_OFFER \<and> dm_yiaddr (mi_packet reply') = ip \<and> GetLease (put_lease ?b ?q) ip = Some ?b
      \<and> sv_instance s' = Some (srv\<lparr>sc_addressPool := put_lease ?b ?q\<rparr>)
      \<and> g_dangling (sv_globals s') = g_dangling (sv_globals s)" if ip: "ip \<noteq> 0"
  proof -
    have gi: "globals_inv ?g"
      using server_inv_globals [OF inv(1)] by (auto simp: discover_globals_def intro!: globals_inv_clock)
    have inv1: "pool_inv pool1"
      using GetBinding_inv [OF bind server_inv_pool [OF inv(1) assms(2)] gi mac] by auto
    obtain t where "GetLease pool1 ip = Some (new_lease ?pool ?mac ip t)"
      using AddressDistribute_sound [OF new(3) mac ip] ip by (auto simp: distributed_def GetLease_def)
    then have gone: "GetLease ?q ip = None"
      using new(5) AddrEquels_copied [OF mac] by (simp add: GetLease_DeleteMac [OF inv1] new_lease_def)
    have nonempty: "\<not> IsEmptyHWAddr ?mac"
      using new(3) ip by (auto simp: AddressDistribute_def split: if_splits)
    have add: "snd (AddLease ?q ?b) = put_lease ?b ?q" "GetLease (put_lease ?b ?q) ip = Some ?b"
      using ip new(5) nonempty by (simp_all add: AddLease_def GetLease_put)
    show ?thesis
      using assms(1) new(1,4,7) ip gone add assms(2) rec(2)
      by (auto simp: OnReceivedDiscover_eq [OF assms(2) bind] DiscoverReplyLeaseMessage_def Let_def)
  qed
  have "ret = REPLY_NONE" if "ip = 0"
    using assms(1) new(1,4) that by (auto simp: OnReceivedDiscover_eq [OF assms(2) bind])
  with offer show ?thesis
    using clk new rec(3) clock_le_trans [OF clk new(2)]
    by (intro that [of g0 ip pool1 g2 "put_lease ?b ?q" ?b]) auto
qed

section \<open>Properties of discover, release, inform and stop\<close>

text \<open>C2: A client without a binding that sends a discover message gets an offer only with an address of the range that
  was free, its own or expired, and then the lease table has a pending lease of that address for
  the hardware address of the client; no binding was used after it was erased. (The client's hash
  must not collide with that of a client in the table.)\<close>

theorem discover_offers_fresh_address:
  assumes "OnReceivedDiscover received reply s = (REPLY_OFFER, reply', s')" "sv_instance s = Some srv"
    and inv: "server_inv s" "received_ok received"
    and none: "QueryBinding (dm_chaddr (mi_packet received)) (mi_options received) (sv_globals s) = None"
    and coll: "no_collision (sc_addressPool srv) (dm_chaddr (mi_packet received))"
  shows "\<exists>srv' l lo hi. sv_instance s' = Some srv'
    \<and> in_range (sc_addressPool srv) (dm_yiaddr (mi_packet reply'))
    \<and> takeable (sc_addressPool srv) (dm_chaddr (mi_packet received)) (dm_yiaddr (mi_packet reply'))
        (g_clock (sv_globals s)) lo hi \<and> g_ticks (sv_globals s) \<le> lo
    \<and> GetLease (sc_addressPool srv') (dm_yiaddr (mi_packet reply')) = Some l
    \<and> ab_chaddr l = dm_chaddr (mi_packet received) \<and> ab_bindingStatus l = BIND_PENDING
    \<and> g_dangling (sv_globals s') = g_dangling (sv_globals s)"
proof -
  have mac: "length (dm_chaddr (mi_packet received)) = 16" using inv(2) by (simp add: received_ok_def msg_wf_def)
  obtain ip g0 pool1 g2 x q where new: "clock_le (sv_globals s) g0"
    "AddressDistribute (sc_addressPool srv) (dm_chaddr (mi_packet received)) g0 = (ip, pool1, g2)"
    and no: "ip = 0 \<Longrightarrow> REPLY_OFFER = REPLY_NONE"
    and yes: "ip \<noteq> 0 \<Longrightarrow> REPLY_OFFER = REPLY_OFFER \<and> dm_yiaddr (mi_packet reply') = ip \<and> GetLease q ip = Some x
       \<and> sv_instance s' = Some (srv\<lparr>sc_addressPool := q\<rparr>)"
      "ab_chaddr x = dm_chaddr (mi_packet received)" "ab_bindingStatus x = BIND_PENDING"
      "ip \<noteq> 0 \<Longrightarrow> g_dangling (sv_globals s') = g_dangling (sv_globals s)"
    by (rule OnReceivedDiscover_new [OF assms(1,2) inv none coll]) blast
  have ip: "ip \<noteq> 0" using no by auto
  show ?thesis
    using AddressDistribute_sound [OF new(2) mac ip] yes ip new(1)
    by (intro exI [of _ "srv\<lparr>sc_addressPool := q\<rparr>"] exI [of _ x] exI [of _ "g_ticks g0"] exI [of _ "g_ticks g2"])
      (auto simp: distributed_def clock_le_def)
qed

lemma sample_client:
  "sv_instance sample_server = Some (the (sv_instance sample_server))"
  "sc_addressPool (the (sv_instance sample_server)) = sample_pool"
  "received_ok (client_msg sample_mac [mk_option 53 1 [1]])" "dm_chaddr (mi_packet (client_msg sample_mac [mk_option 53 1 [1]])) = sample_mac"
  "no_collision sample_pool sample_mac"
  "QueryBinding sample_mac (mi_options (client_msg sample_mac [mk_option 53 1 [1]])) (sv_globals sample_server) = None"
  "g_distributeMode (sv_globals sample_server) = 0"
proof -
  show "received_ok (client_msg sample_mac [mk_option 53 1 [1]])"
    by (rule client_msg_ok) (simp_all add: sample_mac_def opt_wf_def mk_option_def)
qed (simp_all add: sample_server_def client_msg_def no_collision_def sample_pool_def zero_pool_def all_entries_def
    QueryBinding_def GetBindingByMac_def sample_globals_def)

theorem discover_offers_fresh_address_witness:
  "\<exists>reply' s' srv' l. OnReceivedDiscover (client_msg sample_mac [mk_option 53 1 [1]]) blank_msg sample_server
       = (REPLY_OFFER, reply', s')
     \<and> in_range sample_pool (dm_yiaddr (mi_packet reply')) \<and> sv_instance s' = Some srv'
     \<and> GetLease (sc_addressPool srv') (dm_yiaddr (mi_packet reply')) = Some l \<and> ab_chaddr l = sample_mac"
proof -
  obtain ret reply' s' where res: "OnReceivedDiscover (client_msg sample_mac [mk_option 53 1 [1]]) blank_msg sample_server
      = (ret, reply', s')"
    by (metis prod_cases3)
  note new = OnReceivedDiscover_new [OF res sample_client(1) sample_server_inv(1) sample_client(3), unfolded sample_client(2,4,7),
      OF sample_client(6,5)]
  obtain ip g0 pool1 g2 where g0: "AddressDistribute sample_pool sample_mac g0 = (ip, pool1, g2)"
    "g_distributeMode g0 = 0" "\<not> IsReserved sample_mac g0" and yes: "ip \<noteq> 0 \<Longrightarrow> ret = REPLY_OFFER"
    by (rule new) blast
  have "ip = htonl 0xC0A82B04" using AddressDistribute_sample [OF g0(2,3)] g0(1) by simp
  then have ret: "ret = REPLY_OFFER" using yes by simp
  show ?thesis
    using discover_offers_fresh_address [OF res [unfolded ret] sample_client(1) sample_server_inv(1) sample_client(3)] res ret
    by (auto simp: sample_client(2-7))
qed

end
