(* ===== verification/DhcpServerBehaviour.thy ===== *)
theory DhcpServerBehaviour
  imports DhcpServerProps
begin

text \<open>
  What the handlers do besides the safety of addresses: which fields of a message a reply repeats, messages
  for another server, release, and behaviours that the code does not mean: the address in the answer
  to an inform message, a request after a release, the server's own address in the search.
\<close>

section \<open>Replies\<close>

text \<open>A reply is a boot reply with the flags of the message, and with its transaction id, hardware address and relay
  address wherever the message has them.\<close>

theorem reply_repeats_message:
  assumes "sv_instance s = Some srv" "length (dm_chaddr (mi_packet received)) = 16"
  shows "let p = mi_packet (InitReply s received reply); r = mi_packet received in
    dm_op p = 2 \<and> dm_flags p = dm_flags r \<and> (dm_xid r \<noteq> 0 \<longrightarrow> dm_xid p = dm_xid r)
    \<and> (dm_hlen r \<noteq> 0 \<longrightarrow> dm_hlen p = dm_hlen r \<and> dm_chaddr p = dm_chaddr r)
    \<and> (dm_giaddr r \<noteq> 0 \<longrightarrow> dm_giaddr p = dm_giaddr r)
    \<and> (dm_siaddr r = 0 \<longrightarrow> dm_siaddr p = ap_serverId (sc_addressPool srv))"
  using assms by (simp add: InitReply_def FillReply_def Let_def)

theorem reply_repeats_message_witness:
  "dm_chaddr (mi_packet (InitReply sample_server (client_msg sample_mac []) blank_msg)) = sample_mac
     \<and> dm_op (mi_packet (InitReply sample_server (client_msg sample_mac []) blank_msg)) = 2"
proof -
  have "length (dm_chaddr (mi_packet (client_msg sample_mac []))) = 16" "dm_hlen (mi_packet (client_msg sample_mac [])) \<noteq> 0"
    "dm_chaddr (mi_packet (client_msg sample_mac [])) = sample_mac"
    by (simp_all add: client_msg_def sample_mac_def)
  with reply_repeats_message [OF sample_client(1), of "client_msg sample_mac []" blank_msg] show ?thesis
    unfolding Let_def by metis
qed

text \<open>The answer to an inform message has the address of the answer before it, which can be that of another client:
  neither the header nor the handler sets it.\<close>

theorem inform_repeats_last_address:
  assumes "sv_instance s = Some srv"
  shows "\<exists>reply'. OnReceivedInform received (InitReply s received reply) s = (REPLY_ACK, reply', s)
    \<and> dm_yiaddr (mi_packet reply') = dm_yiaddr (mi_packet reply)"
  using assms by (simp add: OnReceivedInform_def InitReply_def FillReply_def Let_def)

theorem inform_repeats_last_address_witness:
  "\<exists>reply'. OnReceivedInform (client_msg sample_mac []) (InitReply sample_server (client_msg sample_mac [])
       (blank_msg\<lparr>mi_packet := (mi_packet blank_msg)\<lparr>dm_yiaddr := htonl 0xC0A82B04\<rparr>\<rparr>)) sample_server
     = (REPLY_ACK, reply', sample_server) \<and> dm_yiaddr (mi_packet reply') = htonl 0xC0A82B04"
  using inform_repeats_last_address [OF sample_client(1), of "client_msg sample_mac []"
      "blank_msg\<lparr>mi_packet := (mi_packet blank_msg)\<lparr>dm_yiaddr := htonl 0xC0A82B04\<rparr>\<rparr>"] by simp

section \<open>Requests for another server\<close>

lemma GetYourIpAddress_requested:
  assumes "GetRequestIpAddress received = ip" "ip \<noteq> 0" "ip \<noteq> INADDR_BROADCAST" "dm_ciaddr (mi_packet received) = 0"
    and "ntohl (ap_beginAddress pool) \<le> ntohl ip" "ntohl ip \<le> ntohl (ap_endAddress pool)"
  obtains g' where "GetYourIpAddress received a pool g = (RET_SUCCESS, ip, g')"
    "g_bindingRecoders g' = g_bindingRecoders g" "clock_le g g'"
proof -
  obtain ret x g' where y: "GetYourIpAddress received a pool g = (ret, x, g')" by (metis prod_cases3)
  then have "ret = RET_SUCCESS" "x = ip"
    using assms by (auto simp: GetYourIpAddress_def Let_def split_beta not_less split: if_splits)
  with y that GetYourIpAddress_ok(1,2) [OF y] show ?thesis by simp
qed


lemma client_msg_ciaddr: "dm_ciaddr (mi_packet (client_msg mac opts)) = 0"
proof -
  have "u32_of_bytes [0, 0, 0, 0] = 0" by code_simp
  then show ?thesis by (simp add: client_msg_def image_msg_def numeral_eq_Suc)
qed

lemma sample_ip_facts:
  "htonl 0xC0A82B04 \<noteq> INADDR_BROADCAST" "ntohl (ap_beginAddress sample_pool) \<le> ntohl (htonl 0xC0A82B04)"
  "ntohl (htonl 0xC0A82B04) \<le> ntohl (ap_endAddress sample_pool)"
proof -
  show "htonl 0xC0A82B04 \<noteq> INADDR_BROADCAST" by code_simp
qed (simp_all add: sample_pool_def)

lemma sample_requested_ip:
  assumes "opts_get (mi_options m) 50 = Some (mk_option 50 4 [192, 168, 43, 4])"
  shows "GetRequestIpAddress m = htonl 0xC0A82B04"
proof -
  have "ParseIp [192, 168, 43, 4] = htonl 0xC0A82B04" by code_simp
  with assms show ?thesis by (simp add: GetRequestIpAddress_def mk_option_def ParseIp_def)
qed


section \<open>Release\<close>

text \<open>C14: A release message of a client with a binding removes the lease of its address, whoever that lease belongs to by
  now, and no other lease; the binding stays, marked as released.\<close>

theorem release_frees_address:
  assumes "sv_instance s = Some srv" "server_inv s" "g_releaseRemoveMode (sv_globals s) = 0"
    and bind: "QueryBinding (dm_chaddr (mi_packet received)) (mi_options received) (sv_globals s) = Some b"
    and "GetRequestIpAddress received = 0 \<or> GetRequestIpAddress received = ab_ipAddress b"
    and lease: "GetLease (sc_addressPool srv) (ab_ipAddress b) = Some l" "\<not> IsEmptyHWAddr (ab_chaddr l)"
  shows "\<exists>s' srv'. OnReceivedRelease received reply s = (REPLY_NONE, reply, s') \<and> sv_instance s' = Some srv'
    \<and> GetLease (sc_addressPool srv') (ab_ipAddress b) = None
    \<and> (\<forall>a. a \<noteq> ab_ipAddress b \<longrightarrow> GetLease (sc_addressPool srv') a = GetLease (sc_addressPool srv) a)
    \<and> QueryBinding (dm_chaddr (mi_packet received)) (mi_options received) (sv_globals s')
        = Some (b\<lparr>ab_bindingStatus := BIND_RELEASED\<rparr>)"
proof -
  let ?pool = "sc_addressPool srv" and ?ip = "ab_ipAddress b" and ?mac = "dm_chaddr (mi_packet received)"
  let ?g = "snd (SourceIpAddress (sv_globals s))"
  have ip: "?ip \<noteq> 0" "map_of (ap_leaseTable ?pool) ?ip = Some l"
    using lease(1) by (auto simp: GetLease_def split: if_splits)
  have "ab_ipAddress l = ?ip"
    using pool_inv_lease [OF server_inv_pool [OF assms(2,1)] lease(1)] by simp
  then have rm: "snd (RemoveLease ?pool l) = ?pool\<lparr>ap_leaseTable := smap_erase ?ip (ap_leaseTable ?pool)\<rparr>"
    using ip lease(2) by (simp add: RemoveLease_def)
  have b: "map_of (g_bindingRecoders ?g) (macAddrHash ?mac) = Some b" "g_releaseRemoveMode ?g = 0"
    using bind assms(3) by (simp_all add: QueryBinding_def GetBindingByMac_def SourceIpAddress_def SourceAddrIn_def)
  let ?g' = "snd (ReleaseBinding ?mac ?g)"
  let ?s' = "set_globals ?g' (set_pool (snd (RemoveLease ?pool l)) s)"
  have "OnReceivedRelease received reply s = (REPLY_NONE, reply, ?s')"
    using assms(1,5) bind lease(1) by (auto simp: OnReceivedRelease_def Let_def split_beta)
  moreover have "map_of (g_bindingRecoders ?g') (macAddrHash ?mac) = Some (b\<lparr>ab_bindingStatus := BIND_RELEASED\<rparr>)"
    using b by (simp add: ReleaseBinding_def)
  ultimately show ?thesis
    using assms(1) rm by (auto simp: QueryBinding_def GetBindingByMac_def GetLease_def)
qed

text \<open>A server where another client has the binding and the lease of 192.168.43.4, and the one where it has only the binding.\<close>

definition bound_server :: Server where
  "bound_server = held_server\<lparr>sv_globals := (sv_globals held_server)\<lparr>g_bindingRecoders := [(macAddrHash other_mac, held_lease)]\<rparr>\<rparr>"

definition released_server :: Server where
  "released_server = sample_server\<lparr>sv_globals := sv_globals bound_server\<rparr>"

lemma bound_server_facts:
  "sv_instance bound_server = Some held_context" "server_inv bound_server" "g_releaseRemoveMode (sv_globals bound_server) = 0"
  "QueryBinding other_mac opts (sv_globals bound_server) = Some held_lease" "ab_ipAddress held_lease = htonl 0xC0A82B04"
  "GetLease (sc_addressPool held_context) (htonl 0xC0A82B04) = Some held_lease" "\<not> IsEmptyHWAddr (ab_chaddr held_lease)"
  "dm_chaddr (mi_packet (client_msg mac opts')) = mac"
proof -
  show "sv_instance bound_server = Some held_context" using held_server_facts(1) by (simp add: bound_server_def)
  have "binding_wf held_lease" by (simp add: binding_wf_def held_lease_def zero_binding_def other_mac_def)
  then show "server_inv bound_server"
    using held_server_facts(2) by (auto simp: bound_server_def server_inv_def globals_inv_def smap_wf_def all_entries_def)
  show "GetLease (sc_addressPool held_context) (htonl 0xC0A82B04) = Some held_lease"
    using held_server_facts(3) by (simp add: held_by_other_def)
  have "\<not> IsEmptyHWAddr other_mac" by code_simp
  then show "\<not> IsEmptyHWAddr (ab_chaddr held_lease)" by (simp add: held_lease_def)
qed (simp_all add: bound_server_def held_server_def sample_globals_def QueryBinding_def GetBindingByMac_def held_lease_def
    client_msg_def)

theorem release_frees_address_witness:
  "\<exists>s' srv'. OnReceivedRelease (client_msg other_mac [mk_option 53 1 [7]]) blank_msg bound_server = (REPLY_NONE, blank_msg, s')
     \<and> sv_instance s' = Some srv' \<and> GetLease (sc_addressPool srv') (htonl 0xC0A82B04) = None"
proof -
  let ?m = "client_msg other_mac [mk_option 53 1 [7]]"
  have "GetRequestIpAddress ?m = 0 \<or> GetRequestIpAddress ?m = ab_ipAddress held_lease"
    by (simp add: GetRequestIpAddress_def client_msg_def opts_get_def mk_option_def)
  from release_frees_address [OF bound_server_facts(1-3) _ this, unfolded bound_server_facts(4,5,6,8), OF refl refl
      bound_server_facts(7)]
  show ?thesis by blast
qed

text \<open>A client that has a binding but no lease, as after its release, is acknowledged the address it asks for again
  although no lease is recorded, so that the search can give the address to another client.\<close>

theorem ack_without_lease:
  assumes "sv_instance s = Some srv" "GetRequestIpAddress received = ip" "ip \<noteq> 0" "ip \<noteq> INADDR_BROADCAST"
    "dm_ciaddr (mi_packet received) = 0" "ntohl (ap_beginAddress (sc_addressPool srv)) \<le> ntohl ip"
    "ntohl ip \<le> ntohl (ap_endAddress (sc_addressPool srv))"
    and "opts_get (mi_options received) SERVER_IDENTIFIER_OPTION = None"
    and bind: "QueryBinding (dm_chaddr (mi_packet received)) (mi_options received) (sv_globals s) = Some b" "ab_ipAddress b = ip"
    and none: "GetLease (sc_addressPool srv) ip = None"
  shows "\<exists>reply' s'. OnReceivedRequest received reply s = (REPLY_ACK, reply', s') \<and> dm_yiaddr (mi_packet reply') = ip
    \<and> sv_instance s' = Some srv"
proof -
  let ?pool = "sc_addressPool srv"
  obtain g1 where your: "GetYourIpAddress received INADDR_BROADCAST ?pool (sv_globals s) = (RET_SUCCESS, ip, g1)"
    "g_bindingRecoders g1 = g_bindingRecoders (sv_globals s)"
    using GetYourIpAddress_requested [OF assms(2-7)] by metis
  have val: "ValidateRequestMessage received s = (REPLY_ACK, ip, set_globals g1 s)"
    using assms(1,8) your(1) by (simp add: ValidateRequestMessage_def)
  have q: "QueryBinding (dm_chaddr (mi_packet received)) (mi_options received) g1 = Some b"
    using bind(1) your(2) by (simp add: QueryBinding_def GetBindingByMac_def)
  obtain r pool' b' g' where reb: "Rebinding ?pool b g1 = (r, pool', b', g')" by (metis prod_cases4)
  have reb': "pool' = ?pool" "ab_ipAddress b' = ip" using Rebinding_cases [OF reb] bind(2) by simp_all
  have upd: "request_update received ip b' ?pool g = (True, ?pool, g)" for g
    using none by (simp add: request_update_def)
  show ?thesis
    using assms(1,3) val q reb reb' upd by (simp add: OnReceivedRequest_def Let_def)
qed

theorem ack_without_lease_witness:
  "\<exists>reply' s'. OnReceivedRequest (client_msg other_mac [mk_option 53 1 [3], mk_option 50 4 [192, 168, 43, 4]]) blank_msg
       released_server = (REPLY_ACK, reply', s') \<and> dm_yiaddr (mi_packet reply') = htonl 0xC0A82B04
     \<and> sv_instance s' = sv_instance sample_server \<and> GetLease sample_pool (htonl 0xC0A82B04) = None"
proof -
  let ?m = "client_msg other_mac [mk_option 53 1 [3], mk_option 50 4 [192, 168, 43, 4]]"
  have srv: "sv_instance released_server = Some (the (sv_instance sample_server))"
    using sample_client(1) by (simp add: released_server_def)
  have opt: "opts_get (mi_options ?m) 50 = Some (mk_option 50 4 [192, 168, 43, 4])" "opts_get (mi_options ?m) 54 = None"
    by (simp_all add: client_msg_def opts_get_def mk_option_def)
  have q: "QueryBinding (dm_chaddr (mi_packet ?m)) (mi_options ?m) (sv_globals released_server) = Some held_lease"
    using bound_server_facts(4) by (simp add: released_server_def bound_server_facts(8))
  have none: "GetLease sample_pool (htonl 0xC0A82B04) = None"
    by (simp add: GetLease_def sample_pool_def zero_pool_def)
  have nz: "htonl 0xC0A82B04 \<noteq> (0 :: u32)" by simp
  from ack_without_lease [OF srv sample_requested_ip [OF opt(1)] nz sample_ip_facts(1) client_msg_ciaddr _ _ opt(2) q
      bound_server_facts(5), unfolded sample_client(2), OF sample_ip_facts(2,3) none, of blank_msg]
  show ?thesis using none sample_client(1) by auto
qed

section \<open>The address of the server\<close>

text \<open>The search can hand out the server's own address: it compares an address with those of the server and the gateway
  only when the address has a lease. On the default range of 192.168.43.2/24 the first client gets it.\<close>

theorem server_address_handed_out:
  "fst (AddressDistribute (sample_pool\<lparr>ap_serverId := htonl 0xC0A82B02, ap_gateway := htonl 0xC0A82B02,
       ap_beginAddress := FirstIpAddress (htonl 0xC0A82B02) (prefix_netmask 24),
       ap_endAddress := LastIpAddress (htonl 0xC0A82B02) (prefix_netmask 24)\<rparr>) sample_mac sample_globals) = htonl 0xC0A82B02"
proof (rule AddressDistribute_first)
  show "NextIpAddress (ap_beginAddress (sample_pool\<lparr>ap_serverId := htonl 0xC0A82B02, ap_gateway := htonl 0xC0A82B02,
       ap_beginAddress := FirstIpAddress (htonl 0xC0A82B02) (prefix_netmask 24),
       ap_endAddress := LastIpAddress (htonl 0xC0A82B02) (prefix_netmask 24)\<rparr>)) (prefix_netmask 24) 0 = htonl 0xC0A82B02"
    by code_simp
qed (simp_all add: sample_pool_def zero_pool_def sample_globals_def IsReserved_def, code_simp+)

end
