(* ===== verification/DhcpConfig.thy ===== *)
theory DhcpConfig
  imports DhcpAddressPool
begin

text \<open>
  \<^verbatim>\<open>services/dhcp_server/src/dhcp_config.cpp\<close>: the configuration file of the server, lines \<^verbatim>\<open>key=value\<close> in a
  common section and in sections that a line \<^verbatim>\<open>interface=name\<close> opens. A key that fails stops the parse with
  the fields set so far. Text has no NUL character; \<open>strtok_r\<close> is that of musl, the C library of
  the platform: the save pointer is null (\<open>None\<close>) when the token ends the string. The products of the
  lease time with 0.5 and 0.875 are exact in double precision and truncated to 32 bits.
\<close>

section \<open>Data\<close>

record DhcpConfig =
  cf_ifname :: string
  cf_serverId :: u32
  cf_netmask :: u32
  cf_gateway :: u32
  cf_leaseTime :: u32
  cf_renewalTime :: u32
  cf_rebindingTime :: u32
  cf_distribution :: u32
  cf_broadcast :: u32
  cf_beginAddress :: u32
  cf_endAddress :: u32
  cf_options :: option_list

abbreviation (input) IFACE_NAME_SIZE :: nat where "IFACE_NAME_SIZE \<equiv> 50"
abbreviation (input) FILE_LINE_LEN_MAX :: nat where "FILE_LINE_LEN_MAX \<equiv> 1024"

section \<open>Tokens\<close>

definition strtok_r :: "char \<Rightarrow> string \<Rightarrow> (string \<times> string option) option" where
  "strtok_r d s =
     (let s = dropWhile (\<lambda>c. c = d) s in if s = [] then None else Some (split_at d s))"

lemma strtok_r_shorter: "strtok_r d s = Some (t, Some r) \<Longrightarrow> length r < length s"
  by (auto simp: strtok_r_def Let_def split: if_splits dest!: split_at_shorter
      intro: less_le_trans [OF _ length_dropWhile_le])

text \<open>The tokens that a first call with the string and further calls with a null pointer give.\<close>

function strtok_tokens :: "char \<Rightarrow> string \<Rightarrow> string list" where
  "strtok_tokens d s =
     (case strtok_r d s of
        None \<Rightarrow> []
      | Some (t, None) \<Rightarrow> [t]
      | Some (t, Some r) \<Rightarrow> t # strtok_tokens d r)"
  by auto
termination
  by (relation "measure (\<lambda>(d, s). length s)") (auto dest: strtok_r_shorter)

declare strtok_tokens.simps [simp del]

section \<open>One line\<close>

definition SetEnableConfigInfo :: "DhcpConfig \<Rightarrow> string \<Rightarrow> string option \<Rightarrow> int \<times> DhcpConfig" where
  "SetEnableConfigInfo dhcpConfig pKey pValue =
     (case pValue of
        None \<Rightarrow> (RET_FAILED, dhcpConfig)
      | Some v \<Rightarrow>
        let uValue = CheckDataToUint v in
        if uValue \<noteq> 0 \<and> uValue \<noteq> 1 then (RET_FAILED, dhcpConfig)
        else if pKey = ''distribution'' then (RET_SUCCESS, dhcpConfig\<lparr>cf_distribution := uValue\<rparr>)
        else if pKey = ''broadcast'' then (RET_SUCCESS, dhcpConfig\<lparr>cf_broadcast := uValue\<rparr>)
        else (RET_SUCCESS, dhcpConfig))"

definition SetTimeConfigInfo :: "DhcpConfig \<Rightarrow> string \<Rightarrow> string option \<Rightarrow> int \<times> DhcpConfig" where
  "SetTimeConfigInfo dhcpConfig pKey pValue =
     (case pValue of
        None \<Rightarrow> (RET_FAILED, dhcpConfig)
      | Some v \<Rightarrow>
        let uValue = CheckDataToUint v in
        if uValue = 0 then (RET_FAILED, dhcpConfig)
        else if pKey = ''leaseTime'' then (RET_SUCCESS, dhcpConfig\<lparr>cf_leaseTime := uValue\<rparr>)
        else if pKey = ''renewalTime'' then (RET_SUCCESS, dhcpConfig\<lparr>cf_renewalTime := uValue\<rparr>)
        else if pKey = ''rebindingTime'' then (RET_SUCCESS, dhcpConfig\<lparr>cf_rebindingTime := uValue\<rparr>)
        else (RET_SUCCESS, dhcpConfig))"

definition SetNetConfigInfo :: "DhcpConfig \<Rightarrow> string \<Rightarrow> string option \<Rightarrow> bool \<Rightarrow> int \<times> DhcpConfig" where
  "SetNetConfigInfo dhcpConfig pKey pValue common =
     (case pValue of
        None \<Rightarrow> (RET_FAILED, dhcpConfig)
      | Some v \<Rightarrow>
        let uValue = ParseIpAddr v in
        if uValue = 0 then (RET_FAILED, dhcpConfig)
        else if pKey = ''serverId'' \<and> common \<or> pKey = ''server'' \<and> \<not> common
        then (RET_SUCCESS, dhcpConfig\<lparr>cf_serverId := uValue\<rparr>)
        else if pKey = ''gateway'' then (RET_SUCCESS, dhcpConfig\<lparr>cf_gateway := uValue\<rparr>)
        else if pKey = ''netmask'' then (RET_SUCCESS, dhcpConfig\<lparr>cf_netmask := uValue\<rparr>)
        else (RET_SUCCESS, dhcpConfig))"

definition SetIpAddressPool :: "DhcpConfig \<Rightarrow> string option \<Rightarrow> int \<times> DhcpConfig" where
  "SetIpAddressPool dhcpConfig pValue =
     (case pValue of
        None \<Rightarrow> (RET_FAILED, dhcpConfig)
      | Some v \<Rightarrow>
        (case strtok_r CHR '','' v of
           None \<Rightarrow> (RET_FAILED, dhcpConfig)
         | Some (pTok, None) \<Rightarrow> (RET_FAILED, dhcpConfig)
         | Some (pTok, Some pSave) \<Rightarrow>
           if pSave = [] then (RET_FAILED, dhcpConfig)
           else if ParseIpAddr pTok = 0 then (RET_FAILED, dhcpConfig)
           else
             let dhcpConfig = dhcpConfig\<lparr>cf_beginAddress := ParseIpAddr pTok\<rparr> in
             if ParseIpAddr pSave = 0 then (RET_FAILED, dhcpConfig)
             else (RET_SUCCESS, dhcpConfig\<lparr>cf_endAddress := ParseIpAddr pSave\<rparr>)))"

text \<open>The addresses of a list of names appended to an option; \<open>None\<close> when a name is not an address.\<close>

fun append_dns :: "string list \<Rightarrow> DhcpOption \<Rightarrow> DhcpOption option" where
  "append_dns [] optDns = Some optDns"
| "append_dns (pTok # toks) optDns =
     (if ParseIpAddr pTok = 0 then None
      else append_dns toks (snd (AppendAddressOption optDns (ParseIpAddr pTok))))"

abbreviation (input) DNS_OPTION :: u8 where "DNS_OPTION \<equiv> 6"

text \<open>The old option is removed before the names are read, so a bad name leaves the list without one.\<close>

definition SetDnsInfo :: "DhcpConfig \<Rightarrow> string option \<Rightarrow> int \<times> DhcpConfig" where
  "SetDnsInfo dhcpConfig pValue =
     (case pValue of
        None \<Rightarrow> (RET_FAILED, dhcpConfig)
      | Some v \<Rightarrow>
        let toks = strtok_tokens CHR '','' v in
        if toks = [] then (RET_FAILED, dhcpConfig)
        else
          let dhcpConfig = (if opts_get (cf_options dhcpConfig) DNS_OPTION \<noteq> None
                then dhcpConfig\<lparr>cf_options := snd (opts_remove (cf_options dhcpConfig) DNS_OPTION)\<rparr> else dhcpConfig)
          in case append_dns toks (mk_option DNS_OPTION 0 []) of
               None \<Rightarrow> (RET_FAILED, dhcpConfig)
             | Some optDns \<Rightarrow> (RET_SUCCESS, dhcpConfig\<lparr>cf_options := snd (opts_push_back (cf_options dhcpConfig) optDns)\<rparr>))"

definition SetIfnameInfo :: "DhcpConfig \<Rightarrow> string option \<Rightarrow> int \<times> DhcpConfig" where
  "SetIfnameInfo dhcpConfig pValue =
     (case pValue of
        None \<Rightarrow> (RET_FAILED, dhcpConfig)
      | Some v \<Rightarrow>
        if length v \<ge> IFACE_NAME_SIZE then (RET_FAILED, dhcpConfig)
        else (RET_SUCCESS, dhcpConfig\<lparr>cf_ifname := v\<rparr>))"

definition SetDhcpConfig :: "DhcpConfig \<Rightarrow> string \<Rightarrow> bool \<Rightarrow> int \<times> DhcpConfig" where
  "SetDhcpConfig dhcpConfig strLine common =
     (if strLine = [] then (RET_FAILED, dhcpConfig)
      else case strtok_r CHR ''='' strLine of
        None \<Rightarrow> (RET_FAILED, dhcpConfig)
      | Some (pTok, pSave) \<Rightarrow>
        if pTok = ''interface'' then SetIfnameInfo dhcpConfig pSave
        else if pTok = ''dns'' then SetDnsInfo dhcpConfig pSave
        else if pTok = ''pool'' then SetIpAddressPool dhcpConfig pSave
        else if (pTok = ''serverId'' \<and> common \<or> pTok = ''server'' \<and> \<not> common)
          \<or> pTok = ''gateway'' \<or> pTok = ''netmask'' then SetNetConfigInfo dhcpConfig pTok pSave common
        else if pTok = ''leaseTime'' \<or> pTok = ''renewalTime'' \<or> pTok = ''rebindingTime''
        then SetTimeConfigInfo dhcpConfig pTok pSave
        else if pTok = ''distribution'' \<or> pTok = ''broadcast'' then SetEnableConfigInfo dhcpConfig pTok pSave
        else (RET_SUCCESS, dhcpConfig))"

section \<open>The file\<close>

text \<open>\<open>bComm\<close> until the first \<^verbatim>\<open>interface\<close> line, \<open>bValid\<close> in the sections whose line contains the interface name.\<close>

fun ProcessFile_loop :: "string list \<Rightarrow> string \<Rightarrow> bool \<Rightarrow> bool \<Rightarrow> DhcpConfig \<Rightarrow> int \<times> DhcpConfig" where
  "ProcessFile_loop [] ifname bComm bValid dhcpConfig = (RET_SUCCESS, dhcpConfig)"
| "ProcessFile_loop (strLine # ls) ifname bComm bValid dhcpConfig =
     (if CHR ''#'' \<in> set strLine \<or> CHR ''='' \<notin> set strLine
      then ProcessFile_loop ls ifname bComm bValid dhcpConfig
      else case RemoveSpaceCharacters strLine of
        None \<Rightarrow> ProcessFile_loop ls ifname bComm bValid dhcpConfig
      | Some strLine \<Rightarrow>
        let isIf = (take 9 strLine = ''interface'');
            bComm = (if isIf then False else bComm);
            bValid = (if isIf then ifname = [] \<or> strstr strLine ifname \<noteq> None else bValid)
        in if bValid then
             let (ret, dhcpConfig) = SetDhcpConfig dhcpConfig strLine bComm
             in if ret \<noteq> RET_SUCCESS then (RET_FAILED, dhcpConfig)
                else ProcessFile_loop ls ifname bComm bValid dhcpConfig
           else ProcessFile_loop ls ifname bComm bValid dhcpConfig)"

definition ProcessFile :: "string \<Rightarrow> string \<Rightarrow> DhcpConfig \<Rightarrow> int \<times> DhcpConfig" where
  "ProcessFile content ifname dhcpConfig =
     ProcessFile_loop (fgets_lines FILE_LINE_LEN_MAX content) ifname True True dhcpConfig"

definition ParseConfigFile :: "Files \<Rightarrow> string \<Rightarrow> string \<Rightarrow> DhcpConfig \<Rightarrow> int \<times> DhcpConfig" where
  "ParseConfigFile fs configFile ifname dhcpConfig =
     (if configFile = [] then (RET_FAILED, dhcpConfig)
      else if \<not> fs_realpath fs configFile then (RET_FAILED, dhcpConfig)
      else case fs_content fs configFile of
        None \<Rightarrow> (RET_FAILED, dhcpConfig)
      | Some content \<Rightarrow> ProcessFile content ifname dhcpConfig)"

definition CheckDhcpConfig :: "DhcpConfig \<Rightarrow> bool \<times> DhcpConfig" where
  "CheckDhcpConfig config =
     (if cf_ifname config \<noteq> [] \<and> cf_serverId config = 0 then (False, config)
      else
        let config = (if cf_renewalTime config = 0
              then config\<lparr>cf_renewalTime := of_nat (unat (cf_leaseTime config) div 2)\<rparr> else config);
            config = (if cf_rebindingTime config = 0
              then config\<lparr>cf_rebindingTime := of_nat (7 * unat (cf_leaseTime config) div 8)\<rparr> else config)
        in (True, config))"

definition LoadConfig :: "Files \<Rightarrow> string \<Rightarrow> string \<Rightarrow> DhcpConfig \<Rightarrow> int \<times> DhcpConfig" where
  "LoadConfig fs configFile ifname config =
     (if configFile = [] \<or> ifname = [] then (RET_FAILED, config)
      else
        let config = config\<lparr>cf_leaseTime := 21600, cf_distribution := 1, cf_broadcast := 1\<rparr>;
            (ret, config) = ParseConfigFile fs configFile ifname config
        in if ret \<noteq> RET_SUCCESS then (RET_FAILED, config)
           else
             let (ok, config) = CheckDhcpConfig config
             in if \<not> ok then (RET_FAILED, config)
                else if cf_ifname config = [] then
                  let (ret, config) = SetIfnameInfo config (Some ifname)
                  in (if ret \<noteq> RET_SUCCESS then RET_FAILED else RET_SUCCESS, config)
                else (RET_SUCCESS, config))"

section \<open>Lemmas on the text of a configuration\<close>

lemma strtok_r_append:
  assumes "k \<noteq> []" "d \<notin> set k"
  shows "strtok_r d (k @ d # v) = Some (k, Some v)"
  using assms split_at_append [of d k v] by (cases k) (auto simp: strtok_r_def)

text \<open>A value as it is written: digits, dots and commas.\<close>

definition plain_value :: "string \<Rightarrow> bool" where
  "plain_value v \<longleftrightarrow> v \<noteq> [] \<and> list_all (\<lambda>c. c \<in> set ''0123456789.,'') v"

definition plain_key :: "string \<Rightarrow> bool" where
  "plain_key k \<longleftrightarrow> k \<noteq> [] \<and> list_all (\<lambda>c. \<not> isspace c \<and> c \<noteq> CHR ''#'' \<and> c \<noteq> CHR ''='') k \<and> take 9 k \<noteq> ''interface''"

lemma plain_value_dec [simp]: "plain_value (dec_of_nat n)"
proof -
  have "list_all (\<lambda>c. c \<in> set ''0123456789.,'') ''0123456789''" by code_simp
  then show ?thesis
    using dec_of_nat_digits [of n] dec_of_nat_not_Nil [of n]
    unfolding plain_value_def is_digit_def list_all_iff by blast
qed

lemma plain_value_ip [simp]: "plain_value (ParseStrIp ip)"
proof -
  have "list_all (\<lambda>c. c \<in> set ''0123456789.,'') (dec_of_nat n)" for n
    using plain_value_dec [of n] by (simp add: plain_value_def)
  then show ?thesis by (simp add: plain_value_def ParseStrIp_def inet_ntop_def)
qed

lemma plain_value_pair [simp]: "plain_value a \<Longrightarrow> plain_value b \<Longrightarrow> plain_value (a @ CHR '','' # b)"
  by (simp add: plain_value_def)

lemma plain_value_chars:
  assumes "plain_value v"
  shows "list_all (\<lambda>c. \<not> isspace c \<and> c \<noteq> CHR ''#'') v"
proof -
  have "list_all (\<lambda>c. \<not> isspace c \<and> c \<noteq> CHR ''#'') ''0123456789.,''" by code_simp
  with assms show ?thesis unfolding plain_value_def list_all_iff by blast
qed

lemma RemoveSpace_line:
  assumes "list_all (\<lambda>c. \<not> isspace c) l"
  shows "RemoveSpaceCharacters (l @ [CHR 0x0A]) = Some l"
proof -
  have "isspace CHR 0x0A" by code_simp
  moreover have "dropWhile isspace l = l" "dropWhile isspace (rev l) = rev l"
    using assms by (simp_all add: dropWhile_none)
  ultimately show ?thesis by (simp add: RemoveSpaceCharacters_def)
qed

text \<open>A line of a key and a written value is handed to \<^verbatim>\<open>SetDhcpConfig\<close> as it is.\<close>

lemma ProcessFile_line:
  assumes k: "plain_key k" and v: "plain_value v"
    and ok: "SetDhcpConfig c (k @ CHR ''='' # v) bComm = (RET_SUCCESS, c')"
  shows "ProcessFile_loop (((k @ CHR ''='' # v) @ [CHR 0x0A]) # ls) ifname bComm True c = ProcessFile_loop ls ifname bComm True c'"
proof -
  let ?l = "k @ CHR ''='' # v"
  have nosp: "list_all (\<lambda>c. \<not> isspace c \<and> c \<noteq> CHR ''#'') ?l"
    using k plain_value_chars [OF v] by (auto simp: plain_key_def list_all_iff isspace_def)
  then have "RemoveSpaceCharacters (?l @ [CHR 0x0A]) = Some ?l"
    by (intro RemoveSpace_line) (auto simp: list_all_iff)
  moreover have "CHR ''#'' \<notin> set (?l @ [CHR 0x0A])"
    using nosp by (auto simp: list_all_iff)
  moreover have "take 9 ?l \<noteq> ''interface''"
  proof
    assume eq: "take 9 ?l = ''interface''"
    show False
    proof (cases "length k \<ge> 9")
      case True
      with eq k show False by (simp add: plain_key_def)
    next
      case False
      then have "CHR ''='' \<in> set (take 9 ?l)" by (simp add: take_Cons')
      with eq show False by simp
    qed
  qed
  ultimately show ?thesis using ok by simp
qed

lemma CheckDataToUint_dec [simp]: "CheckDataToUint (dec_of_nat (unat (w :: u32))) = w"
proof -
  have minus: "list_all is_digit s \<Longrightarrow> \<not> has_minus_digits s" for s
    by (induction s rule: has_minus_digits.induct) (auto simp: is_digit_not_space)
  have "unat w < 2 ^ 64" using unsigned_less [of w, where ?'a = nat] by simp
  moreover have "ucast (word_of_nat (unat w) :: u64) = w" by (simp add: unsigned_ucast_eq take_bit_word_eq_self)
  ultimately show ?thesis
    using minus [OF dec_of_nat_digits] by (simp add: CheckDataToUint_def strtoull_def)
qed

text \<open>The text of a configuration, and what a configuration needs to be written.\<close>

definition config_lines :: "DhcpConfig \<Rightarrow> string list" where
  "config_lines c =
     [''serverId'' @ CHR ''='' # ParseStrIp (cf_serverId c), ''netmask'' @ CHR ''='' # ParseStrIp (cf_netmask c),
      ''gateway'' @ CHR ''='' # ParseStrIp (cf_gateway c),
      ''pool'' @ CHR ''='' # ParseStrIp (cf_beginAddress c) @ CHR '','' # ParseStrIp (cf_endAddress c),
      ''leaseTime'' @ CHR ''='' # dec_of_nat (unat (cf_leaseTime c)),
      ''renewalTime'' @ CHR ''='' # dec_of_nat (unat (cf_renewalTime c)),
      ''rebindingTime'' @ CHR ''='' # dec_of_nat (unat (cf_rebindingTime c)),
      ''distribution'' @ CHR ''='' # dec_of_nat (unat (cf_distribution c)),
      ''broadcast'' @ CHR ''='' # dec_of_nat (unat (cf_broadcast c))]"

definition config_text :: "DhcpConfig \<Rightarrow> string" where
  "config_text c = concat (map (\<lambda>l. l @ [CHR 0x0A]) (config_lines c))"

definition config_writable :: "DhcpConfig \<Rightarrow> bool" where
  "config_writable c \<longleftrightarrow> cf_serverId c \<noteq> 0 \<and> cf_netmask c \<noteq> 0 \<and> cf_gateway c \<noteq> 0 \<and> cf_beginAddress c \<noteq> 0
     \<and> cf_endAddress c \<noteq> 0 \<and> cf_leaseTime c \<noteq> 0 \<and> cf_renewalTime c \<noteq> 0 \<and> cf_rebindingTime c \<noteq> 0
     \<and> cf_distribution c \<le> 1 \<and> cf_broadcast c \<le> 1"

declare ProcessFile_loop.simps(2) [simp del]

lemmas set_config_simps = SetDhcpConfig_def strtok_r_append SetNetConfigInfo_def SetIpAddressPool_def
  SetTimeConfigInfo_def SetEnableConfigInfo_def

lemma comma_free_ip: "CHR '','' \<notin> set (ParseStrIp ip)"
proof -
  have "\<not> is_digit CHR '',''" by code_simp
  then have "CHR '','' \<notin> set (dec_of_nat n)" for n
    using dec_of_nat_digits [of n] by (auto simp: list_all_iff)
  then show ?thesis by (simp add: ParseStrIp_def inet_ntop_def)
qed

lemma SetDhcpConfig_net:
  assumes "ip \<noteq> 0"
  shows "SetDhcpConfig c (''serverId'' @ CHR ''='' # ParseStrIp ip) True = (RET_SUCCESS, c\<lparr>cf_serverId := ip\<rparr>)"
    "SetDhcpConfig c (''netmask'' @ CHR ''='' # ParseStrIp ip) common = (RET_SUCCESS, c\<lparr>cf_netmask := ip\<rparr>)"
    "SetDhcpConfig c (''gateway'' @ CHR ''='' # ParseStrIp ip) common = (RET_SUCCESS, c\<lparr>cf_gateway := ip\<rparr>)"
  using assms by (simp_all add: set_config_simps del: append_Cons append_Nil)

lemma SetDhcpConfig_pool:
  assumes "a \<noteq> 0" "b \<noteq> 0"
  shows "SetDhcpConfig c (''pool'' @ CHR ''='' # ParseStrIp a @ CHR '','' # ParseStrIp b) common =
    (RET_SUCCESS, c\<lparr>cf_beginAddress := a, cf_endAddress := b\<rparr>)"
  using assms by (simp add: set_config_simps comma_free_ip del: append_Cons append_Nil)

lemma SetDhcpConfig_time:
  assumes "t \<noteq> 0"
  shows "SetDhcpConfig c (''leaseTime'' @ CHR ''='' # dec_of_nat (unat t)) common = (RET_SUCCESS, c\<lparr>cf_leaseTime := t\<rparr>)"
    "SetDhcpConfig c (''renewalTime'' @ CHR ''='' # dec_of_nat (unat t)) common = (RET_SUCCESS, c\<lparr>cf_renewalTime := t\<rparr>)"
    "SetDhcpConfig c (''rebindingTime'' @ CHR ''='' # dec_of_nat (unat t)) common = (RET_SUCCESS, c\<lparr>cf_rebindingTime := t\<rparr>)"
  using assms by (simp_all add: set_config_simps del: append_Cons append_Nil)

lemma SetDhcpConfig_enable:
  assumes "e \<le> 1"
  shows "SetDhcpConfig c (''distribution'' @ CHR ''='' # dec_of_nat (unat e)) common = (RET_SUCCESS, c\<lparr>cf_distribution := e\<rparr>)"
    "SetDhcpConfig c (''broadcast'' @ CHR ''='' # dec_of_nat (unat e)) common = (RET_SUCCESS, c\<lparr>cf_broadcast := e\<rparr>)"
proof -
  have "e = 0 \<or> e = 1"
    using assms by (auto simp: word_le_nat_alt word_unat_eq_iff le_Suc_eq)
  then show "SetDhcpConfig c (''distribution'' @ CHR ''='' # dec_of_nat (unat e)) common = (RET_SUCCESS, c\<lparr>cf_distribution := e\<rparr>)"
    "SetDhcpConfig c (''broadcast'' @ CHR ''='' # dec_of_nat (unat e)) common = (RET_SUCCESS, c\<lparr>cf_broadcast := e\<rparr>)"
    by (auto simp add: set_config_simps simp del: append_Cons append_Nil)
qed

lemma plain_keys:
  "list_all plain_key [''serverId'', ''netmask'', ''gateway'', ''pool'', ''leaseTime'', ''renewalTime'',
     ''rebindingTime'', ''distribution'', ''broadcast'']"
  by code_simp

lemma config_lines_fit: "list_all (\<lambda>l. CHR 0x0A \<notin> set l \<and> length l + 1 < 1024) (config_lines c)"
proof -
  have "unat w < 10 ^ 10" for w :: u32
    using unsigned_less [of w, where ?'a = nat] by simp
  then have "length (dec_of_nat (unat w)) \<le> 10" for w :: u32
    by (intro length_dec_of_nat) simp_all
  then have dec: "length (dec_of_nat (unat w)) < 500" for w :: u32
    by (rule le_less_trans) simp
  have ip: "length (ParseStrIp a) < 400" for a
    using length_ParseStrIp [of a] by simp
  have "isspace CHR 0x0A" by code_simp
  then have nl: "plain_value v \<Longrightarrow> CHR 0x0A \<notin> set v" for v
    by (auto dest!: plain_value_chars simp: list_all_iff)
  show ?thesis
    using dec [of "cf_leaseTime c"] dec [of "cf_renewalTime c"] dec [of "cf_rebindingTime c"] dec [of "cf_distribution c"]
      dec [of "cf_broadcast c"] ip [of "cf_serverId c"] ip [of "cf_netmask c"] ip [of "cf_gateway c"]
      ip [of "cf_beginAddress c"] ip [of "cf_endAddress c"]
    by (simp add: config_lines_def nl)
qed

text \<open>C10: A configuration written as a file and read back gives the same identifiers, range, times and flags.\<close>

theorem config_file_round_trip:
  assumes "config_writable c"
  shows "ProcessFile (config_text c) ifname c0 = (RET_SUCCESS,
    c0\<lparr>cf_serverId := cf_serverId c, cf_netmask := cf_netmask c, cf_gateway := cf_gateway c,
       cf_beginAddress := cf_beginAddress c, cf_endAddress := cf_endAddress c, cf_leaseTime := cf_leaseTime c,
       cf_renewalTime := cf_renewalTime c, cf_rebindingTime := cf_rebindingTime c,
       cf_distribution := cf_distribution c, cf_broadcast := cf_broadcast c\<rparr>)"
proof -
  have lines: "fgets_lines 1024 (config_text c) = map (\<lambda>l. l @ [CHR 0x0A]) (config_lines c)"
    unfolding config_text_def by (rule fgets_lines_unlines [OF config_lines_fit])
  show ?thesis
    using assms plain_keys unfolding ProcessFile_def lines config_lines_def config_writable_def
    by (simp add: ProcessFile_line [OF _ _ SetDhcpConfig_net(1)] ProcessFile_line [OF _ _ SetDhcpConfig_net(2)]
        ProcessFile_line [OF _ _ SetDhcpConfig_net(3)] ProcessFile_line [OF _ _ SetDhcpConfig_pool]
        ProcessFile_line [OF _ _ SetDhcpConfig_time(1)] ProcessFile_line [OF _ _ SetDhcpConfig_time(2)]
        ProcessFile_line [OF _ _ SetDhcpConfig_time(3)] ProcessFile_line [OF _ _ SetDhcpConfig_enable(1)]
        ProcessFile_line [OF _ _ SetDhcpConfig_enable(2)]
        del: append_Cons append_Nil append_assoc)
qed

definition zero_config :: DhcpConfig where
  "zero_config = \<lparr>cf_ifname = [], cf_serverId = 0, cf_netmask = 0, cf_gateway = 0, cf_leaseTime = 0, cf_renewalTime = 0,
     cf_rebindingTime = 0, cf_distribution = 0, cf_broadcast = 0, cf_beginAddress = 0, cf_endAddress = 0, cf_options = None\<rparr>"

definition sample_config :: DhcpConfig where
  "sample_config = zero_config\<lparr>cf_serverId := htonl 0xC0A82B01, cf_netmask := htonl 0xFFFFFF00, cf_gateway := htonl 0xC0A82B01,
     cf_leaseTime := 7200, cf_renewalTime := 3600, cf_rebindingTime := 6300, cf_broadcast := 1,
     cf_beginAddress := htonl 0xC0A82B03, cf_endAddress := htonl 0xC0A82BFE\<rparr>"

theorem config_file_round_trip_witness:
  "config_writable sample_config \<and> ProcessFile (config_text sample_config) ''wlan0'' zero_config = (RET_SUCCESS, sample_config)"
proof -
  have "config_writable sample_config"
    by (simp add: config_writable_def sample_config_def zero_config_def)
  with config_file_round_trip [OF this, of "''wlan0''" zero_config] show ?thesis
    by (simp add: sample_config_def zero_config_def)
qed

text \<open>The section of an interface whose name contains the asked one is taken for it: for \<^verbatim>\<open>wlan0\<close> the server address of
  the section of \<^verbatim>\<open>wlan01\<close> is used, and that name replaces the interface name.\<close>

theorem similar_interface_section:
  "ProcessFile (''interface=wlan01'' @ [CHR 0x0A] @ ''server=10.1.2.3'' @ [CHR 0x0A]) ''wlan0'' zero_config =
     (RET_SUCCESS, zero_config\<lparr>cf_ifname := ''wlan01'', cf_serverId := ParseIpAddr ''10.1.2.3''\<rparr>)"
proof -
  have lines: "fgets_lines 1024 (''interface=wlan01'' @ [CHR 0x0A] @ ''server=10.1.2.3'' @ [CHR 0x0A]) =
      [''interface=wlan01'' @ [CHR 0x0A], ''server=10.1.2.3'' @ [CHR 0x0A]]"
    using fgets_lines_unlines [of 1024 "[''interface=wlan01'', ''server=10.1.2.3'']"] by simp
  have "ProcessFile_loop [''interface=wlan01'' @ [CHR 0x0A], ''server=10.1.2.3'' @ [CHR 0x0A]] ''wlan0'' True True zero_config =
      (RET_SUCCESS, zero_config\<lparr>cf_ifname := ''wlan01'', cf_serverId := ParseIpAddr ''10.1.2.3''\<rparr>)"
    by code_simp
  then show ?thesis by (simp only: ProcessFile_def lines)
qed

end
