(* ===== verification/DhcpServerMain.thy ===== *)
theory DhcpServerMain
  imports DhcpConfig DhcpServerProps
begin

text \<open>
  The start and the end of a server: \<^verbatim>\<open>services/dhcp_server/src/dhcp_argument.cpp\<close> (the table of start
  arguments), \<^verbatim>\<open>dhcp_dhcpd.cpp\<close> (configuration from file and arguments, start and stop of the one server) and
  the set-up functions of \<^verbatim>\<open>dhcp_s_server.cpp\<close>. The state is the argument table, the configuration and the
  server; a null server context is a server without an instance. Parameters of the operations are what
  the environment decides: which \<^verbatim>\<open>mkdir\<close> succeeds, whether the thread starts, which looper states the
  waiting loop of \<^verbatim>\<open>FreeServerContext\<close> sees, and the bytes of the stack behind an argument value.
\<close>

section \<open>Arguments\<close>

type_synonym arguments = "string \<rightharpoonup> string"

abbreviation (input) ARGUMENT_NAME_SIZE :: nat where "ARGUMENT_NAME_SIZE \<equiv> 32"
abbreviation (input) ARGUMENT_VALUE_SIZE :: nat where "ARGUMENT_VALUE_SIZE \<equiv> 256"

definition HasArgument :: "string \<Rightarrow> arguments \<Rightarrow> bool" where
  "HasArgument argument args = (args (take (ARGUMENT_NAME_SIZE - 1) argument) \<noteq> None)"

text \<open>The name is a literal of at most 31 characters at every call.\<close>

definition GetArgument :: "string \<Rightarrow> arguments \<Rightarrow> string option" where
  "GetArgument name args = args (take ARGUMENT_NAME_SIZE name)"

text \<open>The structure is a local variable of which only the first 32 bytes of the value are cleared, so a value of
  32 characters or more is followed by what the stack holds there (\<open>stale\<close>, up to its first NUL).\<close>

definition PutArgument :: "string \<Rightarrow> string \<Rightarrow> string \<Rightarrow> arguments \<Rightarrow> int \<times> arguments" where
  "PutArgument stale argument val args =
     (if HasArgument argument args then (RET_FAILED, args)
      else if length val \<ge> ARGUMENT_VALUE_SIZE then (RET_ERROR, args)
      else
        let name = take (ARGUMENT_NAME_SIZE - 1) argument;
            value = (if length val < ARGUMENT_NAME_SIZE then val
                     else val @ take (ARGUMENT_VALUE_SIZE - length val) stale)
        in (RET_SUCCESS, args(name \<mapsto> value)))"

definition PutIpArgument :: "string \<Rightarrow> string \<Rightarrow> string \<Rightarrow> arguments \<Rightarrow> int \<times> arguments" where
  "PutIpArgument stale argument val args =
     (if ParseIpAddr val = 0 then (RET_FAILED, args) else PutArgument stale argument val args)"

definition PutPoolArgument :: "string \<Rightarrow> string \<Rightarrow> string \<Rightarrow> arguments \<Rightarrow> int \<times> arguments" where
  "PutPoolArgument stale argument val args =
     (if CHR '','' \<notin> set val then (RET_FAILED, args) else PutArgument stale argument val args)"

definition ParseArguments :: "string \<Rightarrow> string \<Rightarrow> string \<Rightarrow> string \<Rightarrow> string \<Rightarrow> arguments \<Rightarrow> int \<times> arguments" where
  "ParseArguments stale ifName netMask ipRange localIp args =
     (let (_, args) = PutArgument stale ''ifname'' ifName args;
          (_, args) = PutIpArgument stale ''server'' localIp args;
          (_, args) = PutIpArgument stale ''netmask'' netMask args;
          (_, args) = PutPoolArgument stale ''pool'' ipRange args
      in (0, args))"

section \<open>Configuration by arguments\<close>

definition InitNetworkAbout :: "arguments \<Rightarrow> DhcpConfig \<Rightarrow> int \<times> DhcpConfig" where
  "InitNetworkAbout args config =
     (let (ret, config) =
        (case GetArgument ''netmask'' args of
           Some v \<Rightarrow> if ParseIpAddr v \<noteq> 0 then (RET_SUCCESS, config\<lparr>cf_netmask := ParseIpAddr v\<rparr>) else (RET_FAILED, config)
         | None \<Rightarrow> (RET_SUCCESS, if cf_netmask config = 0
              then config\<lparr>cf_netmask := ParseIpAddr ''255.255.255.0''\<rparr> else config))
      in if ret \<noteq> RET_SUCCESS then (ret, config)
         else case GetArgument ''gateway'' args of
           Some v \<Rightarrow> if ParseIpAddr v \<noteq> 0 then (RET_SUCCESS, config\<lparr>cf_gateway := ParseIpAddr v\<rparr>) else (RET_FAILED, config)
         | None \<Rightarrow> (RET_SUCCESS, config\<lparr>cf_gateway := cf_serverId config\<rparr>))"

definition PareseAddreesRange :: "arguments \<Rightarrow> DhcpConfig \<Rightarrow> int \<times> DhcpConfig" where
  "PareseAddreesRange args config =
     (case GetArgument ''pool'' args of
        None \<Rightarrow> (RET_FAILED, config)
      | Some v \<Rightarrow>
        let toks = strtok_tokens CHR '','' v;
            config = (case toks of [] \<Rightarrow> config | a # _ \<Rightarrow> config\<lparr>cf_beginAddress := ParseIpAddr a\<rparr>);
            config = (case toks of _ # b # _ \<Rightarrow> config\<lparr>cf_endAddress := ParseIpAddr b\<rparr> | _ \<Rightarrow> config)
        in if cf_beginAddress config = 0 \<or> cf_endAddress config = 0 then (RET_FAILED, config)
           else (RET_SUCCESS, config))"

definition InitAddressRange :: "arguments \<Rightarrow> DhcpConfig \<Rightarrow> int \<times> DhcpConfig" where
  "InitAddressRange args config =
     (if HasArgument ''pool'' args then
        let (ret, config) = PareseAddreesRange args config
        in (if ret \<noteq> RET_SUCCESS then RET_FAILED else RET_SUCCESS, config)
      else if cf_beginAddress config = 0 \<or> cf_endAddress config = 0 then
        (RET_SUCCESS, config\<lparr>cf_beginAddress := FirstIpAddress (cf_serverId config) (cf_netmask config),
           cf_endAddress := LastIpAddress (cf_serverId config) (cf_netmask config)\<rparr>)
      else (RET_SUCCESS, config))"

definition InitDomainNameServer :: "arguments \<Rightarrow> DhcpConfig \<Rightarrow> int \<times> DhcpConfig" where
  "InitDomainNameServer args config =
     (let argOpt =
        (case GetArgument ''dns'' args of
           Some v \<Rightarrow>
             let toks = strtok_tokens CHR '','' v
             in if toks = [] then None else append_dns toks (mk_option DNS_OPTION 0 [])
         | None \<Rightarrow> Some (snd (AppendAddressOption (mk_option DNS_OPTION 0 []) (cf_serverId config))))
      in case argOpt of
           None \<Rightarrow> (RET_FAILED, config)
         | Some opt \<Rightarrow>
           let config = (if opts_get (cf_options config) DNS_OPTION \<noteq> None
                 then config\<lparr>cf_options := snd (opts_remove (cf_options config) DNS_OPTION)\<rparr> else config)
           in (RET_SUCCESS, config\<lparr>cf_options := snd (opts_push_back (cf_options config) opt)\<rparr>))"

definition InitServerId :: "arguments \<Rightarrow> DhcpConfig \<Rightarrow> int \<times> DhcpConfig" where
  "InitServerId args config =
     (case GetArgument ''server'' args of
        Some v \<Rightarrow> if ParseIpAddr v \<noteq> 0 then (RET_SUCCESS, config\<lparr>cf_serverId := ParseIpAddr v\<rparr>) else (RET_FAILED, config)
      | None \<Rightarrow> (if cf_serverId config = 0 then RET_FAILED else RET_SUCCESS, config))"

definition InitLeaseTime :: "arguments \<Rightarrow> DhcpConfig \<Rightarrow> int \<times> DhcpConfig" where
  "InitLeaseTime args config =
     (case GetArgument ''lease'' args of
        Some v \<Rightarrow> (RET_SUCCESS, config\<lparr>cf_leaseTime := word_of_int (CheckDataLegal v)\<rparr>)
      | None \<Rightarrow> (RET_SUCCESS, if cf_leaseTime config = 0 then config\<lparr>cf_leaseTime := 21600\<rparr> else config))"

definition InitRenewalTime :: "arguments \<Rightarrow> DhcpConfig \<Rightarrow> int \<times> DhcpConfig" where
  "InitRenewalTime args config =
     (case GetArgument ''renewal'' args of
        Some v \<Rightarrow> (RET_SUCCESS, config\<lparr>cf_renewalTime := word_of_int (CheckDataLegal v)\<rparr>)
      | None \<Rightarrow>
        let config = (if cf_rebindingTime config = 0 then config\<lparr>cf_rebindingTime := 10800\<rparr> else config)
        in (RET_SUCCESS, config\<lparr>cf_renewalTime := 10800\<rparr>))"

definition InitRebindingTime :: "arguments \<Rightarrow> DhcpConfig \<Rightarrow> int \<times> DhcpConfig" where
  "InitRebindingTime args config =
     (case GetArgument ''rebinding'' args of
        Some v \<Rightarrow> (RET_SUCCESS, config\<lparr>cf_rebindingTime := word_of_int (CheckDataLegal v)\<rparr>)
      | None \<Rightarrow> (RET_SUCCESS, if cf_rebindingTime config = 0 then config\<lparr>cf_rebindingTime := 17280\<rparr> else config))"

text \<open>The steps run in order until one fails; each works on the configuration in place.\<close>

fun run_steps :: "(DhcpConfig \<Rightarrow> int \<times> DhcpConfig) list \<Rightarrow> DhcpConfig \<Rightarrow> int \<times> DhcpConfig" where
  "run_steps [] config = (RET_SUCCESS, config)"
| "run_steps (f # fs) config =
     (let (ret, config) = f config in if ret \<noteq> RET_SUCCESS then (RET_FAILED, config) else run_steps fs config)"

definition InitConfigByArguments :: "arguments \<Rightarrow> DhcpConfig \<Rightarrow> int \<times> DhcpConfig" where
  "InitConfigByArguments args config =
     run_steps [InitServerId args, InitNetworkAbout args, InitAddressRange args, InitLeaseTime args,
       InitRenewalTime args, InitRebindingTime args, InitDomainNameServer args] config"

text \<open>\<^verbatim>\<open>InitOptionList\<close> leaves an empty list, whatever was in it. The value of \<^verbatim>\<open>conf\<close> is copied over the default
  name without its terminator.\<close>

definition InitializeDhcpConfig :: "Files \<Rightarrow> string \<Rightarrow> arguments \<Rightarrow> DhcpConfig \<Rightarrow> int \<times> DhcpConfig" where
  "InitializeDhcpConfig fs ifname args config =
     (let config = config\<lparr>cf_options := Some []\<rparr>;
          deflt = ''/data/service/el1/public/dhcp/etc/dhcpd.conf'';
          configFile = (case GetArgument ''conf'' args of None \<Rightarrow> deflt | Some v \<Rightarrow> v @ drop (length v) deflt);
          (ret, config) = LoadConfig fs configFile ifname config
      in if ret \<noteq> RET_SUCCESS then (RET_FAILED, config)
         else
           let (ret, config) = InitConfigByArguments args config
           in (if ret \<noteq> RET_SUCCESS then RET_FAILED else RET_SUCCESS, config))"

section \<open>Set-up of a server\<close>

definition CheckAddressRange :: "DhcpAddressPool \<Rightarrow> bool" where
  "CheckAddressRange pool =
     (let serverNetwork = NetworkAddress (ap_serverId pool) (ap_netmask pool);
          firstNetwork = NetworkAddress (ap_beginAddress pool) (ap_netmask pool);
          secondNetwork = NetworkAddress (ap_endAddress pool) (ap_netmask pool)
      in if serverNetwork = 0 \<or> firstNetwork = 0 \<or> secondNetwork = 0 then False
         else serverNetwork = firstNetwork \<and> serverNetwork = secondNetwork)"

fun InitBindingRecoders_loop :: "(u32 \<times> AddressBinding) list \<Rightarrow> DhcpAddressPool \<Rightarrow> Globals \<Rightarrow> DhcpAddressPool \<times> Globals" where
  "InitBindingRecoders_loop [] pool g = (pool, g)"
| "InitBindingRecoders_loop ((ip, binding) # es) pool g =
     (if \<not> IsEmptyHWAddr (ab_chaddr binding) \<and> ab_ipAddress binding \<noteq> 0 then
        let (_, g) = AddBinding binding g;
            pool = (if ap_distribution pool < ab_ipAddress binding
                    then pool\<lparr>ap_distribution := ab_ipAddress binding\<rparr> else pool)
        in InitBindingRecoders_loop es pool g
      else InitBindingRecoders_loop es pool g)"

definition InitBindingRecoders :: "DhcpAddressPool \<Rightarrow> Globals \<Rightarrow> DhcpAddressPool \<times> Globals" where
  "InitBindingRecoders pool g = InitBindingRecoders_loop (ap_leaseTable pool) pool g"

text \<open>\<^verbatim>\<open>GetFilePath\<close>: the directory of a file name of fewer than 256 characters, \<open>None\<close> for null.\<close>

definition GetFilePath :: "string \<Rightarrow> string option" where
  "GetFilePath fileName =
     (if fileName = [] then None
      else if length fileName > 256 then None
      else if CHR ''/'' \<in> set fileName
      then Some (rev (tl (dropWhile (\<lambda>c. c \<noteq> CHR ''/'') (rev fileName))))
      else Some fileName)"

text \<open>\<^verbatim>\<open>CreatePath\<close> tries to make each directory of the path that is not there, the name itself last, and ignores
  failures of \<^verbatim>\<open>mkdir\<close>.\<close>

definition make_dir :: "(string \<Rightarrow> bool) \<Rightarrow> string \<Rightarrow> Files \<Rightarrow> Files" where
  "make_dir mkdir path fs =
     (if \<not> fs_realpath fs path \<and> mkdir path then fs\<lparr>fs_realpath := (fs_realpath fs)(path := True)\<rparr> else fs)"

definition CreatePath :: "(string \<Rightarrow> bool) \<Rightarrow> string \<Rightarrow> Files \<Rightarrow> int \<times> Files" where
  "CreatePath mkdir fileName fs =
     (if fileName = [] then (RET_FAILED, fs)
      else if length fileName \<ge> 256 then (RET_FAILED, fs)
      else (RET_SUCCESS, make_dir mkdir fileName
        (fold (make_dir mkdir) (map (\<lambda>i. take i fileName) (filter (\<lambda>i. fileName ! i = CHR ''/'') [0..<length fileName])) fs)))"

abbreviation (input) DHCPD_LEASE_FILE :: string where
  "DHCPD_LEASE_FILE \<equiv> ''/data/service/el1/public/dhcp/dhcpd_lease.lease''"

text \<open>\<^verbatim>\<open>CreatePath\<close> returns 0 for success, which the caller takes for a failure.\<close>

definition InitLeaseFile ::
    "(string \<Rightarrow> bool) \<Rightarrow> Files \<Rightarrow> DhcpAddressPool \<Rightarrow> Globals \<Rightarrow> Files \<times> DhcpAddressPool \<times> Globals" where
  "InitLeaseFile mkdir fs pool g =
     (case GetFilePath DHCPD_LEASE_FILE of
        None \<Rightarrow> (fs, pool, g)
      | Some leasePath \<Rightarrow>
        if leasePath = [] then (fs, pool, g)
        else
          let (ret, fs') = (if fs_realpath fs leasePath then (1, fs) else CreatePath mkdir leasePath fs) in
          if ret = 0 then (fs', pool, g)
          else
            let (_, pool, g) = LoadBindingRecoders fs' pool g;
                (pool, g) = InitBindingRecoders pool g
            in (fs', pool, g))"

text \<open>What \<^verbatim>\<open>InitServerContext\<close> writes into the pool from the configuration before the range is checked.\<close>

definition configured_pool :: "DhcpConfig \<Rightarrow> DhcpAddressPool \<Rightarrow> DhcpAddressPool" where
  "configured_pool config pool =
     (let pool = pool\<lparr>ap_serverId := cf_serverId config, ap_netmask := cf_netmask config, ap_gateway := cf_gateway config\<rparr>;
          pool = (if cf_beginAddress config \<noteq> 0 \<and> cf_endAddress config \<noteq> 0
            then pool\<lparr>ap_beginAddress := cf_beginAddress config, ap_endAddress := cf_endAddress config\<rparr>
            else pool\<lparr>ap_beginAddress := FirstIpAddress (cf_serverId config) (cf_netmask config),
                      ap_endAddress := LastIpAddress (cf_serverId config) (cf_netmask config)\<rparr>)
      in pool\<lparr>ap_ifname := cf_ifname config\<rparr>)"

definition InitServerContext :: "(string \<Rightarrow> bool) \<Rightarrow> DhcpConfig \<Rightarrow> Server \<Rightarrow> int \<times> Server" where
  "InitServerContext mkdir config s =
     (case sv_instance s of
        None \<Rightarrow> (RET_FAILED, s)
      | Some srvIns \<Rightarrow>
        let (ret, pool, g) = InitAddressPool (cf_ifname config) (sv_globals s);
            s = set_globals g (set_pool pool s)
        in if ret \<noteq> RET_SUCCESS then (RET_FAILED, s)
           else
             let pool = configured_pool config pool;
                 srv = srvIns\<lparr>sc_serverFd := 0, sc_callback := False, sc_looperState := LS_IDLE,
                   sc_broadCastFlagEnable := sint (cf_broadcast config), sc_addressPool := pool\<rparr>;
                 s = s\<lparr>sv_ifname := cf_ifname config, sv_instance := Some srv\<rparr>
             in if \<not> CheckAddressRange pool then (RET_FAILED, s)
                else
                  let (fs, pool, g) = InitLeaseFile mkdir (sv_files s) pool (sv_globals s);
                      pool = pool\<lparr>ap_leaseTime := cf_leaseTime config, ap_renewalTime := cf_renewalTime config,
                        ap_rebindingTime := cf_rebindingTime config\<rparr>
                  in (RET_SUCCESS, set_globals g (set_pool pool (s\<lparr>sv_files := fs\<rparr>))))"

definition InitServerFixedOptions :: "DhcpConfig \<Rightarrow> Server \<Rightarrow> int \<times> Server" where
  "InitServerFixedOptions config s =
     (case sv_instance s of
        None \<Rightarrow> (RET_FAILED, s)
      | Some srvIns \<Rightarrow>
        (case cf_options config of
           None \<Rightarrow> (RET_FAILED, s)
         | Some xs \<Rightarrow>
           let opts = fold (\<lambda>opt opts. snd (opts_push_back opts opt)) xs (Some [])
           in (RET_SUCCESS, set_pool ((sc_addressPool srvIns)\<lparr>ap_fixedOptions := opts\<rparr>) s)))"

text \<open>The wait for the message loop: the states that the checks see, at most five of them.\<close>

fun FreeServerContext_wait :: "nat \<Rightarrow> (nat \<Rightarrow> LooperState) \<Rightarrow> bool" where
  "FreeServerContext_wait 0 states = False"
| "FreeServerContext_wait (Suc n) states =
     (states 0 = LS_STOPED \<or> states 0 = LS_IDLE \<or> FreeServerContext_wait n (\<lambda>i. states (Suc i)))"

definition FreeServerContext :: "(nat \<Rightarrow> LooperState) \<Rightarrow> Server \<Rightarrow> int \<times> Server" where
  "FreeServerContext states s =
     (case sv_instance s of
        None \<Rightarrow> (RET_FAILED, s)
      | Some srvIns \<Rightarrow>
        if \<not> FreeServerContext_wait 5 states then (RET_FAILED, s)
        else (RET_SUCCESS, s\<lparr>sv_instance := None\<rparr>))"

text \<open>\<^verbatim>\<open>calloc\<close> gives a context and an instance of zeros. A context whose instance cannot be freed stays; the
  state of the instance is then still the one that it was allocated with, idle.\<close>

definition zero_context :: ServerContext where
  "zero_context = \<lparr>sc_broadCastFlagEnable = 0, sc_addressPool = zero_pool, sc_callback = False,
     sc_deviceConnectFun = False, sc_serverFd = 0, sc_looperState = LS_IDLE, sc_initialized = 0\<rparr>"

definition InitializeServer :: "(string \<Rightarrow> bool) \<Rightarrow> DhcpConfig \<Rightarrow> Server \<Rightarrow> Server" where
  "InitializeServer mkdir config s =
     (if cf_ifname config = [] \<or> cf_serverId config = 0 \<or> cf_netmask config = 0 then s\<lparr>sv_instance := None\<rparr>
      else
        let s = s\<lparr>sv_ifname := [], sv_instance := Some zero_context\<rparr>;
            (ret, s) = InitServerContext mkdir config s
        in if ret \<noteq> RET_SUCCESS then snd (FreeServerContext (\<lambda>_. LS_IDLE) s)
           else
             let (ret, s) = InitServerFixedOptions config s
             in if ret \<noteq> RET_SUCCESS then snd (FreeServerContext (\<lambda>_. LS_IDLE) s)
                else s\<lparr>sv_instance := map_option (\<lambda>srv. srv\<lparr>sc_initialized := 1\<rparr>) (sv_instance s)\<rparr>)"

section \<open>The one server of the process\<close>

record Daemon =
  dd_arguments :: arguments
  dd_config :: DhcpConfig
  dd_server :: Server
  dd_deviceConnectFun :: bool

definition FreeSeverResources :: "(nat \<Rightarrow> LooperState) \<Rightarrow> Daemon \<Rightarrow> Daemon" where
  "FreeSeverResources states d =
     d\<lparr>dd_arguments := Map.empty, dd_config := (dd_config d)\<lparr>cf_options := None\<rparr>,
       dd_server := snd (FreeServerContext states (dd_server d))\<rparr>"

definition StartDhcpServerMain ::
    "string \<Rightarrow> (string \<Rightarrow> bool) \<Rightarrow> bool \<Rightarrow> (nat \<Rightarrow> LooperState) \<Rightarrow> string \<Rightarrow> string \<Rightarrow> string \<Rightarrow> string \<Rightarrow> Daemon \<Rightarrow> int \<times> Daemon" where
  "StartDhcpServerMain stale mkdir threadCreated states ifName netMask ipRange localIp d =
     (let (_, args) = ParseArguments stale ifName netMask ipRange localIp Map.empty;
          d = d\<lparr>dd_arguments := args\<rparr>
      in case GetArgument ''ifname'' args of
           None \<Rightarrow> (1, d\<lparr>dd_arguments := Map.empty\<rparr>)
         | Some ifaceName \<Rightarrow>
           if ifaceName = [] then (1, d\<lparr>dd_arguments := Map.empty\<rparr>)
           else
             let (_, config) = InitializeDhcpConfig (sv_files (dd_server d)) ifaceName args (dd_config d)
             in if length ifaceName \<ge> IFACE_NAME_SIZE then (1, d\<lparr>dd_config := config\<lparr>cf_ifname := []\<rparr>\<rparr>)
                else
                  let config = config\<lparr>cf_ifname := ifaceName\<rparr>;
                      s = InitializeServer mkdir config (dd_server d);
                      d = d\<lparr>dd_config := config, dd_server := s\<rparr>
                  in if sv_instance s = None then (1, FreeSeverResources states d)
                     else
                       let s = RegisterDhcpCallback True s;
                           s = RegisterDeviceChangedCallback (dd_deviceConnectFun d) s;
                           (ret, s) = StartDhcpServer threadCreated s;
                           d = d\<lparr>dd_server := s\<rparr>
                       in if ret \<noteq> RET_SUCCESS then (1, FreeSeverResources states d) else (0, d))"

definition StopDhcpServerMain :: "(nat \<Rightarrow> LooperState) \<Rightarrow> Daemon \<Rightarrow> int \<times> Daemon" where
  "StopDhcpServerMain states d =
     (let (ret, s) = StopDhcpServer (dd_server d);
          d = d\<lparr>dd_server := s\<rparr>
      in (if ret \<noteq> RET_SUCCESS then 1 else 0, FreeSeverResources states d))"

definition RegisterDeviceConnectCallBack :: "bool \<Rightarrow> Daemon \<Rightarrow> int \<times> Daemon" where
  "RegisterDeviceConnectCallBack func d = (0, d\<lparr>dd_deviceConnectFun := func\<rparr>)"

section \<open>Lemmas on the set-up\<close>

lemma length_ParseMacAddress_loop [simp]: "length (snd (ParseMacAddress_loop s i j tmp mac)) = length mac"
  by (induction s i j tmp mac rule: ParseMacAddress_loop.induct) (auto simp: Let_def)

lemma length_ParseMacAddress [simp]: "length (snd (ParseMacAddress s mac)) = length mac"
  by (simp add: ParseMacAddress_def)

lemma length_ParseHostName: "length room \<ge> 128 \<Longrightarrow> length (snd (ParseHostName s room)) = length room"
  by (simp add: ParseHostName_def memcpy_s_def)

lemma ParseAddressBinding_wf:
  assumes "ParseAddressBinding b line g = (0, b', g')" "binding_wf b"
  shows "binding_wf b'"
proof -
  obtain strs where strs: "SplitString line '' '' = Some strs" "8 \<le> length strs"
    using assms(1) by (cases "SplitString line '' ''") (auto simp: ParseAddressBinding_def split_beta Let_def split: if_splits)
  have "length (snd (ParseHostName s (ab_deviceName c @ ab_userClass c @ ab_portalUrl c))) = 192" if "binding_wf c" for s c
    using that by (subst length_ParseHostName) (simp_all add: binding_wf_def)
  then show ?thesis
    using assms strs
    by (auto simp: ParseAddressBinding_def split_beta Let_def binding_wf_def split: if_splits)
qed

lemma ParseAddressBinding_globals: "snd (snd (ParseAddressBinding b line g)) = snd (Tmspsec g)"
  by (auto simp: ParseAddressBinding_def split_beta Let_def split: option.split)

text \<open>What a set-up step keeps: the invariant, and that every lease of the table is in the range.\<close>

definition pool_loaded :: "DhcpAddressPool \<Rightarrow> bool" where
  "pool_loaded pool \<longleftrightarrow> pool_inv pool \<and> all_entries (map_of (ap_leaseTable pool))
     (\<lambda>ip _. IpInRange ip (ap_beginAddress pool) (ap_endAddress pool) (ap_netmask pool))"

lemma pool_loaded_put:
  assumes "pool_loaded pool" "binding_wf l"
    "IpInRange (ab_ipAddress l) (ap_beginAddress pool) (ap_endAddress pool) (ap_netmask pool)"
  shows "pool_loaded (put_lease l pool)"
  using assms by (auto simp: pool_loaded_def put_lease_def intro!: inv_intro) (auto simp: all_entries_def)

definition same_range :: "DhcpAddressPool \<Rightarrow> DhcpAddressPool \<Rightarrow> bool" where
  "same_range pool pool' \<longleftrightarrow> ap_serverId pool' = ap_serverId pool \<and> ap_netmask pool' = ap_netmask pool
     \<and> ap_beginAddress pool' = ap_beginAddress pool \<and> ap_endAddress pool' = ap_endAddress pool
     \<and> ap_gateway pool' = ap_gateway pool"

lemma LoadBindingRecoders_loop_loaded:
  "pool_loaded pool \<Longrightarrow> globals_inv g \<Longrightarrow> LoadBindingRecoders_loop ls pool g = (pool', g') \<Longrightarrow>
     pool_loaded pool' \<and> globals_inv g' \<and> same_range pool pool'"
proof (induction ls pool g rule: LoadBindingRecoders_loop.induct)
  case (1 pool g)
  then show ?case by (simp add: same_range_def)
next
  case (2 line ls pool g)
  let ?line = "TrimString line"
  obtain ret b g1 where p: "ParseAddressBinding zero_binding ?line g = (ret, b, g1)" by (metis prod_cases3)
  have g1: "globals_inv g1"
    using ParseAddressBinding_globals [of zero_binding ?line g] p "2.prems"(2) globals_inv_clock(1) [of g] by simp
  let ?in = "IpInRange (ab_ipAddress b) (ap_beginAddress pool) (ap_endAddress pool) (ap_netmask pool)"
  consider "?line = []" | "?line \<noteq> []" "ret \<noteq> 0 \<or> \<not> ?in" | "?line \<noteq> []" "ret = 0" ?in by blast
  then show ?case
  proof cases
    case 1
    with "2.IH"(1) "2.prems" show ?thesis by simp
  next
    case 2
    then show ?thesis
      using "2.prems" "2.IH"(2,4) p g1 by (cases "ret = 0") (auto simp: Let_def)
  next
    case 3
    have "binding_wf b" using ParseAddressBinding_wf [of zero_binding ?line g b g1] p 3 by simp
    then have "pool_loaded (put_lease b pool)" using "2.prems"(1) 3 by (intro pool_loaded_put)
    moreover have "same_range (put_lease b pool) pool' \<Longrightarrow> same_range pool pool'"
      by (simp add: same_range_def put_lease_def)
    ultimately show ?thesis
      using "2.prems" "2.IH"(3) p 3 g1 by (auto simp: Let_def)
  qed
qed

lemma same_range_refl [simp]: "same_range pool pool"
  by (simp add: same_range_def)

lemma LoadBindingRecoders_loaded:
  assumes "pool_loaded pool" "globals_inv g" "LoadBindingRecoders fs pool g = (ret, pool', g')"
  shows "pool_loaded pool' \<and> globals_inv g' \<and> same_range pool pool'"
proof (cases "fs_content fs (lease_file pool)")
  case (Some content)
  obtain q h where q: "LoadBindingRecoders_loop (fgets_lines 1024 content) pool g = (q, h)" by fastforce
  show ?thesis
    using assms Some q LoadBindingRecoders_loop_loaded [OF assms(1,2) q]
    by (auto simp: LoadBindingRecoders_def Let_def split: if_splits)
qed (use assms in \<open>auto simp: LoadBindingRecoders_def Let_def split: if_splits\<close>)

lemma InitBindingRecoders_loop_loaded:
  "pool_loaded pool \<Longrightarrow> globals_inv g \<Longrightarrow> list_all (\<lambda>e. binding_wf (snd e)) es \<Longrightarrow>
     InitBindingRecoders_loop es pool g = (pool', g') \<Longrightarrow>
     pool_loaded pool' \<and> globals_inv g' \<and> same_range pool pool'"
proof (induction es arbitrary: pool g)
  case (Cons e es)
  obtain ip b where e: "e = (ip, b)" by fastforce
  let ?pool = "if ap_distribution pool < ab_ipAddress b then pool\<lparr>ap_distribution := ab_ipAddress b\<rparr> else pool"
  have p: "pool_loaded ?pool" "same_range pool ?pool"
    using Cons.prems(1) by (auto simp: pool_loaded_def same_range_def)
  obtain r g1 where g1: "AddBinding b g = (r, g1)" by fastforce
  have "globals_inv (snd (AddBinding b g))"
    using Cons.prems(2,3) e by (auto simp: AddBinding_def intro: globals_inv_assign)
  then have ok: "globals_inv g1" using g1 by simp
  show ?case
  proof (cases "\<not> IsEmptyHWAddr (ab_chaddr b) \<and> ab_ipAddress b \<noteq> 0")
    case True
    then have "InitBindingRecoders_loop es ?pool g1 = (pool', g')" using Cons.prems(4) e g1 by simp
    then show ?thesis using Cons.IH [OF p(1) ok] Cons.prems(3) p(2) by (auto simp: same_range_def)
  next
    case False
    then have "InitBindingRecoders_loop es pool g = (pool', g')" using Cons.prems(4) e by (auto split: if_splits)
    then show ?thesis using Cons.IH [OF Cons.prems(1,2)] Cons.prems(3) by simp
  qed
qed simp

lemma InitBindingRecoders_loaded:
  assumes "pool_loaded pool" "globals_inv g" "InitBindingRecoders pool g = (pool', g')"
  shows "pool_loaded pool' \<and> globals_inv g' \<and> same_range pool pool'"
proof -
  have wf: "smap_wf (ap_leaseTable pool)" "all_entries (map_of (ap_leaseTable pool)) (\<lambda>_ l. binding_wf l)"
    using assms(1) by (auto simp: pool_loaded_def pool_inv_def all_entries_def)
  have "list_all (\<lambda>e. binding_wf (snd e)) (ap_leaseTable pool)"
    unfolding list_all_iff
  proof
    fix e assume "e \<in> set (ap_leaseTable pool)"
    then have "map_of (ap_leaseTable pool) (fst e) = Some (snd e)"
      using smap_wf_distinct [OF wf(1)] by (simp add: map_of_eq_Some_iff)
    with wf(2) show "binding_wf (snd e)" by (auto simp: all_entries_def)
  qed
  then show ?thesis
    using InitBindingRecoders_loop_loaded [OF assms(1,2)] assms(3) by (simp add: InitBindingRecoders_def)
qed

lemma InitLeaseFile_loaded:
  assumes "pool_loaded pool" "globals_inv g" "InitLeaseFile mkdir fs pool g = (fs', pool', g')"
  shows "pool_loaded pool' \<and> globals_inv g' \<and> same_range pool pool'"
proof -
  obtain path where path: "GetFilePath DHCPD_LEASE_FILE = Some path" "path \<noteq> []"
    by (simp add: GetFilePath_def)
  obtain ret fs1 where create: "(if fs_realpath fs path then (1, fs) else CreatePath mkdir path fs) = (ret, fs1)"
    by fastforce
  obtain lr pool1 g1 where load: "LoadBindingRecoders fs1 pool g = (lr, pool1, g1)" by (metis prod_cases3)
  obtain pool2 g2 where init: "InitBindingRecoders pool1 g1 = (pool2, g2)" by fastforce
  have l1: "pool_loaded pool1" "globals_inv g1" "same_range pool pool1"
    using LoadBindingRecoders_loaded [OF assms(1,2) load] by auto
  have l2: "pool_loaded pool2" "globals_inv g2" "same_range pool1 pool2"
    using InitBindingRecoders_loaded [OF l1(1,2) init] by auto
  have "(pool', g') = (if ret = 0 then (pool, g) else (pool2, g2))"
    using assms(3) path(2) create load init unfolding InitLeaseFile_def path(1) by (cases "ret = 0") simp_all
  then show ?thesis
    using assms(1,2) l1(3) l2 by (auto simp: same_range_def split: if_splits)
qed

lemma CheckAddressRange_same: "same_range pool pool' \<Longrightarrow> CheckAddressRange pool' = CheckAddressRange pool"
  by (simp add: CheckAddressRange_def same_range_def)

text \<open>A server that was set up.\<close>

definition server_ready :: "Server \<Rightarrow> bool" where
  "server_ready s \<longleftrightarrow> globals_inv (sv_globals s) \<and>
     (case sv_instance s of None \<Rightarrow> False
      | Some srv \<Rightarrow> pool_loaded (sc_addressPool srv) \<and> CheckAddressRange (sc_addressPool srv)
          \<and> sc_looperState srv = LS_IDLE)"

lemma InitServerContext_ready:
  assumes "InitServerContext mkdir config s = (RET_SUCCESS, s')"
  shows "server_ready s'"
proof -
  obtain srv where srv: "sv_instance s = Some srv"
    using assms by (cases "sv_instance s") (auto simp: InitServerContext_def)
  obtain ret pool g where init: "InitAddressPool (cf_ifname config) (sv_globals s) = (ret, pool, g)" by (metis prod_cases3)
  have ret: "ret = RET_SUCCESS"
    using assms srv init by (cases "ret = RET_SUCCESS") (simp_all add: InitServerContext_def Let_def)
  have g: "globals_inv g" and pool: "ap_leaseTable pool = []"
    using init ret by (auto simp: InitAddressPool_def Let_def globals_inv_def smap_wf_def all_entries_def split: if_splits)
  let ?pool = "configured_pool config pool"
  have loaded: "pool_loaded ?pool"
    using pool by (auto simp: pool_loaded_def pool_inv_def smap_wf_def all_entries_def configured_pool_def Let_def)
  obtain fs pool2 g2 where lf: "InitLeaseFile mkdir (sv_files s) ?pool g = (fs, pool2, g2)" by (metis prod_cases3)
  have file_ok: "pool_loaded pool2" "globals_inv g2" "same_range ?pool pool2"
    using InitLeaseFile_loaded [OF loaded g lf] by auto
  let ?fin = "pool2\<lparr>ap_leaseTime := cf_leaseTime config, ap_renewalTime := cf_renewalTime config,
      ap_rebindingTime := cf_rebindingTime config\<rparr>"
  have fin: "pool_loaded ?fin" using file_ok(1) by (simp add: pool_loaded_def pool_inv_def)
  have rng: "CheckAddressRange ?pool"
    using assms srv init ret by (cases "CheckAddressRange ?pool") (simp_all add: InitServerContext_def Let_def)
  have res: "sv_globals s' = g2"
    "sv_instance s' = Some (srv\<lparr>sc_serverFd := 0, sc_callback := False, sc_looperState := LS_IDLE,
       sc_broadCastFlagEnable := sint (cf_broadcast config), sc_addressPool := ?fin\<rparr>)"
    using assms srv init ret lf rng by (auto simp: InitServerContext_def Let_def set_globals_def set_pool_def)
  then show ?thesis
    using fin file_ok(2) rng CheckAddressRange_same [OF file_ok(3)]
    by (simp add: server_ready_def) (simp add: CheckAddressRange_def)
qed

lemma InitServerFixedOptions_ready:
  assumes "server_ready s" "InitServerFixedOptions config s = (ret, s')"
  shows "server_ready s'"
  using assms
  by (cases "sv_instance s"; cases "cf_options config")
    (auto simp: InitServerFixedOptions_def server_ready_def pool_loaded_def pool_inv_def CheckAddressRange_def Let_def)

lemma InitializeServer_ready:
  assumes "sv_instance (InitializeServer mkdir config s) = Some srv"
  shows "server_ready (InitializeServer mkdir config s)" "sc_initialized srv = 1"
proof -
  let ?s0 = "s\<lparr>sv_ifname := [], sv_instance := Some zero_context\<rparr>"
  obtain r1 s1 where c: "InitServerContext mkdir config ?s0 = (r1, s1)" by fastforce
  obtain r2 s2 where f: "InitServerFixedOptions config s1 = (r2, s2)" by fastforce
  have free: "sv_instance (snd (FreeServerContext (\<lambda>_. LS_IDLE) t)) = None" for t
    by (auto simp: FreeServerContext_def numeral_eq_Suc split: option.split)
  have ok: "r1 = RET_SUCCESS" "InitializeServer mkdir config s =
      s2\<lparr>sv_instance := map_option (\<lambda>srv. srv\<lparr>sc_initialized := 1\<rparr>) (sv_instance s2)\<rparr>"
    using assms c f free by (auto simp: InitializeServer_def Let_def split: if_splits)
  have "server_ready s2"
    using InitServerContext_ready c ok(1) InitServerFixedOptions_ready [OF _ f] by blast
  then show "server_ready (InitializeServer mkdir config s)" "sc_initialized srv = 1"
    using assms ok(2) by (auto simp: server_ready_def split: option.splits)
qed

lemma server_ready_inv: "server_ready s \<Longrightarrow> server_inv s"
  by (auto simp: server_ready_def server_inv_def pool_loaded_def split: option.splits)

lemma StartDhcpServer_instance:
  assumes "StartDhcpServer thr s = (ret, s')"
  shows "sv_instance s' = sv_instance s" "sv_globals s' = sv_globals s"
  using assms
  by (auto simp: StartDhcpServer_def run_callback_def log_event_def Let_def split: if_splits option.splits)

lemma StartDhcpServerMain_ready:
  assumes "StartDhcpServerMain stale mkdir thr states ifName netMask ipRange localIp d = (0, d')"
  obtains srv where "server_ready (dd_server d')" "sv_instance (dd_server d') = Some srv" "sc_initialized srv = 1"
proof -
  obtain r args where args: "ParseArguments stale ifName netMask ipRange localIp Map.empty = (r, args)" by fastforce
  obtain name where nm: "GetArgument ''ifname'' args = Some name"
    using assms args by (cases "GetArgument ''ifname'' args") (simp_all add: StartDhcpServerMain_def)
  then have "name \<noteq> []"
    using assms args by (cases "name = []") (simp_all add: StartDhcpServerMain_def Let_def)
  note name = nm this
  obtain r2 config where conf: "InitializeDhcpConfig (sv_files (dd_server d)) name args (dd_config d) = (r2, config)"
    by fastforce
  have len: "length name < 50"
    using assms args name conf by (cases "length name < 50") (simp_all add: StartDhcpServerMain_def)
  let ?s = "InitializeServer mkdir (config\<lparr>cf_ifname := name\<rparr>) (dd_server d)"
  obtain srv where srv: "sv_instance ?s = Some srv"
    using assms args name conf len
    by (cases "sv_instance ?s") (simp_all add: StartDhcpServerMain_def Let_def)
  let ?t = "RegisterDeviceChangedCallback (dd_deviceConnectFun d) (RegisterDhcpCallback True ?s)"
  obtain r3 s3 where start: "StartDhcpServer thr ?t = (r3, s3)" by fastforce
  have "dd_server d' = s3"
    using assms args name conf len srv start
    by (cases "r3 = RET_SUCCESS") (simp_all add: StartDhcpServerMain_def Let_def, auto)
  moreover have "server_ready ?t" "sv_instance ?t = Some (srv\<lparr>sc_callback := True, sc_deviceConnectFun := dd_deviceConnectFun d\<rparr>)"
    using InitializeServer_ready(1) [OF srv] srv
    by (auto simp: server_ready_def RegisterDeviceChangedCallback_def RegisterDhcpCallback_def)
  ultimately show ?thesis
    using StartDhcpServer_instance [OF start] InitializeServer_ready(2) [OF srv]
    by (intro that [of "srv\<lparr>sc_callback := True, sc_deviceConnectFun := dd_deviceConnectFun d\<rparr>"])
      (simp_all add: server_ready_def)
qed

lemma looper_run_inv:
  assumes "server_inv s" "msg_wf (mi_packet from)"
  shows "server_inv (snd (snd (snd (looper_run rs from reply s))))"
proof -
  obtain n where "snd (looper_run rs from reply s) = snd (fold loop_step (take n rs) (True, from, reply, s))"
    using looper_run_fold by blast
  moreover have "loop_inv (fold loop_step (take n rs) (True, from, reply, s))"
    using looper.run_inv_prefix [of "(True, from, reply, s)" rs n] assms by (simp add: loop_inv_def list_all_iff)
  ultimately show ?thesis by (auto simp: loop_inv_def split: prod.splits)
qed

section \<open>A start that succeeds\<close>

text \<open>An empty configuration file, no lease file, and the addresses of a /24 network.\<close>

definition sample_daemon :: Daemon where
  "sample_daemon = \<lparr>dd_arguments = Map.empty, dd_config = zero_config,
     dd_server = sample_server\<lparr>sv_instance := None,
       sv_files := \<lparr>fs_content = [''/data/service/el1/public/dhcp/etc/dhcpd.conf'' \<mapsto> []],
         fs_realpath = (\<lambda>p. p = ''/data/service/el1/public/dhcp/etc/dhcpd.conf''), fs_writable = (\<lambda>_. True)\<rparr>\<rparr>,
     dd_deviceConnectFun = True\<rparr>"

definition sample_arguments :: arguments where
  "sample_arguments = [''ifname'' \<mapsto> ''wlan0'', ''server'' \<mapsto> ''192.168.43.1'', ''netmask'' \<mapsto> ''255.255.255.0'',
     ''pool'' \<mapsto> ''192.168.43.3,192.168.43.254'']"

lemma sample_addresses:
  "ParseIpAddr ''192.168.43.1'' = htonl 0xC0A82B01" "ParseIpAddr ''255.255.255.0'' = prefix_netmask 24"
  "ParseIpAddr ''192.168.43.3'' = htonl 0xC0A82B03" "ParseIpAddr ''192.168.43.254'' = htonl 0xC0A82BFE"
  "prefix_netmask 24 \<noteq> 0"
  by code_simp+

lemma sample_ParseArguments:
  "ParseArguments [] ''wlan0'' ''255.255.255.0'' ''192.168.43.3,192.168.43.254'' ''192.168.43.1'' Map.empty = (0, sample_arguments)"
  by (simp add: ParseArguments_def PutPoolArgument_def PutIpArgument_def PutArgument_def HasArgument_def
      sample_arguments_def sample_addresses)

lemmas argument_simps = GetArgument_def HasArgument_def InitConfigByArguments_def InitServerId_def InitNetworkAbout_def
  InitAddressRange_def PareseAddreesRange_def InitLeaseTime_def InitRenewalTime_def InitRebindingTime_def InitDomainNameServer_def

lemma sample_InitConfigByArguments:
  assumes "cf_options config = Some []" "cf_leaseTime config \<noteq> 0"
  shows "\<exists>config'. InitConfigByArguments sample_arguments config = (RET_SUCCESS, config')
   \<and> cf_serverId config' = htonl 0xC0A82B01 \<and> cf_netmask config' = prefix_netmask 24
   \<and> cf_beginAddress config' = htonl 0xC0A82B03 \<and> cf_endAddress config' = htonl 0xC0A82BFE \<and> cf_options config' \<noteq> None"
proof -
  have toks: "strtok_tokens CHR '','' ''192.168.43.3,192.168.43.254'' = [''192.168.43.3'', ''192.168.43.254'']"
    by (simp add: strtok_tokens.simps strtok_r_def)
  show ?thesis
    using assms by (simp add: sample_arguments_def argument_simps sample_addresses toks opts_get_def opts_push_back_def)
qed

lemma sample_InitializeDhcpConfig:
  "\<exists>config. InitializeDhcpConfig (sv_files (dd_server sample_daemon)) ''wlan0'' sample_arguments zero_config = (RET_SUCCESS, config)
   \<and> cf_serverId config = htonl 0xC0A82B01 \<and> cf_netmask config = prefix_netmask 24
   \<and> cf_beginAddress config = htonl 0xC0A82B03 \<and> cf_endAddress config = htonl 0xC0A82BFE \<and> cf_options config \<noteq> None"
proof -
  let ?c = "zero_config\<lparr>cf_options := Some [], cf_leaseTime := 21600, cf_distribution := 1, cf_broadcast := 1,
    cf_renewalTime := 10800, cf_rebindingTime := 18900, cf_ifname := ''wlan0''\<rparr>"
  have "LoadConfig (sv_files (dd_server sample_daemon)) ''/data/service/el1/public/dhcp/etc/dhcpd.conf'' ''wlan0''
      (zero_config\<lparr>cf_options := Some []\<rparr>) = (RET_SUCCESS, ?c)"
    by (simp add: sample_daemon_def sample_server_def LoadConfig_def ParseConfigFile_def ProcessFile_def fgets_lines.simps
        CheckDhcpConfig_def SetIfnameInfo_def zero_config_def)
  moreover have "GetArgument ''conf'' sample_arguments = None"
    by (simp add: sample_arguments_def GetArgument_def)
  ultimately show ?thesis
    using sample_InitConfigByArguments [of ?c] by (auto simp: InitializeDhcpConfig_def)
qed

lemma sample_InitializeServer:
  assumes c: "cf_serverId config = htonl 0xC0A82B01" "cf_netmask config = prefix_netmask 24"
    "cf_beginAddress config = htonl 0xC0A82B03" "cf_endAddress config = htonl 0xC0A82BFE" "cf_options config \<noteq> None"
    "cf_ifname config = ''wlan0''"
  shows "sv_instance (InitializeServer (\<lambda>_. False) config (dd_server sample_daemon)) \<noteq> None"
    "sv_ifname (InitializeServer (\<lambda>_. False) config (dd_server sample_daemon)) = ''wlan0''"
proof -
  obtain xs where xs: "cf_options config = Some xs" using c(5) by auto
  have "NetworkAddress (htonl 0xC0A82B01) (prefix_netmask 24) = htonl 0xC0A82B00"
    "NetworkAddress (htonl 0xC0A82B03) (prefix_netmask 24) = htonl 0xC0A82B00"
    "NetworkAddress (htonl 0xC0A82BFE) (prefix_netmask 24) = htonl 0xC0A82B00" by code_simp+
  then have r: "CheckAddressRange (configured_pool config q)" for q
    using c by (simp add: configured_pool_def CheckAddressRange_def)
  have "GetFilePath DHCPD_LEASE_FILE = Some ''/data/service/el1/public/dhcp''" by (simp add: GetFilePath_def)
  then have f: "InitLeaseFile (\<lambda>_. False) (sv_files (dd_server sample_daemon)) q g = (sv_files (dd_server sample_daemon), q, g)" for q g
    by (simp add: InitLeaseFile_def sample_daemon_def sample_server_def CreatePath_def make_dir_def id_def [symmetric])
  show "sv_instance (InitializeServer (\<lambda>_. False) config (dd_server sample_daemon)) \<noteq> None"
    "sv_ifname (InitializeServer (\<lambda>_. False) config (dd_server sample_daemon)) = ''wlan0''"
    using c xs sample_addresses(5) r f
    by (simp_all add: InitializeServer_def InitServerContext_def InitAddressPool_def InitServerFixedOptions_def set_pool_def
        set_globals_def)
qed

lemma sample_start:
  "\<exists>d'. StartDhcpServerMain [] (\<lambda>_. False) True (\<lambda>_. LS_IDLE) ''wlan0'' ''255.255.255.0'' ''192.168.43.3,192.168.43.254''
     ''192.168.43.1'' sample_daemon = (0, d')"
proof -
  obtain config where conf: "InitializeDhcpConfig (sv_files (dd_server sample_daemon)) ''wlan0'' sample_arguments zero_config
      = (RET_SUCCESS, config)" "cf_serverId config = htonl 0xC0A82B01" "cf_netmask config = prefix_netmask 24"
    "cf_beginAddress config = htonl 0xC0A82B03" "cf_endAddress config = htonl 0xC0A82BFE" "cf_options config \<noteq> None"
    using sample_InitializeDhcpConfig by blast
  let ?s = "InitializeServer (\<lambda>_. False) (config\<lparr>cf_ifname := ''wlan0''\<rparr>) (dd_server sample_daemon)"
  have s: "sv_instance ?s \<noteq> None" "sv_ifname ?s = ''wlan0''"
    using sample_InitializeServer [of "config\<lparr>cf_ifname := ''wlan0''\<rparr>"] conf by simp_all
  then obtain srv where srv: "sv_instance ?s = Some srv" by auto
  have init: "sc_initialized srv = 1" by (rule InitializeServer_ready(2) [OF srv])
  let ?t = "RegisterDeviceChangedCallback (dd_deviceConnectFun sample_daemon) (RegisterDhcpCallback True ?s)"
  obtain s3 where "StartDhcpServer True ?t = (RET_SUCCESS, s3)"
    using s(2) srv init by (auto simp: StartDhcpServer_def RegisterDeviceChangedCallback_def RegisterDhcpCallback_def)
  moreover have "GetArgument ''ifname'' sample_arguments = Some ''wlan0''" "dd_config sample_daemon = zero_config"
    by (simp_all add: GetArgument_def sample_arguments_def sample_daemon_def)
  ultimately show ?thesis
    using conf(1) srv by (simp add: StartDhcpServerMain_def sample_ParseArguments Let_def)
qed

section \<open>Properties\<close>

text \<open>C6: A start that succeeds leaves an idle, initialised server whose server address, first and last address
  are in one network that is not zero, every lease loaded from the lease file being in the range; and
  from there the message loop keeps the tables well formed on every sequence of datagrams, whatever
  the configuration file, the lease file and the uninitialised message buffers of the loop hold.\<close>

theorem started_server_runs:
  assumes "StartDhcpServerMain stale mkdir thr states ifName netMask ipRange localIp d = (0, d')"
    and "msg_wf fromPacket"
  shows "\<exists>srv. sv_instance (dd_server d') = Some srv \<and> sc_looperState srv = LS_IDLE \<and> sc_initialized srv = 1
    \<and> CheckAddressRange (sc_addressPool srv) \<and> pool_loaded (sc_addressPool srv)
    \<and> server_inv (snd (BeginLooper fd rs fromPacket replyPacket (dd_server d')))"
proof -
  obtain srv where ready: "server_ready (dd_server d')" and srv: "sv_instance (dd_server d') = Some srv" "sc_initialized srv = 1"
    by (rule StartDhcpServerMain_ready [OF assms(1)])
  have base: "server_inv (dd_server d')" by (rule server_ready_inv [OF ready])
  then have inv: "server_inv (set_looper LS_RUNNING (set_fd fd (dd_server d')))"
    by (intro server_inv_set)
  have "server_inv (snd (BeginLooper fd rs fromPacket replyPacket (dd_server d')))"
    using srv looper_run_inv [OF inv, of "\<lparr>mi_packet = fromPacket, mi_length = 0, mi_options = Some []\<rparr>"] assms(2) base
    by (auto simp: BeginLooper_def Let_def split_beta intro!: server_inv_set)
  with ready srv show ?thesis by (auto simp: server_ready_def)
qed

theorem started_server_runs_witness:
  "\<exists>d'. StartDhcpServerMain [] (\<lambda>_. False) True (\<lambda>_. LS_IDLE) ''wlan0'' ''255.255.255.0'' ''192.168.43.3,192.168.43.254''
     ''192.168.43.1'' sample_daemon = (0, d')
     \<and> server_inv (snd (BeginLooper 5 [RecvTimeout] (mi_packet blank_msg) (mi_packet blank_msg) (dd_server d')))"
  using sample_start started_server_runs [OF _ sample_server_inv(2)] by meson

text \<open>A stop that comes before the thread of the loop has set its state is lost: the loop runs as if there had been
  no stop.\<close>

theorem stop_before_loop_lost:
  "BeginLooper fd rs fromPacket replyPacket (snd (StopDhcpServer s)) =
     (if fd < 0 then (True, set_fd fd (snd (StopDhcpServer s))) else BeginLooper fd rs fromPacket replyPacket s)"
proof (cases "sv_instance s")
  case (Some srv)
  then have "set_looper LS_RUNNING (set_fd fd (set_looper LS_STOPING s)) = set_looper LS_RUNNING (set_fd fd s)"
    by (simp add: set_looper_def set_fd_def)
  with Some show ?thesis
    by (simp add: BeginLooper_def StopDhcpServer_def) (simp add: set_looper_def set_fd_def)
qed (simp add: BeginLooper_def StopDhcpServer_def set_fd_def)



lemma run_steps_fold: "run_steps fs config = (RET_SUCCESS, config') \<Longrightarrow> config' = fold (\<lambda>f c. snd (f c)) fs config"
  by (induction fs arbitrary: config) (auto simp: split_beta split: if_splits)

lemma argument_steps_frame:
  "cf_gateway (snd (InitAddressRange args c)) = cf_gateway c" "cf_serverId (snd (InitAddressRange args c)) = cf_serverId c"
  "cf_gateway (snd (InitLeaseTime args c)) = cf_gateway c" "cf_serverId (snd (InitLeaseTime args c)) = cf_serverId c"
  "cf_gateway (snd (InitRenewalTime args c)) = cf_gateway c" "cf_serverId (snd (InitRenewalTime args c)) = cf_serverId c"
  "cf_gateway (snd (InitRebindingTime args c)) = cf_gateway c" "cf_serverId (snd (InitRebindingTime args c)) = cf_serverId c"
  "cf_gateway (snd (InitDomainNameServer args c)) = cf_gateway c" "cf_serverId (snd (InitDomainNameServer args c)) = cf_serverId c"
  "cf_renewalTime (snd (InitRebindingTime args c)) = cf_renewalTime c"
  "cf_renewalTime (snd (InitDomainNameServer args c)) = cf_renewalTime c"
  by (simp_all add: InitAddressRange_def PareseAddreesRange_def InitLeaseTime_def InitRenewalTime_def InitRebindingTime_def
      InitDomainNameServer_def split_beta Let_def split: option.split list.split)

lemma InitNetworkAbout_gateway:
  "GetArgument ''gateway'' args = None \<Longrightarrow> fst (InitNetworkAbout args c) = RET_SUCCESS \<Longrightarrow>
     cf_gateway (snd (InitNetworkAbout args c)) = cf_serverId (snd (InitNetworkAbout args c))"
  by (auto simp: InitNetworkAbout_def Let_def split: option.splits if_splits)

lemma started_arguments:
  assumes "ParseArguments stale ifName netMask ipRange localIp Map.empty = (r, args)"
  shows "GetArgument ''gateway'' args = None" "GetArgument ''renewal'' args = None"
proof -
  have put: "GetArgument n (snd (PutArgument stale a v m)) = GetArgument n m" if "take 32 n \<noteq> take 31 a" for n a v m
    using that by (simp add: PutArgument_def GetArgument_def Let_def)
  have "GetArgument n args = None" if "take 32 n \<notin> {''ifname'', ''server'', ''netmask'', ''pool''}" for n
    using that assms
    by (auto simp: ParseArguments_def PutPoolArgument_def PutIpArgument_def split_beta Let_def put)
      (auto simp: GetArgument_def)
  then show "GetArgument ''gateway'' args = None" "GetArgument ''renewal'' args = None" by simp_all
qed

text \<open>Whatever the configuration file says, a start takes the server address for the gateway and 10800 seconds for
  the renewal time, as the start arguments never contain these two.\<close>

theorem arguments_override_config:
  assumes "ParseArguments stale ifName netMask ipRange localIp Map.empty = (r, args)"
    and "InitConfigByArguments args config = (RET_SUCCESS, config')"
  shows "cf_gateway config' = cf_serverId config' \<and> cf_renewalTime config' = 10800"
proof -
  note none = started_arguments [OF assms(1)]
  let ?c1 = "snd (InitServerId args config)"
  have "fst (InitNetworkAbout args ?c1) = RET_SUCCESS"
    using assms(2) by (auto simp: InitConfigByArguments_def split_beta Let_def split: if_splits)
  note gw = InitNetworkAbout_gateway [OF none(1) this]
  have renew: "cf_renewalTime (snd (InitRenewalTime args c)) = 10800" for c
    using none(2) by (simp add: InitRenewalTime_def Let_def)
  from run_steps_fold [OF assms(2) [unfolded InitConfigByArguments_def]] show ?thesis
    using gw renew by (simp add: argument_steps_frame)
qed

theorem arguments_override_config_witness:
  "\<exists>config'. InitConfigByArguments sample_arguments (sample_config\<lparr>cf_options := Some []\<rparr>) = (RET_SUCCESS, config')
     \<and> cf_renewalTime (sample_config\<lparr>cf_options := Some []\<rparr>) = 3600 \<and> cf_renewalTime config' = 10800"
proof -
  have "cf_leaseTime (sample_config\<lparr>cf_options := Some []\<rparr>) \<noteq> 0" by (simp add: sample_config_def)
  then obtain config' where "InitConfigByArguments sample_arguments (sample_config\<lparr>cf_options := Some []\<rparr>) = (RET_SUCCESS, config')"
    using sample_InitConfigByArguments [of "sample_config\<lparr>cf_options := Some []\<rparr>"] by auto
  then show ?thesis
    using arguments_override_config [OF sample_ParseArguments, of "sample_config\<lparr>cf_options := Some []\<rparr>" config']
    by (simp add: sample_config_def)
qed

end
