(* ===== verification/DhcpClientOptions.thy ===== *)
theory DhcpClientOptions
  imports DhcpMessage
begin

text \<open>
  The option field of the client's packets (\<^verbatim>\<open>dhcp_client/src/dhcp_options.cpp\<close>): looking up an option in the
  three fields that may hold options, reading its value, and appending options in front of the end
  option. An array is the list of its bytes; reading past it is the value \<open>None\<close>. The theory ends with
  the two facts the state machine builds on: a lookup never leaves the packet and finds the first
  option of the code, and appending keeps the field well formed.
\<close>

section \<open>Constants and data\<close>

abbreviation (input) DHCP_OPT_SUCCESS :: int where "DHCP_OPT_SUCCESS \<equiv> 0"
abbreviation (input) DHCP_OPT_FAILED :: int where "DHCP_OPT_FAILED \<equiv> 1"
abbreviation (input) DHCP_OPT_NULL :: int where "DHCP_OPT_NULL \<equiv> 2"
abbreviation (input) DHCP_OPT_SIZE :: nat where "DHCP_OPT_SIZE \<equiv> 1780"
abbreviation (input) DHCP_HOST_NAME_LENGTH :: nat where "DHCP_HOST_NAME_LENGTH \<equiv> 64"
abbreviation (input) DHCP_BOOT_FILE_LENGTH :: nat where "DHCP_BOOT_FILE_LENGTH \<equiv> 128"
abbreviation (input) DOMAIN_NAME_OPTION :: u8 where "DOMAIN_NAME_OPTION \<equiv> 15"
abbreviation (input) INTERFACE_MTU_OPTION :: u8 where "INTERFACE_MTU_OPTION \<equiv> 26"
abbreviation (input) NETWORK_TIME_PROTOCOL_SERVERS_OPTION :: u8 where
  "NETWORK_TIME_PROTOCOL_SERVERS_OPTION \<equiv> 42"
abbreviation (input) OPTION_OVERLOAD_OPTION :: u8 where "OPTION_OVERLOAD_OPTION \<equiv> 52"
abbreviation (input) PARAMETER_REQUEST_LIST_OPTION :: u8 where "PARAMETER_REQUEST_LIST_OPTION \<equiv> 55"
abbreviation (input) MAXIMUM_DHCP_MESSAGE_SIZE_OPTION :: u8 where
  "MAXIMUM_DHCP_MESSAGE_SIZE_OPTION \<equiv> 57"
abbreviation (input) CLIENT_IDENTIFIER_OPTION :: u8 where "CLIENT_IDENTIFIER_OPTION \<equiv> 61"
abbreviation (input) CAPTIVE_PORTAL_OPTION :: u8 where "CAPTIVE_PORTAL_OPTION \<equiv> 114"
abbreviation (input) FORCERENEW_NONCE_OPTION :: u8 where "FORCERENEW_NONCE_OPTION \<equiv> 145"

record DhcpPacket =
  dp_op :: u8
  dp_htype :: u8
  dp_hlen :: u8
  dp_hops :: u8
  dp_xid :: u32
  dp_secs :: u16
  dp_flags :: u16
  dp_ciaddr :: u32
  dp_yiaddr :: u32
  dp_siaddr :: u32
  dp_giaddr :: u32
  dp_chaddr :: bytes
  dp_sname :: bytes
  dp_file :: bytes
  dp_cookie :: u32
  dp_options :: bytes

definition packet_wf :: "DhcpPacket \<Rightarrow> bool" where
  "packet_wf p \<longleftrightarrow> length (dp_chaddr p) = 16 \<and> length (dp_sname p) = DHCP_HOST_NAME_LENGTH
     \<and> length (dp_file p) = DHCP_BOOT_FILE_LENGTH \<and> length (dp_options p) = DHCP_OPT_SIZE"

text \<open>\<^verbatim>\<open>memset_s(&packet, sizeof(packet), 0, sizeof(packet))\<close>.\<close>

definition zero_packet :: DhcpPacket where
  "zero_packet = \<lparr>dp_op = 0, dp_htype = 0, dp_hlen = 0, dp_hops = 0, dp_xid = 0, dp_secs = 0, dp_flags = 0,
     dp_ciaddr = 0, dp_yiaddr = 0, dp_siaddr = 0, dp_giaddr = 0, dp_chaddr = replicate 16 0,
     dp_sname = replicate DHCP_HOST_NAME_LENGTH 0, dp_file = replicate DHCP_BOOT_FILE_LENGTH 0, dp_cookie = 0,
     dp_options = replicate DHCP_OPT_SIZE 0\<rparr>"

datatype DHCP_OPTION_DATA_TYPE = DHCP_OPTION_DATA_INVALID | DHCP_OPTION_DATA_U8 | DHCP_OPTION_DATA_U16
  | DHCP_OPTION_DATA_S16 | DHCP_OPTION_DATA_U32 | DHCP_OPTION_DATA_S32 | DHCP_OPTION_DATA_IP
  | DHCP_OPTION_DATA_IP_PAIR | DHCP_OPTION_DATA_IP_LIST | DHCP_OPTION_DATA_IP_STRING

datatype OptField = OPTION_FIELD | FILE_FIELD | SNAME_FIELD

section \<open>Looking up an option\<close>

text \<open>\<^verbatim>\<open>CheckOptSoverloaded\<close>: the new overload value and index, or nothing. The index moves by the
  length byte of the first option of the field, \<^verbatim>\<open>pOption[DHCP_OPT_LEN_INDEX]\<close>, not by that of the
  overload option.\<close>

definition CheckOptSoverloaded :: "bytes \<Rightarrow> nat \<Rightarrow> nat \<Rightarrow> (u8 \<times> nat) option" where
  "CheckOptSoverloaded pOption maxLen index =
     (if index + 1 + unat (pOption ! (index + 1)) \<ge> maxLen then None
      else Some (pOption ! (index + 2), index + unat (pOption ! 1) + 2))"

definition CheckOptionsData :: "bytes \<Rightarrow> u8 \<Rightarrow> nat \<Rightarrow> nat \<Rightarrow> int" where
  "CheckOptionsData pOption code index maxLen =
     (if int index \<ge> int maxLen - 2 then DHCP_OPT_FAILED
      else if pOption ! index \<noteq> code then DHCP_OPT_NULL
      else if index + 1 + unat (pOption ! (index + 1)) \<ge> maxLen then DHCP_OPT_FAILED
      else DHCP_OPT_SUCCESS)"

definition GetDhcpOptionCodeType :: "u8 \<Rightarrow> DHCP_OPTION_DATA_TYPE" where
  "GetDhcpOptionCodeType code =
     (if code \<le> PAD_OPTION \<or> code \<ge> END_OPTION then DHCP_OPTION_DATA_INVALID
      else if code \<in> {DHCP_MESSAGE_TYPE_OPTION, FORCERENEW_NONCE_OPTION} then DHCP_OPTION_DATA_U8
      else if code \<in> {INTERFACE_MTU_OPTION, MAXIMUM_DHCP_MESSAGE_SIZE_OPTION} then DHCP_OPTION_DATA_U16
      else if code = IP_ADDRESS_LEASE_TIME_OPTION then DHCP_OPTION_DATA_U32
      else if code \<in> {SUBNET_MASK_OPTION, BROADCAST_ADDRESS_OPTION, REQUESTED_IP_ADDRESS_OPTION,
                      SERVER_IDENTIFIER_OPTION} then DHCP_OPTION_DATA_IP
      else if code \<in> {ROUTER_OPTION, DOMAIN_NAME_SERVER_OPTION, NETWORK_TIME_PROTOCOL_SERVERS_OPTION}
        then DHCP_OPTION_DATA_IP_LIST
      else if code \<in> {HOST_NAME_OPTION, DOMAIN_NAME_OPTION, MESSAGE_OPTION} then DHCP_OPTION_DATA_IP_STRING
      else DHCP_OPTION_DATA_INVALID)"

definition GetDhcpOptionDataLen :: "u8 \<Rightarrow> nat" where
  "GetDhcpOptionDataLen code = (case GetDhcpOptionCodeType code of
       DHCP_OPTION_DATA_INVALID \<Rightarrow> 0
     | DHCP_OPTION_DATA_U8 \<Rightarrow> 1
     | DHCP_OPTION_DATA_U16 \<Rightarrow> 2
     | DHCP_OPTION_DATA_U32 \<Rightarrow> 4
     | DHCP_OPTION_DATA_IP \<Rightarrow> 4
     | DHCP_OPTION_DATA_IP_PAIR \<Rightarrow> 8
     | _ \<Rightarrow> 0)"

text \<open>The array of a field with its \<^verbatim>\<open>maxLen\<close>.\<close>

definition field_bytes :: "DhcpPacket \<Rightarrow> OptField \<Rightarrow> bytes" where
  "field_bytes p f = (case f of OPTION_FIELD \<Rightarrow> dp_options p | FILE_FIELD \<Rightarrow> dp_file p | SNAME_FIELD \<Rightarrow> dp_sname p)"

definition field_max :: "OptField \<Rightarrow> nat" where
  "field_max f = (case f of OPTION_FIELD \<Rightarrow> DHCP_OPT_SIZE | FILE_FIELD \<Rightarrow> DHCP_BOOT_FILE_LENGTH
     | SNAME_FIELD \<Rightarrow> DHCP_HOST_NAME_LENGTH)"

definition field_rank :: "OptField \<Rightarrow> nat" where
  "field_rank f = (case f of OPTION_FIELD \<Rightarrow> 2 | FILE_FIELD \<Rightarrow> 1 | SNAME_FIELD \<Rightarrow> 0)"

text \<open>The field that is read behind the end option of a field, by the value of the overload option.\<close>

definition next_field :: "OptField \<Rightarrow> u8 \<Rightarrow> OptField option" where
  "next_field f over =
     (if f = OPTION_FIELD \<and> bit over 0 then Some FILE_FIELD
      else if f = FILE_FIELD \<and> bit over 1 then Some SNAME_FIELD
      else None)"

text \<open>The loop of \<^verbatim>\<open>GetDhcpOption\<close>. The returned pointer is a field and an offset in it, with the length.\<close>

function GetDhcpOption_loop :: "DhcpPacket \<Rightarrow> u8 \<Rightarrow> OptField \<Rightarrow> u8 \<Rightarrow> nat \<Rightarrow> (OptField \<times> nat \<times> nat) option" where
  "GetDhcpOption_loop p code f over i =
     (let pOption = field_bytes p f; maxLen = field_max f; ret = CheckOptionsData pOption code i maxLen in
      if ret = DHCP_OPT_SUCCESS then Some (f, i + 2, unat (pOption ! (i + 1)))
      else if ret = DHCP_OPT_FAILED then None
      else if pOption ! i = PAD_OPTION then GetDhcpOption_loop p code f over (i + 1)
      else if pOption ! i = OPTION_OVERLOAD_OPTION then
        (case CheckOptSoverloaded pOption maxLen i of
           None \<Rightarrow> None
         | Some (over', i') \<Rightarrow> GetDhcpOption_loop p code f over' i')
      else if pOption ! i = END_OPTION then
        (case next_field f over of
           None \<Rightarrow> None
         | Some f' \<Rightarrow> GetDhcpOption_loop p code f' over 0)
      else GetDhcpOption_loop p code f over (i + 2 + unat (pOption ! (i + 1))))"
  by pat_completeness auto
termination
  by (relation "measures [\<lambda>(p, code, f, over, i). field_rank f, \<lambda>(p, code, f, over, i). field_max f - i]")
    (auto simp: CheckOptionsData_def CheckOptSoverloaded_def next_field_def field_rank_def split: if_splits)

declare GetDhcpOption_loop.simps [simp del]

definition GetDhcpOption :: "DhcpPacket \<Rightarrow> u8 \<Rightarrow> (OptField \<times> nat \<times> nat) option" where
  "GetDhcpOption packet code = GetDhcpOption_loop packet code OPTION_FIELD 0 0"

text \<open>The bytes that a returned pointer and length name.\<close>

definition option_bytes :: "DhcpPacket \<Rightarrow> OptField \<times> nat \<times> nat \<Rightarrow> bytes" where
  "option_bytes p r = (case r of (f, off, len) \<Rightarrow> take len (drop off (field_bytes p f)))"

section \<open>Reading values\<close>

text \<open>The readers return the flag and the new value of the variable behind the result pointer,
  which keeps its old value when the reader does not write it.\<close>

definition GetDhcpOptionUint8 :: "DhcpPacket \<Rightarrow> u8 \<Rightarrow> u8 \<Rightarrow> bool \<times> u8" where
  "GetDhcpOptionUint8 packet code data = (case GetDhcpOption packet code of
       None \<Rightarrow> (False, data)
     | Some (f, off, len) \<Rightarrow> if len < 1 then (False, data) else (True, field_bytes packet f ! off))"

definition GetDhcpOptionUint32 :: "DhcpPacket \<Rightarrow> u8 \<Rightarrow> u32 \<Rightarrow> bool \<times> u32" where
  "GetDhcpOptionUint32 packet code data = (case GetDhcpOption packet code of
       None \<Rightarrow> (False, data)
     | Some (f, off, len) \<Rightarrow>
         if len < 4 then (False, data)
         else let uData = u32_of_bytes (take 4 (drop off (field_bytes packet f)))
              in (True, if uData > 0 then ntohl uData else data))"

definition GetDhcpOptionUint32n :: "DhcpPacket \<Rightarrow> u8 \<Rightarrow> u32 \<Rightarrow> u32 \<Rightarrow> bool \<times> u32 \<times> u32" where
  "GetDhcpOptionUint32n packet code data1 data2 = (case GetDhcpOption packet code of
       None \<Rightarrow> (False, data1, data2)
     | Some (f, off, len) \<Rightarrow>
         if len < 4 \<or> len mod 4 \<noteq> 0 then (False, data1, data2)
         else let uData = u32_of_bytes (take 4 (drop off (field_bytes packet f)));
                  data1 = (if uData > 0 then ntohl uData else data1)
              in if len > 4
                 then let uData = u32_of_bytes (take 4 (drop (off + 4) (field_bytes packet f)))
                      in (True, data1, if uData > 0 then ntohl uData else data2)
                 else (True, data1, data2))"

text \<open>The result is the C string of the copy, which ends at its first null byte. The test of the first byte
  comes before the test of the length; the byte after an empty option is still in the field.\<close>

definition GetDhcpOptionString :: "DhcpPacket \<Rightarrow> u8 \<Rightarrow> bytes option" where
  "GetDhcpOptionString packet code = (case GetDhcpOption packet code of
       None \<Rightarrow> None
     | Some (f, off, len) \<Rightarrow>
         if field_bytes packet f ! off = 0 then None
         else if len < 1 then None
         else Some (takeWhile (\<lambda>b. b \<noteq> 0) (take len (drop off (field_bytes packet f)))))"

section \<open>Appending options\<close>

function GetEndOptionIndex_loop :: "bytes \<Rightarrow> nat \<Rightarrow> nat option" where
  "GetEndOptionIndex_loop pOpts i =
     (if i < length pOpts then
        if pOpts ! i \<noteq> END_OPTION then
          if pOpts ! i \<noteq> PAD_OPTION then
            if i + 1 < length pOpts then GetEndOptionIndex_loop pOpts (i + unat (pOpts ! (i + 1)) + 2) else None
          else GetEndOptionIndex_loop pOpts (i + 1)
        else Some i
      else None)"
  by pat_completeness auto
termination
  by (relation "measure (\<lambda>(pOpts, i). length pOpts - i)") auto

declare GetEndOptionIndex_loop.simps [simp del]

definition GetEndOptionIndex :: "bytes \<Rightarrow> nat option" where
  "GetEndOptionIndex pOpts = GetEndOptionIndex_loop pOpts 0"

definition AddOptStrToOpts :: "bytes \<Rightarrow> bytes \<Rightarrow> nat \<Rightarrow> (nat \<times> bytes) option" where
  "AddOptStrToOpts pOpts pOpt nOptLen =
     (if nOptLen \<noteq> 2 + unat (pOpt ! 1) then Some (0, pOpts)
      else case GetEndOptionIndex pOpts of
        None \<Rightarrow> None
      | Some nEndIndex \<Rightarrow>
          if nEndIndex + nOptLen + 1 \<ge> DHCP_OPT_SIZE then Some (0, pOpts)
          else if \<not> nOptLen > 0 then Some (0, pOpts)
          else
            let (ok, rest) = memcpy_s (nOptLen + 1) (drop nEndIndex pOpts) pOpt nOptLen;
                pOpts = take nEndIndex pOpts @ rest
            in if \<not> ok then Some (0, pOpts)
               else Some (nOptLen, pOpts[nEndIndex + nOptLen := END_OPTION]))"

definition htons :: "u16 \<Rightarrow> u16" where
  "htons w = u16_of_bytes (rev (u16_bytes w))"

definition AddOptValueToOpts :: "bytes \<Rightarrow> u8 \<Rightarrow> u32 \<Rightarrow> (nat \<times> bytes) option" where
  "AddOptValueToOpts pOpts code value =
     (let uLen = GetDhcpOptionDataLen code in
      if uLen = 0 then Some (0, pOpts)
      else
        let uValue = (if uLen = 1 then [ucast value, 0, 0, 0]
                      else if uLen = 2 then u16_bytes (htons (ucast value)) @ [0, 0]
                      else if uLen = 4 then u32_bytes value
                      else [0, 0, 0, 0]);
            (ok, data) = memcpy_s 4 [0, 0, 0, 0] uValue uLen;
            uOption = [code, of_nat uLen] @ data
        in if \<not> ok then Some (0, pOpts)
           else AddOptStrToOpts pOpts uOption (2 + uLen))"

section \<open>The text of options\<close>

text \<open>An option as the client's code writes it, and a list of options in front of a tail.\<close>

definition optw :: "u8 \<times> bytes \<Rightarrow> bytes" where
  "optw x = fst x # of_nat (length (snd x)) # snd x"

definition copt_ok :: "u8 \<times> bytes \<Rightarrow> bool" where
  "copt_ok x \<longleftrightarrow> fst x \<notin> {PAD_OPTION, END_OPTION} \<and> length (snd x) < 256"

abbreviation area :: "(u8 \<times> bytes) list \<Rightarrow> bytes" where
  "area os \<equiv> concat (map optw os)"

lemma length_optw [simp]: "length (optw x) = 2 + length (snd x)"
  by (simp add: optw_def)

lemma unat_of_nat_u8: "n < 256 \<Longrightarrow> unat (of_nat n :: u8) = n"
  by (simp add: unat_of_nat take_bit_eq_mod)

lemma optw_nth:
  assumes "copt_ok x" "i = length pre"
  shows "(pre @ optw x @ rest) ! i = fst x" "(pre @ optw x @ rest) ! (i + 1) = of_nat (length (snd x))"
    "(pre @ optw x @ rest) ! Suc i = of_nat (length (snd x))"
    "unat ((pre @ optw x @ rest) ! (i + 1)) = length (snd x)"
    "take (length (snd x)) (drop (i + 2) (pre @ optw x @ rest)) = snd x"
  using assms by (simp_all add: optw_def nth_append copt_ok_def unat_of_nat_u8)

lemma GetEndOptionIndex_loop_area:
  "list_all copt_ok os \<Longrightarrow>
     GetEndOptionIndex_loop (pre @ area os @ END_OPTION # rest) (length pre) = Some (length pre + length (area os))"
proof (induction os arbitrary: pre)
  case Nil
  then show ?case by (simp add: GetEndOptionIndex_loop.simps nth_append)
next
  case (Cons x os)
  let ?mem = "pre @ optw x @ area os @ END_OPTION # rest"
  have x: "copt_ok x" using Cons.prems by simp
  note nth = optw_nth [OF x refl, of pre "area os @ END_OPTION # rest"]
  have ne: "fst x \<noteq> PAD_OPTION" "fst x \<noteq> END_OPTION" using x by (simp_all add: copt_ok_def)
  have "GetEndOptionIndex_loop ?mem (length pre) = GetEndOptionIndex_loop ?mem (length pre + length (snd x) + 2)"
    using nth ne by (subst GetEndOptionIndex_loop.simps) simp
  also have "\<dots> = GetEndOptionIndex_loop ((pre @ optw x) @ area os @ END_OPTION # rest) (length (pre @ optw x))"
    by (simp add: algebra_simps)
  also have "\<dots> = Some (length (pre @ optw x) + length (area os))"
    using Cons.prems by (intro Cons.IH) simp
  finally show ?case by simp
qed

lemma GetEndOptionIndex_area:
  "list_all copt_ok os \<Longrightarrow> GetEndOptionIndex (area os @ END_OPTION # rest) = Some (length (area os))"
  using GetEndOptionIndex_loop_area [of os "[]" rest] by (simp add: GetEndOptionIndex_def)

text \<open>Appending an option replaces the end option by the option and a new end option.\<close>

lemma AddOptStrToOpts_area:
  assumes "list_all copt_ok os" "copt_ok (c, d)" "length (area os) + length d + 3 < DHCP_OPT_SIZE"
    and "length (area os) + 1 + length rest = DHCP_OPT_SIZE" "n = 2 + length d"
  shows "AddOptStrToOpts (area os @ END_OPTION # rest) (c # of_nat (length d) # d @ junk) n =
    Some (n, area (os @ [(c, d)]) @ END_OPTION # drop n rest)"
proof -
  have d: "unat (of_nat (length d) :: u8) = length d"
    using assms(2) by (simp add: copt_ok_def unat_of_nat_u8)
  have "(drop n (END_OPTION # rest))[0 := END_OPTION] = END_OPTION # drop n rest"
    using assms(3-5) by (simp flip: Cons_nth_drop_Suc)
  then show ?thesis
    using assms d
    by (simp add: AddOptStrToOpts_def GetEndOptionIndex_area list_update_append optw_def)
qed

lemma AddOptValueToOpts_area:
  assumes "list_all copt_ok os" "length (area os) + 7 < DHCP_OPT_SIZE"
    and "length (area os) + 1 + length rest = DHCP_OPT_SIZE"
  shows
    "GetDhcpOptionDataLen c = 1 \<Longrightarrow> copt_ok (c, []) \<Longrightarrow> AddOptValueToOpts (area os @ END_OPTION # rest) c v =
       Some (3, area (os @ [(c, [ucast v])]) @ END_OPTION # drop 3 rest)"
    "GetDhcpOptionDataLen c = 2 \<Longrightarrow> copt_ok (c, []) \<Longrightarrow> AddOptValueToOpts (area os @ END_OPTION # rest) c v =
       Some (4, area (os @ [(c, u16_bytes (htons (ucast v)))]) @ END_OPTION # drop 4 rest)"
    "GetDhcpOptionDataLen c = 4 \<Longrightarrow> copt_ok (c, []) \<Longrightarrow> AddOptValueToOpts (area os @ END_OPTION # rest) c v =
       Some (6, area (os @ [(c, u32_bytes v)]) @ END_OPTION # drop 6 rest)"
proof -
  assume c: "copt_ok (c, [])"
  { assume "GetDhcpOptionDataLen c = 1"
    with AddOptStrToOpts_area [OF assms(1), where c = c and d = "[ucast v]" and rest = rest and junk = "[0, 0, 0]"]
    show "AddOptValueToOpts (area os @ END_OPTION # rest) c v =
       Some (3, area (os @ [(c, [ucast v])]) @ END_OPTION # drop 3 rest)"
      using c assms(2,3) by (simp add: AddOptValueToOpts_def copt_ok_def) }
  { assume "GetDhcpOptionDataLen c = 2"
    with AddOptStrToOpts_area [OF assms(1), where c = c and d = "u16_bytes (htons (ucast v))" and rest = rest
        and junk = "[0, 0]"]
    show "AddOptValueToOpts (area os @ END_OPTION # rest) c v =
       Some (4, area (os @ [(c, u16_bytes (htons (ucast v)))]) @ END_OPTION # drop 4 rest)"
      using c assms(2,3) by (simp add: AddOptValueToOpts_def copt_ok_def) }
  { assume "GetDhcpOptionDataLen c = 4"
    with AddOptStrToOpts_area [OF assms(1), where c = c and d = "u32_bytes v" and rest = rest and junk = "[]"]
    show "AddOptValueToOpts (area os @ END_OPTION # rest) c v =
       Some (6, area (os @ [(c, u32_bytes v)]) @ END_OPTION # drop 6 rest)"
      using c assms(2,3) by (simp add: AddOptValueToOpts_def copt_ok_def) }
qed

lemma GetDhcpOptionDataLen_codes [simp]:
  "GetDhcpOptionDataLen DHCP_MESSAGE_TYPE_OPTION = 1" "GetDhcpOptionDataLen MAXIMUM_DHCP_MESSAGE_SIZE_OPTION = 2"
  "GetDhcpOptionDataLen REQUESTED_IP_ADDRESS_OPTION = 4" "GetDhcpOptionDataLen SERVER_IDENTIFIER_OPTION = 4"
  by (simp_all add: GetDhcpOptionDataLen_def GetDhcpOptionCodeType_def)

section \<open>The lookup stays in the packet\<close>

text \<open>What the returned pointer and length promise: the data lie in the array, behind the code and the length byte.\<close>

definition option_at :: "DhcpPacket \<Rightarrow> u8 \<Rightarrow> OptField \<times> nat \<times> nat \<Rightarrow> bool" where
  "option_at p code r \<longleftrightarrow> (case r of (g, off, len) \<Rightarrow>
     2 \<le> off \<and> off < field_max g \<and> off + len \<le> field_max g
     \<and> field_bytes p g ! (off - 2) = code \<and> unat (field_bytes p g ! (off - 1)) = len)"

lemma GetDhcpOption_loop_at:
  "GetDhcpOption_loop p code f over i = Some r \<Longrightarrow> option_at p code r"
proof (induction p code f over i rule: GetDhcpOption_loop.induct)
  case (1 p code f over i)
  note IH = "1.IH" [OF refl refl refl]
  show ?case
  proof (cases "CheckOptionsData (field_bytes p f) code i (field_max f) = DHCP_OPT_SUCCESS")
    case True
    then show ?thesis
      using "1.prems"
      by (subst (asm) GetDhcpOption_loop.simps) (auto simp: option_at_def CheckOptionsData_def split: if_splits)
  next
    case False
    then show ?thesis
      using "1.prems" [unfolded GetDhcpOption_loop.simps [of p code f over i]]
      by (auto simp: Let_def split: if_splits option.splits prod.splits dest: IH)
  qed
qed

lemma length_field_bytes: "packet_wf p \<Longrightarrow> length (field_bytes p f) = field_max f"
  by (cases f) (simp_all add: packet_wf_def field_bytes_def field_max_def)

lemma CheckOptionsData_append:
  assumes "length xs = m"
  shows "CheckOptionsData (xs @ junk) code i m = CheckOptionsData xs code i m"
    "CheckOptionsData xs code i m \<noteq> DHCP_OPT_FAILED \<Longrightarrow> i + 2 < m \<and> (xs @ junk) ! i = xs ! i
       \<and> (xs @ junk) ! (i + 1) = xs ! (i + 1) \<and> CheckOptSoverloaded (xs @ junk) m i = CheckOptSoverloaded xs m i"
  using assms by (auto simp: CheckOptionsData_def CheckOptSoverloaded_def nth_append split: if_splits)

lemma GetDhcpOption_loop_append:
  assumes "packet_wf p" "\<And>f. field_bytes q f = field_bytes p f @ junk f"
  shows "GetDhcpOption_loop q code f over i = GetDhcpOption_loop p code f over i"
  using assms
proof (induction p code f over i rule: GetDhcpOption_loop.induct)
  case (1 p code f over i)
  note IH = "1.IH" [OF refl refl refl]
  let ?xs = "field_bytes p f" and ?m = "field_max f"
  note app = CheckOptionsData_append [OF length_field_bytes [OF "1.prems"(1)], where junk = "junk f"]
  note q = GetDhcpOption_loop.simps [of q code f over i] and p = GetDhcpOption_loop.simps [of p code f over i]
  show ?case
  proof (cases "CheckOptionsData ?xs code i ?m = DHCP_OPT_FAILED")
    case True
    then show ?thesis by (simp add: p q Let_def "1.prems"(2) app(1))
  next
    case False
    note same = app(2) [OF False]
    show ?thesis
    proof (cases "CheckOptionsData ?xs code i ?m = DHCP_OPT_SUCCESS")
      case True
      then show ?thesis using same by (simp add: p q Let_def "1.prems"(2) app(1))
    next
      case nf: False
      note IH = IH [OF nf False]
      consider "?xs ! i = PAD_OPTION" | "?xs ! i = OPTION_OVERLOAD_OPTION" | "?xs ! i = END_OPTION"
        | "?xs ! i \<noteq> PAD_OPTION" "?xs ! i \<noteq> OPTION_OVERLOAD_OPTION" "?xs ! i \<noteq> END_OPTION"
        by blast
      then show ?thesis
        using same IH "1.prems"
        by cases (simp_all add: p q Let_def app(1) nf False split: option.splits)
    qed
  qed
qed

section \<open>The lookup finds the first option\<close>

text \<open>The text behind the last option: an end option, or only padding up to the end of the field (a reply of the
  server of this repository).\<close>

definition end_tail :: "bytes \<Rightarrow> bool" where
  "end_tail tail \<longleftrightarrow> tail \<noteq> [] \<and> (hd tail = END_OPTION \<or> set tail = {PAD_OPTION})"

lemma GetDhcpOption_loop_tail:
  assumes "dp_options p = pre @ tail" "length (dp_options p) = DHCP_OPT_SIZE" "end_tail tail"
    and "code \<noteq> PAD_OPTION" "code \<noteq> END_OPTION"
  shows "GetDhcpOption_loop p code OPTION_FIELD 0 (length pre) = None"
  using assms
proof (induction tail arbitrary: pre)
  case Nil
  then show ?case by (simp add: end_tail_def)
next
  case (Cons b tail)
  note unfold = GetDhcpOption_loop.simps [of p code OPTION_FIELD 0 "length pre"]
  have b: "field_bytes p OPTION_FIELD ! length pre = b" "length pre + length tail = 1779"
    using Cons.prems(1,2) by (simp_all add: field_bytes_def)
  show ?case
  proof (cases "b = END_OPTION \<or> length pre \<ge> 1778")
    case True
    then show ?thesis
      using b Cons.prems(4,5) by (auto simp: unfold CheckOptionsData_def field_max_def next_field_def Let_def)
  next
    case False
    then have pad: "b = PAD_OPTION" "end_tail tail"
      using Cons.prems(3) b(2) by (cases tail; auto simp: end_tail_def)+
    have "GetDhcpOption_loop p code OPTION_FIELD 0 (length (pre @ [b])) = None"
      using Cons.prems pad by (intro Cons.IH) auto
    then show ?thesis
      using b pad(1) Cons.prems(4,5) by (auto simp: unfold CheckOptionsData_def field_max_def Let_def)
  qed
qed

definition no_overload :: "(u8 \<times> bytes) list \<Rightarrow> bool" where
  "no_overload os \<longleftrightarrow> OPTION_OVERLOAD_OPTION \<notin> fst ` set os"

lemma GetDhcpOption_loop_area:
  assumes "dp_options p = pre @ area os @ tail" "length (dp_options p) = DHCP_OPT_SIZE" "end_tail tail"
    and "list_all copt_ok os" "no_overload os" "code \<noteq> PAD_OPTION" "code \<noteq> END_OPTION"
  shows "map_option (option_bytes p) (GetDhcpOption_loop p code OPTION_FIELD 0 (length pre)) = map_of os code"
  using assms
proof (induction os arbitrary: pre)
  case Nil
  then show ?case using GetDhcpOption_loop_tail [of p pre tail code] by simp
next
  case (Cons x os)
  let ?xs = "field_bytes p OPTION_FIELD" and ?n = "length (snd x)"
  have x: "copt_ok x" "fst x \<noteq> PAD_OPTION" "fst x \<noteq> END_OPTION" "fst x \<noteq> OPTION_OVERLOAD_OPTION"
    and os: "list_all copt_ok os" "no_overload os"
    using Cons.prems(4,5) by (auto simp: copt_ok_def [of x] no_overload_def)
  have xs: "?xs = pre @ optw x @ area os @ tail" using Cons.prems(1) by (simp add: field_bytes_def)
  note nth = optw_nth [OF x(1) refl, of pre "area os @ tail"]
  have fit: "length pre + 2 + ?n < 1780"
    using Cons.prems(1-3) arg_cong [OF xs, of length] by (cases tail) (auto simp: end_tail_def)
  note unfold = GetDhcpOption_loop.simps [of p code OPTION_FIELD 0 "length pre"]
  show ?case
  proof (cases "fst x = code")
    case True
    with fit nth have "GetDhcpOption_loop p code OPTION_FIELD 0 (length pre) = Some (OPTION_FIELD, length pre + 2, ?n)"
      by (simp add: unfold CheckOptionsData_def field_max_def xs)
    moreover have "option_bytes p (OPTION_FIELD, length pre + 2, ?n) = snd x"
      using nth(5) by (simp add: option_bytes_def xs)
    ultimately show ?thesis using True by (cases x) simp
  next
    case False
    with fit nth x have "GetDhcpOption_loop p code OPTION_FIELD 0 (length pre) =
      GetDhcpOption_loop p code OPTION_FIELD 0 (length (pre @ optw x))"
      by (simp add: unfold CheckOptionsData_def field_max_def xs Let_def add.assoc)
    also have "map_option (option_bytes p) \<dots> = map_of os code"
      using Cons.prems os by (intro Cons.IH) simp_all
    finally show ?thesis using False by (cases x) auto
  qed
qed

lemma GetDhcpOption_area:
  assumes "dp_options p = area os @ tail" "packet_wf p" "end_tail tail"
    and "list_all copt_ok os" "no_overload os" "code \<notin> {PAD_OPTION, END_OPTION}"
  shows "map_option (option_bytes p) (GetDhcpOption p code) = map_of os code"
  using GetDhcpOption_loop_area [of p "[]" os tail code] assms by (simp add: GetDhcpOption_def packet_wf_def)

text \<open>The pointer of a found option and the data behind it.\<close>

lemma GetDhcpOption_some:
  assumes "packet_wf p" "GetDhcpOption p code = Some (f, off, len)"
  shows "len = length (option_bytes p (f, off, len))" "off < length (field_bytes p f)"
    "off + len \<le> length (field_bytes p f)" "len < 256"
    "k \<le> len \<Longrightarrow> take k (drop off (field_bytes p f)) = take k (option_bytes p (f, off, len))"
    "0 < len \<Longrightarrow> field_bytes p f ! off = hd (option_bytes p (f, off, len))"
proof -
  have at: "option_at p code (f, off, len)"
    using assms(2) unfolding GetDhcpOption_def by (rule GetDhcpOption_loop_at)
  then have *: "off < length (field_bytes p f)" "off + len \<le> length (field_bytes p f)"
    by (simp_all add: option_at_def length_field_bytes assms(1))
  then show "off < length (field_bytes p f)" "off + len \<le> length (field_bytes p f)"
    "len = length (option_bytes p (f, off, len))" by (simp_all add: option_bytes_def)
  show "len < 256" using at unat_u8_less by (auto simp: option_at_def)
  show "k \<le> len \<Longrightarrow> take k (drop off (field_bytes p f)) = take k (option_bytes p (f, off, len))"
    by (simp add: option_bytes_def min_def)
  show "0 < len \<Longrightarrow> field_bytes p f ! off = hd (option_bytes p (f, off, len))"
    using * by (simp add: option_bytes_def hd_conv_nth)
qed

text \<open>The readers in terms of the list of options.\<close>

lemma GetDhcpOptionUint8_area:
  assumes "packet_wf p" "map_option (option_bytes p) (GetDhcpOption p code) = opt"
  shows "GetDhcpOptionUint8 p code v =
    (case opt of None \<Rightarrow> (False, v) | Some d \<Rightarrow> if d = [] then (False, v) else (True, hd d))"
proof (cases "GetDhcpOption p code")
  case (Some r)
  obtain f off len where "r = (f, off, len)" by (cases r)
  with Some GetDhcpOption_some [OF assms(1), of code f off len] assms(2) show ?thesis
    by (auto simp: GetDhcpOptionUint8_def)
qed (use assms(2) in \<open>auto simp: GetDhcpOptionUint8_def\<close>)

definition be32 :: "bytes \<Rightarrow> u32" where
  "be32 d = ntohl (u32_of_bytes (take 4 d))"

lemma GetDhcpOptionUint32_area:
  assumes "packet_wf p" "map_option (option_bytes p) (GetDhcpOption p code) = opt"
  shows "GetDhcpOptionUint32 p code 0 =
    (case opt of None \<Rightarrow> (False, 0) | Some d \<Rightarrow> if length d < 4 then (False, 0) else (True, be32 d))"
proof (cases "GetDhcpOption p code")
  case (Some r)
  obtain f off len where r: "r = (f, off, len)" by (cases r)
  note props = GetDhcpOption_some [OF assms(1) Some [unfolded r]]
  show ?thesis
  proof (cases "len < 4")
    case True
    then show ?thesis using Some r assms(2) props(1) by (auto simp: GetDhcpOptionUint32_def)
  next
    case False
    then have "take 4 (drop off (field_bytes p f)) = take 4 (option_bytes p (f, off, len))"
      by (intro props(5)) simp
    with False show ?thesis
      using Some r assms(2) props(1) by (auto simp: GetDhcpOptionUint32_def be32_def Let_def simp flip: word_neq_0_conv)
  qed
qed (use assms(2) in \<open>auto simp: GetDhcpOptionUint32_def\<close>)

section \<open>Properties\<close>

text \<open>C24: The lookup of an option in a received packet ends, does not depend on any byte behind the three arrays
  it walks through, and the pointer and length it returns name data inside the array, right behind the
  code that was asked for and the length byte.\<close>

theorem GetDhcpOption_safe:
  assumes "packet_wf p" "\<And>f. field_bytes q f = field_bytes p f @ junk f"
  shows "GetDhcpOption q code = GetDhcpOption p code
    \<and> (\<forall>f off len. GetDhcpOption p code = Some (f, off, len) \<longrightarrow>
         2 \<le> off \<and> off + len \<le> length (field_bytes p f) \<and> field_bytes p f ! (off - 2) = code
         \<and> unat (field_bytes p f ! (off - 1)) = len)"
proof (intro conjI allI impI)
  show "GetDhcpOption q code = GetDhcpOption p code"
    unfolding GetDhcpOption_def by (rule GetDhcpOption_loop_append [OF assms])
qed (use GetDhcpOption_loop_at in \<open>fastforce simp: GetDhcpOption_def option_at_def length_field_bytes assms(1)\<close>)+

definition sample_reply :: "bytes \<Rightarrow> DhcpPacket" where
  "sample_reply opts = zero_packet\<lparr>dp_options := opts @ replicate (DHCP_OPT_SIZE - length opts) 0\<rparr>"

lemma packet_wf_sample_reply: "length opts \<le> DHCP_OPT_SIZE \<Longrightarrow> packet_wf (sample_reply opts)"
  by (simp add: sample_reply_def packet_wf_def zero_packet_def)

theorem GetDhcpOption_safe_witness:
  "GetDhcpOption (sample_reply [51, 4, 0, 0, 14, 16, 255]) IP_ADDRESS_LEASE_TIME_OPTION = Some (OPTION_FIELD, 2, 4)"
proof -
  let ?p = "sample_reply [51, 4, 0, 0, 14, 16, 255]"
  have "GetDhcpOption ?p IP_ADDRESS_LEASE_TIME_OPTION = Some (OPTION_FIELD, 2, 4)"
    by (simp add: GetDhcpOption_def GetDhcpOption_loop.simps CheckOptionsData_def field_bytes_def field_max_def
        sample_reply_def)
  with GetDhcpOption_safe [OF packet_wf_sample_reply, of "[51, 4, 0, 0, 14, 16, 255]" ?p "\<lambda>f. []"
      IP_ADDRESS_LEASE_TIME_OPTION]
  show ?thesis by simp
qed

text \<open>C25: Writing and reading options fit together: on an option field with a list of options and an end option, the
  append writes exactly the new option in front of a new end option, and afterwards the lookup returns for
  every code the data of the first option of that code in the extended list, and nothing for a code that is
  not in it.\<close>

theorem option_field_round_trip:
  assumes "packet_wf p" "dp_options p = area os @ END_OPTION # rest"
    and "list_all copt_ok (os @ [(c, d)])" "no_overload (os @ [(c, d)])"
    and "length (area os) + length d + 3 < DHCP_OPT_SIZE"
  shows "\<exists>opts. AddOptStrToOpts (dp_options p) (c # of_nat (length d) # d) (2 + length d) = Some (2 + length d, opts)
    \<and> opts = area (os @ [(c, d)]) @ END_OPTION # drop (2 + length d) rest
    \<and> (\<forall>code. code \<notin> {PAD_OPTION, END_OPTION} \<longrightarrow>
         map_option (option_bytes (p\<lparr>dp_options := opts\<rparr>)) (GetDhcpOption (p\<lparr>dp_options := opts\<rparr>) code)
           = map_of (os @ [(c, d)]) code)"
proof -
  let ?opts = "area (os @ [(c, d)]) @ END_OPTION # drop (2 + length d) rest"
  have len: "length (area os) + 1 + length rest = 1780"
    using assms(1) arg_cong [OF assms(2), of length] by (simp add: packet_wf_def)
  have add: "AddOptStrToOpts (dp_options p) (c # of_nat (length d) # d) (2 + length d) = Some (2 + length d, ?opts)"
    using AddOptStrToOpts_area [of os c d rest "2 + length d" "[]"] assms len by simp
  have "length ?opts = 1780" using len assms(5) by simp
  then have wf: "packet_wf (p\<lparr>dp_options := ?opts\<rparr>)" using assms(1) by (simp add: packet_wf_def)
  have tail: "end_tail (END_OPTION # drop (2 + length d) rest)" by (simp add: end_tail_def)
  show ?thesis
    by (intro exI [of _ ?opts] conjI allI impI refl add GetDhcpOption_area [OF _ wf tail assms(3,4)]) simp_all
qed

theorem option_field_round_trip_witness:
  "\<exists>opts. AddOptStrToOpts (dp_options (sample_reply [53, 1, 1, 255])) [50, 4, 192, 168, 43, 4] 6 = Some (6, opts)
    \<and> map_option (option_bytes (sample_reply [53, 1, 1, 255]\<lparr>dp_options := opts\<rparr>))
        (GetDhcpOption (sample_reply [53, 1, 1, 255]\<lparr>dp_options := opts\<rparr>) 50) = Some [192, 168, 43, 4]"
proof -
  let ?p = "sample_reply [53, 1, 1, 255]"
  have p: "dp_options ?p = area [(53, [1])] @ END_OPTION # replicate 1776 0"
    "list_all copt_ok ([(53, [1])] @ [(50, [192, 168, 43, 4])])" "no_overload ([(53, [1])] @ [(50, [192, 168, 43, 4])])"
    by (simp_all add: sample_reply_def optw_def copt_ok_def no_overload_def)
  have "packet_wf ?p" by (simp add: packet_wf_sample_reply)
  from option_field_round_trip [OF this p] obtain opts
    where "AddOptStrToOpts (dp_options ?p) [50, 4, 192, 168, 43, 4] 6 = Some (6, opts)"
    and look: "\<forall>code. code \<notin> {PAD_OPTION, END_OPTION} \<longrightarrow>
         map_option (option_bytes (?p\<lparr>dp_options := opts\<rparr>)) (GetDhcpOption (?p\<lparr>dp_options := opts\<rparr>) code)
           = map_of ([(53, [1])] @ [(50, [192, 168, 43, 4])]) code"
    by (auto simp: optw_def)
  moreover have "map_option (option_bytes (?p\<lparr>dp_options := opts\<rparr>)) (GetDhcpOption (?p\<lparr>dp_options := opts\<rparr>) 50)
      = Some [192, 168, 43, 4]"
    using look [rule_format, of 50] by simp
  ultimately show ?thesis by blast
qed

text \<open>A reply whose overload option is not the first option and whose first option is not one byte long is
  misread: the index moves by the length of the first option, so that the options behind the overload option
  are skipped. Here the message type is there and is not found.\<close>

theorem overload_skips_options:
  "GetDhcpOption (sample_reply [54, 4, 192, 168, 0, 1, 52, 1, 1, 53, 1, 5, 255]\<lparr>dp_file := 255 # replicate 127 0\<rparr>)
     DHCP_MESSAGE_TYPE_OPTION = None
   \<and> GetDhcpOption (sample_reply [52, 1, 1, 54, 4, 192, 168, 0, 1, 53, 1, 5, 255]\<lparr>dp_file := 255 # replicate 127 0\<rparr>)
     DHCP_MESSAGE_TYPE_OPTION = Some (OPTION_FIELD, 11, 1)"
  by (simp add: GetDhcpOption_def GetDhcpOption_loop.simps CheckOptionsData_def CheckOptSoverloaded_def
      field_bytes_def field_max_def next_field_def sample_reply_def)

end
