(* ===== verification/DhcpResultStore.thy ===== *)
theory DhcpResultStore
  imports DhcpAddressPool
begin

text \<open>
  The cache of obtained addresses (\<^verbatim>\<open>dhcp_client/src/dhcp_result_store_manager.cpp\<close>): one entry per access point, kept
  in a text file between runs. \<open>rs_all\<close> is the vector \<^verbatim>\<open>m_allIpCached\<close>, \<open>rs_fs\<close> the file system. A character array is the C string in it. The theory proves the
  round trip through the file and states what the code loses on the way.
\<close>

section \<open>Data\<close>

record DhcpIpResult =
  ir_code :: int
  ir_ifname :: string
  ir_uAddTime :: u32
  ir_uOptLeasetime :: u32
  ir_strYiaddr :: string
  ir_strOptServerId :: string
  ir_strOptSubnet :: string
  ir_strOptDns1 :: string
  ir_strOptDns2 :: string
  ir_strOptRouter1 :: string
  ir_strOptRouter2 :: string
  ir_strOptVendor :: string
  ir_dnsAddr :: "string list"

record IpInfoCached =
  ic_bssid :: string
  ic_ssid :: string
  ic_absoluteLeasetime :: int
  ic_ipResult :: DhcpIpResult

record DhcpResultStoreManager =
  rs_all :: "IpInfoCached list"
  rs_fileName :: string
  rs_fs :: Files

abbreviation (input) INET_ADDRSTRLEN :: nat where "INET_ADDRSTRLEN \<equiv> 16"
abbreviation (input) MAX_DHCP_CACHE :: nat where "MAX_DHCP_CACHE \<equiv> 50"

definition DHCP_CACHE_FILE :: string where
  "DHCP_CACHE_FILE = ''/data/service/el1/public/dhcp/dhcp_cache.conf''"

section \<open>One entry as text\<close>

definition trim_char :: "char \<Rightarrow> bool" where
  "trim_char c \<longleftrightarrow> c = CHR '' '' \<or> c = CHR 0x0A"

definition TrimStoreString :: "string \<Rightarrow> string" where
  "TrimStoreString str = rev (dropWhile trim_char (rev (dropWhile trim_char str)))"

text \<open>\<^verbatim>\<open>strcpy_s\<close> into an array of \<open>destMax\<close> characters: a string that does not fit leaves the empty string.\<close>

definition strcpy_s :: "nat \<Rightarrow> string \<Rightarrow> bool \<times> string" where
  "strcpy_s destMax src = (if length src < destMax then (True, src) else (False, []))"

definition set_result :: "(DhcpIpResult \<Rightarrow> DhcpIpResult) \<Rightarrow> IpInfoCached \<Rightarrow> IpInfoCached" where
  "set_result f item = item\<lparr>ic_ipResult := f (ic_ipResult item)\<rparr>"

definition SetClassKeyValue :: "IpInfoCached \<Rightarrow> string \<Rightarrow> string \<Rightarrow> nat \<times> IpInfoCached" where
  "SetClassKeyValue item key value =
     (let (ok, str) = strcpy_s INET_ADDRSTRLEN value; err = (if ok then 0 else 1 :: nat) in
      if key = ''bssid'' then (0, item\<lparr>ic_bssid := value\<rparr>)
      else if key = ''ssid'' then (0, item\<lparr>ic_ssid := value\<rparr>)
      else if key = ''absoluteLeasetime'' then (0, item\<lparr>ic_absoluteLeasetime := CheckDataLegal value\<rparr>)
      else if key = ''strYiaddr'' then (err, set_result (ir_strYiaddr_update (\<lambda>_. str)) item)
      else if key = ''strOptServerId'' then (err, set_result (ir_strOptServerId_update (\<lambda>_. str)) item)
      else if key = ''strOptSubnet'' then (err, set_result (ir_strOptSubnet_update (\<lambda>_. str)) item)
      else if key = ''strOptDns1'' then (err, set_result (ir_strOptDns1_update (\<lambda>_. str)) item)
      else if key = ''strOptDns2'' then (err, set_result (ir_strOptDns2_update (\<lambda>_. str)) item)
      else if key = ''strOptRouter1'' then (err, set_result (ir_strOptRouter1_update (\<lambda>_. str)) item)
      else if key = ''strOptRouter2'' then (err, set_result (ir_strOptRouter2_update (\<lambda>_. str)) item)
      else if key = ''uOptLeasetime''
        then (0, set_result (ir_uOptLeasetime_update (\<lambda>_. word_of_int (CheckDataLegal value))) item)
      else (1, item))"

definition entry_lines :: "IpInfoCached \<Rightarrow> (string \<times> string) list" where
  "entry_lines item = (let r = ic_ipResult item in
     [(''bssid'', ic_bssid item), (''ssid'', ic_ssid item),
      (''absoluteLeasetime'', dec_of_int (ic_absoluteLeasetime item)),
      (''strYiaddr'', ir_strYiaddr r), (''strOptServerId'', ir_strOptServerId r), (''strOptSubnet'', ir_strOptSubnet r),
      (''strOptDns1'', ir_strOptDns1 r), (''strOptDns2'', ir_strOptDns2 r), (''strOptRouter1'', ir_strOptRouter1 r),
      (''strOptRouter2'', ir_strOptRouter2 r), (''uOptLeasetime'', dec_of_nat (unat (ir_uOptLeasetime r)))])"

definition OutClassString :: "IpInfoCached \<Rightarrow> string" where
  "OutClassString item =
     ''    <IpInfoCached>'' @ [CHR 0x0A] @
     concat (map (\<lambda>(k, v). ''    '' @ k @ ''='' @ v @ [CHR 0x0A]) (entry_lines item)) @
     ''    <IpInfoCached>'' @ [CHR 0x0A]"

definition ClearClass :: "IpInfoCached \<Rightarrow> IpInfoCached" where
  "ClearClass item = set_result (ir_uOptLeasetime_update (\<lambda>_. 0)) (item\<lparr>ic_bssid := [], ic_absoluteLeasetime := 0\<rparr>)"

text \<open>\<open>now\<close> is the result of \<^verbatim>\<open>time(nullptr)\<close>. \<^verbatim>\<open>std::sort\<close> may order entries of equal time in any way; the model keeps
  their order.\<close>

definition EnforceMaxCache :: "int \<Rightarrow> IpInfoCached list \<Rightarrow> IpInfoCached list" where
  "EnforceMaxCache now cache =
     (if now = -1 then cache
      else
        let cache = filter (\<lambda>x. \<not> (ic_absoluteLeasetime x > 0 \<and> ic_absoluteLeasetime x < now)) cache in
        if length cache \<le> MAX_DHCP_CACHE then cache
        else drop (length cache - MAX_DHCP_CACHE) (sort_key ic_absoluteLeasetime cache))"

section \<open>Reading the file\<close>

definition is_section_line :: "string \<Rightarrow> bool" where
  "is_section_line l \<longleftrightarrow> l \<noteq> [] \<and> hd l = CHR ''<'' \<and> last l = CHR ''>''"

text \<open>The readers take the lines that \<^verbatim>\<open>fgets\<close> still has to give and return the number of errors, the entry and the
  lines left.\<close>

fun ReadNetworkSection :: "IpInfoCached \<Rightarrow> nat \<Rightarrow> string list \<Rightarrow> nat \<times> IpInfoCached \<times> string list" where
  "ReadNetworkSection item err [] = (err + 1, item, [])"
| "ReadNetworkSection item err (l # fp) =
     (let strLine = TrimStoreString l in
      if strLine = [] then ReadNetworkSection item err fp
      else if is_section_line strLine then (err, item, fp)
      else case split_at (CHR ''='') strLine of
        (_, None) \<Rightarrow> ReadNetworkSection item (err + 1) fp
      | (key, Some value) \<Rightarrow>
          let (e, item) = SetClassKeyValue item (TrimStoreString key) (TrimStoreString value)
          in ReadNetworkSection item (err + e) fp)"

lemma ReadNetworkSection_shorter: "ReadNetworkSection item err fp = (e, item', fp') \<Longrightarrow> length fp' \<le> length fp"
  by (induction fp arbitrary: item err)
    (auto simp: Let_def split: if_splits option.splits prod.splits intro: le_SucI)

function ReadNetwork :: "IpInfoCached \<Rightarrow> nat \<Rightarrow> string list \<Rightarrow> nat \<times> IpInfoCached \<times> string list" where
  "ReadNetwork item err [] = (err + 1, item, [])"
| "ReadNetwork item err (l # fp) =
     (let strLine = TrimStoreString l in
      if strLine = [] then ReadNetwork item err fp
      else if is_section_line strLine then
        (case ReadNetworkSection item 0 fp of (e, item, fp) \<Rightarrow> ReadNetwork item (err + e) fp)
      else if strLine = ''}'' then (err, item, fp)
      else ReadNetwork item (err + 1) fp)"
  by pat_completeness auto
termination
  by (relation "measure (\<lambda>(item, err, fp). length fp)")
    (auto simp: less_Suc_eq_le dest!: sym [of "(_, _, _)"] ReadNetworkSection_shorter)

lemma ReadNetwork_shorter: "ReadNetwork item err fp = (e, item', fp') \<Longrightarrow> length fp' \<le> length fp"
proof (induction fp arbitrary: item err rule: length_induct)
  case (1 fp)
  show ?case
  proof (cases fp)
    case (Cons l ls)
    obtain e1 item1 fp1 where s: "ReadNetworkSection item 0 ls = (e1, item1, fp1)" by (metis prod_cases3)
    then have le: "length fp1 \<le> length ls" by (rule ReadNetworkSection_shorter)
    have IH: "ReadNetwork item err xs = (e, item', fp') \<Longrightarrow> length xs \<le> length ls \<Longrightarrow> length fp' \<le> Suc (length ls)"
      for item err xs
    proof -
      assume r: "ReadNetwork item err xs = (e, item', fp')" and len: "length xs \<le> length ls"
      from len have "length xs < length fp" using Cons by simp
      with 1(1) r have "length fp' \<le> length xs" by blast
      with len show ?thesis by simp
    qed
    from 1(2) le s show ?thesis
      by (auto simp: Cons Let_def split: if_splits dest: IH)
  qed (use 1(2) in auto)
qed

text \<open>The loop of \<^verbatim>\<open>LoadAllIpCached\<close>: \<open>item\<close> is one variable for all entries, so that a field that an entry does not set keeps
  the value of the entry before.\<close>

function LoadAll_loop :: "IpInfoCached \<Rightarrow> IpInfoCached list \<Rightarrow> string list \<Rightarrow> IpInfoCached list" where
  "LoadAll_loop item acc [] = acc"
| "LoadAll_loop item acc (l # fp) =
     (let strLine = TrimStoreString l in
      if strLine = [] then LoadAll_loop item acc fp
      else if hd strLine = CHR ''['' \<and> last strLine = CHR ''{'' then
        (case ReadNetwork (ClearClass item) 0 fp of
           (e, item, fp) \<Rightarrow> LoadAll_loop item (if e > 0 then acc else acc @ [item]) fp)
      else LoadAll_loop item acc fp)"
  by pat_completeness auto
termination
  by (relation "measure (\<lambda>(item, acc, fp). length fp)")
    (auto simp: less_Suc_eq_le dest!: sym [of "(_, _, _)"] ReadNetwork_shorter)

text \<open>\<open>item0\<close> is the value of the local variable before the first entry: its character arrays are not initialised.\<close>

definition LoadAllIpCached :: "IpInfoCached \<Rightarrow> int \<Rightarrow> string \<Rightarrow> DhcpResultStoreManager \<Rightarrow> int \<times> DhcpResultStoreManager" where
  "LoadAllIpCached item0 now fileName s =
     (let s = s\<lparr>rs_fileName := fileName\<rparr> in
      if rs_fileName s = [] then (-1, s)
      else if \<not> fs_realpath (rs_fs s) (rs_fileName s) then (-1, s)
      else case fs_content (rs_fs s) (rs_fileName s) of
        None \<Rightarrow> (-1, s)
      | Some content \<Rightarrow> (0, s\<lparr>rs_all := EnforceMaxCache now (LoadAll_loop item0 [] (fgets_lines 1024 content))\<rparr>))"

section \<open>Writing the file\<close>

definition config_content :: "IpInfoCached list \<Rightarrow> string" where
  "config_content all = concat (map (\<lambda>(i, item).
     ''[IpInfoCached_'' @ dec_of_nat (i + 1) @ ''] {'' @ [CHR 0x0A] @ OutClassString item @ [CHR 0x0A] @ ''}'' @ [CHR 0x0A])
     (enumerate 0 all))"

definition SaveConfig :: "DhcpResultStoreManager \<Rightarrow> int \<times> DhcpResultStoreManager" where
  "SaveConfig s =
     (if \<not> IsValidPath (rs_fs s) (rs_fileName s) then (-1, s)
      else if \<not> fs_writable (rs_fs s) (rs_fileName s) then (-1, s)
      else (0, s\<lparr>rs_fs := (rs_fs s)\<lparr>fs_content := (fs_content (rs_fs s))(rs_fileName s \<mapsto> config_content (rs_all s))\<rparr>,
                 rs_all := []\<rparr>))"

section \<open>The operations\<close>

fun erase_bssid :: "string \<Rightarrow> IpInfoCached list \<Rightarrow> IpInfoCached list" where
  "erase_bssid b [] = []"
| "erase_bssid b (x # xs) = (if b = ic_bssid x then xs else x # erase_bssid b xs)"

definition SaveIpInfoInLocalFile ::
  "int \<Rightarrow> IpInfoCached \<Rightarrow> DhcpResultStoreManager \<Rightarrow> int \<times> DhcpResultStoreManager" where
  "SaveIpInfoInLocalFile now ipResult s =
     SaveConfig (s\<lparr>rs_all := EnforceMaxCache now (erase_bssid (ic_bssid ipResult) (rs_all s) @ [ipResult])\<rparr>)"

abbreviation (input) DHCP_E_FAILED :: int where "DHCP_E_FAILED \<equiv> 1"

definition RemoveCachedIp ::
  "IpInfoCached \<Rightarrow> int \<Rightarrow> IpInfoCached \<Rightarrow> DhcpResultStoreManager \<Rightarrow> int \<times> DhcpResultStoreManager" where
  "RemoveCachedIp item0 now cacheInfo s =
     (let s = snd (LoadAllIpCached item0 now DHCP_CACHE_FILE s) in
      if ic_ssid cacheInfo = [] then (DHCP_E_FAILED, s)
      else if rs_all s = [] then (DHCP_E_FAILED, s)
      else SaveConfig (s\<lparr>rs_all := filter (\<lambda>x. ic_ssid x \<noteq> ic_ssid cacheInfo) (rs_all s)\<rparr>))"

fun set_ssid :: "string \<Rightarrow> string \<Rightarrow> IpInfoCached list \<Rightarrow> IpInfoCached list" where
  "set_ssid b ssid [] = []"
| "set_ssid b ssid (x # xs) = (if b = ic_bssid x then x\<lparr>ic_ssid := ssid\<rparr> # xs else x # set_ssid b ssid xs)"

definition AddCachedIp ::
  "IpInfoCached \<Rightarrow> int \<Rightarrow> IpInfoCached \<Rightarrow> DhcpResultStoreManager \<Rightarrow> int \<times> DhcpResultStoreManager" where
  "AddCachedIp item0 now cacheInfo s =
     (let s = snd (LoadAllIpCached item0 now DHCP_CACHE_FILE s) in
      if rs_all s = [] then (DHCP_E_FAILED, s)
      else if ic_ssid cacheInfo = [] \<or> length (ic_bssid cacheInfo) \<noteq> 17 then (DHCP_E_FAILED, s)
      else SaveConfig (s\<lparr>rs_all := set_ssid (ic_bssid cacheInfo) (ic_ssid cacheInfo) (rs_all s)\<rparr>))"

definition GetCachedIp ::
  "IpInfoCached \<Rightarrow> int \<Rightarrow> string \<Rightarrow> DhcpResultStoreManager \<Rightarrow> IpInfoCached option \<times> DhcpResultStoreManager" where
  "GetCachedIp item0 now targetBssid s =
     (let s = snd (LoadAllIpCached item0 now DHCP_CACHE_FILE s)
      in (List.find (\<lambda>x. targetBssid = ic_bssid x) (rs_all s), s))"

section \<open>Lemmas on the file\<close>

definition clean_text :: "string \<Rightarrow> bool" where
  "clean_text v \<longleftrightarrow> CHR 0x0A \<notin> set v \<and> (v = [] \<or> \<not> trim_char (hd v) \<and> \<not> trim_char (last v))"

lemma trim_char_chars [simp]: "trim_char CHR '' ''" "trim_char CHR 0x0A" "\<not> trim_char CHR ''=''"
  by (simp_all add: trim_char_def)

lemma TrimStoreString_clean:
  assumes "clean_text v" "list_all trim_char pre" "list_all trim_char post"
  shows "TrimStoreString (pre @ v @ post) = v"
proof (cases "v = []")
  case True
  then have "dropWhile trim_char (pre @ v @ post) = []"
    using assms(2,3) unfolding dropWhile_eq_Nil_conv list_all_iff by simp blast
  then show ?thesis unfolding TrimStoreString_def by (simp only: True rev.simps dropWhile.simps)
next
  case False
  have pre: "dropWhile trim_char (pre @ v @ post) = v @ post"
    using assms(1,2) False by (cases v) (auto simp: clean_text_def dropWhile_append list_all_iff)
  have "dropWhile trim_char (rev (v @ post)) = rev v"
    using assms False by (cases v rule: rev_cases)
      (auto simp: clean_text_def dropWhile_append list_all_iff dropWhile_eq_Nil_conv)
  then show ?thesis by (simp add: TrimStoreString_def pre)
qed

lemma TrimStoreString_id: "clean_text v \<Longrightarrow> TrimStoreString v = v"
  using TrimStoreString_clean [of v "[]" "[]"] by simp

definition plain_name :: "string \<Rightarrow> bool" where
  "plain_name k \<longleftrightarrow> k \<noteq> [] \<and> clean_text k \<and> CHR ''='' \<notin> set k \<and> hd k \<noteq> CHR ''<''"

lemma ReadNetworkSection_line:
  assumes "plain_name k" "clean_text v" "SetClassKeyValue item k v = (0, item')"
  shows "ReadNetworkSection item err ((''    '' @ k @ ''='' @ v @ [CHR 0x0A]) # fp) = ReadNetworkSection item' err fp"
proof -
  have k: "clean_text k" "CHR ''='' \<notin> set k" "k \<noteq> []" "hd k \<noteq> CHR ''<''" using assms(1) by (simp_all add: plain_name_def)
  have "clean_text (k @ ''='' @ v)"
    using k(1,3) assms(2) by (auto simp: clean_text_def)
  then have trim: "TrimStoreString (''    '' @ (k @ ''='' @ v) @ [CHR 0x0A]) = k @ ''='' @ v"
    by (intro TrimStoreString_clean) simp_all
  have "\<not> is_section_line (k @ ''='' @ v)" using k(3,4) by (simp add: is_section_line_def)
  moreover have "split_at CHR ''='' (k @ ''='' @ v) = (k, Some v)"
    using split_at_append [OF k(2), of v] by simp
  ultimately show ?thesis
    using trim assms(3) k(1) assms(2)
    by (simp add: Let_def TrimStoreString_id del: append_Cons append_Nil)
qed

text \<open>The entry that the reader builds: \<open>item\<close> with the fields that the file carries.\<close>

definition restored :: "IpInfoCached \<Rightarrow> IpInfoCached \<Rightarrow> IpInfoCached" where
  "restored item x = (let r = ic_ipResult x in
     item\<lparr>ic_bssid := ic_bssid x, ic_ssid := ic_ssid x, ic_absoluteLeasetime := ic_absoluteLeasetime x,
       ic_ipResult := (ic_ipResult item)\<lparr>ir_uOptLeasetime := ir_uOptLeasetime r, ir_strYiaddr := ir_strYiaddr r,
         ir_strOptServerId := ir_strOptServerId r, ir_strOptSubnet := ir_strOptSubnet r,
         ir_strOptDns1 := ir_strOptDns1 r, ir_strOptDns2 := ir_strOptDns2 r,
         ir_strOptRouter1 := ir_strOptRouter1 r, ir_strOptRouter2 := ir_strOptRouter2 r\<rparr>\<rparr>)"

lemma restored_restored [simp]: "restored (restored item x) y = restored item y"
  by (simp add: restored_def Let_def)

text \<open>The absolute lease time is read as a 32-bit number.\<close>

definition wrap_time :: "IpInfoCached \<Rightarrow> IpInfoCached" where
  "wrap_time x = x\<lparr>ic_absoluteLeasetime := sint (word_of_int (ic_absoluteLeasetime x) :: u32)\<rparr>"

lemma wrap_time_id: "- (2 ^ 31) \<le> ic_absoluteLeasetime x \<Longrightarrow> ic_absoluteLeasetime x < 2 ^ 31 \<Longrightarrow> wrap_time x = x"
  by (simp add: wrap_time_def signed_of_int signed_take_bit_int_eq_self)

text \<open>Entries whose texts survive: no line breaks, no blanks at the ends, addresses that fit their arrays, an
  absolute lease time of 64 bits.\<close>

definition savable :: "IpInfoCached \<Rightarrow> bool" where
  "savable x \<longleftrightarrow> (let r = ic_ipResult x in
     list_all clean_text [ic_bssid x, ic_ssid x] \<and> length (ic_bssid x) < 1000 \<and> length (ic_ssid x) < 1000
     \<and> list_all (\<lambda>v. clean_text v \<and> length v < INET_ADDRSTRLEN) [ir_strYiaddr r, ir_strOptServerId r, ir_strOptSubnet r,
         ir_strOptDns1 r, ir_strOptDns2 r, ir_strOptRouter1 r, ir_strOptRouter2 r]
     \<and> - (2 ^ 63) \<le> ic_absoluteLeasetime x \<and> ic_absoluteLeasetime x < 2 ^ 63)"

lemma plain_names:
  "plain_name ''bssid''" "plain_name ''ssid''" "plain_name ''absoluteLeasetime''" "plain_name ''strYiaddr''"
  "plain_name ''strOptServerId''" "plain_name ''strOptSubnet''" "plain_name ''strOptDns1''" "plain_name ''strOptDns2''"
  "plain_name ''strOptRouter1''" "plain_name ''strOptRouter2''" "plain_name ''uOptLeasetime''"
  by code_simp+

lemma clean_dec_of_nat: "clean_text (dec_of_nat n)"
proof -
  have "list_all (\<lambda>c. \<not> trim_char c) ''0123456789''" by code_simp
  then have "\<forall>c\<in>set (dec_of_nat n). \<not> trim_char c"
    using dec_of_nat_digits [of n] unfolding list_all_iff is_digit_def by blast
  then show ?thesis
    using dec_of_nat_not_Nil [of n] by (auto simp: clean_text_def trim_char_def)
qed

lemma clean_dec_of_int: "clean_text (dec_of_int i)"
proof (cases "i < 0")
  case True
  have "\<not> trim_char CHR ''-''" "CHR ''-'' \<noteq> CHR 0x0A" by (simp_all add: trim_char_def)
  then show ?thesis
    using True clean_dec_of_nat [of "nat (- i)"] dec_of_nat_not_Nil [of "nat (- i)"]
    by (simp add: dec_of_int_def clean_text_def)
qed (simp add: dec_of_int_def clean_dec_of_nat)

lemma CheckDataLegal_trunc:
  assumes "- (2 ^ 63) \<le> i" "i < 2 ^ 63"
  shows "CheckDataLegal (dec_of_int i) = sint (word_of_int i :: u32)"
proof -
  have "strtol (dec_of_int i) = Some i"
    using assms by (simp add: strtol_def strto_dec_dec_of_int)
  then show ?thesis by (simp add: CheckDataLegal_def)
qed

lemma CheckDataLegal_u32 [simp]: "word_of_int (CheckDataLegal (dec_of_nat (unat (w :: u32)))) = w"
proof -
  have "dec_of_nat (unat w) = dec_of_int (uint w)" by (simp add: dec_of_int_def)
  moreover have "uint w < 2 ^ 32" using uint_lt2p [of w] by simp
  ultimately show ?thesis
    using CheckDataLegal_trunc [of "uint w"] uint_ge_0 [of w] by simp
qed

text \<open>The lines of an entry in the file, as \<^verbatim>\<open>fgets\<close> gives them.\<close>

definition header_of :: "nat \<Rightarrow> string" where
  "header_of n = ''[IpInfoCached_'' @ dec_of_nat n @ ''] {''"

definition section_line :: string where
  "section_line = ''    <IpInfoCached>'' @ [CHR 0x0A]"

definition end_line :: string where
  "end_line = ''}'' @ [CHR 0x0A]"

lemma fixed_lines [simp]:
  "TrimStoreString section_line = ''<IpInfoCached>''" "is_section_line ''<IpInfoCached>''"
  "TrimStoreString [CHR 0x0A] = []" "TrimStoreString end_line = ''}''" "\<not> is_section_line ''}''"
  by code_simp+

lemma header_of [simp]:
  "TrimStoreString (header_of n @ [CHR 0x0A]) = header_of n" "header_of n \<noteq> []"
  "hd (header_of n) = CHR ''[''" "last (header_of n) = CHR ''{''"
proof -
  show "header_of n \<noteq> []" "hd (header_of n) = CHR ''[''" "last (header_of n) = CHR ''{''"
    by (simp_all add: header_of_def)
  have "clean_text (header_of n)"
    using clean_dec_of_nat [of n] by (simp add: clean_text_def trim_char_def header_of_def)
  then show "TrimStoreString (header_of n @ [CHR 0x0A]) = header_of n"
    using TrimStoreString_clean [of "header_of n" "[]" "[CHR 0x0A]"] by simp
qed

definition line_of :: "string \<times> string \<Rightarrow> string" where
  "line_of e = ''    '' @ fst e @ ''='' @ snd e @ [CHR 0x0A]"

lemma ReadNetworkSection_lines:
  "list_all (\<lambda>e. plain_name (fst e) \<and> clean_text (snd e) \<and> (\<forall>it. fst (SetClassKeyValue it (fst e) (snd e)) = 0)) kvs \<Longrightarrow>
     ReadNetworkSection item err (map line_of kvs @ fp) =
     ReadNetworkSection (fold (\<lambda>e it. snd (SetClassKeyValue it (fst e) (snd e))) kvs item) err fp"
proof (induction kvs arbitrary: item)
  case (Cons e kvs)
  then have "ReadNetworkSection item err (line_of e # map line_of kvs @ fp) =
      ReadNetworkSection (snd (SetClassKeyValue item (fst e) (snd e))) err (map line_of kvs @ fp)"
    unfolding line_of_def by (intro ReadNetworkSection_line) (auto simp: prod_eq_iff)
  then show ?case using Cons by simp
qed simp

lemma entry_lines_good:
  assumes "savable x"
  shows "list_all (\<lambda>e. plain_name (fst e) \<and> clean_text (snd e) \<and> (\<forall>it. fst (SetClassKeyValue it (fst e) (snd e)) = 0))
    (entry_lines x)"
    "fold (\<lambda>e it. snd (SetClassKeyValue it (fst e) (snd e))) (entry_lines x) (ClearClass item) = restored item (wrap_time x)"
  using assms
  by (simp_all add: entry_lines_def Let_def plain_names savable_def SetClassKeyValue_def strcpy_s_def
      clean_dec_of_nat clean_dec_of_int restored_def ClearClass_def set_result_def CheckDataLegal_trunc wrap_time_def)

lemma ReadNetworkSection_entry:
  assumes "savable x"
  shows "ReadNetworkSection (ClearClass item) 0 (map line_of (entry_lines x) @ section_line # fp) = (0, restored item (wrap_time x), fp)"
  using ReadNetworkSection_lines [OF entry_lines_good(1) [OF assms]]
  by (simp add: entry_lines_good(2) [OF assms])

definition entry_body :: "IpInfoCached \<Rightarrow> string list" where
  "entry_body x = section_line # map line_of (entry_lines x) @ [section_line, [CHR 0x0A], end_line]"

definition entry_block :: "nat \<times> IpInfoCached \<Rightarrow> string list" where
  "entry_block e = (header_of (fst e + 1) @ [CHR 0x0A]) # entry_body (snd e)"

lemma ReadNetwork_entry:
  assumes "savable x"
  shows "ReadNetwork (ClearClass item) 0 (entry_body x @ fp) = (0, restored item (wrap_time x), fp)"
  using ReadNetworkSection_entry [OF assms, of item "[CHR 0x0A] # end_line # fp"]
  by (simp add: entry_body_def)

lemma LoadAll_loop_blocks:
  "list_all savable xs \<Longrightarrow>
     LoadAll_loop item acc (concat (map entry_block (enumerate i xs))) = acc @ map (\<lambda>x. restored item (wrap_time x)) xs"
proof (induction xs arbitrary: item acc i)
  case (Cons x xs)
  let ?rest = "concat (map entry_block (enumerate (Suc i) xs))"
  have "LoadAll_loop item acc (entry_block (i, x) @ ?rest)
      = LoadAll_loop (restored item (wrap_time x)) (acc @ [restored item (wrap_time x)]) ?rest"
    using ReadNetwork_entry [of x item ?rest] Cons.prems by (simp add: entry_block_def)
  also have "\<dots> = acc @ [restored item (wrap_time x)] @ map (\<lambda>x. restored item (wrap_time x)) xs"
    using Cons by (simp add: comp_def)
  finally show ?case by simp
qed simp

definition whole_line :: "nat \<Rightarrow> string \<Rightarrow> bool" where
  "whole_line n l \<longleftrightarrow> l \<noteq> [] \<and> last l = CHR 0x0A \<and> CHR 0x0A \<notin> set (butlast l) \<and> length l < n"

lemma whole_lineI: "CHR 0x0A \<notin> set m \<Longrightarrow> length m + 1 < n \<Longrightarrow> whole_line n (m @ [CHR 0x0A])"
  by (simp add: whole_line_def)

lemma fgets_lines_concat: "list_all (whole_line n) ls \<Longrightarrow> fgets_lines n (concat ls) = ls"
proof (induction ls)
  case Nil
  show ?case by (subst fgets_lines.simps) simp
next
  case (Cons l ls)
  then obtain m where "l = m @ [CHR 0x0A]" "CHR 0x0A \<notin> set m" "length m + 1 < n"
    by (cases l rule: rev_cases) (auto simp: whole_line_def)
  with Cons show ?case by (simp add: fgets_lines_line)
qed

lemma config_content_blocks: "config_content all = concat (concat (map entry_block (enumerate 0 all)))"
proof -
  have "concat (entry_block (i, x)) = ''[IpInfoCached_'' @ dec_of_nat (i + 1) @ ''] {'' @ [CHR 0x0A] @ OutClassString x @ [CHR 0x0A] @ ''}'' @ [CHR 0x0A]"
    for i x
    by (simp add: entry_block_def entry_body_def OutClassString_def header_of_def section_line_def end_line_def
        line_of_def [abs_def] case_prod_unfold)
  then have "concat (entry_block e) = (\<lambda>(i, item). ''[IpInfoCached_'' @ dec_of_nat (i + 1) @ ''] {'' @ [CHR 0x0A]
      @ OutClassString item @ [CHR 0x0A] @ ''}'' @ [CHR 0x0A]) e" for e
    by (cases e) simp
  moreover have "concat (concat xss) = concat (map concat xss)" for xss :: "string list list"
    by (induction xss) simp_all
  ultimately show ?thesis unfolding config_content_def by (simp only: map_map comp_def)
qed

lemma whole_lines_block:
  assumes "savable x" "i < 50"
  shows "list_all (whole_line 1024) (entry_block (i, x))"
proof -
  have digits: "length (dec_of_nat (i + 1)) \<le> 2" using assms(2) by (intro length_dec_of_nat) simp_all
  have nl: "CHR 0x0A \<notin> set (dec_of_nat n)" "CHR 0x0A \<notin> set (dec_of_int j)" for n j
    using clean_dec_of_nat [of n] clean_dec_of_int [of j] by (simp_all add: clean_text_def)
  have "length (dec_of_nat (nat \<bar>ic_absoluteLeasetime x\<bar>)) \<le> 19"
    using assms(1) by (intro length_dec_of_nat) (auto simp: savable_def Let_def nat_less_iff abs_less_iff)
  then have abs: "length (dec_of_int (ic_absoluteLeasetime x)) \<le> 20" by (cases "ic_absoluteLeasetime x < 0") (simp_all add: dec_of_int_def)
  have lease: "length (dec_of_nat (unat (w :: u32))) \<le> 10" for w
    using unsigned_less [of w, where ?'a = nat] by (intro length_dec_of_nat) simp_all
  have "list_all (\<lambda>e. CHR 0x0A \<notin> set (fst e) \<and> CHR 0x0A \<notin> set (snd e) \<and> length (fst e) < 18 \<and> length (snd e) < 1000)
      (entry_lines x)"
    using assms(1) abs lease [of "ir_uOptLeasetime (ic_ipResult x)"] nl
    by (simp add: entry_lines_def Let_def savable_def clean_text_def)
  moreover have "whole_line 1024 (line_of e)"
    if "CHR 0x0A \<notin> set (fst e)" "CHR 0x0A \<notin> set (snd e)" "length (fst e) < 18" "length (snd e) < 1000" for e
  proof -
    have "whole_line 1024 ((''    '' @ fst e @ ''='' @ snd e) @ [CHR 0x0A])"
      using that by (intro whole_lineI) simp_all
    then show ?thesis by (simp add: line_of_def)
  qed
  ultimately have "list_all (\<lambda>e. whole_line 1024 (line_of e)) (entry_lines x)"
    unfolding list_all_iff by blast
  moreover have "whole_line 1024 (header_of (i + 1) @ [CHR 0x0A])"
    using digits nl(1) [of "i + 1"] by (intro whole_lineI) (simp_all add: header_of_def)
  moreover have "whole_line 1024 section_line" "whole_line 1024 end_line" "whole_line 1024 [CHR 0x0A]"
    by (simp_all add: whole_line_def section_line_def end_line_def)
  ultimately show ?thesis by (simp add: entry_block_def entry_body_def list.pred_map comp_def)
qed

lemma load_content:
  assumes "list_all savable xs" "length xs \<le> MAX_DHCP_CACHE"
  shows "LoadAll_loop item0 [] (fgets_lines 1024 (config_content xs)) = map (\<lambda>x. restored item0 (wrap_time x)) xs"
proof -
  have "list_all (whole_line 1024) (concat (map entry_block (enumerate 0 xs)))"
  proof -
    have "list_all (whole_line 1024) (entry_block e)" if "e \<in> set (enumerate 0 xs)" for e
      using that assms whole_lines_block [of "snd e" "fst e"]
      by (auto simp: in_set_enumerate_eq list_all_iff dest: nth_mem)
    then show ?thesis by (auto simp: list_all_iff)
  qed
  then show ?thesis
    using LoadAll_loop_blocks [OF assms(1), of item0 "[]" 0]
    by (simp add: config_content_blocks fgets_lines_concat)
qed

section \<open>Properties\<close>

definition unexpired :: "int \<Rightarrow> IpInfoCached \<Rightarrow> bool" where
  "unexpired now x \<longleftrightarrow> \<not> (ic_absoluteLeasetime x > 0 \<and> ic_absoluteLeasetime x < now)"

text \<open>The cache file can be resolved, read and written.\<close>

definition store_ok :: "DhcpResultStoreManager \<Rightarrow> bool" where
  "store_ok s \<longleftrightarrow> rs_fileName s = DHCP_CACHE_FILE \<and> fs_realpath (rs_fs s) DHCP_CACHE_FILE
     \<and> IsValidPath (rs_fs s) DHCP_CACHE_FILE \<and> fs_writable (rs_fs s) DHCP_CACHE_FILE"

lemma EnforceMaxCache_id:
  "list_all (unexpired now) xs \<Longrightarrow> length xs \<le> MAX_DHCP_CACHE \<Longrightarrow> EnforceMaxCache now xs = xs"
  unfolding EnforceMaxCache_def unexpired_def Let_def list_all_iff by simp

lemma EnforceMaxCache_length: "now \<noteq> -1 \<Longrightarrow> length (EnforceMaxCache now xs) \<le> MAX_DHCP_CACHE"
  by (simp add: EnforceMaxCache_def Let_def)

lemma unexpired_restored [simp]: "unexpired now (restored item x) = unexpired now x"
  by (simp add: unexpired_def restored_def Let_def)

lemma bssid_wrap_time [simp]: "ic_bssid (wrap_time x) = ic_bssid x"
  by (simp add: wrap_time_def)

lemma bssid_restored [simp]: "ic_bssid (restored item x) = ic_bssid x"
  by (simp add: restored_def Let_def)

lemma IsValidPath_content [simp]: "IsValidPath (fs\<lparr>fs_content := c\<rparr>) p = IsValidPath fs p"
  by (simp add: IsValidPath_def)

lemma save_then_load:
  assumes "store_ok s" "list_all savable (rs_all s)" "length (rs_all s) \<le> MAX_DHCP_CACHE"
    and "list_all (\<lambda>x. unexpired now (wrap_time x)) (rs_all s)"
  shows "\<exists>s'. SaveConfig s = (0, s') \<and> rs_all s' = [] \<and> store_ok s'
    \<and> LoadAllIpCached item0 now DHCP_CACHE_FILE s' = (0, s'\<lparr>rs_all := map (\<lambda>x. restored item0 (wrap_time x)) (rs_all s)\<rparr>)"
proof -
  have "DHCP_CACHE_FILE \<noteq> []" by (simp add: DHCP_CACHE_FILE_def)
  moreover have "EnforceMaxCache now (map (\<lambda>x. restored item0 (wrap_time x)) (rs_all s)) = map (\<lambda>x. restored item0 (wrap_time x)) (rs_all s)"
    using assms(3,4) by (intro EnforceMaxCache_id) (simp_all add: list_all_iff)
  ultimately show ?thesis
    using assms(1) load_content [OF assms(2,3), of item0]
    by (auto simp: SaveConfig_def LoadAllIpCached_def store_ok_def Let_def)
qed


definition sample_result :: "u32 \<Rightarrow> DhcpIpResult" where
  "sample_result lease = \<lparr>ir_code = 0, ir_ifname = ''wlan0'', ir_uAddTime = 1000, ir_uOptLeasetime = lease,
     ir_strYiaddr = ''192.168.43.4'', ir_strOptServerId = ''192.168.43.1'', ir_strOptSubnet = ''255.255.255.0'',
     ir_strOptDns1 = ''192.168.43.1'', ir_strOptDns2 = ''*'', ir_strOptRouter1 = ''192.168.43.1'', ir_strOptRouter2 = ''*'',
     ir_strOptVendor = ''*'', ir_dnsAddr = [''192.168.43.1'']\<rparr>"

definition sample_entry :: "string \<Rightarrow> int \<Rightarrow> u32 \<Rightarrow> IpInfoCached" where
  "sample_entry b t lease = \<lparr>ic_bssid = b, ic_ssid = ''home'', ic_absoluteLeasetime = t + uint lease,
     ic_ipResult = sample_result lease\<rparr>"

definition sample_store :: "IpInfoCached list \<Rightarrow> DhcpResultStoreManager" where
  "sample_store xs = \<lparr>rs_all = xs, rs_fileName = DHCP_CACHE_FILE,
     rs_fs = \<lparr>fs_content = (\<lambda>_. None), fs_realpath = (\<lambda>_. True), fs_writable = (\<lambda>_. True)\<rparr>\<rparr>"

lemma sample_store_ok: "store_ok (sample_store xs)"
  by (simp add: store_ok_def sample_store_def) code_simp

lemma sample_entry_savable:
  "savable (sample_entry ''02:00:00:00:00:01'' 1000 3600)" "savable (sample_entry ''02:00:00:00:00:02'' 1000 3600)"
  by (simp_all add: savable_def sample_entry_def sample_result_def clean_text_def trim_char_def)


text \<open>A save forgets the other networks when the cache was not loaded before it: the vector is empty after every
  save, and the next save writes only its own entry. After it, whatever the file held, no other access point is found.\<close>

theorem second_save_forgets:
  assumes "store_ok s" "savable x" "unexpired now x" "unexpired now' (wrap_time x)" "rs_all s = []" "b \<noteq> ic_bssid x"
  shows "\<exists>s'. SaveIpInfoInLocalFile now x s = (0, s') \<and> rs_all s' = [] \<and> store_ok s'
    \<and> fst (GetCachedIp item0 now' (ic_bssid x) s') = Some (restored item0 (wrap_time x))
    \<and> fst (GetCachedIp item0 now' b s') = None"
proof -
  have one: "EnforceMaxCache now [x] = [x]" using assms(3) by (intro EnforceMaxCache_id) simp_all
  let ?s = "s\<lparr>rs_all := [x]\<rparr>"
  have "store_ok ?s" using assms(1) by (simp add: store_ok_def)
  then obtain s' where "SaveConfig ?s = (0, s')" "rs_all s' = []" "store_ok s'"
    "LoadAllIpCached item0 now' DHCP_CACHE_FILE s' = (0, s'\<lparr>rs_all := [restored item0 (wrap_time x)]\<rparr>)"
    using save_then_load [of ?s now' item0] assms(2,4) by auto
  then show ?thesis using assms(5,6) one by (simp add: SaveIpInfoInLocalFile_def GetCachedIp_def)
qed

theorem second_save_forgets_witness:
  "\<exists>s1 s2. SaveIpInfoInLocalFile 1000 (sample_entry ''02:00:00:00:00:01'' 1000 3600) (sample_store []) = (0, s1)
    \<and> fst (GetCachedIp (sample_entry [] 0 0) 1000 ''02:00:00:00:00:01'' s1) \<noteq> None
    \<and> SaveIpInfoInLocalFile 1000 (sample_entry ''02:00:00:00:00:02'' 1000 3600) s1 = (0, s2)
    \<and> fst (GetCachedIp (sample_entry [] 0 0) 1000 ''02:00:00:00:00:01'' s2) = None"
proof -
  let ?x = "sample_entry ''02:00:00:00:00:01'' 1000 3600" and ?y = "sample_entry ''02:00:00:00:00:02'' 1000 3600"
  have un: "unexpired 1000 ?x" "unexpired 1000 ?y" "wrap_time ?x = ?x" "wrap_time ?y = ?y"
    by (simp_all add: unexpired_def wrap_time_id sample_entry_def)
  have b: "ic_bssid ?x = ''02:00:00:00:00:01''" "ic_bssid ?y = ''02:00:00:00:00:02''" by (simp_all add: sample_entry_def)
  obtain s1 where s1: "SaveIpInfoInLocalFile 1000 ?x (sample_store []) = (0, s1)" "rs_all s1 = []" "store_ok s1"
    "fst (GetCachedIp (sample_entry [] 0 0) 1000 (ic_bssid ?x) s1) = Some (restored (sample_entry [] 0 0) (wrap_time ?x))"
    using second_save_forgets [OF sample_store_ok sample_entry_savable(1) un(1) _, of 1000 "[]" "[]" "sample_entry [] 0 0"]
    by (auto simp: sample_store_def b un)
  from second_save_forgets [OF s1(3) sample_entry_savable(2) un(2) _ s1(2), of 1000 "''02:00:00:00:00:01''" "sample_entry [] 0 0"]
  show ?thesis using s1 b un by auto
qed

lemma infinite_absolute_time:
  assumes "1 < t" "t < 2 ^ 31"
  shows "sint (word_of_int (t + uint (0xFFFFFFFF :: u32)) :: u32) = t - 1"
proof -
  have "(4294967295 :: u32) = - 1" by simp
  then have "of_int t + (4294967295 :: u32) = of_int t - 1" by simp
  then have "word_of_int (t + uint (0xFFFFFFFF :: u32)) = (word_of_int (t - 1) :: u32)" by simp
  moreover have "sint (word_of_int u :: u32) = u" if "0 \<le> u" "u < 2 ^ 31" for u
    using that by (simp add: signed_of_int signed_take_bit_int_eq_self)
  then have "sint (word_of_int (t - 1) :: u32) = t - 1" using assms by (simp del: of_int_diff)
  ultimately show ?thesis by (simp only:)
qed

text \<open>An infinite lease (0xFFFFFFFF seconds) is not found again: its absolute lease time does not fit the 32-bit
  reader and comes back as one second before the time of the save, so that every load from then on drops the entry
  as expired.\<close>

theorem infinite_lease_forgotten:
  assumes "store_ok s" "savable x" "rs_all s = []" "1 < t" "t < 2 ^ 31" "t \<le> now"
    and "ir_uOptLeasetime (ic_ipResult x) = 0xFFFFFFFF" "ic_absoluteLeasetime x = t + uint (0xFFFFFFFF :: u32)"
  shows "\<exists>s'. SaveIpInfoInLocalFile t x s = (0, s') \<and> fst (GetCachedIp item0 now (ic_bssid x) s') = None"
proof -
  have "unexpired t x" using assms(8) by (simp add: unexpired_def)
  then have one: "EnforceMaxCache t [x] = [x]" by (intro EnforceMaxCache_id) simp_all
  have "ic_absoluteLeasetime (restored item0 (wrap_time x)) = t - 1"
    using infinite_absolute_time [OF assms(4,5)] assms(8) by (simp add: restored_def wrap_time_def Let_def)
  then have "EnforceMaxCache now [restored item0 (wrap_time x)] = []"
    using assms(4,6) by (simp add: EnforceMaxCache_def)
  moreover have "LoadAll_loop item0 [] (fgets_lines 1024 (config_content [x])) = [restored item0 (wrap_time x)]"
    using load_content [of "[x]" item0] assms(2) by simp
  moreover have "DHCP_CACHE_FILE \<noteq> []" by (simp add: DHCP_CACHE_FILE_def)
  ultimately show ?thesis
    using assms(1,3) one
    by (simp add: SaveIpInfoInLocalFile_def GetCachedIp_def SaveConfig_def LoadAllIpCached_def store_ok_def Let_def)
qed

theorem infinite_lease_forgotten_witness:
  "\<exists>s'. SaveIpInfoInLocalFile 1000 (sample_entry ''02:00:00:00:00:01'' 1000 0xFFFFFFFF) (sample_store []) = (0, s')
    \<and> fst (GetCachedIp (sample_entry [] 0 0) 1001 ''02:00:00:00:00:01'' s') = None"
proof -
  let ?x = "sample_entry ''02:00:00:00:00:01'' 1000 0xFFFFFFFF"
  have "savable ?x" by (simp add: savable_def sample_entry_def sample_result_def clean_text_def trim_char_def)
  then show ?thesis
    using infinite_lease_forgotten [OF sample_store_ok, of ?x "[]" 1000 1001 "sample_entry [] 0 0"]
    by (simp add: sample_store_def sample_entry_def sample_result_def)
qed

end
