(* ===== verification/DhcpClientPacket.thy ===== *)
theory DhcpClientPacket
  imports DhcpClientOptions DhcpResultStore
begin

text \<open>
  The packets of the client: building them (\<^verbatim>\<open>GetPacketHeaderInfo\<close> to \<^verbatim>\<open>AddParamaterRequestList\<close> of
  \<^verbatim>\<open>dhcp_client_state_machine.cpp\<close>) and reading the network parameters of a reply into a \<^verbatim>\<open>DhcpIpResult\<close>
  (\<^verbatim>\<open>ParseNetworkInfo\<close> and its companions), with the address conversions of \<^verbatim>\<open>dhcp_function.cpp\<close> and
  \<^verbatim>\<open>dhcp_common_utils.cpp\<close> that they use. A builder gives \<open>None\<close> when it would read past the option field; the lemmas
  show that this never happens and what the field holds. The vendor prefix, the product model and the default name
  servers come from the build and the system; they are arguments.
\<close>

section \<open>Addresses\<close>

definition Ip4IntConvertToStr :: "u32 \<Rightarrow> bool \<Rightarrow> string" where
  "Ip4IntConvertToStr uIp bHost = inet_ntop (u32_bytes (if bHost then htonl uIp else uIp))"

text \<open>\<^verbatim>\<open>inet_pton(AF_INET, ...)\<close>: four decimal numbers up to 255 of at most three digits, without leading zeros.\<close>

definition pton_part :: "string \<Rightarrow> u8 option" where
  "pton_part s =
     (if s = [] \<or> length s > 3 \<or> \<not> list_all is_digit s \<or> (length s > 1 \<and> hd s = CHR ''0'') then None
      else let v = fst (strto_digits 10 0 s) in if v > 255 then None else Some (of_nat v))"

fun pton_parts :: "nat \<Rightarrow> string \<Rightarrow> bytes option" where
  "pton_parts 0 s = None"
| "pton_parts (Suc n) s =
     (case split_at (CHR ''.'') s of
        (p, None) \<Rightarrow> if n = 0 then map_option (\<lambda>b. [b]) (pton_part p) else None
      | (p, Some r) \<Rightarrow>
          (case (pton_part p, pton_parts n r) of (Some b, Some bs) \<Rightarrow> Some (b # bs) | _ \<Rightarrow> None))"

definition inet_pton4 :: "string \<Rightarrow> bytes option" where
  "inet_pton4 s = pton_parts 4 s"

definition Ip4StrConToInt :: "string \<Rightarrow> bool \<Rightarrow> u32 option" where
  "Ip4StrConToInt strIp bHost =
     (if strIp = [] then None
      else case inet_pton4 strIp of
        None \<Rightarrow> None
      | Some a \<Rightarrow> Some (if bHost then ntohl (u32_of_bytes a) else u32_of_bytes a))"

definition inet_addr :: "string \<Rightarrow> u32" where
  "inet_addr s = (case inet_aton s of None \<Rightarrow> 0xFFFFFFFF | Some a \<Rightarrow> u32_of_bytes a)"

text \<open>\<^verbatim>\<open>%.2x\<close> of each byte with colons between; \<open>None\<close> is the result \<^verbatim>\<open>false\<close>.\<close>

fun mac_text :: "bytes \<Rightarrow> string" where
  "mac_text [] = []"
| "mac_text [b] = hex2 b"
| "mac_text (b # bs) = hex2 b @ '':'' @ mac_text bs"

definition MacChConToMacStr :: "bytes \<Rightarrow> nat \<Rightarrow> nat \<Rightarrow> string option" where
  "MacChConToMacStr pChMac chLen strLen =
     (if chLen = 0 then None
      else if strLen < chLen * 3 then None
      else if chLen > 6 then None
      else Some (mac_text (take chLen pChMac)))"

section \<open>Building a packet\<close>

definition on_options :: "(bytes \<Rightarrow> (nat \<times> bytes) option) \<Rightarrow> DhcpPacket \<Rightarrow> DhcpPacket option" where
  "on_options f p = (case f (dp_options p) of None \<Rightarrow> None | Some (_, opts) \<Rightarrow> Some (p\<lparr>dp_options := opts\<rparr>))"

definition AddOptValue :: "u8 \<Rightarrow> u32 \<Rightarrow> DhcpPacket \<Rightarrow> DhcpPacket option" where
  "AddOptValue code v p = on_options (\<lambda>opts. AddOptValueToOpts opts code v) p"

definition GetPacketHeaderInfo :: "u8 \<Rightarrow> DhcpPacket \<Rightarrow> DhcpPacket option" where
  "GetPacketHeaderInfo type packet =
     (let packet = (if type \<in> {DHCPDISCOVER, DHCPREQUEST, DHCPDECLINE, DHCPRELEASE, DHCPINFORM} then packet\<lparr>dp_op := 1\<rparr>
                    else if type \<in> {DHCPOFFER, DHCPACK, DHCPNAK} then packet\<lparr>dp_op := 2\<rparr> else packet);
          packet = packet\<lparr>dp_htype := 1, dp_hlen := 6, dp_cookie := htonl 0x63825363,
                          dp_options := (dp_options packet)[0 := END_OPTION]\<rparr>
      in AddOptValue DHCP_MESSAGE_TYPE_OPTION (ucast type) packet)"

text \<open>The local array has 62 bytes; the first 9 are used.\<close>

definition AddClientIdToOpts :: "bytes \<Rightarrow> DhcpPacket \<Rightarrow> DhcpPacket option" where
  "AddClientIdToOpts ifaceMac packet =
     (case MacChConToMacStr ifaceMac 6 18 of
        None \<Rightarrow> Some packet
      | Some macAddr \<Rightarrow>
          let optValue = [CLIENT_IDENTIFIER_OPTION, 7, 1] @ take 6 ifaceMac @ replicate 53 0
          in on_options (\<lambda>opts. AddOptStrToOpts opts optValue (2 + unat (optValue ! 1))) packet)"

text \<open>\<^verbatim>\<open>snprintf_s\<close> with a count of 61 fails on a longer text; then no option is added.\<close>

definition AddStrToOpts :: "u8 \<Rightarrow> string \<Rightarrow> DhcpPacket \<Rightarrow> DhcpPacket option" where
  "AddStrToOpts option value packet =
     (if length value > 61 then Some packet
      else
        let optValue = [option, of_nat (length value)] @ char_bytes value @ replicate (62 - length value) 0
        in on_options (\<lambda>opts. AddOptStrToOpts opts optValue (2 + unat (optValue ! 1))) packet)"

definition AddHostNameToOpts :: "string \<Rightarrow> string \<Rightarrow> DhcpPacket \<Rightarrow> DhcpPacket option" where
  "AddHostNameToOpts venderName strProductModel packet =
     (let venderClass = venderName @ '':'' @ strProductModel
      in Option.bind (AddStrToOpts VENDOR_CLASS_IDENTIFIER_OPTION venderClass packet)
           (AddStrToOpts HOST_NAME_OPTION strProductModel))"

definition set_chaddr :: "bytes \<Rightarrow> DhcpPacket \<Rightarrow> DhcpPacket" where
  "set_chaddr ifaceMac packet = packet\<lparr>dp_chaddr := snd (memcpy_s 16 (dp_chaddr packet) ifaceMac 6)\<rparr>"

definition GetPacketCommonInfo :: "bytes \<Rightarrow> string \<Rightarrow> string \<Rightarrow> DhcpPacket \<Rightarrow> DhcpPacket option" where
  "GetPacketCommonInfo ifaceMac venderName strProductModel packet =
     Option.bind (AddClientIdToOpts ifaceMac (set_chaddr ifaceMac packet)) (AddHostNameToOpts venderName strProductModel)"

definition arrReqCode :: bytes where
  "arrReqCode = [SUBNET_MASK_OPTION, ROUTER_OPTION, DOMAIN_NAME_SERVER_OPTION, DOMAIN_NAME_OPTION, INTERFACE_MTU_OPTION,
     BROADCAST_ADDRESS_OPTION, IP_ADDRESS_LEASE_TIME_OPTION, RENEWAL_TIME_VALUE_OPTION, REBINDING_TIME_VALUE_OPTION,
     VENDOR_SPECIFIC_INFO_OPTION, CAPTIVE_PORTAL_OPTION, IPV6_ONLY_PREFERRED_OPTION]"

text \<open>The codes are written without a test of the room left; writing past the field is \<open>None\<close>. \<^verbatim>\<open>AddParamaterRebootList\<close> has
  the same body.\<close>

definition AddParamaterRequestList :: "DhcpPacket \<Rightarrow> DhcpPacket option" where
  "AddParamaterRequestList packet = (case GetEndOptionIndex (dp_options packet) of
       None \<Rightarrow> None
     | Some e \<Rightarrow>
         let codes = filter (\<lambda>c. c > PAD_OPTION \<and> c < END_OPTION) arrReqCode; len = length codes;
             new = PARAMETER_REQUEST_LIST_OPTION # of_nat len # codes @ [END_OPTION]
         in if e + 2 + len < length (dp_options packet)
            then Some (packet\<lparr>dp_options := take e (dp_options packet) @ new @ drop (e + 3 + len) (dp_options packet)\<rparr>)
            else None)"

definition AddParamaterRebootList :: "DhcpPacket \<Rightarrow> DhcpPacket option" where
  "AddParamaterRebootList packet = AddParamaterRequestList packet"

section \<open>Reading a reply\<close>

definition zero_result :: DhcpIpResult where
  "zero_result = \<lparr>ir_code = 0, ir_ifname = [], ir_uAddTime = 0, ir_uOptLeasetime = 0, ir_strYiaddr = [], ir_strOptServerId = [],
     ir_strOptSubnet = [], ir_strOptDns1 = [], ir_strOptDns2 = [], ir_strOptRouter1 = [], ir_strOptRouter2 = [],
     ir_strOptVendor = [], ir_dnsAddr = []\<rparr>"

text \<open>The new server address and the result. \<^verbatim>\<open>strncpy_s\<close> of an address text always fits.\<close>

definition ParseNetworkServerIdInfo :: "DhcpPacket \<Rightarrow> u32 \<Rightarrow> DhcpIpResult \<Rightarrow> u32 \<times> DhcpIpResult" where
  "ParseNetworkServerIdInfo packet serverIp4 result =
     (let (ok, u32Data) = GetDhcpOptionUint32 packet SERVER_IDENTIFIER_OPTION 0 in
      if \<not> ok then (serverIp4, result)
      else let serverIp4 = htonl u32Data
           in (serverIp4, result\<lparr>ir_strOptServerId := Ip4IntConvertToStr serverIp4 False\<rparr>))"

definition SetIpv4DefaultDns :: "string \<Rightarrow> string \<Rightarrow> DhcpIpResult \<Rightarrow> DhcpIpResult" where
  "SetIpv4DefaultDns dns1 dns2 result = result\<lparr>ir_strOptDns1 := take 15 dns1, ir_strOptDns2 := take 15 dns2, ir_dnsAddr := [dns1, dns2]\<rparr>"

definition ParseNetworkDnsValue :: "u32 \<Rightarrow> nat \<Rightarrow> DhcpIpResult \<Rightarrow> nat \<times> DhcpIpResult" where
  "ParseNetworkDnsValue uData count result =
     (let pDnsIp = Ip4IntConvertToStr (ntohl uData) True; count = count + 1;
          result = result\<lparr>ir_dnsAddr := ir_dnsAddr result @ [pDnsIp]\<rparr>
      in (count, if count = 1 then result\<lparr>ir_strOptDns1 := pDnsIp\<rparr>
                 else if count = 2 then result\<lparr>ir_strOptDns2 := pDnsIp\<rparr> else result))"

fun dns_loop :: "bytes \<Rightarrow> nat \<Rightarrow> DhcpIpResult \<Rightarrow> DhcpIpResult" where
  "dns_loop (a # b # c # d # p) count result =
     (let uData = u32_of_bytes [a, b, c, d];
          (count, result) = (if uData > 0 then ParseNetworkDnsValue uData count result else (count, result))
      in dns_loop p count result)"
| "dns_loop _ count result = result"

definition ParseNetworkDnsInfo :: "string \<Rightarrow> string \<Rightarrow> DhcpPacket \<Rightarrow> DhcpIpResult \<Rightarrow> DhcpIpResult" where
  "ParseNetworkDnsInfo dns1 dns2 packet result = (case GetDhcpOption packet DOMAIN_NAME_SERVER_OPTION of
       None \<Rightarrow> SetIpv4DefaultDns dns1 dns2 result
     | Some (f, off, len) \<Rightarrow>
         if len < 4 \<or> len mod 4 \<noteq> 0 then SetIpv4DefaultDns dns1 dns2 result
         else dns_loop (take len (drop off (field_bytes packet f))) 0 result)"

definition SetDefaultNetMask :: "DhcpIpResult \<Rightarrow> DhcpIpResult" where
  "SetDefaultNetMask result =
     (let strYiaddr = ir_strYiaddr result; firstByte = CheckDataLegal (fst (split_at (CHR ''.'') strYiaddr)) in
      if strYiaddr \<noteq> [] \<and> ir_strOptSubnet result = [] then
        if firstByte < 128 then result\<lparr>ir_strOptSubnet := ''255.0.0.0''\<rparr>
        else if firstByte < 192 then result\<lparr>ir_strOptSubnet := ''255.255.0.0''\<rparr>
        else if firstByte < 224 then result\<lparr>ir_strOptSubnet := ''255.255.255.0''\<rparr>
        else result\<lparr>ir_strOptSubnet := ''255.255.255.255''\<rparr>
      else result)"

definition ParseNetworkInfo :: "DhcpPacket \<Rightarrow> u32 \<Rightarrow> DhcpIpResult \<Rightarrow> DhcpIpResult" where
  "ParseNetworkInfo packet requestedIp4 result =
     (let result = result\<lparr>ir_strYiaddr := Ip4IntConvertToStr requestedIp4 False\<rparr>;
          (ok, u32Data) = GetDhcpOptionUint32 packet SUBNET_MASK_OPTION 0;
          result = (if ok then result\<lparr>ir_strOptSubnet := Ip4IntConvertToStr u32Data True\<rparr> else SetDefaultNetMask result);
          (ok, u32Data, u32Data2) = GetDhcpOptionUint32n packet ROUTER_OPTION 0 0
      in if ok then
           let result = result\<lparr>ir_strOptRouter1 := Ip4IntConvertToStr u32Data True\<rparr>
           in if u32Data2 > 0 then result\<lparr>ir_strOptRouter2 := Ip4IntConvertToStr u32Data2 True\<rparr> else result
         else result)"

definition star :: "string \<Rightarrow> string" where
  "star s = (if s = [] then ''*'' else s)"

definition FormatString :: "DhcpIpResult \<Rightarrow> DhcpIpResult" where
  "FormatString r = r\<lparr>ir_strYiaddr := star (ir_strYiaddr r), ir_strOptServerId := star (ir_strOptServerId r),
     ir_strOptSubnet := star (ir_strOptSubnet r), ir_strOptDns1 := star (ir_strOptDns1 r), ir_strOptDns2 := star (ir_strOptDns2 r),
     ir_strOptRouter1 := star (ir_strOptRouter1 r), ir_strOptRouter2 := star (ir_strOptRouter2 r),
     ir_strOptVendor := star (ir_strOptVendor r)\<rparr>"

definition GetDHCPServerHostName :: "DhcpPacket \<Rightarrow> DhcpIpResult \<Rightarrow> DhcpIpResult" where
  "GetDHCPServerHostName packet result =
     (if dp_sname packet ! 0 = 0 then result
      else result\<lparr>ir_strOptVendor := ''hostname:'' @ c_str (take DHCP_HOST_NAME_LENGTH (dp_sname packet))\<rparr>)"

definition ParseNetworkVendorInfo :: "DhcpPacket \<Rightarrow> DhcpIpResult \<Rightarrow> DhcpIpResult" where
  "ParseNetworkVendorInfo packet result = (case GetDhcpOptionString packet VENDOR_SPECIFIC_INFO_OPTION of
       None \<Rightarrow> GetDHCPServerHostName packet result
     | Some pVendor \<Rightarrow> result\<lparr>ir_strOptVendor := take 127 (c_str pVendor)\<rparr>)"

section \<open>The option field of the packets that are built\<close>

text \<open>A packet whose option field holds a list of options, the end option and zeros.\<close>

definition with_opts :: "(u8 \<times> bytes) list \<Rightarrow> DhcpPacket \<Rightarrow> DhcpPacket" where
  "with_opts os p = p\<lparr>dp_options := area os @ END_OPTION # replicate (DHCP_OPT_SIZE - 1 - length (area os)) 0\<rparr>"

definition opts_fit :: "nat \<Rightarrow> (u8 \<times> bytes) list \<Rightarrow> bool" where
  "opts_fit n os \<longleftrightarrow> list_all copt_ok os \<and> length (area os) + n < DHCP_OPT_SIZE"

lemma dp_options_with_opts:
  "dp_options (with_opts os p) = area os @ END_OPTION # replicate (DHCP_OPT_SIZE - 1 - length (area os)) 0"
  by (simp add: with_opts_def)

lemma with_opts_with_opts [simp]: "with_opts os (with_opts os' p) = with_opts os p"
  by (simp add: with_opts_def)

lemma AddOptStr_with_opts:
  assumes "opts_fit (length d + 3) os" "copt_ok (c, d)" "n = 2 + length d" "v = c # of_nat (length d) # d @ junk"
  shows "on_options (\<lambda>opts. AddOptStrToOpts opts v n) (with_opts os p) = Some (with_opts (os @ [(c, d)]) p)"
  using assms AddOptStrToOpts_area [of os c d "replicate (DHCP_OPT_SIZE - 1 - length (area os)) 0" n junk]
  by (simp add: on_options_def with_opts_def opts_fit_def algebra_simps)

lemma AddOptValue_with_opts:
  assumes "opts_fit 7 os"
  shows "AddOptValue DHCP_MESSAGE_TYPE_OPTION v (with_opts os p) = Some (with_opts (os @ [(53, [ucast v])]) p)"
    "AddOptValue MAXIMUM_DHCP_MESSAGE_SIZE_OPTION v (with_opts os p) =
       Some (with_opts (os @ [(57, u16_bytes (htons (ucast v)))]) p)"
    "AddOptValue REQUESTED_IP_ADDRESS_OPTION v (with_opts os p) = Some (with_opts (os @ [(50, u32_bytes v)]) p)"
    "AddOptValue SERVER_IDENTIFIER_OPTION v (with_opts os p) = Some (with_opts (os @ [(54, u32_bytes v)]) p)"
proof -
  let ?rest = "replicate (DHCP_OPT_SIZE - 1 - length (area os)) 0"
  have fit: "list_all copt_ok os" "length (area os) + 7 < DHCP_OPT_SIZE" "length (area os) + 1 + length ?rest = DHCP_OPT_SIZE"
    using assms by (simp_all add: opts_fit_def)
  note add = AddOptValueToOpts_area [OF fit]
  have "copt_ok (53, [])" "copt_ok (57, [])" "copt_ok (50, [])" "copt_ok (54, [])" by (simp_all add: copt_ok_def)
  note vals = add(1) [OF _ this(1), of v] add(2) [OF _ this(2), of v] add(3) [OF _ this(3), of v] add(3) [OF _ this(4), of v]
  show "AddOptValue DHCP_MESSAGE_TYPE_OPTION v (with_opts os p) = Some (with_opts (os @ [(53, [ucast v])]) p)"
    "AddOptValue MAXIMUM_DHCP_MESSAGE_SIZE_OPTION v (with_opts os p) =
       Some (with_opts (os @ [(57, u16_bytes (htons (ucast v)))]) p)"
    "AddOptValue REQUESTED_IP_ADDRESS_OPTION v (with_opts os p) = Some (with_opts (os @ [(50, u32_bytes v)]) p)"
    "AddOptValue SERVER_IDENTIFIER_OPTION v (with_opts os p) = Some (with_opts (os @ [(54, u32_bytes v)]) p)"
    using vals assms by (simp_all add: AddOptValue_def on_options_def with_opts_def opts_fit_def)
qed

lemma AddClientIdToOpts_with_opts:
  assumes "opts_fit 10 os" "length mac = 6"
  shows "AddClientIdToOpts mac (with_opts os p) = Some (with_opts (os @ [(61, 1 # mac)]) p)"
proof -
  have "on_options (\<lambda>opts. AddOptStrToOpts opts ([61, 7, 1] @ mac @ replicate 53 0) 9) (with_opts os p) =
      Some (with_opts (os @ [(61, 1 # mac)]) p)"
    using assms by (intro AddOptStr_with_opts [where junk = "replicate 53 0"]) (simp_all add: copt_ok_def opts_fit_def)
  then show ?thesis using assms(2) by (simp add: AddClientIdToOpts_def MacChConToMacStr_def)
qed

lemma AddStrToOpts_with_opts:
  assumes "opts_fit (length v + 3) os" "c \<notin> {PAD_OPTION, END_OPTION}"
  shows "AddStrToOpts c v (with_opts os p) =
    Some (with_opts (if length v > 61 then os else os @ [(c, char_bytes v)]) p)"
proof (cases "length v > 61")
  case True
  then show ?thesis by (simp add: AddStrToOpts_def)
next
  case False
  have "on_options (\<lambda>opts. AddOptStrToOpts opts ([c, of_nat (length v)] @ char_bytes v @ replicate (62 - length v) 0)
      (2 + length v)) (with_opts os p) = Some (with_opts (os @ [(c, char_bytes v)]) p)"
    using assms False
    by (intro AddOptStr_with_opts [where junk = "replicate (62 - length v) 0"]) (simp_all add: copt_ok_def char_bytes_def)
  then show ?thesis using False by (simp add: AddStrToOpts_def unat_of_nat_u8)
qed

lemma AddParamaterRequestList_with_opts:
  assumes "opts_fit 15 os"
  shows "AddParamaterRequestList (with_opts os p) = Some (with_opts (os @ [(55, arrReqCode)]) p)"
proof -
  have codes: "filter (\<lambda>c. c > PAD_OPTION \<and> c < END_OPTION) arrReqCode = arrReqCode" "length arrReqCode = 12"
    by (simp_all add: arrReqCode_def)
  have "GetEndOptionIndex (dp_options (with_opts os p)) = Some (length (area os))"
    using assms GetEndOptionIndex_area [of os] by (simp add: opts_fit_def with_opts_def)
  then show ?thesis
    using assms
    by (simp add: AddParamaterRequestList_def codes opts_fit_def dp_options_with_opts)
      (simp add: with_opts_def optw_def codes)
qed

lemma opts_fit_append [simp]:
  "opts_fit n (os @ xs) \<longleftrightarrow> opts_fit (n + length (area xs)) os \<and> list_all copt_ok xs"
  by (auto simp: opts_fit_def)

lemma opts_fit_mono: "opts_fit m os \<Longrightarrow> n \<le> m \<Longrightarrow> opts_fit n os"
  by (simp add: opts_fit_def)

text \<open>The options that all packets of the client start with, and those of its names.\<close>

definition host_opts :: "string \<Rightarrow> string \<Rightarrow> (u8 \<times> bytes) list" where
  "host_opts vendor model =
     (if length (vendor @ '':'' @ model) > 61 then [] else [(60, char_bytes (vendor @ '':'' @ model))])
     @ (if length model > 61 then [] else [(12, char_bytes model)])"

lemma host_opts_fit: "length (area (host_opts vendor model)) \<le> 126" "list_all copt_ok (host_opts vendor model)"
  by (auto simp: host_opts_def copt_ok_def char_bytes_def)

lemma AddHostNameToOpts_with_opts:
  assumes "opts_fit 130 os"
  shows "AddHostNameToOpts vendor model (with_opts os p) = Some (with_opts (os @ host_opts vendor model) p)"
proof -
  let ?v = "vendor @ '':'' @ model"
  have 1: "AddStrToOpts 60 ?v (with_opts os p) = Some (with_opts (if length ?v > 61 then os else os @ [(60, char_bytes ?v)]) p)"
  proof (cases "length ?v > 61")
    case False
    then show ?thesis using assms by (intro AddStrToOpts_with_opts) (auto intro: opts_fit_mono)
  qed (simp add: AddStrToOpts_def)
  let ?os = "if length ?v > 61 then os else os @ [(60, char_bytes ?v)]"
  have 2: "AddStrToOpts 12 model (with_opts ?os p) = Some (with_opts (if length model > 61 then ?os else ?os @ [(12, char_bytes model)]) p)"
  proof (cases "length model > 61")
    case False
    then show ?thesis
      using assms by (intro AddStrToOpts_with_opts) (auto intro: opts_fit_mono simp: copt_ok_def char_bytes_def)
  qed (simp add: AddStrToOpts_def)
  show ?thesis using 1 2 by (auto simp: AddHostNameToOpts_def host_opts_def)
qed

lemma set_chaddr_with_opts: "set_chaddr mac (with_opts os p) = with_opts os (set_chaddr mac p)"
  by (simp add: set_chaddr_def with_opts_def)

lemma GetPacketCommonInfo_with_opts:
  assumes "opts_fit 150 os" "length mac = 6"
  shows "GetPacketCommonInfo mac vendor model (with_opts os p) =
    Some (with_opts (os @ (61, 1 # mac) # host_opts vendor model) (set_chaddr mac p))"
proof -
  have "opts_fit 130 (os @ [(61, 1 # mac)])"
    using assms by (simp add: copt_ok_def) (erule opts_fit_mono, simp)
  then show ?thesis
    using assms
    by (simp add: GetPacketCommonInfo_def set_chaddr_with_opts AddClientIdToOpts_with_opts opts_fit_mono [OF assms(1)]
        AddHostNameToOpts_with_opts)
qed

definition header_packet :: DhcpPacket where
  "header_packet = zero_packet\<lparr>dp_op := 1, dp_htype := 1, dp_hlen := 6, dp_cookie := htonl 0x63825363\<rparr>"

lemma GetPacketHeaderInfo_zero:
  assumes "type \<in> {DHCPDISCOVER, DHCPREQUEST, DHCPDECLINE, DHCPRELEASE, DHCPINFORM}"
  shows "GetPacketHeaderInfo type zero_packet = Some (with_opts [(53, [type])] header_packet)"
proof -
  have "(replicate 1780 (0 :: u8))[0 := 255] = 255 # replicate 1779 0"
    using replicate_Suc [of 1779 "0 :: u8"] by simp
  then have "zero_packet\<lparr>dp_op := 1, dp_htype := 1, dp_hlen := 6, dp_cookie := htonl 0x63825363,
      dp_options := (dp_options zero_packet)[0 := END_OPTION]\<rparr> = with_opts [] header_packet"
    by (simp add: with_opts_def header_packet_def zero_packet_def)
  moreover have "ucast (ucast type :: u32) = type"
    by (rule bit_word_eqI) (simp add: bit_simps)
  ultimately show ?thesis
    using assms AddOptValue_with_opts(1) [of "[]" "ucast type" header_packet]
    by (auto simp: GetPacketHeaderInfo_def opts_fit_def)
qed

end
