(* ===== verification/DhcpClientMachine.thy ===== *)
theory DhcpClientMachine
  imports DhcpClientPacket
begin

text \<open>
  The IPv4 client (\<^verbatim>\<open>class DhcpClientStateMachine\<close> of \<^verbatim>\<open>dhcp_client_state_machine.cpp\<close>): its members as a record, every method
  that changes them as a function on the record, and the runs of the object as a step relation in which calls of the
  service, timers, the ARP task and iterations of the receive loop come in any order. What the methods get from outside
  (clocks, random numbers, the kernel, the timer service, the ARP probe, the service that takes the results) is the
  argument \<open>E\<close>, read at the position \<open>c_tick\<close>, which moves with every read, so that two reads need not agree. What they do
  outside is the list \<open>c_log\<close>. \<open>c_fault\<close> is set when a packet builder would leave its array.
\<close>

section \<open>Data\<close>

datatype DhcpStateCode = DHCP_STATE_INIT | DHCP_STATE_SELECTING | DHCP_STATE_REQUESTING | DHCP_STATE_BOUND
  | DHCP_STATE_RENEWING | DHCP_STATE_REBINDING | DHCP_STATE_INITREBOOT | DHCP_STATE_RELEASED | DHCP_STATE_RENEWED
  | DHCP_STATE_FAST_ARP | DHCP_STATE_SLOW_ARP | DHCP_STATE_DECLINE

datatype ActionMode = ACTION_START_NEW | ACTION_START_OLD | ACTION_RENEW_T1 | ACTION_RENEW_T2 | ACTION_RENEW_T3 | ACTION_INVALID

datatype SocketMode = SOCKET_MODE_INVALID | SOCKET_MODE_RAW | SOCKET_MODE_KERNEL

datatype Ipv4Task = IPV4_TASK_IDLE | IPV4_TASK_RUNNING | IPV4_TASK_STOP_REQUESTED

datatype DhcpIpType = DHCP_IP_TYPE_NONE | DHCP_IP_TYPE_ALL | DHCP_IP_TYPE_V4 | DHCP_IP_TYPE_V6

datatype TimerType = TIMER_GET_IP | TIMER_RENEW_DELAY | TIMER_REBIND_DELAY | TIMER_REMAINING_DELAY | TIMER_SLOW_ARP

abbreviation (input) PUBLISH_CODE_SUCCESS :: int where "PUBLISH_CODE_SUCCESS \<equiv> 0"
abbreviation (input) PUBLISH_CODE_FAILED :: int where "PUBLISH_CODE_FAILED \<equiv> -1"
abbreviation (input) PUBLISH_CODE_TIMEOUT :: int where "PUBLISH_CODE_TIMEOUT \<equiv> -2"
abbreviation (input) PUBLISH_CODE_EXPIRED :: int where "PUBLISH_CODE_EXPIRED \<equiv> -3"
abbreviation (input) PUBLISH_DHCP_OFFER_REPORT :: int where "PUBLISH_DHCP_OFFER_REPORT \<equiv> -4"
abbreviation (input) SIGNED_INTEGER_MAX :: int where "SIGNED_INTEGER_MAX \<equiv> 0x7FFFFFFF"
abbreviation (input) MAX_MSG_SIZE :: u32 where "MAX_MSG_SIZE \<equiv> 1500"

record RouterConfig =
  rc_ifname :: string
  rc_bssid :: string
  rc_prohibitUseCacheIp :: bool
  rc_bIpv6 :: bool
  rc_bSpecificNetwork :: bool
  rc_isStaticIpv4 :: bool
  rc_bIpv4 :: bool

text \<open>What the client does outside: broadcast frames and unicast datagrams with source and destination, results handed to
  the service, timers, the interface address, the kernel files, the ARP task, the posted thread task, sleeping.\<close>

datatype ClientEvent =
    SentBroadcast DhcpPacket u32 u32 int
  | SentUnicast DhcpPacket u32 u32
  | Published DhcpIpResult
  | TimerStarted TimerType u64 int
  | TimerStopped TimerType u64
  | IfAddressSet string u32
  | IfNetmaskSet string u32
  | KernelFile string string
  | SlowArpRegistered u32
  | SlowArpUnregistered u32
  | TaskPosted
  | Slept int

record Env =
  en_random :: "nat \<Rightarrow> u32"
  en_time :: "nat \<Rightarrow> int"
  en_boot :: "nat \<Rightarrow> int"
  en_arp :: "nat \<Rightarrow> bool"
  en_publish :: "nat \<Rightarrow> bool"
  en_timerid :: "nat \<Rightarrow> u64"
  en_taskid :: "nat \<Rightarrow> u32"
  en_dirs :: "nat \<Rightarrow> bool"
  en_ifindex :: "nat \<Rightarrow> int option"
  en_ifmac :: "nat \<Rightarrow> bytes option"
  en_localip :: "nat \<Rightarrow> u32 option option"
  en_syscall :: "nat \<Rightarrow> bool"
  en_post :: "nat \<Rightarrow> bool"
  en_sockets :: "nat \<Rightarrow> bool"
  en_pc :: bool
  en_vendor :: string
  en_model :: string
  en_dns1 :: string
  en_dns2 :: string
  en_item :: IpInfoCached
  en_result :: DhcpIpResult

text \<open>Where the posted task is: not there, in the queue of the thread, or in the loop.\<close>

datatype TaskPlace = NoTask | TaskQueued | TaskLooping

record Client =
  c_state :: DhcpStateCode
  c_resendTimer :: int
  c_sentPacketNum :: u32
  c_timeoutTimestamp :: int
  c_renewalTimestamp :: int
  c_renewalTimestampBoot :: int
  c_leaseTime :: u32
  c_renewalSec :: u32
  c_rebindSec :: u32
  c_requestedIp4 :: u32
  c_serverIp4 :: u32
  c_socketMode :: SocketMode
  c_transID :: u32
  c_ifaceIndex :: int
  c_isIpv6 :: bool
  c_ifaceIpv4 :: u32
  c_getMode :: DhcpIpType
  c_ifaceMac :: bytes
  c_ifaceName :: string
  c_workDir :: string
  c_confFile :: string
  c_leaseFile :: string
  c_resultFile :: string
  c_result6File :: string
  c_thread :: Ipv4Task
  c_ifName :: string
  c_action :: ActionMode
  c_timers :: "TimerType \<Rightarrow> u64"
  c_slowArpTaskId :: u32
  c_timeOut :: u32
  c_arpDectionTargetIp :: string
  c_routerCfg :: RouterConfig
  c_conflictCount :: u32
  c_result :: DhcpIpResult
  c_slowArpDetecting :: bool
  c_firstSendPacketTime :: int
  c_store :: DhcpResultStoreManager
  c_place :: TaskPlace
  c_tick :: nat
  c_log :: "ClientEvent list"
  c_fault :: bool

definition ask :: "(nat \<Rightarrow> 'a) \<Rightarrow> Client \<Rightarrow> 'a \<times> Client" where
  "ask f s = (f (c_tick s), s\<lparr>c_tick := Suc (c_tick s)\<rparr>)"

definition note_event :: "ClientEvent \<Rightarrow> Client \<Rightarrow> Client" where
  "note_event e s = s\<lparr>c_log := c_log s @ [e]\<rparr>"

definition u32_div :: "u32 \<Rightarrow> nat \<Rightarrow> nat \<Rightarrow> u32" where
  "u32_div w a b = of_nat (unat w * a div b)"

section \<open>Timers and results\<close>

text \<open>\<^verbatim>\<open>StartTimer\<close> does nothing when the timer has an id. Each id variable goes with one \<^verbatim>\<open>TimerType\<close>, so the map \<open>c_timers\<close>
  stands for \<^verbatim>\<open>getIpTimerId\<close>, \<^verbatim>\<open>renewDelayTimerId\<close>, \<^verbatim>\<open>rebindDelayTimerId\<close>, \<^verbatim>\<open>remainingDelayTimerId\<close> and
  \<^verbatim>\<open>slowArpTimeoutTimerId_\<close>.\<close>

definition StartTimer :: "Env \<Rightarrow> TimerType \<Rightarrow> int \<Rightarrow> Client \<Rightarrow> Client" where
  "StartTimer E type interval s =
     (if c_timers s type \<noteq> 0 then s
      else let (tid, s) = ask (en_timerid E) s
           in note_event (TimerStarted type tid interval) (s\<lparr>c_timers := (c_timers s)(type := tid)\<rparr>))"

definition StopTimer :: "TimerType \<Rightarrow> Client \<Rightarrow> Client" where
  "StopTimer type s =
     (if c_timers s type = 0 then s
      else note_event (TimerStopped type (c_timers s type)) (s\<lparr>c_timers := (c_timers s)(type := 0)\<rparr>))"

definition CloseAllRenewTimer :: "Client \<Rightarrow> Client" where
  "CloseAllRenewTimer s = StopTimer TIMER_REMAINING_DELAY (StopTimer TIMER_REBIND_DELAY (StopTimer TIMER_RENEW_DELAY s))"

definition UnRegisterSlowArp :: "Client \<Rightarrow> Client" where
  "UnRegisterSlowArp s = note_event (SlowArpUnregistered (c_slowArpTaskId s)) s"

definition StopIpv4 :: "Client \<Rightarrow> Client" where
  "StopIpv4 s =
     (if c_thread s = IPV4_TASK_RUNNING then
        let s = s\<lparr>c_thread := IPV4_TASK_STOP_REQUESTED, c_slowArpDetecting := False, c_conflictCount := 0\<rparr>;
            s = UnRegisterSlowArp (StopTimer TIMER_SLOW_ARP (StopTimer TIMER_GET_IP s))
        in s\<lparr>c_slowArpTaskId := 0\<rparr>
      else s)"

definition StopIpv4Type :: "Client \<Rightarrow> Client" where
  "StopIpv4Type s = StopIpv4 (CloseAllRenewTimer s)"

definition SetSocketMode :: "SocketMode \<Rightarrow> Client \<Rightarrow> Client" where
  "SetSocketMode mode s = s\<lparr>c_socketMode := mode\<rparr>"

definition PublishDhcpIpv4Result :: "Env \<Rightarrow> DhcpIpResult \<Rightarrow> Client \<Rightarrow> bool \<times> Client" where
  "PublishDhcpIpv4Result E r s = ask (en_publish E) (note_event (Published r) s)"

text \<open>The return value, the result structure with code, time and name filled in, and the state.\<close>

definition PublishDhcpResultEvent :: "Env \<Rightarrow> string \<Rightarrow> int \<Rightarrow> DhcpIpResult \<Rightarrow> Client \<Rightarrow> int \<times> DhcpIpResult \<times> Client" where
  "PublishDhcpResultEvent E ifname code result s =
     (if code \<noteq> PUBLISH_CODE_SUCCESS \<and> code \<noteq> PUBLISH_CODE_FAILED \<and> code \<noteq> PUBLISH_CODE_TIMEOUT
      then (DHCP_OPT_FAILED, result, s)
      else
        let (t, s) = ask (en_time E) s;
            result = result\<lparr>ir_code := code, ir_uAddTime := word_of_int t, ir_ifname := ifname\<rparr>;
            (ret, s) = PublishDhcpIpv4Result E result s
        in (if ret then DHCP_OPT_SUCCESS else DHCP_OPT_FAILED, result, s))"

text \<open>Publishing the member \<^verbatim>\<open>m_dhcpIpResult\<close>.\<close>

definition PublishResult :: "Env \<Rightarrow> int \<Rightarrow> Client \<Rightarrow> int \<times> Client" where
  "PublishResult E code s =
     (let (ret, r, s) = PublishDhcpResultEvent E (c_ifaceName s) code (c_result s) s in (ret, s\<lparr>c_result := r\<rparr>))"

section \<open>Sending\<close>

definition GetRandomId :: "Env \<Rightarrow> Client \<Rightarrow> u32 \<times> Client" where
  "GetRandomId E s = ask (en_random E) s"

definition SetSecondsElapsed :: "Env \<Rightarrow> DhcpPacket \<Rightarrow> Client \<Rightarrow> DhcpPacket \<times> Client" where
  "SetSecondsElapsed E packet s =
     (let (curTimeSeconds, s) = ask (en_boot E) s;
          s = (if c_firstSendPacketTime s = 0 then s\<lparr>c_firstSendPacketTime := curTimeSeconds\<rparr> else s)
      in (packet\<lparr>dp_secs := htons (word_of_int (curTimeSeconds - c_firstSendPacketTime s))\<rparr>, s))"

text \<open>The end of every send method: a packet that could not be built is a fault.\<close>

definition SendToDhcpPacket :: "DhcpPacket option \<Rightarrow> u32 \<Rightarrow> u32 \<Rightarrow> Client \<Rightarrow> Client" where
  "SendToDhcpPacket p srcIp destIp s = (case p of
       None \<Rightarrow> s\<lparr>c_fault := True\<rparr>
     | Some packet \<Rightarrow> note_event (SentBroadcast packet srcIp destIp (c_ifaceIndex s)) s)"

definition SendDhcpPacket :: "DhcpPacket option \<Rightarrow> u32 \<Rightarrow> u32 \<Rightarrow> Client \<Rightarrow> Client" where
  "SendDhcpPacket p srcIp destIp s = (case p of
       None \<Rightarrow> s\<lparr>c_fault := True\<rparr>
     | Some packet \<Rightarrow> note_event (SentUnicast packet srcIp destIp) s)"

definition common_packet :: "Env \<Rightarrow> u8 \<Rightarrow> Client \<Rightarrow> DhcpPacket option" where
  "common_packet E type s =
     Option.bind (GetPacketHeaderInfo type zero_packet) (GetPacketCommonInfo (c_ifaceMac s) (en_vendor E) (en_model E))"

definition DhcpDiscover :: "Env \<Rightarrow> u32 \<Rightarrow> u32 \<Rightarrow> Client \<Rightarrow> Client" where
  "DhcpDiscover E transid requestip s = (case common_packet E DHCPDISCOVER s of
       None \<Rightarrow> s\<lparr>c_fault := True\<rparr>
     | Some packet \<Rightarrow>
         let (packet, s) = SetSecondsElapsed E (packet\<lparr>dp_xid := transid\<rparr>) s;
             p = Option.bind (AddOptValue MAXIMUM_DHCP_MESSAGE_SIZE_OPTION MAX_MSG_SIZE packet) AddParamaterRequestList
         in SendToDhcpPacket p INADDR_ANY INADDR_BROADCAST s)"

definition DhcpRequest :: "Env \<Rightarrow> u32 \<Rightarrow> u32 \<Rightarrow> u32 \<Rightarrow> Client \<Rightarrow> Client" where
  "DhcpRequest E transid reqip servip s = (case common_packet E DHCPREQUEST s of
       None \<Rightarrow> s\<lparr>c_fault := True\<rparr>
     | Some packet \<Rightarrow>
         let (packet, s) = SetSecondsElapsed E (packet\<lparr>dp_xid := transid\<rparr>) s;
             p = Option.bind (AddOptValue SERVER_IDENTIFIER_OPTION servip packet) (\<lambda>p.
                 Option.bind (AddOptValue REQUESTED_IP_ADDRESS_OPTION reqip p) (\<lambda>p.
                 Option.bind (AddOptValue MAXIMUM_DHCP_MESSAGE_SIZE_OPTION MAX_MSG_SIZE p) AddParamaterRequestList))
         in SendToDhcpPacket p INADDR_ANY INADDR_BROADCAST s)"

definition DhcpReboot :: "Env \<Rightarrow> u32 \<Rightarrow> u32 \<Rightarrow> Client \<Rightarrow> Client" where
  "DhcpReboot E transid reqip s = (case GetPacketHeaderInfo DHCPREQUEST zero_packet of
       None \<Rightarrow> s\<lparr>c_fault := True\<rparr>
     | Some packet \<Rightarrow>
         let packet = (set_chaddr (c_ifaceMac s) packet)\<lparr>dp_xid := transid\<rparr>;
             (packet, s) = SetSecondsElapsed E packet s;
             p = Option.bind (AddClientIdToOpts (c_ifaceMac s) packet) (\<lambda>p.
                 Option.bind (AddOptValue REQUESTED_IP_ADDRESS_OPTION reqip p) (\<lambda>p.
                 Option.bind (AddOptValue MAXIMUM_DHCP_MESSAGE_SIZE_OPTION MAX_MSG_SIZE p) (\<lambda>p.
                 Option.bind (AddHostNameToOpts (en_vendor E) (en_model E) p) AddParamaterRebootList)))
         in SendToDhcpPacket p INADDR_ANY INADDR_BROADCAST s)"

definition DhcpRenew :: "Env \<Rightarrow> u32 \<Rightarrow> u32 \<Rightarrow> u32 \<Rightarrow> Client \<Rightarrow> Client" where
  "DhcpRenew E transid clientip serverip s = (case common_packet E DHCPREQUEST s of
       None \<Rightarrow> s\<lparr>c_fault := True\<rparr>
     | Some packet \<Rightarrow>
         let (packet, s) = SetSecondsElapsed E (packet\<lparr>dp_xid := transid\<rparr>) s;
             p = Option.bind (AddParamaterRequestList (packet\<lparr>dp_ciaddr := clientip\<rparr>))
                   (AddOptValue MAXIMUM_DHCP_MESSAGE_SIZE_OPTION MAX_MSG_SIZE)
         in if serverip = 0 then SendToDhcpPacket p INADDR_ANY INADDR_BROADCAST s
            else SendDhcpPacket p clientip serverip s)"

definition DhcpRelease :: "Env \<Rightarrow> u32 \<Rightarrow> u32 \<Rightarrow> Client \<Rightarrow> Client" where
  "DhcpRelease E clientip serverip s = (case common_packet E DHCPRELEASE s of
       None \<Rightarrow> s\<lparr>c_fault := True\<rparr>
     | Some packet \<Rightarrow>
         let (xid, s) = GetRandomId E s;
             p = Option.bind (AddOptValue REQUESTED_IP_ADDRESS_OPTION clientip (packet\<lparr>dp_xid := xid\<rparr>))
                   (AddOptValue SERVER_IDENTIFIER_OPTION serverip)
         in SendDhcpPacket p clientip serverip s)"

definition DhcpDecline :: "Env \<Rightarrow> u32 \<Rightarrow> u32 \<Rightarrow> u32 \<Rightarrow> Client \<Rightarrow> Client" where
  "DhcpDecline E transId clientIp serverIp s = (case GetPacketHeaderInfo DHCPDECLINE zero_packet of
       None \<Rightarrow> s\<lparr>c_fault := True\<rparr>
     | Some packet \<Rightarrow>
         let packet = set_chaddr (c_ifaceMac s) (packet\<lparr>dp_xid := transId\<rparr>);
             p = Option.bind (AddClientIdToOpts (c_ifaceMac s) packet) (\<lambda>p.
                 Option.bind (AddOptValue REQUESTED_IP_ADDRESS_OPTION clientIp p) (\<lambda>p.
                 Option.bind (AddOptValue SERVER_IDENTIFIER_OPTION serverIp p) (\<lambda>p.
                 Option.bind (AddOptValue REQUESTED_IP_ADDRESS_OPTION clientIp p)
                   (AddOptValue SERVER_IDENTIFIER_OPTION serverIp))))
         in SendToDhcpPacket p INADDR_ANY INADDR_BROADCAST s)"

section \<open>The lease and the cache\<close>

text \<open>\<^verbatim>\<open>m_leaseTime * 0.5\<close> and \<^verbatim>\<open>* 0.875\<close> are exact on 32-bit numbers before the cut to an integer; \<open>remainingDelay\<close> is a multiple
  of 1000, so that its products are exact too.\<close>

definition lease_seconds :: "u32 \<Rightarrow> Client \<Rightarrow> Client" where
  "lease_seconds lease s = s\<lparr>c_leaseTime := lease, c_renewalSec := u32_div lease 1 2, c_rebindSec := u32_div lease 7 8\<rparr>"

definition start_lease_timers :: "Env \<Rightarrow> int \<Rightarrow> Client \<Rightarrow> Client" where
  "start_lease_timers E remainingDelay s =
     (let s' = CloseAllRenewTimer s in
      if en_pc E \<and> rc_bSpecificNetwork (c_routerCfg s)
      then StartTimer E TIMER_REMAINING_DELAY remainingDelay (StartTimer E TIMER_RENEW_DELAY (remainingDelay * 9 div 10) s')
      else StartTimer E TIMER_REMAINING_DELAY remainingDelay
             (StartTimer E TIMER_REBIND_DELAY (remainingDelay * 7 div 8)
               (StartTimer E TIMER_RENEW_DELAY (remainingDelay div 2) s')))"

definition lease_rest :: "u32 \<Rightarrow> int \<Rightarrow> int" where
  "lease_rest lease delay = (if uint lease < delay then uint lease else uint lease - delay) * 1000"

definition ScheduleLeaseTimers :: "Env \<Rightarrow> bool \<Rightarrow> Client \<Rightarrow> Client" where
  "ScheduleLeaseTimers E isCachedIp s =
     (if isCachedIp then
        let (cur, s) = ask (en_time E) s in
        if cur = -1 then s
        else let delay = (if cur < c_renewalTimestamp s then 0 else cur - c_renewalTimestamp s)
             in start_lease_timers E (lease_rest (c_leaseTime s) delay) s
      else
        let (cur, s) = ask (en_boot E) s;
            delay = (if cur < c_renewalTimestampBoot s then 0 else cur - c_renewalTimestampBoot s)
        in start_lease_timers E (lease_rest (c_leaseTime s) delay) s)"

definition is_wlan :: "Client \<Rightarrow> bool" where
  "is_wlan s \<longleftrightarrow> take 4 (c_ifaceName s) = ''wlan''"

definition GetCachedDhcpResult :: "Env \<Rightarrow> string \<Rightarrow> Client \<Rightarrow> IpInfoCached option \<times> Client" where
  "GetCachedDhcpResult E targetBssid s =
     (let (now, s) = ask (en_time E) s; (r, st) = GetCachedIp (en_item E) now targetBssid (c_store s)
      in (r, s\<lparr>c_store := st\<rparr>))"

definition SaveIpInfo :: "Env \<Rightarrow> DhcpIpResult \<Rightarrow> Client \<Rightarrow> Client" where
  "SaveIpInfo E ipResult s =
     (if \<not> is_wlan s then s
      else if rc_bssid (c_routerCfg s) = [] then s
      else
        let (t, s) = ask (en_time E) s;
            info = \<lparr>ic_bssid = rc_bssid (c_routerCfg s), ic_ssid = [],
                    ic_absoluteLeasetime = uint (ir_uOptLeasetime ipResult) + t, ic_ipResult = ipResult\<rparr>;
            (now, s) = ask (en_time E) s
        in s\<lparr>c_store := snd (SaveIpInfoInLocalFile now info (c_store s))\<rparr>)"

definition TryCachedIp :: "Env \<Rightarrow> Client \<Rightarrow> Client" where
  "TryCachedIp E s =
     (if rc_prohibitUseCacheIp (c_routerCfg s) then s
      else if \<not> is_wlan s then s
      else
        let (cached, s) = GetCachedDhcpResult E (rc_bssid (c_routerCfg s)) s in
        case cached of
          None \<Rightarrow> s
        | Some ipCached \<Rightarrow>
          let (ret, r, s) = PublishDhcpResultEvent E (c_ifaceName s) PUBLISH_CODE_SUCCESS (ic_ipResult ipCached) s;
              (r, s) = (if ret \<noteq> DHCP_OPT_SUCCESS
                        then snd (PublishDhcpResultEvent E (c_ifaceName s) PUBLISH_CODE_FAILED r s) else (r, s));
              s = lease_seconds (ir_uOptLeasetime r) (StopIpv4 s)
          in ScheduleLeaseTimers E True (s\<lparr>c_renewalTimestamp := uint (ir_uAddTime r)\<rparr>))"

section \<open>Requests\<close>

definition timeout_sec :: "u32 \<Rightarrow> int" where
  "timeout_sec n = 2 ^ unat (if n > 5 then 5 else n)"

definition InitSelecting :: "Env \<Rightarrow> int \<Rightarrow> Client \<Rightarrow> Client" where
  "InitSelecting E timestamp s =
     (if c_sentPacketNum s > 15 then s\<lparr>c_timeoutTimestamp := timestamp + 60, c_sentPacketNum := 0\<rparr>
      else
        let s = (if c_sentPacketNum s = 0 then let (r, s) = GetRandomId E s in s\<lparr>c_transID := r\<rparr> else s);
            s = DhcpDiscover E (c_transID s) (c_requestedIp4 s) s;
            s = s\<lparr>c_state := DHCP_STATE_SELECTING\<rparr>;
            uTimeoutSec = timeout_sec (c_sentPacketNum s);
            s = (if uTimeoutSec > 6 \<and> c_action s \<noteq> ACTION_RENEW_T3 then TryCachedIp E s else s)
        in s\<lparr>c_timeoutTimestamp := timestamp + uTimeoutSec, c_sentPacketNum := c_sentPacketNum s + 1\<rparr>)"

definition back_to_init :: "int \<Rightarrow> Client \<Rightarrow> Client" where
  "back_to_init timestamp s =
     (SetSocketMode SOCKET_MODE_RAW (s\<lparr>c_state := DHCP_STATE_INIT\<rparr>))\<lparr>c_sentPacketNum := 0, c_timeoutTimestamp := timestamp\<rparr>"

definition SendReboot :: "Env \<Rightarrow> u32 \<Rightarrow> int \<Rightarrow> Client \<Rightarrow> Client" where
  "SendReboot E targetIp timestamp s =
     (if c_sentPacketNum s \<ge> 2 then back_to_init timestamp s
      else
        let s = s\<lparr>c_timeoutTimestamp := timestamp + timeout_sec (c_sentPacketNum s), c_requestedIp4 := targetIp\<rparr>;
            s = DhcpReboot E (c_transID s) (c_requestedIp4 s) s
        in s\<lparr>c_sentPacketNum := c_sentPacketNum s + 1\<rparr>)"

definition Reboot :: "Env \<Rightarrow> int \<Rightarrow> Client \<Rightarrow> Client" where
  "Reboot E timestamp s =
     (if \<not> is_wlan s then s
      else if rc_bssid (c_routerCfg s) = [] then s
      else
        let (cached, s) = GetCachedDhcpResult E (rc_bssid (c_routerCfg s)) s in
        case cached of
          None \<Rightarrow> s
        | Some ipInfoCached \<Rightarrow>
          if timestamp > ic_absoluteLeasetime ipInfoCached then s
          else case Ip4StrConToInt (ir_strYiaddr (ic_ipResult ipInfoCached)) False of
            None \<Rightarrow> s
          | Some addr \<Rightarrow>
              if addr \<noteq> 0 then
                let (r, s) = GetRandomId E s
                in SendReboot E addr timestamp (s\<lparr>c_transID := r, c_state := DHCP_STATE_INITREBOOT, c_sentPacketNum := 0\<rparr>)
              else s)"

definition Requesting :: "Env \<Rightarrow> int \<Rightarrow> Client \<Rightarrow> Client" where
  "Requesting E timestamp s =
     (if c_sentPacketNum s > 15 then back_to_init timestamp s
      else
        let s = (if c_state s = DHCP_STATE_RENEWED then DhcpRenew E (c_transID s) (c_requestedIp4 s) (c_serverIp4 s) s
                 else DhcpRequest E (c_transID s) (c_requestedIp4 s) (c_serverIp4 s) s);
            uTimeoutSec = timeout_sec (c_sentPacketNum s);
            s = (if uTimeoutSec > 6 then TryCachedIp E s else s)
        in s\<lparr>c_timeoutTimestamp := timestamp + uTimeoutSec, c_sentPacketNum := c_sentPacketNum s + 1\<rparr>)"

definition Renewing :: "Env \<Rightarrow> int \<Rightarrow> Client \<Rightarrow> Client" where
  "Renewing E timestamp s =
     (let s = (if c_state s = DHCP_STATE_RENEWING then DhcpRenew E (c_transID s) (c_requestedIp4 s) (c_serverIp4 s) s else s)
      in s\<lparr>c_timeoutTimestamp := timestamp + timeout_sec (c_sentPacketNum s), c_sentPacketNum := c_sentPacketNum s + 1\<rparr>)"

definition Rebinding4 :: "Env \<Rightarrow> int \<Rightarrow> Client \<Rightarrow> Client" where
  "Rebinding4 E timestamp s =
     (let s = (if c_state s = DHCP_STATE_REBINDING then DhcpRenew E (c_transID s) (c_requestedIp4 s) 0 s else s)
      in s\<lparr>c_timeoutTimestamp := timestamp + timeout_sec (c_sentPacketNum s), c_sentPacketNum := c_sentPacketNum s + 1\<rparr>)"

text \<open>The common end of getting a lease: \<^verbatim>\<open>DHCP_STATE_BOUND\<close>, the thread stopped, the lease timers started.\<close>

definition enter_bound :: "Env \<Rightarrow> int \<Rightarrow> Client \<Rightarrow> Client" where
  "enter_bound E t s =
     ScheduleLeaseTimers E False (StopIpv4 (s\<lparr>c_state := DHCP_STATE_BOUND, c_sentPacketNum := 0, c_resendTimer := 0,
       c_timeoutTimestamp := t + uint (c_renewalSec s)\<rparr>))"

definition Declining :: "Env \<Rightarrow> int \<Rightarrow> Client \<Rightarrow> Client" where
  "Declining E timestamp s =
     (let s = s\<lparr>c_conflictCount := c_conflictCount s + 1\<rparr> in
      if c_conflictCount s > 2 then
        let (ret, s) = PublishResult E PUBLISH_CODE_SUCCESS s;
            s = (if ret \<noteq> DHCP_OPT_SUCCESS then snd (PublishResult E PUBLISH_CODE_FAILED s) else s);
            s = StopIpv4 (SaveIpInfo E (c_result s) s)
        in s\<lparr>c_state := DHCP_STATE_BOUND, c_sentPacketNum := 0, c_resendTimer := 0, c_timeoutTimestamp := timestamp\<rparr>
      else
        let s = DhcpDecline E (c_transID s) (c_requestedIp4 s) (c_serverIp4 s) (s\<lparr>c_timeoutTimestamp := timestamp + 1\<rparr>)
        in s\<lparr>c_state := DHCP_STATE_INIT, c_sentPacketNum := 0\<rparr>)"

section \<open>Conflict detection\<close>

definition IsArpReachable :: "Env \<Rightarrow> Client \<Rightarrow> bool \<times> Client" where
  "IsArpReachable E s = (case MacChConToMacStr (c_ifaceMac s) 6 18 of None \<Rightarrow> (False, s) | Some _ \<Rightarrow> ask (en_arp E) s)"

definition IpConflictDetect :: "Client \<Rightarrow> Client" where
  "IpConflictDetect s = s\<lparr>c_sentPacketNum := 0, c_timeoutTimestamp := 0, c_state := DHCP_STATE_FAST_ARP,
     c_arpDectionTargetIp := Ip4IntConvertToStr (c_requestedIp4 s) False\<rparr>"

definition FastArpDetect :: "Env \<Rightarrow> Client \<Rightarrow> Client" where
  "FastArpDetect E s =
     (let (reach, s) = IsArpReachable E s in
      if reach then SetSocketMode SOCKET_MODE_RAW (s\<lparr>c_state := DHCP_STATE_DECLINE\<rparr>)
      else
        let (ret, s) = PublishResult E PUBLISH_CODE_SUCCESS s in
        if ret \<noteq> DHCP_OPT_SUCCESS then StopIpv4 (snd (PublishResult E PUBLISH_CODE_FAILED s))
        else (SaveIpInfo E (c_result s) s)\<lparr>c_state := DHCP_STATE_SLOW_ARP, c_slowArpDetecting := True\<rparr>)"

definition SlowArpDetectCallback :: "Env \<Rightarrow> bool \<Rightarrow> Client \<Rightarrow> Client" where
  "SlowArpDetectCallback E isReachable s =
     (if \<not> c_slowArpDetecting s then s
      else
        let s = (if isReachable
                 then StopTimer TIMER_SLOW_ARP (SetSocketMode SOCKET_MODE_RAW (s\<lparr>c_state := DHCP_STATE_DECLINE, c_timeoutTimestamp := 0\<rparr>))
                 else let (t, s) = ask (en_time E) s in enter_bound E t s)
        in UnRegisterSlowArp (s\<lparr>c_slowArpDetecting := False\<rparr>))"

definition SlowArpTimeoutCallback :: "Env \<Rightarrow> Client \<Rightarrow> Client" where
  "SlowArpTimeoutCallback E s =
     (if \<not> c_slowArpDetecting s then s
      else let (t, s) = ask (en_time E) s in enter_bound E t s)"

text \<open>The end of the ARP task that \<^verbatim>\<open>SlowArpDetect\<close> registers: \<open>tastId\<close> is the id it read at its start.\<close>

definition SlowArpTask :: "Env \<Rightarrow> u32 \<Rightarrow> Client \<Rightarrow> Client" where
  "SlowArpTask E tastId s =
     (let (ret, s) = IsArpReachable E s in SlowArpDetectCallback E (if tastId \<noteq> c_slowArpTaskId s then False else ret) s)"

definition SlowArpDetect :: "Env \<Rightarrow> int \<Rightarrow> Client \<Rightarrow> Client" where
  "SlowArpDetect E timestamp s =
     (let s =
        (if c_sentPacketNum s > 2 then enter_bound E timestamp s
         else if c_sentPacketNum s = 2 then
           let s = s\<lparr>c_timeoutTimestamp := 4 + 4 + timestamp\<rparr>;
               (tid, s) = ask (en_taskid E) s;
               s = note_event (SlowArpRegistered tid) (s\<lparr>c_slowArpTaskId := tid\<rparr>)
           in StartTimer E TIMER_SLOW_ARP 4000 s
         else
           let (reach, s) = IsArpReachable E s in
           if reach then SetSocketMode SOCKET_MODE_RAW (s\<lparr>c_state := DHCP_STATE_DECLINE, c_slowArpDetecting := False\<rparr>) else s)
      in s\<lparr>c_sentPacketNum := c_sentPacketNum s + 1\<rparr>)"

section \<open>The timeout of the loop\<close>

definition DhcpRequestHandle :: "Env \<Rightarrow> int \<Rightarrow> Client \<Rightarrow> Client" where
  "DhcpRequestHandle E timestamp s = (case c_state s of
       DHCP_STATE_INIT \<Rightarrow> InitSelecting E timestamp s
     | DHCP_STATE_SELECTING \<Rightarrow> InitSelecting E timestamp s
     | DHCP_STATE_REQUESTING \<Rightarrow> Requesting E timestamp s
     | DHCP_STATE_RENEWED \<Rightarrow> Requesting E timestamp s
     | DHCP_STATE_BOUND \<Rightarrow> Renewing E timestamp (s\<lparr>c_state := DHCP_STATE_RENEWING\<rparr>)
     | DHCP_STATE_RENEWING \<Rightarrow> Renewing E timestamp s
     | DHCP_STATE_REBINDING \<Rightarrow> Rebinding4 E timestamp s
     | DHCP_STATE_INITREBOOT \<Rightarrow> SendReboot E (c_requestedIp4 s) timestamp s
     | DHCP_STATE_RELEASED \<Rightarrow> s\<lparr>c_timeoutTimestamp := SIGNED_INTEGER_MAX\<rparr>
     | DHCP_STATE_FAST_ARP \<Rightarrow> FastArpDetect E s
     | DHCP_STATE_SLOW_ARP \<Rightarrow> SlowArpDetect E timestamp s
     | DHCP_STATE_DECLINE \<Rightarrow> Declining E timestamp s)"

section \<open>Responses\<close>

definition DhcpOfferPacketHandle :: "u8 \<Rightarrow> DhcpPacket \<Rightarrow> int \<Rightarrow> Client \<Rightarrow> Client" where
  "DhcpOfferPacketHandle type packet timestamp s =
     (if type \<noteq> DHCPOFFER then s
      else
        let (ok, u32Data) = GetDhcpOptionUint32 packet SERVER_IDENTIFIER_OPTION 0 in
        if \<not> ok then s
        else s\<lparr>c_transID := dp_xid packet, c_requestedIp4 := dp_yiaddr packet, c_serverIp4 := htonl u32Data,
               c_state := DHCP_STATE_REQUESTING, c_sentPacketNum := 0, c_timeoutTimestamp := timestamp\<rparr>)"

definition ParseDhcpAckPacket :: "Env \<Rightarrow> DhcpPacket \<Rightarrow> int \<Rightarrow> Client \<Rightarrow> Client" where
  "ParseDhcpAckPacket E packet timestamp s =
     (let (ok, u32Data) = GetDhcpOptionUint32 packet IP_ADDRESS_LEASE_TIME_OPTION 0;
          s = lease_seconds (if ok then u32Data else 3600) (s\<lparr>c_requestedIp4 := dp_yiaddr packet\<rparr>);
          (boot, s) = ask (en_boot E) s;
          s = s\<lparr>c_renewalTimestamp := timestamp, c_renewalTimestampBoot := boot\<rparr>;
          r = (c_result s)\<lparr>ir_uOptLeasetime := c_leaseTime s\<rparr>;
          (serverIp4, r) = ParseNetworkServerIdInfo packet (c_serverIp4 s) r;
          r = ParseNetworkInfo packet (c_requestedIp4 s) r;
          r = ParseNetworkDnsInfo (en_dns1 E) (en_dns2 E) packet r;
          r = ParseNetworkVendorInfo packet r
      in s\<lparr>c_serverIp4 := serverIp4, c_result := r\<rparr>)"

definition ParseDhcpNakPacket :: "int \<Rightarrow> Client \<Rightarrow> Client" where
  "ParseDhcpNakPacket timestamp s =
     (let s = (back_to_init timestamp s)\<lparr>c_requestedIp4 := 0\<rparr> in
      if c_resendTimer s = 0 then s\<lparr>c_resendTimer := 1\<rparr>
      else
        let s = note_event (Slept (c_resendTimer s)) s;
            t = c_resendTimer s * 2
        in s\<lparr>c_resendTimer := if t > 6 then 6 else t\<rparr>)"

definition SetIpOrMask :: "Env \<Rightarrow> ClientEvent \<Rightarrow> Client \<Rightarrow> int \<times> Client" where
  "SetIpOrMask E e s =
     (let (ok, s) = ask (en_syscall E) s in if ok then (DHCP_OPT_SUCCESS, note_event e s) else (DHCP_OPT_FAILED, s))"

definition SetLocalInterface :: "Env \<Rightarrow> u32 \<Rightarrow> u32 \<Rightarrow> Client \<Rightarrow> int \<times> Client" where
  "SetLocalInterface E ipAddr netMask s =
     (if c_ifaceName s = [] then (DHCP_OPT_FAILED, s)
      else
        let (fd, s) = ask (en_syscall E) s in
        if \<not> fd then (DHCP_OPT_FAILED, s)
        else
          let (ret, s) = SetIpOrMask E (IfAddressSet (c_ifaceName s) ipAddr) s in
          if ret \<noteq> DHCP_OPT_SUCCESS then (DHCP_OPT_FAILED, s)
          else
            let (ret, s) = SetIpOrMask E (IfNetmaskSet (c_ifaceName s) netMask) s in
            if ret \<noteq> DHCP_OPT_SUCCESS then (DHCP_OPT_FAILED, s) else (DHCP_OPT_SUCCESS, s))"

text \<open>The part behind \<^verbatim>\<open>ParseDhcpAckPacket\<close>.\<close>

definition DhcpAckHandle :: "Env \<Rightarrow> int \<Rightarrow> Client \<Rightarrow> Client" where
  "DhcpAckHandle E timestamp s =
     (let (ret, s) = SetLocalInterface E (inet_addr (ir_strYiaddr (c_result s))) (inet_addr (ir_strOptSubnet (c_result s))) s in
      if ret \<noteq> DHCP_OPT_SUCCESS then s
      else
        let s = CloseAllRenewTimer (s\<lparr>c_result := FormatString (c_result s)\<rparr>);
            reboot_dns = (c_state s = DHCP_STATE_INITREBOOT \<and> ir_dnsAddr (c_result s) = []);
            (cached, s) = (if reboot_dns then GetCachedDhcpResult E (rc_bssid (c_routerCfg s)) s else (None, s))
        in if reboot_dns \<and> cached = None then s
           else
             let s = (case cached of
                        None \<Rightarrow> s
                      | Some ipCached \<Rightarrow> s\<lparr>c_result := (c_result s)\<lparr>ir_dnsAddr := ir_dnsAddr (ic_ipResult ipCached)\<rparr>\<rparr>)
             in if c_state s = DHCP_STATE_REQUESTING \<or> c_state s = DHCP_STATE_INITREBOOT then IpConflictDetect s
                else
                  let (ret, s) = PublishResult E PUBLISH_CODE_SUCCESS s
                  in if ret \<noteq> DHCP_OPT_SUCCESS then s else enter_bound E timestamp s)"

definition DhcpAckOrNakPacketHandle :: "Env \<Rightarrow> u8 \<Rightarrow> DhcpPacket \<Rightarrow> int \<Rightarrow> Client \<Rightarrow> Client" where
  "DhcpAckOrNakPacketHandle E type packet timestamp s =
     (if type \<noteq> DHCPACK \<and> type \<noteq> DHCPNAK then
        (if c_state s = DHCP_STATE_INITREBOOT then s\<lparr>c_state := DHCP_STATE_INIT, c_timeoutTimestamp := timestamp\<rparr> else s)
      else
        let s = s\<lparr>c_result := zero_result\<rparr> in
        if type = DHCPNAK then ParseDhcpNakPacket timestamp s
        else DhcpAckHandle E timestamp (ParseDhcpAckPacket E packet timestamp s))"

text \<open>On a wireless interface every offer with the current transaction id, in any state, is reported; \<open>en_result\<close> is the
  local structure before its fields are set.\<close>

definition GetDhcpOffer :: "Env \<Rightarrow> DhcpPacket \<Rightarrow> Client \<Rightarrow> Client" where
  "GetDhcpOffer E packet s =
     (if \<not> is_wlan s then s
      else
        let (ok, u8Message) = GetDhcpOptionUint8 packet DHCP_MESSAGE_TYPE_OPTION 0 in
        if \<not> ok then s
        else if u8Message \<noteq> DHCPOFFER then s
        else
          let (ok, u32Data) = GetDhcpOptionUint32 packet IP_ADDRESS_LEASE_TIME_OPTION 0;
              s = s\<lparr>c_requestedIp4 := dp_yiaddr packet\<rparr>;
              r = (en_result E)\<lparr>ir_code := PUBLISH_DHCP_OFFER_REPORT, ir_ifname := c_ifaceName s,
                                ir_uOptLeasetime := (if ok then u32Data else 3600), ir_dnsAddr := []\<rparr>;
              (serverIp4, r) = ParseNetworkServerIdInfo packet (c_serverIp4 s) r;
              r = ParseNetworkInfo packet (c_requestedIp4 s) r;
              r = ParseNetworkDnsInfo (en_dns1 E) (en_dns2 E) packet r;
              r = ParseNetworkVendorInfo packet r
          in snd (PublishDhcpIpv4Result E r (s\<lparr>c_serverIp4 := serverIp4\<rparr>)))"

text \<open>\<open>packet = None\<close>: the socket gave no valid packet.\<close>

definition DhcpResponseDataCheck :: "Env \<Rightarrow> int \<Rightarrow> DhcpPacket option \<Rightarrow> Client \<Rightarrow> u8 option \<times> Client" where
  "DhcpResponseDataCheck E timestamp recv s = (case recv of
       None \<Rightarrow> (None, if c_state s = DHCP_STATE_INITREBOOT
                      then s\<lparr>c_state := DHCP_STATE_INIT, c_timeoutTimestamp := timestamp\<rparr> else s)
     | Some packet \<Rightarrow>
         if dp_xid packet \<noteq> c_transID s then (None, s)
         else
           let s = GetDhcpOffer E packet s;
               (ok, u8Message) = GetDhcpOptionUint8 packet DHCP_MESSAGE_TYPE_OPTION 0
           in if \<not> ok then (None, s) else (Some u8Message, s))"

definition DhcpResponseHandle :: "Env \<Rightarrow> int \<Rightarrow> DhcpPacket option \<Rightarrow> Client \<Rightarrow> Client" where
  "DhcpResponseHandle E timestamp recv s =
     (let (msg, s) = DhcpResponseDataCheck E timestamp recv s in
      case (msg, recv) of
        (Some u8Message, Some packet) \<Rightarrow>
          (if c_state s = DHCP_STATE_SELECTING then DhcpOfferPacketHandle u8Message packet timestamp s
           else if c_state s \<in> {DHCP_STATE_REQUESTING, DHCP_STATE_RENEWING, DHCP_STATE_REBINDING, DHCP_STATE_INITREBOOT,
                                DHCP_STATE_RENEWED}
             then DhcpAckOrNakPacketHandle E u8Message packet timestamp s
           else s)
      | _ \<Rightarrow> s)"

section \<open>Starting and stopping\<close>

definition WORKDIR :: string where
  "WORKDIR = ''/data/service/el1/public/dhcp/''"

definition InitSpecifiedClientCfg :: "Env \<Rightarrow> string \<Rightarrow> bool \<Rightarrow> Client \<Rightarrow> int \<times> Client" where
  "InitSpecifiedClientCfg E ifname isIpv6 s =
     (let s = s\<lparr>c_workDir := WORKDIR\<rparr> in
      if length ifname \<ge> 16 then (DHCP_OPT_FAILED, s\<lparr>c_ifaceName := []\<rparr>)
      else
        let s = s\<lparr>c_ifaceName := ifname\<rparr>; (ok, s) = ask (en_dirs E) s in
        if \<not> ok then (DHCP_OPT_FAILED, s)
        else (DHCP_OPT_SUCCESS,
              s\<lparr>c_confFile := WORKDIR @ ''dhcp_client_service.conf'', c_resultFile := WORKDIR @ ifname @ ''.result'',
                c_leaseFile := WORKDIR @ ''dhcp_client_service-'' @ ifname @ ''.lease'',
                c_result6File := WORKDIR @ ''dhcp_client_service-6-'' @ ifname @ ''.lease'',
                c_isIpv6 := isIpv6, c_getMode := if isIpv6 then DHCP_IP_TYPE_ALL else DHCP_IP_TYPE_V4\<rparr>))"

text \<open>\<^verbatim>\<open>GetLocalInterface\<close> and \<^verbatim>\<open>GetLocalIp\<close> ask the kernel; the hardware address has six bytes.\<close>

definition GetLocalInterface :: "Env \<Rightarrow> Client \<Rightarrow> int \<times> Client" where
  "GetLocalInterface E s =
     (if c_ifaceName s = [] then (DHCP_OPT_FAILED, s)
      else
        let (fd, s) = ask (en_syscall E) s in
        if \<not> fd then (DHCP_OPT_FAILED, s)
        else if length (c_ifaceName s) \<ge> 16 then (DHCP_OPT_FAILED, s)
        else
          let (idx, s) = ask (en_ifindex E) s in
          case idx of
            None \<Rightarrow> (DHCP_OPT_FAILED, s)
          | Some i \<Rightarrow>
            let (mac, s) = ask (en_ifmac E) (s\<lparr>c_ifaceIndex := i\<rparr>) in
            (case mac of None \<Rightarrow> (DHCP_OPT_FAILED, s) | Some m \<Rightarrow> (DHCP_OPT_SUCCESS, s\<lparr>c_ifaceMac := take 6 m\<rparr>)))"

definition GetClientNetworkInfo :: "Env \<Rightarrow> Client \<Rightarrow> int \<times> Client" where
  "GetClientNetworkInfo E s =
     (let (ret, s) = GetLocalInterface E s in
      if ret \<noteq> DHCP_OPT_SUCCESS then (DHCP_OPT_FAILED, s)
      else case MacChConToMacStr (c_ifaceMac s) 6 18 of
        None \<Rightarrow> (DHCP_OPT_FAILED, s)
      | Some _ \<Rightarrow>
        let (ip, s) = ask (en_localip E) s in
        (case ip of
           None \<Rightarrow> (DHCP_OPT_FAILED, s)
         | Some None \<Rightarrow> (DHCP_OPT_SUCCESS, s)
         | Some (Some a) \<Rightarrow> (DHCP_OPT_SUCCESS, s\<lparr>c_ifaceIpv4 := a\<rparr>)))"

definition InitConfig :: "Env \<Rightarrow> string \<Rightarrow> bool \<Rightarrow> Client \<Rightarrow> int \<times> Client" where
  "InitConfig E ifname isIpv6 s =
     (let (ret, s) = InitSpecifiedClientCfg E ifname isIpv6 s in
      if ret \<noteq> DHCP_OPT_SUCCESS then (DHCP_OPT_FAILED, s)
      else
        let (ret, s) = GetClientNetworkInfo E s in
        if ret \<noteq> DHCP_OPT_SUCCESS then (DHCP_OPT_FAILED, s)
        else (DHCP_OPT_SUCCESS, s\<lparr>c_slowArpDetecting := False\<rparr>))"

definition InitStartIpv4Thread :: "Env \<Rightarrow> Client \<Rightarrow> int \<times> Client" where
  "InitStartIpv4Thread E s =
     (if c_thread s \<noteq> IPV4_TASK_IDLE then (DHCP_OPT_FAILED, s)
      else
        let (ok, s) = ask (en_post E) (s\<lparr>c_thread := IPV4_TASK_RUNNING\<rparr>) in
        if \<not> ok then (DHCP_OPT_FAILED, s\<lparr>c_thread := IPV4_TASK_IDLE\<rparr>)
        else (DHCP_OPT_SUCCESS, note_event TaskPosted (s\<lparr>c_place := TaskQueued\<rparr>)))"

text \<open>The lock is released while \<^verbatim>\<open>StartIpv4Type\<close> waits for the old task: \<open>exited\<close> tells whether the task ended within the
  500 ms.\<close>

definition StartIpv4Type :: "Env \<Rightarrow> string \<Rightarrow> bool \<Rightarrow> ActionMode \<Rightarrow> bool \<Rightarrow> Client \<Rightarrow> int \<times> Client" where
  "StartIpv4Type E ifname isIpv6 action exited s =
     (let s = (if c_thread s \<noteq> IPV4_TASK_IDLE then
                 let s = StopIpv4 (CloseAllRenewTimer s)
                 in if exited then s\<lparr>c_thread := IPV4_TASK_IDLE, c_place := NoTask\<rparr> else s
               else s);
          s = s\<lparr>c_ifName := ifname, c_action := action\<rparr>;
          s = StartTimer E TIMER_GET_IP (uint (c_timeOut s)) (StopTimer TIMER_GET_IP s);
          (ret, s) = InitConfig E ifname isIpv6 s
      in if ret \<noteq> DHCP_OPT_SUCCESS then (DHCP_OPT_FAILED, s)
         else (DHCP_OPT_SUCCESS,
               if c_action s = ACTION_START_NEW \<or> c_action s = ACTION_START_OLD then snd (InitStartIpv4Thread E s) else s))"

definition DhcpInit :: "Env \<Rightarrow> Client \<Rightarrow> Client" where
  "DhcpInit E s =
     (let s = SetSocketMode SOCKET_MODE_RAW (s\<lparr>c_state := DHCP_STATE_INIT, c_resendTimer := 0, c_sentPacketNum := 0,
                c_timeoutTimestamp := 0, c_conflictCount := 0\<rparr>);
          s = note_event (KernelFile (''/proc/sys/net/ipv4/conf/'' @ c_ifName s @ ''/arp_ignore'') ''1'') s;
          s = note_event (KernelFile (''/proc/sys/net/ipv4/conf/'' @ c_ifName s @ ''/arp_announce'') ''2'') s;
          (t, s) = ask (en_time E) s
      in if t = -1 then s else Reboot E t s)"

text \<open>\<^verbatim>\<open>RunGetIPThreadFunc\<close> and \<^verbatim>\<open>StartIpv4\<close> up to the loop.\<close>

definition StartIpv4 :: "Env \<Rightarrow> Client \<Rightarrow> Client" where
  "StartIpv4 E s =
     (let s = (if c_action s \<notin> {ACTION_RENEW_T1, ACTION_RENEW_T2, ACTION_RENEW_T3} then DhcpInit E s else s);
          (ok, s) = ask (en_sockets E) (s\<lparr>c_firstSendPacketTime := 0\<rparr>)
      in if \<not> ok then s\<lparr>c_thread := IPV4_TASK_IDLE, c_place := NoTask\<rparr> else s\<lparr>c_place := TaskLooping\<rparr>)"

definition RunGetIPThreadFunc :: "Env \<Rightarrow> Client \<Rightarrow> Client" where
  "RunGetIPThreadFunc E s =
     (if c_getMode s = DHCP_IP_TYPE_ALL \<or> c_getMode s = DHCP_IP_TYPE_V4 then StartIpv4 E s else s\<lparr>c_place := NoTask\<rparr>)"

text \<open>One iteration of \<^verbatim>\<open>StartIpv4Loop\<close>: \<open>ready\<close> tells what \<^verbatim>\<open>select\<close> says of the socket, \<open>recv\<close> what the read gives. The end of the
  loop closes the sockets and marks the task as ended.\<close>

definition StartIpv4Loop_iteration :: "Env \<Rightarrow> int \<Rightarrow> bool \<Rightarrow> DhcpPacket option \<Rightarrow> Client \<Rightarrow> Client" where
  "StartIpv4Loop_iteration E curTimestamp ready recv s =
     (if c_thread s = IPV4_TASK_RUNNING then
        if c_timeoutTimestamp s - curTimestamp \<le> 0 then DhcpRequestHandle E curTimestamp s
        else if ready then DhcpResponseHandle E curTimestamp recv s
        else s
      else s\<lparr>c_thread := IPV4_TASK_IDLE, c_place := NoTask\<rparr>)"

section \<open>Timer callbacks\<close>

definition publish_code :: "Env \<Rightarrow> int \<Rightarrow> Client \<Rightarrow> Client" where
  "publish_code E code s = snd (PublishDhcpIpv4Result E ((en_result E)\<lparr>ir_code := code, ir_ifname := c_ifaceName s, ir_dnsAddr := []\<rparr>) s)"

definition GetIpTimerCallback :: "Env \<Rightarrow> Client \<Rightarrow> Client" where
  "GetIpTimerCallback E s =
     (if c_thread s \<noteq> IPV4_TASK_RUNNING then s
      else
        let s = StopIpv4 (StopTimer TIMER_GET_IP s) in
        if c_action s = ACTION_RENEW_T1 \<or> c_action s = ACTION_RENEW_T2 then s
        else if c_action s = ACTION_RENEW_T3 then publish_code E PUBLISH_CODE_EXPIRED s
        else publish_code E PUBLISH_CODE_TIMEOUT s)"

definition RenewDelayCallback :: "Env \<Rightarrow> Client \<Rightarrow> Client" where
  "RenewDelayCallback E s =
     (let s = (StopIpv4 (StopTimer TIMER_RENEW_DELAY s))\<lparr>c_action := ACTION_RENEW_T1\<rparr>;
          s = snd (InitConfig E (c_ifName s) (c_isIpv6 s) s);
          s = StartTimer E TIMER_GET_IP (uint (c_timeOut s)) s
      in snd (InitStartIpv4Thread E (s\<lparr>c_state := DHCP_STATE_RENEWING, c_sentPacketNum := 0, c_timeoutTimestamp := 0\<rparr>)))"

definition RebindDelayCallback :: "Env \<Rightarrow> Client \<Rightarrow> Client" where
  "RebindDelayCallback E s =
     (let s = (StopIpv4 (StopTimer TIMER_REBIND_DELAY s))\<lparr>c_action := ACTION_RENEW_T2\<rparr>;
          s = snd (InitConfig E (c_ifName s) (c_isIpv6 s) s);
          s = StartTimer E TIMER_GET_IP (uint (c_timeOut s)) s;
          s = s\<lparr>c_state := DHCP_STATE_REBINDING, c_sentPacketNum := 0, c_timeoutTimestamp := 0\<rparr>
      in snd (InitStartIpv4Thread E (SetSocketMode SOCKET_MODE_RAW s)))"

definition RemainingDelayCallback :: "Env \<Rightarrow> Client \<Rightarrow> Client" where
  "RemainingDelayCallback E s = publish_code E PUBLISH_CODE_EXPIRED ((CloseAllRenewTimer (StopIpv4 s))\<lparr>c_action := ACTION_RENEW_T3\<rparr>)"

definition SetTimerCallback :: "Env \<Rightarrow> TimerType \<Rightarrow> Client \<Rightarrow> Client" where
  "SetTimerCallback E type = (case type of
       TIMER_GET_IP \<Rightarrow> GetIpTimerCallback E
     | TIMER_RENEW_DELAY \<Rightarrow> RenewDelayCallback E
     | TIMER_REBIND_DELAY \<Rightarrow> RebindDelayCallback E
     | TIMER_REMAINING_DELAY \<Rightarrow> RemainingDelayCallback E
     | TIMER_SLOW_ARP \<Rightarrow> SlowArpTimeoutCallback E)"

section \<open>Renewing and releasing on request\<close>

definition ExecDhcpRenew :: "Client \<Rightarrow> Client" where
  "ExecDhcpRenew s =
     (let s = (if c_state s \<in> {DHCP_STATE_REQUESTING, DHCP_STATE_RELEASED, DHCP_STATE_RENEWED}
               then SetSocketMode SOCKET_MODE_RAW (s\<lparr>c_state := DHCP_STATE_INIT\<rparr>)
               else if c_state s \<in> {DHCP_STATE_BOUND, DHCP_STATE_RENEWING, DHCP_STATE_REBINDING}
               then s\<lparr>c_state := DHCP_STATE_RENEWED\<rparr> else s)
      in s\<lparr>c_sentPacketNum := 0, c_timeoutTimestamp := 0\<rparr>)"

definition ExecDhcpRelease :: "Env \<Rightarrow> Client \<Rightarrow> Client" where
  "ExecDhcpRelease E s =
     (let s = (if c_state s \<in> {DHCP_STATE_BOUND, DHCP_STATE_RENEWING, DHCP_STATE_REBINDING}
               then DhcpRelease E (c_requestedIp4 s) (c_serverIp4 s) s else s)
      in (SetSocketMode SOCKET_MODE_INVALID (s\<lparr>c_state := DHCP_STATE_RELEASED\<rparr>))\<lparr>c_timeoutTimestamp := SIGNED_INTEGER_MAX\<rparr>)"

definition SetConfiguration :: "RouterConfig \<Rightarrow> Client \<Rightarrow> Client" where
  "SetConfiguration cfg s = s\<lparr>c_routerCfg := cfg\<rparr>"

end
