(* ===== verification/DhcpClientInv.thy ===== *)
theory DhcpClientInv
  imports DhcpClientMachine
begin

text \<open>
  The runs of the IPv4 client as a step relation and the invariant of its reachable states. The first part lists, for each
  operation, the members it leaves alone; the second shows that every packet builder stays in its array; the third that
  every step keeps the invariant.
\<close>

section \<open>Members that an operation leaves alone\<close>

lemma ask_frame [simp]:
  "c_state (snd (ask f s)) = c_state s" "c_resendTimer (snd (ask f s)) = c_resendTimer s"
  "c_sentPacketNum (snd (ask f s)) = c_sentPacketNum s" "c_timeoutTimestamp (snd (ask f s)) = c_timeoutTimestamp s"
  "c_renewalTimestamp (snd (ask f s)) = c_renewalTimestamp s" "c_renewalTimestampBoot (snd (ask f s)) = c_renewalTimestampBoot s"
  "c_leaseTime (snd (ask f s)) = c_leaseTime s" "c_renewalSec (snd (ask f s)) = c_renewalSec s"
  "c_rebindSec (snd (ask f s)) = c_rebindSec s" "c_requestedIp4 (snd (ask f s)) = c_requestedIp4 s"
  "c_serverIp4 (snd (ask f s)) = c_serverIp4 s" "c_socketMode (snd (ask f s)) = c_socketMode s"
  "c_transID (snd (ask f s)) = c_transID s" "c_ifaceMac (snd (ask f s)) = c_ifaceMac s" "c_ifaceName (snd (ask f s)) = c_ifaceName s"
  "c_thread (snd (ask f s)) = c_thread s" "c_place (snd (ask f s)) = c_place s" "c_action (snd (ask f s)) = c_action s"
  "c_conflictCount (snd (ask f s)) = c_conflictCount s" "c_fault (snd (ask f s)) = c_fault s"
  "c_routerCfg (snd (ask f s)) = c_routerCfg s" "c_result (snd (ask f s)) = c_result s"
  "c_slowArpDetecting (snd (ask f s)) = c_slowArpDetecting s" "c_timeOut (snd (ask f s)) = c_timeOut s"
  by (simp_all add: ask_def Let_def case_prod_unfold split: option.splits)

lemma note_event_frame [simp]:
  "c_state (note_event e s) = c_state s" "c_resendTimer (note_event e s) = c_resendTimer s"
  "c_sentPacketNum (note_event e s) = c_sentPacketNum s" "c_timeoutTimestamp (note_event e s) = c_timeoutTimestamp s"
  "c_renewalTimestamp (note_event e s) = c_renewalTimestamp s" "c_renewalTimestampBoot (note_event e s) = c_renewalTimestampBoot s"
  "c_leaseTime (note_event e s) = c_leaseTime s" "c_renewalSec (note_event e s) = c_renewalSec s"
  "c_rebindSec (note_event e s) = c_rebindSec s" "c_requestedIp4 (note_event e s) = c_requestedIp4 s"
  "c_serverIp4 (note_event e s) = c_serverIp4 s" "c_socketMode (note_event e s) = c_socketMode s"
  "c_transID (note_event e s) = c_transID s" "c_ifaceMac (note_event e s) = c_ifaceMac s"
  "c_ifaceName (note_event e s) = c_ifaceName s" "c_thread (note_event e s) = c_thread s" "c_place (note_event e s) = c_place s"
  "c_action (note_event e s) = c_action s" "c_conflictCount (note_event e s) = c_conflictCount s"
  "c_fault (note_event e s) = c_fault s" "c_routerCfg (note_event e s) = c_routerCfg s" "c_result (note_event e s) = c_result s"
  "c_slowArpDetecting (note_event e s) = c_slowArpDetecting s" "c_timeOut (note_event e s) = c_timeOut s"
  by (simp_all add: note_event_def Let_def case_prod_unfold split: option.splits)

lemma StartTimer_frame [simp]:
  "c_state (StartTimer E ty i s) = c_state s" "c_resendTimer (StartTimer E ty i s) = c_resendTimer s"
  "c_sentPacketNum (StartTimer E ty i s) = c_sentPacketNum s" "c_timeoutTimestamp (StartTimer E ty i s) = c_timeoutTimestamp s"
  "c_renewalTimestamp (StartTimer E ty i s) = c_renewalTimestamp s"
  "c_renewalTimestampBoot (StartTimer E ty i s) = c_renewalTimestampBoot s" "c_leaseTime (StartTimer E ty i s) = c_leaseTime s"
  "c_renewalSec (StartTimer E ty i s) = c_renewalSec s" "c_rebindSec (StartTimer E ty i s) = c_rebindSec s"
  "c_requestedIp4 (StartTimer E ty i s) = c_requestedIp4 s" "c_serverIp4 (StartTimer E ty i s) = c_serverIp4 s"
  "c_socketMode (StartTimer E ty i s) = c_socketMode s" "c_transID (StartTimer E ty i s) = c_transID s"
  "c_ifaceMac (StartTimer E ty i s) = c_ifaceMac s" "c_ifaceName (StartTimer E ty i s) = c_ifaceName s"
  "c_thread (StartTimer E ty i s) = c_thread s" "c_place (StartTimer E ty i s) = c_place s"
  "c_action (StartTimer E ty i s) = c_action s" "c_conflictCount (StartTimer E ty i s) = c_conflictCount s"
  "c_fault (StartTimer E ty i s) = c_fault s" "c_routerCfg (StartTimer E ty i s) = c_routerCfg s"
  "c_result (StartTimer E ty i s) = c_result s" "c_slowArpDetecting (StartTimer E ty i s) = c_slowArpDetecting s"
  "c_timeOut (StartTimer E ty i s) = c_timeOut s"
  by (simp_all add: StartTimer_def Let_def case_prod_unfold split: option.splits)

lemma StopTimer_frame [simp]:
  "c_state (StopTimer ty s) = c_state s" "c_resendTimer (StopTimer ty s) = c_resendTimer s"
  "c_sentPacketNum (StopTimer ty s) = c_sentPacketNum s" "c_timeoutTimestamp (StopTimer ty s) = c_timeoutTimestamp s"
  "c_renewalTimestamp (StopTimer ty s) = c_renewalTimestamp s" "c_renewalTimestampBoot (StopTimer ty s) = c_renewalTimestampBoot s"
  "c_leaseTime (StopTimer ty s) = c_leaseTime s" "c_renewalSec (StopTimer ty s) = c_renewalSec s"
  "c_rebindSec (StopTimer ty s) = c_rebindSec s" "c_requestedIp4 (StopTimer ty s) = c_requestedIp4 s"
  "c_serverIp4 (StopTimer ty s) = c_serverIp4 s" "c_socketMode (StopTimer ty s) = c_socketMode s"
  "c_transID (StopTimer ty s) = c_transID s" "c_ifaceMac (StopTimer ty s) = c_ifaceMac s"
  "c_ifaceName (StopTimer ty s) = c_ifaceName s" "c_thread (StopTimer ty s) = c_thread s" "c_place (StopTimer ty s) = c_place s"
  "c_action (StopTimer ty s) = c_action s" "c_conflictCount (StopTimer ty s) = c_conflictCount s"
  "c_fault (StopTimer ty s) = c_fault s" "c_routerCfg (StopTimer ty s) = c_routerCfg s" "c_result (StopTimer ty s) = c_result s"
  "c_slowArpDetecting (StopTimer ty s) = c_slowArpDetecting s" "c_timeOut (StopTimer ty s) = c_timeOut s"
  by (simp_all add: StopTimer_def Let_def case_prod_unfold split: option.splits)

lemma CloseAllRenewTimer_frame [simp]:
  "c_state (CloseAllRenewTimer s) = c_state s" "c_resendTimer (CloseAllRenewTimer s) = c_resendTimer s"
  "c_sentPacketNum (CloseAllRenewTimer s) = c_sentPacketNum s" "c_timeoutTimestamp (CloseAllRenewTimer s) = c_timeoutTimestamp s"
  "c_renewalTimestamp (CloseAllRenewTimer s) = c_renewalTimestamp s"
  "c_renewalTimestampBoot (CloseAllRenewTimer s) = c_renewalTimestampBoot s" "c_leaseTime (CloseAllRenewTimer s) = c_leaseTime s"
  "c_renewalSec (CloseAllRenewTimer s) = c_renewalSec s" "c_rebindSec (CloseAllRenewTimer s) = c_rebindSec s"
  "c_requestedIp4 (CloseAllRenewTimer s) = c_requestedIp4 s" "c_serverIp4 (CloseAllRenewTimer s) = c_serverIp4 s"
  "c_socketMode (CloseAllRenewTimer s) = c_socketMode s" "c_transID (CloseAllRenewTimer s) = c_transID s"
  "c_ifaceMac (CloseAllRenewTimer s) = c_ifaceMac s" "c_ifaceName (CloseAllRenewTimer s) = c_ifaceName s"
  "c_thread (CloseAllRenewTimer s) = c_thread s" "c_place (CloseAllRenewTimer s) = c_place s"
  "c_action (CloseAllRenewTimer s) = c_action s" "c_conflictCount (CloseAllRenewTimer s) = c_conflictCount s"
  "c_fault (CloseAllRenewTimer s) = c_fault s" "c_routerCfg (CloseAllRenewTimer s) = c_routerCfg s"
  "c_result (CloseAllRenewTimer s) = c_result s" "c_slowArpDetecting (CloseAllRenewTimer s) = c_slowArpDetecting s"
  "c_timeOut (CloseAllRenewTimer s) = c_timeOut s"
  by (simp_all add: CloseAllRenewTimer_def Let_def case_prod_unfold split: option.splits)

lemma UnRegisterSlowArp_frame [simp]:
  "c_state (UnRegisterSlowArp s) = c_state s" "c_resendTimer (UnRegisterSlowArp s) = c_resendTimer s"
  "c_sentPacketNum (UnRegisterSlowArp s) = c_sentPacketNum s" "c_timeoutTimestamp (UnRegisterSlowArp s) = c_timeoutTimestamp s"
  "c_renewalTimestamp (UnRegisterSlowArp s) = c_renewalTimestamp s"
  "c_renewalTimestampBoot (UnRegisterSlowArp s) = c_renewalTimestampBoot s" "c_leaseTime (UnRegisterSlowArp s) = c_leaseTime s"
  "c_renewalSec (UnRegisterSlowArp s) = c_renewalSec s" "c_rebindSec (UnRegisterSlowArp s) = c_rebindSec s"
  "c_requestedIp4 (UnRegisterSlowArp s) = c_requestedIp4 s" "c_serverIp4 (UnRegisterSlowArp s) = c_serverIp4 s"
  "c_socketMode (UnRegisterSlowArp s) = c_socketMode s" "c_transID (UnRegisterSlowArp s) = c_transID s"
  "c_ifaceMac (UnRegisterSlowArp s) = c_ifaceMac s" "c_ifaceName (UnRegisterSlowArp s) = c_ifaceName s"
  "c_thread (UnRegisterSlowArp s) = c_thread s" "c_place (UnRegisterSlowArp s) = c_place s"
  "c_action (UnRegisterSlowArp s) = c_action s" "c_conflictCount (UnRegisterSlowArp s) = c_conflictCount s"
  "c_fault (UnRegisterSlowArp s) = c_fault s" "c_routerCfg (UnRegisterSlowArp s) = c_routerCfg s"
  "c_result (UnRegisterSlowArp s) = c_result s" "c_slowArpDetecting (UnRegisterSlowArp s) = c_slowArpDetecting s"
  "c_timeOut (UnRegisterSlowArp s) = c_timeOut s"
  by (simp_all add: UnRegisterSlowArp_def Let_def case_prod_unfold split: option.splits)

lemma StopIpv4_frame [simp]:
  "c_state (StopIpv4 s) = c_state s" "c_resendTimer (StopIpv4 s) = c_resendTimer s" "c_sentPacketNum (StopIpv4 s) = c_sentPacketNum s"
  "c_timeoutTimestamp (StopIpv4 s) = c_timeoutTimestamp s" "c_renewalTimestamp (StopIpv4 s) = c_renewalTimestamp s"
  "c_renewalTimestampBoot (StopIpv4 s) = c_renewalTimestampBoot s" "c_leaseTime (StopIpv4 s) = c_leaseTime s"
  "c_renewalSec (StopIpv4 s) = c_renewalSec s" "c_rebindSec (StopIpv4 s) = c_rebindSec s"
  "c_requestedIp4 (StopIpv4 s) = c_requestedIp4 s" "c_serverIp4 (StopIpv4 s) = c_serverIp4 s"
  "c_socketMode (StopIpv4 s) = c_socketMode s" "c_transID (StopIpv4 s) = c_transID s" "c_ifaceMac (StopIpv4 s) = c_ifaceMac s"
  "c_ifaceName (StopIpv4 s) = c_ifaceName s" "c_place (StopIpv4 s) = c_place s" "c_action (StopIpv4 s) = c_action s"
  "c_fault (StopIpv4 s) = c_fault s" "c_routerCfg (StopIpv4 s) = c_routerCfg s" "c_result (StopIpv4 s) = c_result s"
  "c_timeOut (StopIpv4 s) = c_timeOut s"
  by (simp_all add: StopIpv4_def Let_def case_prod_unfold split: option.splits)

lemma PublishDhcpIpv4Result_frame [simp]:
  "c_state (snd (PublishDhcpIpv4Result E r s)) = c_state s" "c_resendTimer (snd (PublishDhcpIpv4Result E r s)) = c_resendTimer s"
  "c_sentPacketNum (snd (PublishDhcpIpv4Result E r s)) = c_sentPacketNum s"
  "c_timeoutTimestamp (snd (PublishDhcpIpv4Result E r s)) = c_timeoutTimestamp s"
  "c_renewalTimestamp (snd (PublishDhcpIpv4Result E r s)) = c_renewalTimestamp s"
  "c_renewalTimestampBoot (snd (PublishDhcpIpv4Result E r s)) = c_renewalTimestampBoot s"
  "c_leaseTime (snd (PublishDhcpIpv4Result E r s)) = c_leaseTime s" "c_renewalSec (snd (PublishDhcpIpv4Result E r s)) = c_renewalSec s"
  "c_rebindSec (snd (PublishDhcpIpv4Result E r s)) = c_rebindSec s"
  "c_requestedIp4 (snd (PublishDhcpIpv4Result E r s)) = c_requestedIp4 s"
  "c_serverIp4 (snd (PublishDhcpIpv4Result E r s)) = c_serverIp4 s" "c_socketMode (snd (PublishDhcpIpv4Result E r s)) = c_socketMode s"
  "c_transID (snd (PublishDhcpIpv4Result E r s)) = c_transID s" "c_ifaceMac (snd (PublishDhcpIpv4Result E r s)) = c_ifaceMac s"
  "c_ifaceName (snd (PublishDhcpIpv4Result E r s)) = c_ifaceName s" "c_thread (snd (PublishDhcpIpv4Result E r s)) = c_thread s"
  "c_place (snd (PublishDhcpIpv4Result E r s)) = c_place s" "c_action (snd (PublishDhcpIpv4Result E r s)) = c_action s"
  "c_conflictCount (snd (PublishDhcpIpv4Result E r s)) = c_conflictCount s" "c_fault (snd (PublishDhcpIpv4Result E r s)) = c_fault s"
  "c_routerCfg (snd (PublishDhcpIpv4Result E r s)) = c_routerCfg s" "c_result (snd (PublishDhcpIpv4Result E r s)) = c_result s"
  "c_slowArpDetecting (snd (PublishDhcpIpv4Result E r s)) = c_slowArpDetecting s"
  "c_timeOut (snd (PublishDhcpIpv4Result E r s)) = c_timeOut s"
  by (simp_all add: PublishDhcpIpv4Result_def Let_def case_prod_unfold split: option.splits)

lemma PublishDhcpResultEvent_frame [simp]:
  "c_state (snd (snd (PublishDhcpResultEvent E n code r s))) = c_state s"
  "c_resendTimer (snd (snd (PublishDhcpResultEvent E n code r s))) = c_resendTimer s"
  "c_sentPacketNum (snd (snd (PublishDhcpResultEvent E n code r s))) = c_sentPacketNum s"
  "c_timeoutTimestamp (snd (snd (PublishDhcpResultEvent E n code r s))) = c_timeoutTimestamp s"
  "c_renewalTimestamp (snd (snd (PublishDhcpResultEvent E n code r s))) = c_renewalTimestamp s"
  "c_renewalTimestampBoot (snd (snd (PublishDhcpResultEvent E n code r s))) = c_renewalTimestampBoot s"
  "c_leaseTime (snd (snd (PublishDhcpResultEvent E n code r s))) = c_leaseTime s"
  "c_renewalSec (snd (snd (PublishDhcpResultEvent E n code r s))) = c_renewalSec s"
  "c_rebindSec (snd (snd (PublishDhcpResultEvent E n code r s))) = c_rebindSec s"
  "c_requestedIp4 (snd (snd (PublishDhcpResultEvent E n code r s))) = c_requestedIp4 s"
  "c_serverIp4 (snd (snd (PublishDhcpResultEvent E n code r s))) = c_serverIp4 s"
  "c_socketMode (snd (snd (PublishDhcpResultEvent E n code r s))) = c_socketMode s"
  "c_transID (snd (snd (PublishDhcpResultEvent E n code r s))) = c_transID s"
  "c_ifaceMac (snd (snd (PublishDhcpResultEvent E n code r s))) = c_ifaceMac s"
  "c_ifaceName (snd (snd (PublishDhcpResultEvent E n code r s))) = c_ifaceName s"
  "c_thread (snd (snd (PublishDhcpResultEvent E n code r s))) = c_thread s"
  "c_place (snd (snd (PublishDhcpResultEvent E n code r s))) = c_place s"
  "c_action (snd (snd (PublishDhcpResultEvent E n code r s))) = c_action s"
  "c_conflictCount (snd (snd (PublishDhcpResultEvent E n code r s))) = c_conflictCount s"
  "c_fault (snd (snd (PublishDhcpResultEvent E n code r s))) = c_fault s"
  "c_routerCfg (snd (snd (PublishDhcpResultEvent E n code r s))) = c_routerCfg s"
  "c_result (snd (snd (PublishDhcpResultEvent E n code r s))) = c_result s"
  "c_slowArpDetecting (snd (snd (PublishDhcpResultEvent E n code r s))) = c_slowArpDetecting s"
  "c_timeOut (snd (snd (PublishDhcpResultEvent E n code r s))) = c_timeOut s"
  by (simp_all add: PublishDhcpResultEvent_def Let_def case_prod_unfold split: option.splits)

lemma PublishResult_frame [simp]:
  "c_state (snd (PublishResult E code s)) = c_state s" "c_resendTimer (snd (PublishResult E code s)) = c_resendTimer s"
  "c_sentPacketNum (snd (PublishResult E code s)) = c_sentPacketNum s"
  "c_timeoutTimestamp (snd (PublishResult E code s)) = c_timeoutTimestamp s"
  "c_renewalTimestamp (snd (PublishResult E code s)) = c_renewalTimestamp s"
  "c_renewalTimestampBoot (snd (PublishResult E code s)) = c_renewalTimestampBoot s"
  "c_leaseTime (snd (PublishResult E code s)) = c_leaseTime s" "c_renewalSec (snd (PublishResult E code s)) = c_renewalSec s"
  "c_rebindSec (snd (PublishResult E code s)) = c_rebindSec s" "c_requestedIp4 (snd (PublishResult E code s)) = c_requestedIp4 s"
  "c_serverIp4 (snd (PublishResult E code s)) = c_serverIp4 s" "c_socketMode (snd (PublishResult E code s)) = c_socketMode s"
  "c_transID (snd (PublishResult E code s)) = c_transID s" "c_ifaceMac (snd (PublishResult E code s)) = c_ifaceMac s"
  "c_ifaceName (snd (PublishResult E code s)) = c_ifaceName s" "c_thread (snd (PublishResult E code s)) = c_thread s"
  "c_place (snd (PublishResult E code s)) = c_place s" "c_action (snd (PublishResult E code s)) = c_action s"
  "c_conflictCount (snd (PublishResult E code s)) = c_conflictCount s" "c_fault (snd (PublishResult E code s)) = c_fault s"
  "c_routerCfg (snd (PublishResult E code s)) = c_routerCfg s"
  "c_slowArpDetecting (snd (PublishResult E code s)) = c_slowArpDetecting s" "c_timeOut (snd (PublishResult E code s)) = c_timeOut s"
  by (simp_all add: PublishResult_def Let_def case_prod_unfold split: option.splits)

lemma GetRandomId_frame [simp]:
  "c_state (snd (GetRandomId E s)) = c_state s" "c_resendTimer (snd (GetRandomId E s)) = c_resendTimer s"
  "c_sentPacketNum (snd (GetRandomId E s)) = c_sentPacketNum s" "c_timeoutTimestamp (snd (GetRandomId E s)) = c_timeoutTimestamp s"
  "c_renewalTimestamp (snd (GetRandomId E s)) = c_renewalTimestamp s"
  "c_renewalTimestampBoot (snd (GetRandomId E s)) = c_renewalTimestampBoot s" "c_leaseTime (snd (GetRandomId E s)) = c_leaseTime s"
  "c_renewalSec (snd (GetRandomId E s)) = c_renewalSec s" "c_rebindSec (snd (GetRandomId E s)) = c_rebindSec s"
  "c_requestedIp4 (snd (GetRandomId E s)) = c_requestedIp4 s" "c_serverIp4 (snd (GetRandomId E s)) = c_serverIp4 s"
  "c_socketMode (snd (GetRandomId E s)) = c_socketMode s" "c_transID (snd (GetRandomId E s)) = c_transID s"
  "c_ifaceMac (snd (GetRandomId E s)) = c_ifaceMac s" "c_ifaceName (snd (GetRandomId E s)) = c_ifaceName s"
  "c_thread (snd (GetRandomId E s)) = c_thread s" "c_place (snd (GetRandomId E s)) = c_place s"
  "c_action (snd (GetRandomId E s)) = c_action s" "c_conflictCount (snd (GetRandomId E s)) = c_conflictCount s"
  "c_fault (snd (GetRandomId E s)) = c_fault s" "c_routerCfg (snd (GetRandomId E s)) = c_routerCfg s"
  "c_result (snd (GetRandomId E s)) = c_result s" "c_slowArpDetecting (snd (GetRandomId E s)) = c_slowArpDetecting s"
  "c_timeOut (snd (GetRandomId E s)) = c_timeOut s"
  by (simp_all add: GetRandomId_def Let_def case_prod_unfold split: option.splits)

lemma SetSecondsElapsed_frame [simp]:
  "c_state (snd (SetSecondsElapsed E p s)) = c_state s" "c_resendTimer (snd (SetSecondsElapsed E p s)) = c_resendTimer s"
  "c_sentPacketNum (snd (SetSecondsElapsed E p s)) = c_sentPacketNum s"
  "c_timeoutTimestamp (snd (SetSecondsElapsed E p s)) = c_timeoutTimestamp s"
  "c_renewalTimestamp (snd (SetSecondsElapsed E p s)) = c_renewalTimestamp s"
  "c_renewalTimestampBoot (snd (SetSecondsElapsed E p s)) = c_renewalTimestampBoot s"
  "c_leaseTime (snd (SetSecondsElapsed E p s)) = c_leaseTime s" "c_renewalSec (snd (SetSecondsElapsed E p s)) = c_renewalSec s"
  "c_rebindSec (snd (SetSecondsElapsed E p s)) = c_rebindSec s" "c_requestedIp4 (snd (SetSecondsElapsed E p s)) = c_requestedIp4 s"
  "c_serverIp4 (snd (SetSecondsElapsed E p s)) = c_serverIp4 s" "c_socketMode (snd (SetSecondsElapsed E p s)) = c_socketMode s"
  "c_transID (snd (SetSecondsElapsed E p s)) = c_transID s" "c_ifaceMac (snd (SetSecondsElapsed E p s)) = c_ifaceMac s"
  "c_ifaceName (snd (SetSecondsElapsed E p s)) = c_ifaceName s" "c_thread (snd (SetSecondsElapsed E p s)) = c_thread s"
  "c_place (snd (SetSecondsElapsed E p s)) = c_place s" "c_action (snd (SetSecondsElapsed E p s)) = c_action s"
  "c_conflictCount (snd (SetSecondsElapsed E p s)) = c_conflictCount s" "c_fault (snd (SetSecondsElapsed E p s)) = c_fault s"
  "c_routerCfg (snd (SetSecondsElapsed E p s)) = c_routerCfg s" "c_result (snd (SetSecondsElapsed E p s)) = c_result s"
  "c_slowArpDetecting (snd (SetSecondsElapsed E p s)) = c_slowArpDetecting s" "c_timeOut (snd (SetSecondsElapsed E p s)) = c_timeOut s"
  by (simp_all add: SetSecondsElapsed_def Let_def case_prod_unfold split: option.splits)

lemma SendToDhcpPacket_frame [simp]:
  "c_state (SendToDhcpPacket p src dst s) = c_state s" "c_resendTimer (SendToDhcpPacket p src dst s) = c_resendTimer s"
  "c_sentPacketNum (SendToDhcpPacket p src dst s) = c_sentPacketNum s"
  "c_timeoutTimestamp (SendToDhcpPacket p src dst s) = c_timeoutTimestamp s"
  "c_renewalTimestamp (SendToDhcpPacket p src dst s) = c_renewalTimestamp s"
  "c_renewalTimestampBoot (SendToDhcpPacket p src dst s) = c_renewalTimestampBoot s"
  "c_leaseTime (SendToDhcpPacket p src dst s) = c_leaseTime s" "c_renewalSec (SendToDhcpPacket p src dst s) = c_renewalSec s"
  "c_rebindSec (SendToDhcpPacket p src dst s) = c_rebindSec s" "c_requestedIp4 (SendToDhcpPacket p src dst s) = c_requestedIp4 s"
  "c_serverIp4 (SendToDhcpPacket p src dst s) = c_serverIp4 s" "c_socketMode (SendToDhcpPacket p src dst s) = c_socketMode s"
  "c_transID (SendToDhcpPacket p src dst s) = c_transID s" "c_ifaceMac (SendToDhcpPacket p src dst s) = c_ifaceMac s"
  "c_ifaceName (SendToDhcpPacket p src dst s) = c_ifaceName s" "c_thread (SendToDhcpPacket p src dst s) = c_thread s"
  "c_place (SendToDhcpPacket p src dst s) = c_place s" "c_action (SendToDhcpPacket p src dst s) = c_action s"
  "c_conflictCount (SendToDhcpPacket p src dst s) = c_conflictCount s" "c_routerCfg (SendToDhcpPacket p src dst s) = c_routerCfg s"
  "c_result (SendToDhcpPacket p src dst s) = c_result s" "c_slowArpDetecting (SendToDhcpPacket p src dst s) = c_slowArpDetecting s"
  "c_timeOut (SendToDhcpPacket p src dst s) = c_timeOut s"
  by (simp_all add: SendToDhcpPacket_def Let_def case_prod_unfold split: option.splits)

lemma SendDhcpPacket_frame [simp]:
  "c_state (SendDhcpPacket p src dst s) = c_state s" "c_resendTimer (SendDhcpPacket p src dst s) = c_resendTimer s"
  "c_sentPacketNum (SendDhcpPacket p src dst s) = c_sentPacketNum s"
  "c_timeoutTimestamp (SendDhcpPacket p src dst s) = c_timeoutTimestamp s"
  "c_renewalTimestamp (SendDhcpPacket p src dst s) = c_renewalTimestamp s"
  "c_renewalTimestampBoot (SendDhcpPacket p src dst s) = c_renewalTimestampBoot s"
  "c_leaseTime (SendDhcpPacket p src dst s) = c_leaseTime s" "c_renewalSec (SendDhcpPacket p src dst s) = c_renewalSec s"
  "c_rebindSec (SendDhcpPacket p src dst s) = c_rebindSec s" "c_requestedIp4 (SendDhcpPacket p src dst s) = c_requestedIp4 s"
  "c_serverIp4 (SendDhcpPacket p src dst s) = c_serverIp4 s" "c_socketMode (SendDhcpPacket p src dst s) = c_socketMode s"
  "c_transID (SendDhcpPacket p src dst s) = c_transID s" "c_ifaceMac (SendDhcpPacket p src dst s) = c_ifaceMac s"
  "c_ifaceName (SendDhcpPacket p src dst s) = c_ifaceName s" "c_thread (SendDhcpPacket p src dst s) = c_thread s"
  "c_place (SendDhcpPacket p src dst s) = c_place s" "c_action (SendDhcpPacket p src dst s) = c_action s"
  "c_conflictCount (SendDhcpPacket p src dst s) = c_conflictCount s" "c_routerCfg (SendDhcpPacket p src dst s) = c_routerCfg s"
  "c_result (SendDhcpPacket p src dst s) = c_result s" "c_slowArpDetecting (SendDhcpPacket p src dst s) = c_slowArpDetecting s"
  "c_timeOut (SendDhcpPacket p src dst s) = c_timeOut s"
  by (simp_all add: SendDhcpPacket_def Let_def case_prod_unfold split: option.splits)

lemma DhcpDiscover_frame [simp]:
  "c_state (DhcpDiscover E x r s) = c_state s" "c_resendTimer (DhcpDiscover E x r s) = c_resendTimer s"
  "c_sentPacketNum (DhcpDiscover E x r s) = c_sentPacketNum s" "c_timeoutTimestamp (DhcpDiscover E x r s) = c_timeoutTimestamp s"
  "c_renewalTimestamp (DhcpDiscover E x r s) = c_renewalTimestamp s"
  "c_renewalTimestampBoot (DhcpDiscover E x r s) = c_renewalTimestampBoot s" "c_leaseTime (DhcpDiscover E x r s) = c_leaseTime s"
  "c_renewalSec (DhcpDiscover E x r s) = c_renewalSec s" "c_rebindSec (DhcpDiscover E x r s) = c_rebindSec s"
  "c_requestedIp4 (DhcpDiscover E x r s) = c_requestedIp4 s" "c_serverIp4 (DhcpDiscover E x r s) = c_serverIp4 s"
  "c_socketMode (DhcpDiscover E x r s) = c_socketMode s" "c_transID (DhcpDiscover E x r s) = c_transID s"
  "c_ifaceMac (DhcpDiscover E x r s) = c_ifaceMac s" "c_ifaceName (DhcpDiscover E x r s) = c_ifaceName s"
  "c_thread (DhcpDiscover E x r s) = c_thread s" "c_place (DhcpDiscover E x r s) = c_place s"
  "c_action (DhcpDiscover E x r s) = c_action s" "c_conflictCount (DhcpDiscover E x r s) = c_conflictCount s"
  "c_routerCfg (DhcpDiscover E x r s) = c_routerCfg s" "c_result (DhcpDiscover E x r s) = c_result s"
  "c_slowArpDetecting (DhcpDiscover E x r s) = c_slowArpDetecting s" "c_timeOut (DhcpDiscover E x r s) = c_timeOut s"
  by (simp_all add: DhcpDiscover_def Let_def case_prod_unfold split: option.splits)

lemma DhcpRequest_frame [simp]:
  "c_state (DhcpRequest E x r v s) = c_state s" "c_resendTimer (DhcpRequest E x r v s) = c_resendTimer s"
  "c_sentPacketNum (DhcpRequest E x r v s) = c_sentPacketNum s" "c_timeoutTimestamp (DhcpRequest E x r v s) = c_timeoutTimestamp s"
  "c_renewalTimestamp (DhcpRequest E x r v s) = c_renewalTimestamp s"
  "c_renewalTimestampBoot (DhcpRequest E x r v s) = c_renewalTimestampBoot s" "c_leaseTime (DhcpRequest E x r v s) = c_leaseTime s"
  "c_renewalSec (DhcpRequest E x r v s) = c_renewalSec s" "c_rebindSec (DhcpRequest E x r v s) = c_rebindSec s"
  "c_requestedIp4 (DhcpRequest E x r v s) = c_requestedIp4 s" "c_serverIp4 (DhcpRequest E x r v s) = c_serverIp4 s"
  "c_socketMode (DhcpRequest E x r v s) = c_socketMode s" "c_transID (DhcpRequest E x r v s) = c_transID s"
  "c_ifaceMac (DhcpRequest E x r v s) = c_ifaceMac s" "c_ifaceName (DhcpRequest E x r v s) = c_ifaceName s"
  "c_thread (DhcpRequest E x r v s) = c_thread s" "c_place (DhcpRequest E x r v s) = c_place s"
  "c_action (DhcpRequest E x r v s) = c_action s" "c_conflictCount (DhcpRequest E x r v s) = c_conflictCount s"
  "c_routerCfg (DhcpRequest E x r v s) = c_routerCfg s" "c_result (DhcpRequest E x r v s) = c_result s"
  "c_slowArpDetecting (DhcpRequest E x r v s) = c_slowArpDetecting s" "c_timeOut (DhcpRequest E x r v s) = c_timeOut s"
  by (simp_all add: DhcpRequest_def Let_def case_prod_unfold split: option.splits)

lemma DhcpReboot_frame [simp]:
  "c_state (DhcpReboot E x r s) = c_state s" "c_resendTimer (DhcpReboot E x r s) = c_resendTimer s"
  "c_sentPacketNum (DhcpReboot E x r s) = c_sentPacketNum s" "c_timeoutTimestamp (DhcpReboot E x r s) = c_timeoutTimestamp s"
  "c_renewalTimestamp (DhcpReboot E x r s) = c_renewalTimestamp s"
  "c_renewalTimestampBoot (DhcpReboot E x r s) = c_renewalTimestampBoot s" "c_leaseTime (DhcpReboot E x r s) = c_leaseTime s"
  "c_renewalSec (DhcpReboot E x r s) = c_renewalSec s" "c_rebindSec (DhcpReboot E x r s) = c_rebindSec s"
  "c_requestedIp4 (DhcpReboot E x r s) = c_requestedIp4 s" "c_serverIp4 (DhcpReboot E x r s) = c_serverIp4 s"
  "c_socketMode (DhcpReboot E x r s) = c_socketMode s" "c_transID (DhcpReboot E x r s) = c_transID s"
  "c_ifaceMac (DhcpReboot E x r s) = c_ifaceMac s" "c_ifaceName (DhcpReboot E x r s) = c_ifaceName s"
  "c_thread (DhcpReboot E x r s) = c_thread s" "c_place (DhcpReboot E x r s) = c_place s" "c_action (DhcpReboot E x r s) = c_action s"
  "c_conflictCount (DhcpReboot E x r s) = c_conflictCount s" "c_routerCfg (DhcpReboot E x r s) = c_routerCfg s"
  "c_result (DhcpReboot E x r s) = c_result s" "c_slowArpDetecting (DhcpReboot E x r s) = c_slowArpDetecting s"
  "c_timeOut (DhcpReboot E x r s) = c_timeOut s"
  by (simp_all add: DhcpReboot_def Let_def case_prod_unfold split: option.splits)

lemma DhcpRenew_frame [simp]:
  "c_state (DhcpRenew E x r v s) = c_state s" "c_resendTimer (DhcpRenew E x r v s) = c_resendTimer s"
  "c_sentPacketNum (DhcpRenew E x r v s) = c_sentPacketNum s" "c_timeoutTimestamp (DhcpRenew E x r v s) = c_timeoutTimestamp s"
  "c_renewalTimestamp (DhcpRenew E x r v s) = c_renewalTimestamp s"
  "c_renewalTimestampBoot (DhcpRenew E x r v s) = c_renewalTimestampBoot s" "c_leaseTime (DhcpRenew E x r v s) = c_leaseTime s"
  "c_renewalSec (DhcpRenew E x r v s) = c_renewalSec s" "c_rebindSec (DhcpRenew E x r v s) = c_rebindSec s"
  "c_requestedIp4 (DhcpRenew E x r v s) = c_requestedIp4 s" "c_serverIp4 (DhcpRenew E x r v s) = c_serverIp4 s"
  "c_socketMode (DhcpRenew E x r v s) = c_socketMode s" "c_transID (DhcpRenew E x r v s) = c_transID s"
  "c_ifaceMac (DhcpRenew E x r v s) = c_ifaceMac s" "c_ifaceName (DhcpRenew E x r v s) = c_ifaceName s"
  "c_thread (DhcpRenew E x r v s) = c_thread s" "c_place (DhcpRenew E x r v s) = c_place s"
  "c_action (DhcpRenew E x r v s) = c_action s" "c_conflictCount (DhcpRenew E x r v s) = c_conflictCount s"
  "c_routerCfg (DhcpRenew E x r v s) = c_routerCfg s" "c_result (DhcpRenew E x r v s) = c_result s"
  "c_slowArpDetecting (DhcpRenew E x r v s) = c_slowArpDetecting s" "c_timeOut (DhcpRenew E x r v s) = c_timeOut s"
  by (simp_all add: DhcpRenew_def Let_def case_prod_unfold split: option.splits)

lemma DhcpRelease_frame [simp]:
  "c_state (DhcpRelease E r v s) = c_state s" "c_resendTimer (DhcpRelease E r v s) = c_resendTimer s"
  "c_sentPacketNum (DhcpRelease E r v s) = c_sentPacketNum s" "c_timeoutTimestamp (DhcpRelease E r v s) = c_timeoutTimestamp s"
  "c_renewalTimestamp (DhcpRelease E r v s) = c_renewalTimestamp s"
  "c_renewalTimestampBoot (DhcpRelease E r v s) = c_renewalTimestampBoot s" "c_leaseTime (DhcpRelease E r v s) = c_leaseTime s"
  "c_renewalSec (DhcpRelease E r v s) = c_renewalSec s" "c_rebindSec (DhcpRelease E r v s) = c_rebindSec s"
  "c_requestedIp4 (DhcpRelease E r v s) = c_requestedIp4 s" "c_serverIp4 (DhcpRelease E r v s) = c_serverIp4 s"
  "c_socketMode (DhcpRelease E r v s) = c_socketMode s" "c_transID (DhcpRelease E r v s) = c_transID s"
  "c_ifaceMac (DhcpRelease E r v s) = c_ifaceMac s" "c_ifaceName (DhcpRelease E r v s) = c_ifaceName s"
  "c_thread (DhcpRelease E r v s) = c_thread s" "c_place (DhcpRelease E r v s) = c_place s"
  "c_action (DhcpRelease E r v s) = c_action s" "c_conflictCount (DhcpRelease E r v s) = c_conflictCount s"
  "c_routerCfg (DhcpRelease E r v s) = c_routerCfg s" "c_result (DhcpRelease E r v s) = c_result s"
  "c_slowArpDetecting (DhcpRelease E r v s) = c_slowArpDetecting s" "c_timeOut (DhcpRelease E r v s) = c_timeOut s"
  by (simp_all add: DhcpRelease_def Let_def case_prod_unfold split: option.splits)

lemma DhcpDecline_frame [simp]:
  "c_state (DhcpDecline E x r v s) = c_state s" "c_resendTimer (DhcpDecline E x r v s) = c_resendTimer s"
  "c_sentPacketNum (DhcpDecline E x r v s) = c_sentPacketNum s" "c_timeoutTimestamp (DhcpDecline E x r v s) = c_timeoutTimestamp s"
  "c_renewalTimestamp (DhcpDecline E x r v s) = c_renewalTimestamp s"
  "c_renewalTimestampBoot (DhcpDecline E x r v s) = c_renewalTimestampBoot s" "c_leaseTime (DhcpDecline E x r v s) = c_leaseTime s"
  "c_renewalSec (DhcpDecline E x r v s) = c_renewalSec s" "c_rebindSec (DhcpDecline E x r v s) = c_rebindSec s"
  "c_requestedIp4 (DhcpDecline E x r v s) = c_requestedIp4 s" "c_serverIp4 (DhcpDecline E x r v s) = c_serverIp4 s"
  "c_socketMode (DhcpDecline E x r v s) = c_socketMode s" "c_transID (DhcpDecline E x r v s) = c_transID s"
  "c_ifaceMac (DhcpDecline E x r v s) = c_ifaceMac s" "c_ifaceName (DhcpDecline E x r v s) = c_ifaceName s"
  "c_thread (DhcpDecline E x r v s) = c_thread s" "c_place (DhcpDecline E x r v s) = c_place s"
  "c_action (DhcpDecline E x r v s) = c_action s" "c_conflictCount (DhcpDecline E x r v s) = c_conflictCount s"
  "c_routerCfg (DhcpDecline E x r v s) = c_routerCfg s" "c_result (DhcpDecline E x r v s) = c_result s"
  "c_slowArpDetecting (DhcpDecline E x r v s) = c_slowArpDetecting s" "c_timeOut (DhcpDecline E x r v s) = c_timeOut s"
  by (simp_all add: DhcpDecline_def Let_def case_prod_unfold split: option.splits)

lemma start_lease_timers_frame [simp]:
  "c_state (start_lease_timers E d s) = c_state s" "c_resendTimer (start_lease_timers E d s) = c_resendTimer s"
  "c_sentPacketNum (start_lease_timers E d s) = c_sentPacketNum s"
  "c_timeoutTimestamp (start_lease_timers E d s) = c_timeoutTimestamp s"
  "c_renewalTimestamp (start_lease_timers E d s) = c_renewalTimestamp s"
  "c_renewalTimestampBoot (start_lease_timers E d s) = c_renewalTimestampBoot s"
  "c_leaseTime (start_lease_timers E d s) = c_leaseTime s" "c_renewalSec (start_lease_timers E d s) = c_renewalSec s"
  "c_rebindSec (start_lease_timers E d s) = c_rebindSec s" "c_requestedIp4 (start_lease_timers E d s) = c_requestedIp4 s"
  "c_serverIp4 (start_lease_timers E d s) = c_serverIp4 s" "c_socketMode (start_lease_timers E d s) = c_socketMode s"
  "c_transID (start_lease_timers E d s) = c_transID s" "c_ifaceMac (start_lease_timers E d s) = c_ifaceMac s"
  "c_ifaceName (start_lease_timers E d s) = c_ifaceName s" "c_thread (start_lease_timers E d s) = c_thread s"
  "c_place (start_lease_timers E d s) = c_place s" "c_action (start_lease_timers E d s) = c_action s"
  "c_conflictCount (start_lease_timers E d s) = c_conflictCount s" "c_fault (start_lease_timers E d s) = c_fault s"
  "c_routerCfg (start_lease_timers E d s) = c_routerCfg s" "c_result (start_lease_timers E d s) = c_result s"
  "c_slowArpDetecting (start_lease_timers E d s) = c_slowArpDetecting s" "c_timeOut (start_lease_timers E d s) = c_timeOut s"
  by (simp_all add: start_lease_timers_def Let_def case_prod_unfold split: option.splits)

lemma ScheduleLeaseTimers_frame [simp]:
  "c_state (ScheduleLeaseTimers E b s) = c_state s" "c_resendTimer (ScheduleLeaseTimers E b s) = c_resendTimer s"
  "c_sentPacketNum (ScheduleLeaseTimers E b s) = c_sentPacketNum s"
  "c_timeoutTimestamp (ScheduleLeaseTimers E b s) = c_timeoutTimestamp s"
  "c_renewalTimestamp (ScheduleLeaseTimers E b s) = c_renewalTimestamp s"
  "c_renewalTimestampBoot (ScheduleLeaseTimers E b s) = c_renewalTimestampBoot s"
  "c_leaseTime (ScheduleLeaseTimers E b s) = c_leaseTime s" "c_renewalSec (ScheduleLeaseTimers E b s) = c_renewalSec s"
  "c_rebindSec (ScheduleLeaseTimers E b s) = c_rebindSec s" "c_requestedIp4 (ScheduleLeaseTimers E b s) = c_requestedIp4 s"
  "c_serverIp4 (ScheduleLeaseTimers E b s) = c_serverIp4 s" "c_socketMode (ScheduleLeaseTimers E b s) = c_socketMode s"
  "c_transID (ScheduleLeaseTimers E b s) = c_transID s" "c_ifaceMac (ScheduleLeaseTimers E b s) = c_ifaceMac s"
  "c_ifaceName (ScheduleLeaseTimers E b s) = c_ifaceName s" "c_thread (ScheduleLeaseTimers E b s) = c_thread s"
  "c_place (ScheduleLeaseTimers E b s) = c_place s" "c_action (ScheduleLeaseTimers E b s) = c_action s"
  "c_conflictCount (ScheduleLeaseTimers E b s) = c_conflictCount s" "c_fault (ScheduleLeaseTimers E b s) = c_fault s"
  "c_routerCfg (ScheduleLeaseTimers E b s) = c_routerCfg s" "c_result (ScheduleLeaseTimers E b s) = c_result s"
  "c_slowArpDetecting (ScheduleLeaseTimers E b s) = c_slowArpDetecting s" "c_timeOut (ScheduleLeaseTimers E b s) = c_timeOut s"
  by (simp_all add: ScheduleLeaseTimers_def Let_def case_prod_unfold split: option.splits)

lemma GetCachedDhcpResult_frame [simp]:
  "c_state (snd (GetCachedDhcpResult E b s)) = c_state s" "c_resendTimer (snd (GetCachedDhcpResult E b s)) = c_resendTimer s"
  "c_sentPacketNum (snd (GetCachedDhcpResult E b s)) = c_sentPacketNum s"
  "c_timeoutTimestamp (snd (GetCachedDhcpResult E b s)) = c_timeoutTimestamp s"
  "c_renewalTimestamp (snd (GetCachedDhcpResult E b s)) = c_renewalTimestamp s"
  "c_renewalTimestampBoot (snd (GetCachedDhcpResult E b s)) = c_renewalTimestampBoot s"
  "c_leaseTime (snd (GetCachedDhcpResult E b s)) = c_leaseTime s" "c_renewalSec (snd (GetCachedDhcpResult E b s)) = c_renewalSec s"
  "c_rebindSec (snd (GetCachedDhcpResult E b s)) = c_rebindSec s" "c_requestedIp4 (snd (GetCachedDhcpResult E b s)) = c_requestedIp4 s"
  "c_serverIp4 (snd (GetCachedDhcpResult E b s)) = c_serverIp4 s" "c_socketMode (snd (GetCachedDhcpResult E b s)) = c_socketMode s"
  "c_transID (snd (GetCachedDhcpResult E b s)) = c_transID s" "c_ifaceMac (snd (GetCachedDhcpResult E b s)) = c_ifaceMac s"
  "c_ifaceName (snd (GetCachedDhcpResult E b s)) = c_ifaceName s" "c_thread (snd (GetCachedDhcpResult E b s)) = c_thread s"
  "c_place (snd (GetCachedDhcpResult E b s)) = c_place s" "c_action (snd (GetCachedDhcpResult E b s)) = c_action s"
  "c_conflictCount (snd (GetCachedDhcpResult E b s)) = c_conflictCount s" "c_fault (snd (GetCachedDhcpResult E b s)) = c_fault s"
  "c_routerCfg (snd (GetCachedDhcpResult E b s)) = c_routerCfg s" "c_result (snd (GetCachedDhcpResult E b s)) = c_result s"
  "c_slowArpDetecting (snd (GetCachedDhcpResult E b s)) = c_slowArpDetecting s"
  "c_timeOut (snd (GetCachedDhcpResult E b s)) = c_timeOut s"
  by (simp_all add: GetCachedDhcpResult_def Let_def case_prod_unfold split: option.splits)

lemma SaveIpInfo_frame [simp]:
  "c_state (SaveIpInfo E r s) = c_state s" "c_resendTimer (SaveIpInfo E r s) = c_resendTimer s"
  "c_sentPacketNum (SaveIpInfo E r s) = c_sentPacketNum s" "c_timeoutTimestamp (SaveIpInfo E r s) = c_timeoutTimestamp s"
  "c_renewalTimestamp (SaveIpInfo E r s) = c_renewalTimestamp s" "c_renewalTimestampBoot (SaveIpInfo E r s) = c_renewalTimestampBoot s"
  "c_leaseTime (SaveIpInfo E r s) = c_leaseTime s" "c_renewalSec (SaveIpInfo E r s) = c_renewalSec s"
  "c_rebindSec (SaveIpInfo E r s) = c_rebindSec s" "c_requestedIp4 (SaveIpInfo E r s) = c_requestedIp4 s"
  "c_serverIp4 (SaveIpInfo E r s) = c_serverIp4 s" "c_socketMode (SaveIpInfo E r s) = c_socketMode s"
  "c_transID (SaveIpInfo E r s) = c_transID s" "c_ifaceMac (SaveIpInfo E r s) = c_ifaceMac s"
  "c_ifaceName (SaveIpInfo E r s) = c_ifaceName s" "c_thread (SaveIpInfo E r s) = c_thread s" "c_place (SaveIpInfo E r s) = c_place s"
  "c_action (SaveIpInfo E r s) = c_action s" "c_conflictCount (SaveIpInfo E r s) = c_conflictCount s"
  "c_fault (SaveIpInfo E r s) = c_fault s" "c_routerCfg (SaveIpInfo E r s) = c_routerCfg s" "c_result (SaveIpInfo E r s) = c_result s"
  "c_slowArpDetecting (SaveIpInfo E r s) = c_slowArpDetecting s" "c_timeOut (SaveIpInfo E r s) = c_timeOut s"
  by (simp_all add: SaveIpInfo_def Let_def case_prod_unfold split: option.splits)

lemma lease_seconds_frame [simp]:
  "c_state (lease_seconds l s) = c_state s" "c_resendTimer (lease_seconds l s) = c_resendTimer s"
  "c_sentPacketNum (lease_seconds l s) = c_sentPacketNum s" "c_timeoutTimestamp (lease_seconds l s) = c_timeoutTimestamp s"
  "c_renewalTimestamp (lease_seconds l s) = c_renewalTimestamp s"
  "c_renewalTimestampBoot (lease_seconds l s) = c_renewalTimestampBoot s" "c_requestedIp4 (lease_seconds l s) = c_requestedIp4 s"
  "c_serverIp4 (lease_seconds l s) = c_serverIp4 s" "c_socketMode (lease_seconds l s) = c_socketMode s"
  "c_transID (lease_seconds l s) = c_transID s" "c_ifaceMac (lease_seconds l s) = c_ifaceMac s"
  "c_ifaceName (lease_seconds l s) = c_ifaceName s" "c_thread (lease_seconds l s) = c_thread s"
  "c_place (lease_seconds l s) = c_place s" "c_action (lease_seconds l s) = c_action s"
  "c_conflictCount (lease_seconds l s) = c_conflictCount s" "c_fault (lease_seconds l s) = c_fault s"
  "c_routerCfg (lease_seconds l s) = c_routerCfg s" "c_result (lease_seconds l s) = c_result s"
  "c_slowArpDetecting (lease_seconds l s) = c_slowArpDetecting s" "c_timeOut (lease_seconds l s) = c_timeOut s"
  by (simp_all add: lease_seconds_def Let_def case_prod_unfold split: option.splits)

lemma IsArpReachable_frame [simp]:
  "c_state (snd (IsArpReachable E s)) = c_state s" "c_resendTimer (snd (IsArpReachable E s)) = c_resendTimer s"
  "c_sentPacketNum (snd (IsArpReachable E s)) = c_sentPacketNum s"
  "c_timeoutTimestamp (snd (IsArpReachable E s)) = c_timeoutTimestamp s"
  "c_renewalTimestamp (snd (IsArpReachable E s)) = c_renewalTimestamp s"
  "c_renewalTimestampBoot (snd (IsArpReachable E s)) = c_renewalTimestampBoot s"
  "c_leaseTime (snd (IsArpReachable E s)) = c_leaseTime s" "c_renewalSec (snd (IsArpReachable E s)) = c_renewalSec s"
  "c_rebindSec (snd (IsArpReachable E s)) = c_rebindSec s" "c_requestedIp4 (snd (IsArpReachable E s)) = c_requestedIp4 s"
  "c_serverIp4 (snd (IsArpReachable E s)) = c_serverIp4 s" "c_socketMode (snd (IsArpReachable E s)) = c_socketMode s"
  "c_transID (snd (IsArpReachable E s)) = c_transID s" "c_ifaceMac (snd (IsArpReachable E s)) = c_ifaceMac s"
  "c_ifaceName (snd (IsArpReachable E s)) = c_ifaceName s" "c_thread (snd (IsArpReachable E s)) = c_thread s"
  "c_place (snd (IsArpReachable E s)) = c_place s" "c_action (snd (IsArpReachable E s)) = c_action s"
  "c_conflictCount (snd (IsArpReachable E s)) = c_conflictCount s" "c_fault (snd (IsArpReachable E s)) = c_fault s"
  "c_routerCfg (snd (IsArpReachable E s)) = c_routerCfg s" "c_result (snd (IsArpReachable E s)) = c_result s"
  "c_slowArpDetecting (snd (IsArpReachable E s)) = c_slowArpDetecting s" "c_timeOut (snd (IsArpReachable E s)) = c_timeOut s"
  by (simp_all add: IsArpReachable_def Let_def case_prod_unfold split: option.splits)

lemma TryCachedIp_frame [simp]:
  "c_state (TryCachedIp E s) = c_state s" "c_resendTimer (TryCachedIp E s) = c_resendTimer s"
  "c_sentPacketNum (TryCachedIp E s) = c_sentPacketNum s" "c_timeoutTimestamp (TryCachedIp E s) = c_timeoutTimestamp s"
  "c_renewalTimestampBoot (TryCachedIp E s) = c_renewalTimestampBoot s" "c_requestedIp4 (TryCachedIp E s) = c_requestedIp4 s"
  "c_serverIp4 (TryCachedIp E s) = c_serverIp4 s" "c_socketMode (TryCachedIp E s) = c_socketMode s"
  "c_transID (TryCachedIp E s) = c_transID s" "c_ifaceMac (TryCachedIp E s) = c_ifaceMac s"
  "c_ifaceName (TryCachedIp E s) = c_ifaceName s" "c_place (TryCachedIp E s) = c_place s" "c_action (TryCachedIp E s) = c_action s"
  "c_fault (TryCachedIp E s) = c_fault s" "c_routerCfg (TryCachedIp E s) = c_routerCfg s" "c_result (TryCachedIp E s) = c_result s"
  "c_timeOut (TryCachedIp E s) = c_timeOut s"
  by (simp_all add: TryCachedIp_def Let_def case_prod_unfold split: option.splits)

lemma SetLocalInterface_frame [simp]:
  "c_state (snd (SetLocalInterface E a m s)) = c_state s" "c_resendTimer (snd (SetLocalInterface E a m s)) = c_resendTimer s"
  "c_sentPacketNum (snd (SetLocalInterface E a m s)) = c_sentPacketNum s"
  "c_timeoutTimestamp (snd (SetLocalInterface E a m s)) = c_timeoutTimestamp s"
  "c_renewalTimestamp (snd (SetLocalInterface E a m s)) = c_renewalTimestamp s"
  "c_renewalTimestampBoot (snd (SetLocalInterface E a m s)) = c_renewalTimestampBoot s"
  "c_leaseTime (snd (SetLocalInterface E a m s)) = c_leaseTime s" "c_renewalSec (snd (SetLocalInterface E a m s)) = c_renewalSec s"
  "c_rebindSec (snd (SetLocalInterface E a m s)) = c_rebindSec s" "c_requestedIp4 (snd (SetLocalInterface E a m s)) = c_requestedIp4 s"
  "c_serverIp4 (snd (SetLocalInterface E a m s)) = c_serverIp4 s" "c_socketMode (snd (SetLocalInterface E a m s)) = c_socketMode s"
  "c_transID (snd (SetLocalInterface E a m s)) = c_transID s" "c_ifaceMac (snd (SetLocalInterface E a m s)) = c_ifaceMac s"
  "c_ifaceName (snd (SetLocalInterface E a m s)) = c_ifaceName s" "c_thread (snd (SetLocalInterface E a m s)) = c_thread s"
  "c_place (snd (SetLocalInterface E a m s)) = c_place s" "c_action (snd (SetLocalInterface E a m s)) = c_action s"
  "c_conflictCount (snd (SetLocalInterface E a m s)) = c_conflictCount s" "c_fault (snd (SetLocalInterface E a m s)) = c_fault s"
  "c_routerCfg (snd (SetLocalInterface E a m s)) = c_routerCfg s" "c_result (snd (SetLocalInterface E a m s)) = c_result s"
  "c_slowArpDetecting (snd (SetLocalInterface E a m s)) = c_slowArpDetecting s"
  "c_timeOut (snd (SetLocalInterface E a m s)) = c_timeOut s"
  by (simp_all add: SetLocalInterface_def SetIpOrMask_def Let_def case_prod_unfold split: option.splits)

lemma GetDhcpOffer_frame [simp]:
  "c_state (GetDhcpOffer E p s) = c_state s" "c_resendTimer (GetDhcpOffer E p s) = c_resendTimer s"
  "c_sentPacketNum (GetDhcpOffer E p s) = c_sentPacketNum s" "c_timeoutTimestamp (GetDhcpOffer E p s) = c_timeoutTimestamp s"
  "c_renewalTimestamp (GetDhcpOffer E p s) = c_renewalTimestamp s"
  "c_renewalTimestampBoot (GetDhcpOffer E p s) = c_renewalTimestampBoot s" "c_leaseTime (GetDhcpOffer E p s) = c_leaseTime s"
  "c_renewalSec (GetDhcpOffer E p s) = c_renewalSec s" "c_rebindSec (GetDhcpOffer E p s) = c_rebindSec s"
  "c_socketMode (GetDhcpOffer E p s) = c_socketMode s" "c_transID (GetDhcpOffer E p s) = c_transID s"
  "c_ifaceMac (GetDhcpOffer E p s) = c_ifaceMac s" "c_ifaceName (GetDhcpOffer E p s) = c_ifaceName s"
  "c_thread (GetDhcpOffer E p s) = c_thread s" "c_place (GetDhcpOffer E p s) = c_place s" "c_action (GetDhcpOffer E p s) = c_action s"
  "c_conflictCount (GetDhcpOffer E p s) = c_conflictCount s" "c_fault (GetDhcpOffer E p s) = c_fault s"
  "c_routerCfg (GetDhcpOffer E p s) = c_routerCfg s" "c_result (GetDhcpOffer E p s) = c_result s"
  "c_slowArpDetecting (GetDhcpOffer E p s) = c_slowArpDetecting s" "c_timeOut (GetDhcpOffer E p s) = c_timeOut s"
  by (simp_all add: GetDhcpOffer_def Let_def case_prod_unfold split: option.splits)

lemma SetSocketMode_frame [simp]:
  "c_state (SetSocketMode m s) = c_state s" "c_resendTimer (SetSocketMode m s) = c_resendTimer s"
  "c_sentPacketNum (SetSocketMode m s) = c_sentPacketNum s" "c_timeoutTimestamp (SetSocketMode m s) = c_timeoutTimestamp s"
  "c_renewalTimestamp (SetSocketMode m s) = c_renewalTimestamp s"
  "c_renewalTimestampBoot (SetSocketMode m s) = c_renewalTimestampBoot s" "c_leaseTime (SetSocketMode m s) = c_leaseTime s"
  "c_renewalSec (SetSocketMode m s) = c_renewalSec s" "c_rebindSec (SetSocketMode m s) = c_rebindSec s"
  "c_requestedIp4 (SetSocketMode m s) = c_requestedIp4 s" "c_serverIp4 (SetSocketMode m s) = c_serverIp4 s"
  "c_transID (SetSocketMode m s) = c_transID s" "c_ifaceMac (SetSocketMode m s) = c_ifaceMac s"
  "c_ifaceName (SetSocketMode m s) = c_ifaceName s" "c_thread (SetSocketMode m s) = c_thread s"
  "c_place (SetSocketMode m s) = c_place s" "c_action (SetSocketMode m s) = c_action s"
  "c_conflictCount (SetSocketMode m s) = c_conflictCount s" "c_fault (SetSocketMode m s) = c_fault s"
  "c_routerCfg (SetSocketMode m s) = c_routerCfg s" "c_result (SetSocketMode m s) = c_result s"
  "c_slowArpDetecting (SetSocketMode m s) = c_slowArpDetecting s" "c_timeOut (SetSocketMode m s) = c_timeOut s"
  by (simp_all add: SetSocketMode_def Let_def case_prod_unfold split: option.splits)

lemma publish_code_frame [simp]:
  "c_state (publish_code E code s) = c_state s" "c_resendTimer (publish_code E code s) = c_resendTimer s"
  "c_sentPacketNum (publish_code E code s) = c_sentPacketNum s" "c_timeoutTimestamp (publish_code E code s) = c_timeoutTimestamp s"
  "c_renewalTimestamp (publish_code E code s) = c_renewalTimestamp s"
  "c_renewalTimestampBoot (publish_code E code s) = c_renewalTimestampBoot s" "c_leaseTime (publish_code E code s) = c_leaseTime s"
  "c_renewalSec (publish_code E code s) = c_renewalSec s" "c_rebindSec (publish_code E code s) = c_rebindSec s"
  "c_requestedIp4 (publish_code E code s) = c_requestedIp4 s" "c_serverIp4 (publish_code E code s) = c_serverIp4 s"
  "c_socketMode (publish_code E code s) = c_socketMode s" "c_transID (publish_code E code s) = c_transID s"
  "c_ifaceMac (publish_code E code s) = c_ifaceMac s" "c_ifaceName (publish_code E code s) = c_ifaceName s"
  "c_thread (publish_code E code s) = c_thread s" "c_place (publish_code E code s) = c_place s"
  "c_action (publish_code E code s) = c_action s" "c_conflictCount (publish_code E code s) = c_conflictCount s"
  "c_fault (publish_code E code s) = c_fault s" "c_routerCfg (publish_code E code s) = c_routerCfg s"
  "c_result (publish_code E code s) = c_result s" "c_slowArpDetecting (publish_code E code s) = c_slowArpDetecting s"
  "c_timeOut (publish_code E code s) = c_timeOut s"
  by (simp_all add: publish_code_def Let_def case_prod_unfold split: option.splits)

lemma StopIpv4_changes [simp]:
  "c_thread (StopIpv4 s) = (if c_thread s = IPV4_TASK_RUNNING then IPV4_TASK_STOP_REQUESTED else c_thread s)"
  "c_conflictCount (StopIpv4 s) = (if c_thread s = IPV4_TASK_RUNNING then 0 else c_conflictCount s)"
  "c_slowArpDetecting (StopIpv4 s) = (if c_thread s = IPV4_TASK_RUNNING then False else c_slowArpDetecting s)"
  by (simp_all add: StopIpv4_def Let_def)

lemma SetSocketMode_changes [simp]: "c_socketMode (SetSocketMode m s) = m"
  by (simp add: SetSocketMode_def)

lemma lease_seconds_changes [simp]:
  "c_leaseTime (lease_seconds l s) = l" "c_renewalSec (lease_seconds l s) = u32_div l 1 2"
  "c_rebindSec (lease_seconds l s) = u32_div l 7 8"
  by (simp_all add: lease_seconds_def)

section \<open>The builders stay in their arrays\<close>

definition client_opts :: "Env \<Rightarrow> u8 \<Rightarrow> Client \<Rightarrow> (u8 \<times> bytes) list" where
  "client_opts E type s = [(53, [type]), (61, 1 # c_ifaceMac s)] @ host_opts (en_vendor E) (en_model E)"

lemma common_packet_some:
  assumes "length (c_ifaceMac s) = 6" "type \<in> {DHCPDISCOVER, DHCPREQUEST, DHCPDECLINE, DHCPRELEASE, DHCPINFORM}"
  shows "common_packet E type s = Some (with_opts (client_opts E type s) (set_chaddr (c_ifaceMac s) header_packet))"
  using assms GetPacketCommonInfo_with_opts [of "[(53, [type])]" "c_ifaceMac s" "en_vendor E" "en_model E" header_packet]
  unfolding common_packet_def GetPacketHeaderInfo_zero [OF assms(2)] by (simp add: opts_fit_def copt_ok_def client_opts_def)

lemma with_opts_fields [simp]:
  "(with_opts os p)\<lparr>dp_xid := x\<rparr> = with_opts os (p\<lparr>dp_xid := x\<rparr>)"
  "(with_opts os p)\<lparr>dp_secs := t\<rparr> = with_opts os (p\<lparr>dp_secs := t\<rparr>)"
  "(with_opts os p)\<lparr>dp_ciaddr := a\<rparr> = with_opts os (p\<lparr>dp_ciaddr := a\<rparr>)"
  by (simp_all add: with_opts_def)

text \<open>The elapsed seconds are written into a header field only.\<close>

definition elapsed :: "Env \<Rightarrow> Client \<Rightarrow> u16" where
  "elapsed E s = dp_secs (fst (SetSecondsElapsed E zero_packet s))"

definition clocked :: "Env \<Rightarrow> Client \<Rightarrow> Client" where
  "clocked E s = snd (SetSecondsElapsed E zero_packet s)"

lemma SetSecondsElapsed_eq: "SetSecondsElapsed E p s = (p\<lparr>dp_secs := elapsed E s\<rparr>, clocked E s)"
  by (simp add: SetSecondsElapsed_def elapsed_def clocked_def Let_def case_prod_unfold zero_packet_def)

lemma clocked_frame [simp]: "c_ifaceIndex (clocked E s) = c_ifaceIndex s" "c_ifaceMac (clocked E s) = c_ifaceMac s"
  "c_fault (clocked E s) = c_fault s"
  by (simp_all add: clocked_def SetSecondsElapsed_def ask_def Let_def)

lemma client_opts_fit:
  assumes "length (c_ifaceMac s) = 6" "n < 1600"
  shows "opts_fit n (client_opts E type s)"
  using assms host_opts_fit [of "en_vendor E" "en_model E"] by (simp add: client_opts_def opts_fit_def copt_ok_def)

definition max_size_opt :: "u8 \<times> bytes" where
  "max_size_opt = (57, u16_bytes (htons 1500))"

lemma copt_ok_codes [simp]:
  "copt_ok (50, u32_bytes a)" "copt_ok (54, u32_bytes a)" "copt_ok max_size_opt" "copt_ok (55, arrReqCode)"
  "length (snd max_size_opt) = 2" "length arrReqCode = 12"
  by (simp_all add: copt_ok_def max_size_opt_def arrReqCode_def)

text \<open>The header of a packet of the client.\<close>

definition client_packet :: "Env \<Rightarrow> u32 \<Rightarrow> Client \<Rightarrow> DhcpPacket" where
  "client_packet E x s = (set_chaddr (c_ifaceMac s) header_packet)\<lparr>dp_xid := x, dp_secs := elapsed E s\<rparr>"

lemmas build = SetSecondsElapsed_eq AddOptValue_with_opts AddParamaterRequestList_with_opts AddClientIdToOpts_with_opts
  AddHostNameToOpts_with_opts AddParamaterRebootList_def set_chaddr_with_opts

lemma DhcpDiscover_sends:
  assumes "length (c_ifaceMac s) = 6"
  shows "DhcpDiscover E x r s = note_event (SentBroadcast
    (with_opts (client_opts E DHCPDISCOVER s @ [max_size_opt, (55, arrReqCode)]) (client_packet E x s))
    INADDR_ANY INADDR_BROADCAST (c_ifaceIndex s)) (clocked E s)"
  using client_opts_fit [OF assms, of _ E DHCPDISCOVER]
  by (simp add: DhcpDiscover_def common_packet_some [OF assms] build max_size_opt_def [symmetric]
      SendToDhcpPacket_def client_packet_def)

lemma DhcpRequest_sends:
  assumes "length (c_ifaceMac s) = 6"
  shows "DhcpRequest E x r v s = note_event (SentBroadcast
    (with_opts (client_opts E DHCPREQUEST s @ [(54, u32_bytes v), (50, u32_bytes r), max_size_opt, (55, arrReqCode)])
       (client_packet E x s)) INADDR_ANY INADDR_BROADCAST (c_ifaceIndex s)) (clocked E s)"
  using client_opts_fit [OF assms, of _ E DHCPREQUEST]
  by (simp add: DhcpRequest_def common_packet_some [OF assms] build max_size_opt_def [symmetric]
      SendToDhcpPacket_def client_packet_def)

lemma DhcpReboot_sends:
  assumes "length (c_ifaceMac s) = 6"
  shows "DhcpReboot E x r s = note_event (SentBroadcast
    (with_opts ([(53, [DHCPREQUEST]), (61, 1 # c_ifaceMac s), (50, u32_bytes r), max_size_opt]
         @ host_opts (en_vendor E) (en_model E) @ [(55, arrReqCode)]) (client_packet E x s))
    INADDR_ANY INADDR_BROADCAST (c_ifaceIndex s)) (clocked E s)"
proof -
  let ?os = "[(53, [DHCPREQUEST]), (61, 1 # c_ifaceMac s), (50, u32_bytes r), max_size_opt]"
  have fit: "opts_fit n [(53, [DHCPREQUEST])]" "opts_fit n [(53, [DHCPREQUEST]), (61, 1 # c_ifaceMac s)]"
    "opts_fit n [(53, [DHCPREQUEST]), (61, 1 # c_ifaceMac s), (50, u32_bytes r)]" "opts_fit n ?os"
    "opts_fit n (?os @ host_opts (en_vendor E) (en_model E))" if "n < 1500" for n
    using that assms host_opts_fit [of "en_vendor E" "en_model E"]
    by (simp_all add: opts_fit_def) (simp_all add: copt_ok_def max_size_opt_def)
  show ?thesis
    using assms fit
    by (simp add: DhcpReboot_def GetPacketHeaderInfo_zero build max_size_opt_def [symmetric] SendToDhcpPacket_def client_packet_def
        del: opts_fit_append)
qed

lemma DhcpRenew_sends:
  assumes "length (c_ifaceMac s) = 6"
  shows "DhcpRenew E x r v s = note_event
    (let p = with_opts (client_opts E DHCPREQUEST s @ [(55, arrReqCode), max_size_opt]) ((client_packet E x s)\<lparr>dp_ciaddr := r\<rparr>)
     in if v = 0 then SentBroadcast p INADDR_ANY INADDR_BROADCAST (c_ifaceIndex s) else SentUnicast p r v) (clocked E s)"
  using client_opts_fit [OF assms, of _ E DHCPREQUEST]
  by (simp add: DhcpRenew_def common_packet_some [OF assms] build max_size_opt_def [symmetric]
      SendToDhcpPacket_def SendDhcpPacket_def client_packet_def Let_def)

lemma DhcpRelease_sends:
  assumes "length (c_ifaceMac s) = 6"
  shows "DhcpRelease E r v s = note_event (SentUnicast
    (with_opts (client_opts E DHCPRELEASE s @ [(50, u32_bytes r), (54, u32_bytes v)])
       ((set_chaddr (c_ifaceMac s) header_packet)\<lparr>dp_xid := en_random E (c_tick s)\<rparr>)) r v) (snd (GetRandomId E s))"
  using client_opts_fit [OF assms, of _ E DHCPRELEASE]
  by (simp add: DhcpRelease_def common_packet_some [OF assms] build GetRandomId_def ask_def
      SendDhcpPacket_def)

lemma DhcpDecline_sends:
  assumes "length (c_ifaceMac s) = 6"
  shows "DhcpDecline E x r v s = note_event (SentBroadcast
    (with_opts [(53, [DHCPDECLINE]), (61, 1 # c_ifaceMac s), (50, u32_bytes r), (54, u32_bytes v), (50, u32_bytes r), (54, u32_bytes v)]
       ((set_chaddr (c_ifaceMac s) header_packet)\<lparr>dp_xid := x\<rparr>)) INADDR_ANY INADDR_BROADCAST (c_ifaceIndex s)) s"
proof -
  let ?p = "(set_chaddr (c_ifaceMac s) header_packet)\<lparr>dp_xid := x\<rparr>"
  have fit: "opts_fit n [(53, [DHCPDECLINE])]" "opts_fit n [(53, [DHCPDECLINE]), (61, 1 # c_ifaceMac s)]"
    "opts_fit n [(53, [DHCPDECLINE]), (61, 1 # c_ifaceMac s), (50, u32_bytes r)]"
    "opts_fit n [(53, [DHCPDECLINE]), (61, 1 # c_ifaceMac s), (50, u32_bytes r), (54, u32_bytes v)]"
    "opts_fit n [(53, [DHCPDECLINE]), (61, 1 # c_ifaceMac s), (50, u32_bytes r), (54, u32_bytes v), (50, u32_bytes r)]"
    if "n < 1500" for n
    using that assms by (simp_all add: opts_fit_def) (simp_all add: copt_ok_def)
  have "set_chaddr (c_ifaceMac s) (header_packet\<lparr>dp_xid := x\<rparr>) = ?p" by (simp add: set_chaddr_def)
  then show ?thesis
    using assms fit by (simp add: DhcpDecline_def GetPacketHeaderInfo_zero build SendToDhcpPacket_def del: opts_fit_append)
qed

lemma sends_no_fault [simp]:
  assumes "length (c_ifaceMac s) = 6"
  shows "c_fault (DhcpDiscover E x r s) = c_fault s" "c_fault (DhcpRequest E x r v s) = c_fault s"
    "c_fault (DhcpReboot E x r s) = c_fault s" "c_fault (DhcpRenew E x r v s) = c_fault s"
    "c_fault (DhcpRelease E r v s) = c_fault s" "c_fault (DhcpDecline E x r v s) = c_fault s"
  using assms by (simp_all add: DhcpDiscover_sends DhcpRequest_sends DhcpReboot_sends DhcpRenew_sends DhcpRelease_sends
      DhcpDecline_sends)

section \<open>The runs\<close>

text \<open>One step of the object: a call of the service, the start of the posted task, an iteration or the end of its loop, a timer
  that fires, the end of the ARP task. A handler runs as one step; what other threads do while it runs is not
  modelled.\<close>

inductive client_step :: "Env \<Rightarrow> Client \<Rightarrow> Client \<Rightarrow> bool" where
  start: "client_step E s (snd (StartIpv4Type E ifname isIpv6 action exited s))"
| stop: "client_step E s (StopIpv4Type s)"
| configure: "client_step E s (SetConfiguration cfg s)"
| task: "c_place s = TaskQueued \<Longrightarrow> client_step E s (RunGetIPThreadFunc E s)"
| loop: "c_place s = TaskLooping \<Longrightarrow> client_step E s (StartIpv4Loop_iteration E t ready recv s)"
| timer: "c_timers s ty \<noteq> 0 \<Longrightarrow> client_step E s (SetTimerCallback E ty s)"
| arp: "client_step E s (SlowArpTask E tid s)"
| renew: "client_step E s (ExecDhcpRenew s)"
| release: "client_step E s (ExecDhcpRelease E s)"

definition new_client :: "string \<Rightarrow> bytes \<Rightarrow> ActionMode \<Rightarrow> RouterConfig \<Rightarrow> DhcpIpResult \<Rightarrow> DhcpResultStoreManager \<Rightarrow> Client" where
  "new_client ifname mac action cfg r st = \<lparr>c_state = DHCP_STATE_INIT, c_resendTimer = 0, c_sentPacketNum = 0, c_timeoutTimestamp = 0,
     c_renewalTimestamp = 0, c_renewalTimestampBoot = 0, c_leaseTime = 0, c_renewalSec = 0, c_rebindSec = 0, c_requestedIp4 = 0,
     c_serverIp4 = 0, c_socketMode = SOCKET_MODE_INVALID, c_transID = 0, c_ifaceIndex = 0, c_isIpv6 = False, c_ifaceIpv4 = 0,
     c_getMode = DHCP_IP_TYPE_NONE, c_ifaceMac = mac, c_ifaceName = [], c_workDir = [], c_confFile = [], c_leaseFile = [],
     c_resultFile = [], c_result6File = [], c_thread = IPV4_TASK_IDLE, c_ifName = ifname, c_action = action, c_timers = (\<lambda>_. 0),
     c_slowArpTaskId = 0, c_timeOut = (if ifname = ''eth0'' then 72000 else 18000), c_arpDectionTargetIp = [], c_routerCfg = cfg,
     c_conflictCount = 0, c_result = r, c_slowArpDetecting = False, c_firstSendPacketTime = 0, c_store = st, c_place = NoTask,
     c_tick = 0, c_log = [], c_fault = False\<rparr>"

section \<open>The invariant\<close>

text \<open>The retransmission counter in each state.\<close>

definition count_ok :: "DhcpStateCode \<Rightarrow> u32 \<Rightarrow> bool" where
  "count_ok st n = (case st of
       DHCP_STATE_INIT \<Rightarrow> n \<le> 16 | DHCP_STATE_SELECTING \<Rightarrow> n \<le> 16 | DHCP_STATE_REQUESTING \<Rightarrow> n \<le> 16
     | DHCP_STATE_RENEWED \<Rightarrow> n \<le> 16 | DHCP_STATE_INITREBOOT \<Rightarrow> n \<le> 2 | DHCP_STATE_FAST_ARP \<Rightarrow> n = 0
     | DHCP_STATE_SLOW_ARP \<Rightarrow> n \<le> 3 | _ \<Rightarrow> True)"

definition client_inv :: "Client \<Rightarrow> bool" where
  "client_inv s \<longleftrightarrow> \<not> c_fault s \<and> length (c_ifaceMac s) = 6 \<and> c_resendTimer s \<in> {0, 1, 2, 4, 6}
     \<and> c_renewalSec s = u32_div (c_leaseTime s) 1 2 \<and> c_rebindSec s = u32_div (c_leaseTime s) 7 8
     \<and> (c_thread s = IPV4_TASK_IDLE \<longrightarrow> c_place s = NoTask) \<and> c_conflictCount s \<le> 2
     \<and> c_socketMode s \<noteq> SOCKET_MODE_KERNEL \<and> count_ok (c_state s) (c_sentPacketNum s)"

definition env_ok :: "Env \<Rightarrow> bool" where
  "env_ok E \<longleftrightarrow> (\<forall>n m. en_ifmac E n = Some m \<longrightarrow> 6 \<le> length m)"

lemma count_succ:
  assumes "n \<le> k" "unat k < 100"
  shows "n + 1 \<le> (k :: u32) + 1"
  using assms by (simp add: word_le_nat_alt unat_word_ariths)

lemma word_le_15: "\<not> 15 < (n :: u32) \<Longrightarrow> n + 1 \<le> 16"
  using count_succ [of n 15] by simp

lemma word_le_small: "\<not> 2 \<le> (n :: u32) \<Longrightarrow> n + 1 \<le> 2" "\<not> 2 < (n :: u32) \<Longrightarrow> n + 1 \<le> 3"
  using count_succ [of n 1] count_succ [of n 2] by (simp_all add: not_le not_less word_le_nat_alt word_less_nat_alt)

lemma inv_StopIpv4 [intro]: "client_inv s \<Longrightarrow> client_inv (StopIpv4 s)"
  by (auto simp: client_inv_def)

lemma inv_CloseAllRenewTimer [intro]: "client_inv s \<Longrightarrow> client_inv (CloseAllRenewTimer s)"
  by (simp add: client_inv_def)

lemma inv_TryCachedIp [intro]: "client_inv s \<Longrightarrow> client_inv (TryCachedIp E s)"
  by (auto simp: client_inv_def TryCachedIp_def Let_def case_prod_unfold split: option.splits)

text \<open>The end of the sending methods: a new deadline and one more packet.\<close>

lemma inv_sent:
  assumes "client_inv s" "count_ok (c_state s) n"
  shows "client_inv (s\<lparr>c_timeoutTimestamp := t, c_sentPacketNum := n\<rparr>)"
  using assms by (simp add: client_inv_def)

lemma inv_sends [intro]:
  assumes "client_inv s"
  shows "client_inv (DhcpDiscover E x r s)" "client_inv (DhcpRequest E x r v s)" "client_inv (DhcpReboot E x r s)"
    "client_inv (DhcpRenew E x r v s)" "client_inv (DhcpRelease E r v s)" "client_inv (DhcpDecline E x r v s)"
  using assms by (simp_all add: client_inv_def)

lemma inv_InitSelecting:
  assumes "client_inv s" "c_state s = DHCP_STATE_INIT \<or> c_state s = DHCP_STATE_SELECTING"
  shows "client_inv (InitSelecting E t s)"
proof (cases "c_sentPacketNum s > 15")
  case True
  with assms show ?thesis by (auto simp: InitSelecting_def client_inv_def count_ok_def)
next
  case False
  define s1 where "s1 = (if c_sentPacketNum s = 0 then (snd (GetRandomId E s))\<lparr>c_transID := fst (GetRandomId E s)\<rparr> else s)"
  define s2 where "s2 = (DhcpDiscover E (c_transID s1) (c_requestedIp4 s1) s1)\<lparr>c_state := DHCP_STATE_SELECTING\<rparr>"
  have "client_inv s1" using assms(1) by (auto simp: s1_def client_inv_def)
  moreover have n1: "c_sentPacketNum s1 = c_sentPacketNum s" by (simp add: s1_def)
  moreover have "c_sentPacketNum s \<le> 16" using assms by (auto simp: client_inv_def count_ok_def)
  ultimately have s2: "client_inv s2" by (simp add: s2_def client_inv_def count_ok_def)
  have n: "c_sentPacketNum s2 = c_sentPacketNum s" by (simp add: s2_def n1)
  have "InitSelecting E t s = (let s3 = (if timeout_sec (c_sentPacketNum s2) > 6 \<and> c_action s2 \<noteq> ACTION_RENEW_T3 then TryCachedIp E s2 else s2)
      in s3\<lparr>c_timeoutTimestamp := t + timeout_sec (c_sentPacketNum s2), c_sentPacketNum := c_sentPacketNum s3 + 1\<rparr>)"
    using False by (auto simp: InitSelecting_def s2_def s1_def Let_def case_prod_unfold)
  moreover have "c_state s2 = DHCP_STATE_SELECTING" by (simp add: s2_def)
  ultimately show ?thesis
    using s2 n word_le_15 [OF False] inv_TryCachedIp [OF s2]
    by (auto simp: Let_def count_ok_def intro!: inv_sent)
qed

lemma inv_back_to_init: "client_inv s \<Longrightarrow> client_inv (back_to_init t s)"
  by (simp add: back_to_init_def client_inv_def count_ok_def SetSocketMode_def)

lemma inv_SendReboot:
  assumes "client_inv s" "c_state s = DHCP_STATE_INITREBOOT"
  shows "client_inv (SendReboot E a t s)"
proof (cases "c_sentPacketNum s \<ge> 2")
  case False
  then show ?thesis
    using assms word_le_small(1) [OF False] by (simp add: SendReboot_def Let_def client_inv_def count_ok_def)
qed (simp add: SendReboot_def inv_back_to_init assms(1))

lemma inv_Reboot:
  assumes "client_inv s"
  shows "client_inv (Reboot E t s)"
proof -
  have "client_inv (snd (GetCachedDhcpResult E b s))" for b using assms by (simp add: client_inv_def)
  moreover have "client_inv (SendReboot E a t ((snd (GetRandomId E s'))\<lparr>c_transID := x, c_state := DHCP_STATE_INITREBOOT,
      c_sentPacketNum := 0\<rparr>))" if "client_inv s'" for a x s'
    using that by (intro inv_SendReboot) (simp_all add: client_inv_def count_ok_def)
  ultimately show ?thesis
    using assms by (auto simp: Reboot_def Let_def case_prod_unfold split: option.splits)
qed

lemma inv_Requesting:
  assumes "client_inv s" "c_state s = DHCP_STATE_REQUESTING \<or> c_state s = DHCP_STATE_RENEWED"
  shows "client_inv (Requesting E t s)"
proof (cases "c_sentPacketNum s > 15")
  case False
  define s1 where "s1 = (if c_state s = DHCP_STATE_RENEWED then DhcpRenew E (c_transID s) (c_requestedIp4 s) (c_serverIp4 s) s
    else DhcpRequest E (c_transID s) (c_requestedIp4 s) (c_serverIp4 s) s)"
  have s1: "client_inv s1" "c_sentPacketNum s1 = c_sentPacketNum s" "c_state s1 = c_state s"
    using assms(1) by (auto simp: s1_def)
  have "Requesting E t s = (let s3 = (if timeout_sec (c_sentPacketNum s1) > 6 then TryCachedIp E s1 else s1)
      in s3\<lparr>c_timeoutTimestamp := t + timeout_sec (c_sentPacketNum s1), c_sentPacketNum := c_sentPacketNum s3 + 1\<rparr>)"
    using False by (simp add: Requesting_def s1_def Let_def)
  then show ?thesis
    using s1 assms(2) word_le_15 [OF False] inv_TryCachedIp [OF s1(1)]
    by (auto simp: Let_def count_ok_def intro!: inv_sent)
qed (simp add: Requesting_def inv_back_to_init assms(1))

lemma inv_Renewing:
  "client_inv s \<Longrightarrow> c_state s = DHCP_STATE_RENEWING \<Longrightarrow> client_inv (Renewing E t s)"
  "client_inv s \<Longrightarrow> c_state s = DHCP_STATE_REBINDING \<Longrightarrow> client_inv (Rebinding4 E t s)"
  by (simp_all add: Renewing_def Rebinding4_def client_inv_def count_ok_def)

lemma inv_enter_bound: "client_inv s \<Longrightarrow> client_inv (enter_bound E t s)"
  by (auto simp: enter_bound_def client_inv_def count_ok_def)

lemma inv_Declining:
  assumes "client_inv s" "c_thread s = IPV4_TASK_RUNNING"
  shows "client_inv (Declining E t s)"
proof -
  have "c_conflictCount s + 1 > 2 \<or> c_conflictCount s + 1 \<le> 2" by auto
  then show ?thesis
    using assms by (auto simp: Declining_def Let_def case_prod_unfold client_inv_def count_ok_def)
qed

lemma inv_FastArpDetect:
  "client_inv s \<Longrightarrow> c_state s = DHCP_STATE_FAST_ARP \<Longrightarrow> client_inv (FastArpDetect E s)"
  by (simp add: FastArpDetect_def Let_def case_prod_unfold client_inv_def count_ok_def)

lemma inv_slow_arp_callbacks:
  assumes "client_inv s"
  shows "client_inv (SlowArpDetectCallback E b s)" "client_inv (SlowArpTimeoutCallback E s)" "client_inv (SlowArpTask E tid s)"
proof -
  have bound: "client_inv (enter_bound E t (snd (ask f s)))" if "client_inv s" for t s and f :: "nat \<Rightarrow> int"
    using that by (intro inv_enter_bound) (simp add: client_inv_def)
  have cb: "client_inv (SlowArpDetectCallback E b s)" if s: "client_inv s" for b s
  proof -
    have "client_inv (enter_bound E (fst (ask (en_time E) s)) (snd (ask (en_time E) s)))" by (rule bound [OF s])
    with s show ?thesis
      by (simp add: SlowArpDetectCallback_def Let_def case_prod_unfold) (simp add: client_inv_def count_ok_def)
  qed
  then show "client_inv (SlowArpDetectCallback E b s)" using assms by blast
  show "client_inv (SlowArpTimeoutCallback E s)"
    using assms bound by (simp add: SlowArpTimeoutCallback_def Let_def case_prod_unfold)
  have "client_inv (snd (IsArpReachable E s))" using assms by (simp add: client_inv_def)
  then show "client_inv (SlowArpTask E tid s)" using cb by (simp add: SlowArpTask_def Let_def case_prod_unfold)
qed

lemma enter_bound_frame [simp]:
  "c_state (enter_bound E t s) = DHCP_STATE_BOUND" "c_sentPacketNum (enter_bound E t s) = 0"
  "c_ifaceMac (enter_bound E t s) = c_ifaceMac s"
  by (simp_all add: enter_bound_def)

lemma inv_SlowArpDetect:
  assumes "client_inv s" "c_state s = DHCP_STATE_SLOW_ARP"
  shows "client_inv (SlowArpDetect E t s)"
proof (cases "c_sentPacketNum s > 2")
  case True
  then show ?thesis
    using inv_enter_bound [OF assms(1), of E t] by (simp add: SlowArpDetect_def client_inv_def count_ok_def)
next
  case False
  then show ?thesis
    using assms word_le_small(2) [OF False]
    by (simp add: SlowArpDetect_def Let_def case_prod_unfold) (simp add: client_inv_def count_ok_def)
qed

lemma inv_DhcpRequestHandle:
  assumes "client_inv s" "c_thread s = IPV4_TASK_RUNNING"
  shows "client_inv (DhcpRequestHandle E t s)"
proof -
  have "client_inv (s\<lparr>c_timeoutTimestamp := SIGNED_INTEGER_MAX\<rparr>)" using assms(1) by (simp add: client_inv_def)
  moreover have "client_inv (s\<lparr>c_state := DHCP_STATE_RENEWING\<rparr>)" using assms(1) by (simp add: client_inv_def count_ok_def)
  ultimately show ?thesis
    using assms
    by (cases "c_state s")
      (simp_all add: DhcpRequestHandle_def inv_InitSelecting inv_Requesting inv_Renewing inv_SendReboot inv_FastArpDetect
        inv_SlowArpDetect inv_Declining)
qed

lemma inv_ParseDhcpAckPacket: "client_inv s \<Longrightarrow> client_inv (ParseDhcpAckPacket E p t s)"
  by (simp add: ParseDhcpAckPacket_def Let_def case_prod_unfold client_inv_def)

lemma ParseDhcpAckPacket_state [simp]: "c_state (ParseDhcpAckPacket E p t s) = c_state s"
  by (simp add: ParseDhcpAckPacket_def Let_def case_prod_unfold)

lemma inv_ParseDhcpNakPacket: "client_inv s \<Longrightarrow> client_inv (ParseDhcpNakPacket t s)"
  using inv_back_to_init [of s t] unfolding ParseDhcpNakPacket_def
  by (auto simp: Let_def client_inv_def)

lemma inv_IpConflictDetect: "client_inv s \<Longrightarrow> client_inv (IpConflictDetect s)"
  by (simp add: IpConflictDetect_def client_inv_def count_ok_def)

lemma inv_DhcpAckHandle:
  assumes "client_inv s"
  shows "client_inv (DhcpAckHandle E t s)"
proof -
  have frame: "client_inv (snd (SetLocalInterface E a m s))" "client_inv (s\<lparr>c_result := r\<rparr>)" "client_inv (CloseAllRenewTimer s)"
    "client_inv (snd (GetCachedDhcpResult E b s))" "client_inv (snd (PublishResult E c s))"
    if "client_inv s" for a m r b c s using that by (simp_all add: client_inv_def)
  show ?thesis
    using assms
    by (auto simp: DhcpAckHandle_def Let_def case_prod_unfold split: option.splits
        intro!: frame inv_IpConflictDetect inv_enter_bound)
qed

text \<open>A packet that is no answer ends the attempt with the old address.\<close>

lemma inv_leave_reboot:
  assumes "client_inv s" "c_state s = DHCP_STATE_INITREBOOT"
  shows "client_inv (s\<lparr>c_state := DHCP_STATE_INIT, c_timeoutTimestamp := t\<rparr>)"
proof -
  have "c_sentPacketNum s \<le> 2" using assms by (simp add: client_inv_def count_ok_def)
  then have "c_sentPacketNum s \<le> 16" by (rule order_trans) simp
  then show ?thesis using assms by (simp add: client_inv_def count_ok_def)
qed

lemma inv_DhcpResponseHandle:
  assumes "client_inv s"
  shows "client_inv (DhcpResponseHandle E t recv s)"
proof -
  have offer: "client_inv (DhcpOfferPacketHandle m p t s)" if "client_inv s" for m p s
    using that
    by (cases "GetDhcpOptionUint32 p SERVER_IDENTIFIER_OPTION 0"; cases "m = DHCPOFFER") (simp_all add: DhcpOfferPacketHandle_def client_inv_def count_ok_def)
  have acknak: "client_inv (DhcpAckOrNakPacketHandle E m p t s)" if "client_inv s" for m p s
  proof -
    have "client_inv (s\<lparr>c_result := zero_result\<rparr>)" using that by (simp add: client_inv_def)
    then show ?thesis
      using that by (simp add: inv_leave_reboot DhcpAckOrNakPacketHandle_def Let_def inv_ParseDhcpNakPacket inv_DhcpAckHandle inv_ParseDhcpAckPacket)
  qed
  have "client_inv (GetDhcpOffer E p s)" for p
    using assms by (auto simp: client_inv_def)
  then have check: "client_inv (snd (DhcpResponseDataCheck E t recv s))"
    using assms inv_leave_reboot by (auto simp: DhcpResponseDataCheck_def Let_def case_prod_unfold split: option.splits)
  obtain m s' where s': "DhcpResponseDataCheck E t recv s = (m, s')" by fastforce
  with check have "client_inv s'" by simp
  then have "client_inv (DhcpOfferPacketHandle u p t s')" "client_inv (DhcpAckOrNakPacketHandle E u p t s')" "client_inv s'" for u p
    by (simp_all add: offer acknak)
  then show ?thesis unfolding DhcpResponseHandle_def s' by (simp split: option.split)
qed

lemma inv_InitConfig:
  assumes "env_ok E" "client_inv s"
  shows "client_inv (snd (InitConfig E n b s))"
proof -
  have cfg: "client_inv (snd (InitSpecifiedClientCfg E n b s))"
    using assms(2) by (simp add: InitSpecifiedClientCfg_def Let_def case_prod_unfold client_inv_def)
  have mac: "min (length m) 6 = 6" if "en_ifmac E k = Some m" for k m
    using assms(1) that by (auto simp: env_ok_def)
  have "client_inv (snd (GetLocalInterface E s))" if "client_inv s" for s
    using that
    by (auto simp: GetLocalInterface_def Let_def case_prod_unfold client_inv_def ask_def mac split: option.splits)
  then have "client_inv (snd (GetClientNetworkInfo E s))" if "client_inv s" for s
    using that
    by (auto simp: GetClientNetworkInfo_def Let_def case_prod_unfold client_inv_def split: option.splits)
  with cfg show ?thesis
    by (simp add: InitConfig_def Let_def case_prod_unfold) (simp add: client_inv_def)
qed

lemma inv_InitStartIpv4Thread: "client_inv s \<Longrightarrow> client_inv (snd (InitStartIpv4Thread E s))"
  by (simp add: InitStartIpv4Thread_def Let_def case_prod_unfold client_inv_def)

lemma inv_StartIpv4Type:
  assumes "env_ok E" "client_inv s"
  shows "client_inv (snd (StartIpv4Type E n b a x s))"
proof -
  let ?s1 = "if c_thread s \<noteq> IPV4_TASK_IDLE
    then if x then (StopIpv4 (CloseAllRenewTimer s))\<lparr>c_thread := IPV4_TASK_IDLE, c_place := NoTask\<rparr> else StopIpv4 (CloseAllRenewTimer s)
    else s"
  let ?s2 = "StartTimer E TIMER_GET_IP (uint (c_timeOut s)) (StopTimer TIMER_GET_IP (?s1\<lparr>c_ifName := n, c_action := a\<rparr>))"
  have "client_inv ?s1" using assms(2) by (auto simp: client_inv_def)
  then have "client_inv ?s2" by (simp add: client_inv_def)
  then have *: "client_inv (snd (InitConfig E n b ?s2))" by (rule inv_InitConfig [OF assms(1)])
  moreover from * have "client_inv (snd (InitStartIpv4Thread E (snd (InitConfig E n b ?s2))))" by (rule inv_InitStartIpv4Thread)
  moreover have "c_timeOut (if x then (StopIpv4 (CloseAllRenewTimer s))\<lparr>c_thread := IPV4_TASK_IDLE, c_place := NoTask\<rparr>
      else StopIpv4 (CloseAllRenewTimer s)) = c_timeOut s" by simp
  ultimately show ?thesis
    by (cases "c_thread s = IPV4_TASK_IDLE"; cases x) (auto simp: StartIpv4Type_def Let_def case_prod_unfold)
qed

lemma DhcpInit_thread [simp]: "c_thread (DhcpInit E s) = c_thread s"
  by (simp add: DhcpInit_def Reboot_def SendReboot_def back_to_init_def SetSocketMode_def Let_def case_prod_unfold
      split: option.splits)

lemma inv_DhcpInit:
  assumes "client_inv s"
  shows "client_inv (DhcpInit E s)"
proof -
  define s1 where "s1 = SetSocketMode SOCKET_MODE_RAW (s\<lparr>c_state := DHCP_STATE_INIT, c_resendTimer := 0, c_sentPacketNum := 0,
              c_timeoutTimestamp := 0, c_conflictCount := 0\<rparr>)"
  have "client_inv s1" using assms by (simp add: s1_def client_inv_def count_ok_def)
  then have "client_inv (snd (ask f (note_event e (note_event e' s1))))" for e e' and f :: "nat \<Rightarrow> int" by (simp add: client_inv_def)
  then show ?thesis by (simp add: DhcpInit_def s1_def [symmetric] Let_def case_prod_unfold inv_Reboot)
qed

lemma inv_RunGetIPThreadFunc:
  assumes "client_inv s" "c_place s = TaskQueued"
  shows "client_inv (RunGetIPThreadFunc E s)"
proof -
  have loop: "client_inv ((snd (ask f (s\<lparr>c_firstSendPacketTime := 0\<rparr>)))\<lparr>c_place := TaskLooping\<rparr>)"
    "client_inv ((snd (ask f (s\<lparr>c_firstSendPacketTime := 0\<rparr>)))\<lparr>c_thread := IPV4_TASK_IDLE, c_place := NoTask\<rparr>)"
    if "client_inv s" "c_thread s \<noteq> IPV4_TASK_IDLE" for s and f :: "nat \<Rightarrow> bool"
    using that by (simp_all add: client_inv_def)
  have "c_thread s \<noteq> IPV4_TASK_IDLE" using assms by (auto simp: client_inv_def)
  then have "client_inv (StartIpv4 E s)"
    using assms(1) loop inv_DhcpInit by (simp add: StartIpv4_def Let_def case_prod_unfold)
  moreover have "client_inv (s\<lparr>c_place := NoTask\<rparr>)" using assms(1) by (simp add: client_inv_def)
  ultimately show ?thesis by (simp add: RunGetIPThreadFunc_def)
qed

lemma inv_StartIpv4Loop_iteration: "client_inv s \<Longrightarrow> client_inv (StartIpv4Loop_iteration E t ready recv s)"
  by (simp add: StartIpv4Loop_iteration_def inv_DhcpRequestHandle inv_DhcpResponseHandle) (simp add: client_inv_def)

lemma inv_StopTimer: "client_inv s \<Longrightarrow> client_inv (StopTimer ty s)"
  by (simp add: client_inv_def)

lemma inv_StartTimer: "client_inv s \<Longrightarrow> client_inv (StartTimer E ty n s)"
  by (simp add: client_inv_def)

lemma inv_publish_code: "client_inv s \<Longrightarrow> client_inv (publish_code E c s)"
  by (simp add: client_inv_def publish_code_def)

lemma inv_action: "client_inv s \<Longrightarrow> client_inv (s\<lparr>c_action := a\<rparr>)"
  by (simp add: client_inv_def)

lemma inv_restart:
  assumes "client_inv s" "st = DHCP_STATE_RENEWING \<or> st = DHCP_STATE_REBINDING"
  shows "client_inv (s\<lparr>c_state := st, c_sentPacketNum := 0, c_timeoutTimestamp := 0\<rparr>)"
    "client_inv (SetSocketMode SOCKET_MODE_RAW (s\<lparr>c_state := st, c_sentPacketNum := 0, c_timeoutTimestamp := 0\<rparr>))"
  using assms by (auto simp: client_inv_def count_ok_def SetSocketMode_def)

lemma inv_SetTimerCallback:
  assumes E: "env_ok E" and s: "client_inv s"
  shows "client_inv (SetTimerCallback E ty s)"
proof (cases ty)
  case TIMER_GET_IP
  then show ?thesis
    using s by (simp add: SetTimerCallback_def GetIpTimerCallback_def Let_def inv_publish_code inv_StopIpv4 inv_StopTimer)
next
  case TIMER_RENEW_DELAY
  then show ?thesis
    using s by (simp add: SetTimerCallback_def RenewDelayCallback_def Let_def inv_InitStartIpv4Thread inv_restart inv_StartTimer
        inv_InitConfig [OF E] inv_action inv_StopIpv4 inv_StopTimer)
next
  case TIMER_REBIND_DELAY
  then show ?thesis
    using s by (simp add: SetTimerCallback_def RebindDelayCallback_def Let_def inv_InitStartIpv4Thread inv_restart inv_StartTimer
        inv_InitConfig [OF E] inv_action inv_StopIpv4 inv_StopTimer)
next
  case TIMER_REMAINING_DELAY
  then show ?thesis
    using s by (simp add: SetTimerCallback_def RemainingDelayCallback_def inv_publish_code inv_action inv_CloseAllRenewTimer inv_StopIpv4)
next
  case TIMER_SLOW_ARP
  then show ?thesis using s by (simp add: SetTimerCallback_def inv_slow_arp_callbacks)
qed

lemma inv_ExecDhcpRenew: "client_inv s \<Longrightarrow> client_inv (ExecDhcpRenew s)"
  by (cases "c_state s") (simp_all add: ExecDhcpRenew_def SetSocketMode_def client_inv_def count_ok_def)

lemma inv_ExecDhcpRelease: "client_inv s \<Longrightarrow> client_inv (ExecDhcpRelease E s)"
  by (simp add: ExecDhcpRelease_def SetSocketMode_def client_inv_def count_ok_def)

lemma client_step_inv:
  assumes "client_step E s s'" "env_ok E" "client_inv s"
  shows "client_inv s'"
  using assms
proof cases
  case (configure cfg)
  then show ?thesis using assms(3) by (simp add: SetConfiguration_def client_inv_def)
next
  case stop
  then show ?thesis using assms(3) by (simp add: StopIpv4Type_def inv_StopIpv4 inv_CloseAllRenewTimer)
qed (simp_all add: inv_StartIpv4Type inv_RunGetIPThreadFunc inv_StartIpv4Loop_iteration inv_SetTimerCallback
      inv_slow_arp_callbacks inv_ExecDhcpRenew inv_ExecDhcpRelease)

lemma new_client_inv: "length mac = 6 \<Longrightarrow> client_inv (new_client ifname mac action cfg r st)"
  by (simp add: new_client_def client_inv_def count_ok_def u32_div_def)

text \<open>The client as a transition system.\<close>

interpretation client: transition_system "client_step E" "\<lambda>s. env_ok E \<and> client_inv s" for E
  by unfold_locales (auto intro: client_step_inv)

end
