(* ===== verification/DhcpClientProps.thy ===== *)
theory DhcpClientProps
  imports DhcpClientInv
begin

text \<open>
  Properties of the IPv4 client: what holds in every reachable state, the exchange of messages from the first discover
  message to a lease with running timers, retransmission, refusal and conflict, and runs in which the client does not do
  what it means to.
\<close>

section \<open>Reachable states\<close>

lemma unat_u32_div:
  assumes "a \<le> b" "0 < b"
  shows "unat (u32_div w a b) = unat w * a div b"
proof -
  have "unat w * a div b \<le> unat w * b div b" using assms by (intro div_le_mono mult_le_mono2)
  also have "\<dots> < 2 ^ 32" using assms unsigned_less [of w, where ?'a = nat] by simp
  finally show ?thesis by (simp add: u32_div_def unsigned_of_nat take_bit_nat_eq_self)
qed

lemma lease_times_ordered:
  "u32_div w 1 2 \<le> u32_div w 7 8" "u32_div w 7 8 \<le> w"
  by (simp_all add: word_le_nat_alt unat_u32_div)

lemma inv_lease_times: "client_inv s \<Longrightarrow> c_renewalSec s \<le> c_rebindSec s \<and> c_rebindSec s \<le> c_leaseTime s"
  unfolding client_inv_def using lease_times_ordered by metis

text \<open>C17: In every state that the client can reach from its start, by any sequence of service calls, timer expiries, results
  of the address probe, received packets and timeouts: no packet was built outside its array, the renewal time is at most
  the rebinding time and that at most the lease, at most 16 discover or request packets, 2 requests for a remembered
  address and 3 probes were sent in a row, at most 2 conflicts are counted, the pause after a refusal is at most 6
  seconds, and an idle client has no task in the thread.\<close>

theorem client_reachable_safe:
  assumes "env_ok E" "length mac = 6" "(client_step E)\<^sup>*\<^sup>* (new_client ifname mac action cfg r st) s"
  shows "\<not> c_fault s \<and> c_renewalSec s \<le> c_rebindSec s \<and> c_rebindSec s \<le> c_leaseTime s
    \<and> (c_state s \<in> {DHCP_STATE_INIT, DHCP_STATE_SELECTING, DHCP_STATE_REQUESTING, DHCP_STATE_RENEWED} \<longrightarrow> c_sentPacketNum s \<le> 16)
    \<and> (c_state s = DHCP_STATE_INITREBOOT \<longrightarrow> c_sentPacketNum s \<le> 2)
    \<and> (c_state s = DHCP_STATE_SLOW_ARP \<longrightarrow> c_sentPacketNum s \<le> 3)
    \<and> c_conflictCount s \<le> 2 \<and> 0 \<le> c_resendTimer s \<and> c_resendTimer s \<le> 6
    \<and> (c_thread s = IPV4_TASK_IDLE \<longrightarrow> c_place s = NoTask)"
proof -
  have "client_inv s"
    using client.reachable_inv [OF assms(3)] assms(1) new_client_inv [OF assms(2)] by simp
  with inv_lease_times show ?thesis by (auto simp: client_inv_def count_ok_def)
qed

text \<open>An environment for the witnesses: the calls succeed, no other host answers the probes.\<close>

definition quiet_env :: Env where
  "quiet_env = \<lparr>en_random = (\<lambda>_. 0x1234), en_time = (\<lambda>_. 1000), en_boot = (\<lambda>_. 50), en_arp = (\<lambda>_. False), en_publish = (\<lambda>_. True),
     en_timerid = (\<lambda>n. 1), en_taskid = (\<lambda>_. 9), en_dirs = (\<lambda>_. True), en_ifindex = (\<lambda>_. Some 3),
     en_ifmac = (\<lambda>_. Some [2, 0, 0, 0, 0, 1]), en_localip = (\<lambda>_. Some None), en_syscall = (\<lambda>_. True), en_post = (\<lambda>_. True),
     en_sockets = (\<lambda>_. True), en_pc = False, en_vendor = ''v'', en_model = ''m'', en_dns1 = ''d1'', en_dns2 = ''d2'',
     en_item = sample_entry [] 0 0, en_result = zero_result\<rparr>"

definition plain_config :: RouterConfig where
  "plain_config = \<lparr>rc_ifname = ''eth1'', rc_bssid = [], rc_prohibitUseCacheIp = False, rc_bIpv6 = False, rc_bSpecificNetwork = False,
     rc_isStaticIpv4 = False, rc_bIpv4 = True\<rparr>"

definition fresh_client :: Client where
  "fresh_client = new_client ''eth1'' [2, 0, 0, 0, 0, 1] ACTION_START_NEW plain_config zero_result
     (sample_store [])"

lemma quiet_env_ok: "env_ok quiet_env"
  by (simp add: env_ok_def quiet_env_def)

theorem client_reachable_safe_witness:
  "\<not> c_fault (RunGetIPThreadFunc quiet_env (snd (StartIpv4Type quiet_env ''eth1'' False ACTION_START_NEW True fresh_client)))"
proof -
  let ?s = "snd (StartIpv4Type quiet_env ''eth1'' False ACTION_START_NEW True fresh_client)"
  have "c_place ?s = TaskQueued"
    by (simp add: StartIpv4Type_def fresh_client_def new_client_def quiet_env_def StartTimer_def StopTimer_def InitConfig_def
        InitSpecifiedClientCfg_def GetClientNetworkInfo_def GetLocalInterface_def InitStartIpv4Thread_def ask_def note_event_def
        MacChConToMacStr_def Let_def)
  then have "client_step quiet_env ?s (RunGetIPThreadFunc quiet_env ?s)" by (rule client_step.task)
  moreover have "client_step quiet_env fresh_client ?s" by (rule client_step.start)
  ultimately have "(client_step quiet_env)\<^sup>*\<^sup>* fresh_client (RunGetIPThreadFunc quiet_env ?s)"
    by (meson converse_rtranclp_into_rtranclp rtranclp.rtrancl_refl)
  then show ?thesis
    unfolding fresh_client_def using client_reachable_safe [OF quiet_env_ok, of "[2, 0, 0, 0, 0, 1]"] by fastforce
qed

section \<open>Packets\<close>

text \<open>What the lookup finds in a packet.\<close>

definition found :: "DhcpPacket \<Rightarrow> u8 \<Rightarrow> bytes option" where
  "found p code = map_option (option_bytes p) (GetDhcpOption p code)"

text \<open>A received packet with a list of options.\<close>

definition reply_with :: "(u8 \<times> bytes) list \<Rightarrow> DhcpPacket \<Rightarrow> bool" where
  "reply_with os p \<longleftrightarrow> packet_wf p \<and> list_all copt_ok os \<and> no_overload os \<and> (\<exists>tail. end_tail tail \<and> dp_options p = area os @ tail)"

lemma reply_found:
  "reply_with os p \<Longrightarrow> code \<notin> {PAD_OPTION, END_OPTION} \<Longrightarrow> found p code = map_of os code"
  unfolding reply_with_def found_def by (metis GetDhcpOption_area)

lemma reply_readers:
  assumes "reply_with os p" "code \<notin> {PAD_OPTION, END_OPTION}"
  shows "map_of os code = Some d \<Longrightarrow> d \<noteq> [] \<Longrightarrow> GetDhcpOptionUint8 p code v = (True, hd d)"
    "map_of os code = Some d \<Longrightarrow> 4 \<le> length d \<Longrightarrow> GetDhcpOptionUint32 p code 0 = (True, be32 d)"
    "map_of os code = None \<Longrightarrow> GetDhcpOptionUint32 p code 0 = (False, 0)"
proof -
  have wf: "packet_wf p" using assms(1) by (simp add: reply_with_def)
  note opt = reply_found [OF assms, unfolded found_def]
  show "map_of os code = Some d \<Longrightarrow> d \<noteq> [] \<Longrightarrow> GetDhcpOptionUint8 p code v = (True, hd d)"
    "map_of os code = Some d \<Longrightarrow> 4 \<le> length d \<Longrightarrow> GetDhcpOptionUint32 p code 0 = (True, be32 d)"
    "map_of os code = None \<Longrightarrow> GetDhcpOptionUint32 p code 0 = (False, 0)"
    by (simp_all add: GetDhcpOptionUint8_area [OF wf opt] GetDhcpOptionUint32_area [OF wf opt])
qed

lemma packet_wf_client_packet: "length (c_ifaceMac s) = 6 \<Longrightarrow> packet_wf (client_packet E x s)"
  by (simp add: packet_wf_def client_packet_def set_chaddr_def header_packet_def zero_packet_def)

lemma packet_wf_with_opts: "packet_wf p \<Longrightarrow> opts_fit 1 os \<Longrightarrow> packet_wf (with_opts os p)"
  by (simp add: packet_wf_def with_opts_def opts_fit_def)

text \<open>A packet that the client built, read back.\<close>

lemma built_reply_with:
  assumes "packet_wf p" "opts_fit 1 os" "no_overload os"
  shows "reply_with os (with_opts os p)"
  using assms packet_wf_with_opts [OF assms(1,2)]
  by (auto simp: reply_with_def opts_fit_def dp_options_with_opts end_tail_def)

lemma no_overload_client: "no_overload (client_opts E type s)" "no_overload [(54, a), (50, b), max_size_opt, (55, c)]"
  by (auto simp: no_overload_def client_opts_def host_opts_def max_size_opt_def)

lemma no_overload_append [simp]: "no_overload (xs @ ys) \<longleftrightarrow> no_overload xs \<and> no_overload ys"
  by (auto simp: no_overload_def)

lemma be32_bytes: "length d = 4 \<Longrightarrow> u32_bytes (htonl (be32 d)) = d"
  by (simp add: be32_def u32_bytes_u32_of_bytes)

section \<open>From an offer to a request\<close>

lemma offer_received:
  assumes "c_state s = DHCP_STATE_SELECTING" "dp_xid p = c_transID s" "reply_with os p"
    and "map_of os 53 = Some [DHCPOFFER]" "map_of os 54 = Some sid" "length sid = 4"
  shows "DhcpResponseHandle E t (Some p) s = (GetDhcpOffer E p s)\<lparr>c_transID := dp_xid p, c_requestedIp4 := dp_yiaddr p,
    c_serverIp4 := htonl (be32 sid), c_state := DHCP_STATE_REQUESTING, c_sentPacketNum := 0, c_timeoutTimestamp := t\<rparr>"
proof -
  have "GetDhcpOptionUint8 p 53 0 = (True, DHCPOFFER)" "GetDhcpOptionUint32 p 54 0 = (True, be32 sid)"
    using reply_readers(1) [OF assms(3), of 53 "[DHCPOFFER]" 0] reply_readers(2) [OF assms(3), of 54 sid] assms(4-6) by simp_all
  then show ?thesis
    using assms(1,2) by (simp add: DhcpResponseHandle_def DhcpResponseDataCheck_def DhcpOfferPacketHandle_def Let_def)
qed

text \<open>C19: An offer of the running transaction is answered with a request for it: the client goes to the requesting state with
  a deadline that has passed, and the next turn of the loop broadcasts one packet with the transaction id of the offer and
  the client's hardware address, in which the lookup finds the message type request, the offered address as requested
  address and, byte for byte, the server identifier of the offer.\<close>

theorem offer_is_requested:
  assumes "length (c_ifaceMac s) = 6" "c_state s = DHCP_STATE_SELECTING" "dp_xid p = c_transID s" "reply_with os p"
    and "map_of os 53 = Some [DHCPOFFER]" "map_of os 54 = Some sid" "length sid = 4"
    and "s1 = DhcpResponseHandle E t (Some p) s" "s2 = DhcpRequestHandle E t' s1"
  shows "c_state s1 = DHCP_STATE_REQUESTING \<and> c_timeoutTimestamp s1 = t
    \<and> (\<exists>q. c_log s2 = c_log s1 @ [SentBroadcast q INADDR_ANY INADDR_BROADCAST (c_ifaceIndex s1)]
        \<and> dp_xid q = dp_xid p \<and> take 6 (dp_chaddr q) = c_ifaceMac s
        \<and> found q 53 = Some [DHCPREQUEST] \<and> found q 50 = Some (u32_bytes (dp_yiaddr p)) \<and> found q 54 = Some sid)"
proof -
  note s1 = assms(8) [unfolded offer_received [OF assms(2-7), of E t]]
  let ?os = "client_opts E DHCPREQUEST s1 @ [(54, u32_bytes (htonl (be32 sid))), (50, u32_bytes (dp_yiaddr p)), max_size_opt, (55, arrReqCode)]"
  let ?q = "with_opts ?os (client_packet E (dp_xid p) s1)"
  have mac: "length (c_ifaceMac s1) = 6" "c_ifaceMac s1 = c_ifaceMac s" using assms(1) by (simp_all add: s1)
  have "DhcpRequestHandle E t' s1 = (DhcpRequest E (dp_xid p) (dp_yiaddr p) (htonl (be32 sid)) s1)\<lparr>c_timeoutTimestamp := t' + 1, c_sentPacketNum := 1\<rparr>"
    by (simp add: DhcpRequestHandle_def Requesting_def s1 timeout_sec_def)
  then have s2: "c_log s2 = c_log s1 @ [SentBroadcast ?q INADDR_ANY INADDR_BROADCAST (c_ifaceIndex s1)]"
    using assms(9) DhcpRequest_sends [OF mac(1)] by (simp add: note_event_def clocked_def SetSecondsElapsed_def ask_def Let_def)
  have "opts_fit 1 ?os" using client_opts_fit [OF mac(1)] by simp
  then have q: "reply_with ?os ?q"
    using packet_wf_client_packet [OF mac(1)] no_overload_client by (intro built_reply_with) simp_all
  have "map_of (client_opts E DHCPREQUEST s1) 53 = Some [DHCPREQUEST]" "map_of (client_opts E DHCPREQUEST s1) 50 = None"
    "map_of (client_opts E DHCPREQUEST s1) 54 = None"
    by (auto simp: client_opts_def host_opts_def)
  then have "found ?q 53 = Some [DHCPREQUEST]" "found ?q 50 = Some (u32_bytes (dp_yiaddr p))" "found ?q 54 = Some sid"
    using reply_found [OF q] assms(7) by (simp_all add: max_size_opt_def be32_bytes map_add_def)
  moreover have "dp_xid ?q = dp_xid p" "take 6 (dp_chaddr ?q) = c_ifaceMac s"
    using mac by (simp_all add: with_opts_def client_packet_def set_chaddr_def)
  ultimately show ?thesis using s2 by (auto simp: s1)
qed

definition sample_packet :: "u32 \<Rightarrow> u32 \<Rightarrow> (u8 \<times> bytes) list \<Rightarrow> DhcpPacket" where
  "sample_packet x a os = with_opts os (zero_packet\<lparr>dp_xid := x, dp_yiaddr := a\<rparr>)"

lemma sample_packet_reply: "opts_fit 1 os \<Longrightarrow> no_overload os \<Longrightarrow> reply_with os (sample_packet x a os)"
  unfolding sample_packet_def by (rule built_reply_with) (simp_all add: packet_wf_def zero_packet_def)

lemma sample_packet_fields [simp]: "dp_xid (sample_packet x a os) = x" "dp_yiaddr (sample_packet x a os) = a"
  by (simp_all add: sample_packet_def with_opts_def)

lemma fresh_client_fields [simp]: "length (c_ifaceMac fresh_client) = 6" "c_transID fresh_client = 0"
  by (simp_all add: fresh_client_def new_client_def)

theorem offer_is_requested_witness:
  "\<exists>q. c_log (DhcpRequestHandle quiet_env 7 (DhcpResponseHandle quiet_env 7
        (Some (sample_packet 0 0x042BA8C0 [(53, [2]), (54, [192, 168, 43, 1])])) (fresh_client\<lparr>c_state := DHCP_STATE_SELECTING\<rparr>))) =
      c_log (DhcpResponseHandle quiet_env 7 (Some (sample_packet 0 0x042BA8C0 [(53, [2]), (54, [192, 168, 43, 1])]))
        (fresh_client\<lparr>c_state := DHCP_STATE_SELECTING\<rparr>)) @ [q]"
proof -
  have "reply_with [(53, [2]), (54, [192, 168, 43, 1])] (sample_packet 0 0x042BA8C0 [(53, [2]), (54, [192, 168, 43, 1])])"
    by (rule sample_packet_reply) (simp_all add: opts_fit_def copt_ok_def no_overload_def)
  from offer_is_requested [OF _ _ _ this _ _ _ refl refl, of "fresh_client\<lparr>c_state := DHCP_STATE_SELECTING\<rparr>"
      "[192, 168, 43, 1]" quiet_env 7 7]
  show ?thesis by auto
qed

section \<open>From an acknowledgement to a lease\<close>

text \<open>The fields that the acknowledgement gives.\<close>

definition acked :: "Env \<Rightarrow> DhcpPacket \<Rightarrow> int \<Rightarrow> Client \<Rightarrow> Client" where
  "acked E p t s = ParseDhcpAckPacket E p t (s\<lparr>c_result := zero_result\<rparr>)"

lemma acked_fields:
  assumes "reply_with os p" "map_of os 51 = Some l" "length l = 4"
  shows "c_requestedIp4 (acked E p t s) = dp_yiaddr p" "c_leaseTime (acked E p t s) = be32 l"
    "c_renewalSec (acked E p t s) = u32_div (be32 l) 1 2" "c_rebindSec (acked E p t s) = u32_div (be32 l) 7 8"
    "c_renewalTimestamp (acked E p t s) = t" "c_renewalTimestampBoot (acked E p t s) = en_boot E (c_tick s)"
    "ir_uOptLeasetime (c_result (acked E p t s)) = be32 l"
    "ir_strYiaddr (c_result (acked E p t s)) = Ip4IntConvertToStr (dp_yiaddr p) False"
proof -
  have l: "GetDhcpOptionUint32 p 51 0 = (True, be32 l)" using reply_readers(2) [OF assms(1), of 51 l] assms(2,3) by simp
  have keep: "ir_uOptLeasetime (ParseNetworkVendorInfo p r) = ir_uOptLeasetime r" "ir_strYiaddr (ParseNetworkVendorInfo p r) = ir_strYiaddr r"
    "ir_uOptLeasetime (dns_loop ds n r) = ir_uOptLeasetime r" "ir_strYiaddr (dns_loop ds n r) = ir_strYiaddr r"
    "ir_uOptLeasetime (SetDefaultNetMask r) = ir_uOptLeasetime r" "ir_strYiaddr (SetDefaultNetMask r) = ir_strYiaddr r" for r ds n
    by (induction ds n r rule: dns_loop.induct)
      (simp_all add: ParseNetworkVendorInfo_def GetDHCPServerHostName_def SetDefaultNetMask_def ParseNetworkDnsValue_def Let_def
        split: option.splits)
  have "ir_uOptLeasetime (ParseNetworkDnsInfo a b p r) = ir_uOptLeasetime r" "ir_strYiaddr (ParseNetworkDnsInfo a b p r) = ir_strYiaddr r"
    for a b r by (simp_all add: ParseNetworkDnsInfo_def SetIpv4DefaultDns_def keep split: option.splits)
  then show "c_requestedIp4 (acked E p t s) = dp_yiaddr p" "c_leaseTime (acked E p t s) = be32 l"
    "c_renewalSec (acked E p t s) = u32_div (be32 l) 1 2" "c_rebindSec (acked E p t s) = u32_div (be32 l) 7 8"
    "c_renewalTimestamp (acked E p t s) = t" "c_renewalTimestampBoot (acked E p t s) = en_boot E (c_tick s)"
    "ir_uOptLeasetime (c_result (acked E p t s)) = be32 l"
    "ir_strYiaddr (c_result (acked E p t s)) = Ip4IntConvertToStr (dp_yiaddr p) False"
    by (simp_all add: acked_def ParseDhcpAckPacket_def l lease_seconds_def ask_def ParseNetworkServerIdInfo_def ParseNetworkInfo_def
        keep Let_def case_prod_unfold)
qed

text \<open>The calls of the environment succeed, timer ids are not 0 and no other host answers a probe.\<close>

definition calls_succeed :: "Env \<Rightarrow> bool" where
  "calls_succeed E \<longleftrightarrow> (\<forall>n. en_syscall E n \<and> en_publish E n \<and> \<not> en_arp E n \<and> en_timerid E n \<noteq> 0)"

lemma calls_succeedD:
  assumes "calls_succeed E"
  shows "fst (ask (en_syscall E) s)" "fst (ask (en_publish E) s)" "\<not> fst (ask (en_arp E) s)" "fst (ask (en_timerid E) s) \<noteq> 0"
  using assms by (simp_all add: calls_succeed_def ask_def)

lemma SetLocalInterface_succeeds:
  "calls_succeed E \<Longrightarrow> c_ifaceName s \<noteq> [] \<Longrightarrow> fst (SetLocalInterface E a m s) = DHCP_OPT_SUCCESS"
  by (simp add: SetLocalInterface_def SetIpOrMask_def Let_def case_prod_unfold calls_succeedD)

lemma PublishResult_succeeds:
  assumes "calls_succeed E"
  shows "fst (PublishResult E PUBLISH_CODE_SUCCESS s) = DHCP_OPT_SUCCESS"
    "Published (c_result (snd (PublishResult E PUBLISH_CODE_SUCCESS s))) \<in> set (c_log (snd (PublishResult E PUBLISH_CODE_SUCCESS s)))"
    "\<exists>t n. c_result (snd (PublishResult E PUBLISH_CODE_SUCCESS s)) = (c_result s)\<lparr>ir_code := 0, ir_uAddTime := t, ir_ifname := n\<rparr>"
  using assms
  by (simp_all add: PublishResult_def PublishDhcpResultEvent_def PublishDhcpIpv4Result_def note_event_def ask_def calls_succeed_def
      Let_def case_prod_unfold) blast

lemma IsArpReachable_free: "calls_succeed E \<Longrightarrow> fst (IsArpReachable E s) = False"
  by (simp add: IsArpReachable_def MacChConToMacStr_def calls_succeedD)

lemma GetDhcpOffer_no_offer: "GetDhcpOptionUint8 p 53 0 = (True, m) \<Longrightarrow> m \<noteq> DHCPOFFER \<Longrightarrow> GetDhcpOffer E p s = s"
  by (simp add: GetDhcpOffer_def)

text \<open>The state behind an acknowledgement.\<close>

lemma ack_received:
  assumes "c_state s = DHCP_STATE_REQUESTING" "dp_xid p = c_transID s" "reply_with os p" "map_of os 53 = Some [DHCPACK]"
    and "calls_succeed E" "c_ifaceName s \<noteq> []"
  shows "\<exists>a m. DhcpResponseHandle E t (Some p) s = (let s' = snd (SetLocalInterface E a m (acked E p t s)) in
      IpConflictDetect (CloseAllRenewTimer (s'\<lparr>c_result := FormatString (c_result s')\<rparr>)))"
proof -
  have m: "GetDhcpOptionUint8 p 53 0 = (True, DHCPACK)"
    using reply_readers(1) [OF assms(3), of 53 "[DHCPACK]" 0] assms(4) by simp
  have st: "c_state (acked E p t s) = DHCP_STATE_REQUESTING" "c_ifaceName (acked E p t s) \<noteq> []"
    using assms(1,6) by (simp_all add: acked_def ParseDhcpAckPacket_def Let_def case_prod_unfold)
  have "DhcpResponseHandle E t (Some p) s = DhcpAckHandle E t (acked E p t s)"
    using assms(1,2) m GetDhcpOffer_no_offer [OF m, of E s]
    by (simp add: DhcpResponseHandle_def DhcpResponseDataCheck_def DhcpAckOrNakPacketHandle_def acked_def Let_def)
  moreover have "DhcpAckHandle E t s0 = (let s' = snd (SetLocalInterface E a m s0) in
      IpConflictDetect (CloseAllRenewTimer (s'\<lparr>c_result := FormatString (c_result s')\<rparr>)))"
    if "c_state s0 = DHCP_STATE_REQUESTING" "c_ifaceName s0 \<noteq> []" "a = inet_addr (ir_strYiaddr (c_result s0))"
      "m = inet_addr (ir_strOptSubnet (c_result s0))" for s0 a m
    using that SetLocalInterface_succeeds [OF assms(5) that(2)] by (simp add: DhcpAckHandle_def Let_def case_prod_unfold)
  ultimately show ?thesis using st by metis
qed

section \<open>The timers of a lease\<close>

lemma StartTimer_runs:
  assumes "calls_succeed E"
  shows "c_timers (StartTimer E ty n s) ty \<noteq> 0" "ty' \<noteq> ty \<Longrightarrow> c_timers (StartTimer E ty n s) ty' = c_timers s ty'"
  using assms by (simp_all add: StartTimer_def ask_def note_event_def calls_succeed_def)

lemma CloseAllRenewTimer_stops:
  "ty \<in> {TIMER_RENEW_DELAY, TIMER_REBIND_DELAY, TIMER_REMAINING_DELAY} \<Longrightarrow> c_timers (CloseAllRenewTimer s) ty = 0"
  by (auto simp: CloseAllRenewTimer_def StopTimer_def note_event_def)

lemma start_lease_timers_run:
  assumes "calls_succeed E" "\<not> (en_pc E \<and> rc_bSpecificNetwork (c_routerCfg s))"
  shows "ty \<in> {TIMER_RENEW_DELAY, TIMER_REBIND_DELAY, TIMER_REMAINING_DELAY} \<Longrightarrow> c_timers (start_lease_timers E n s) ty \<noteq> 0"
    "\<exists>i j k. c_log (start_lease_timers E n s) = c_log (CloseAllRenewTimer s)
      @ [TimerStarted TIMER_RENEW_DELAY i (n div 2), TimerStarted TIMER_REBIND_DELAY j (n * 7 div 8), TimerStarted TIMER_REMAINING_DELAY k n]"
proof -
  show "ty \<in> {TIMER_RENEW_DELAY, TIMER_REBIND_DELAY, TIMER_REMAINING_DELAY} \<Longrightarrow> c_timers (start_lease_timers E n s) ty \<noteq> 0"
    using assms by (auto simp: start_lease_timers_def StartTimer_runs)
  have "c_timers (CloseAllRenewTimer s) ty = 0" if "ty \<in> {TIMER_RENEW_DELAY, TIMER_REBIND_DELAY, TIMER_REMAINING_DELAY}" for ty
    using that by (rule CloseAllRenewTimer_stops)
  then show "\<exists>i j k. c_log (start_lease_timers E n s) = c_log (CloseAllRenewTimer s)
      @ [TimerStarted TIMER_RENEW_DELAY i (n div 2), TimerStarted TIMER_REBIND_DELAY j (n * 7 div 8), TimerStarted TIMER_REMAINING_DELAY k n]"
    using assms by (simp add: start_lease_timers_def StartTimer_def ask_def note_event_def Let_def)
qed



text \<open>When the probe of the address ends after the whole lease has passed, the timers are not due at once: they get the
  full lease again, so that the address is kept for up to twice the lease.\<close>

theorem late_schedule_full_lease:
  assumes "calls_succeed E" "\<not> (en_pc E \<and> rc_bSpecificNetwork (c_routerCfg s))"
    and "uint (c_leaseTime s) < en_boot E (c_tick s) - c_renewalTimestampBoot s"
  shows "\<exists>l k. c_log (ScheduleLeaseTimers E False s) = l @ [TimerStarted TIMER_REMAINING_DELAY k (1000 * uint (c_leaseTime s))]"
proof -
  let ?s = "s\<lparr>c_tick := Suc (c_tick s)\<rparr>" and ?n = "1000 * uint (c_leaseTime s)"
  have "\<not> en_boot E (c_tick s) < c_renewalTimestampBoot s" using assms(3) uint_ge_0 [of "c_leaseTime s"] by linarith
  then have "ScheduleLeaseTimers E False s = start_lease_timers E ?n ?s"
    using assms(3) by (simp add: ScheduleLeaseTimers_def lease_rest_def ask_def Let_def mult.commute)
  moreover have "\<not> (en_pc E \<and> rc_bSpecificNetwork (c_routerCfg ?s))" using assms(2) by simp
  ultimately show ?thesis using start_lease_timers_run(2) [OF assms(1), of ?s ?n] by (metis append.assoc append_Cons append_Nil)
qed

theorem late_schedule_full_lease_witness:
  "\<exists>l k. c_log (ScheduleLeaseTimers quiet_env False (fresh_client\<lparr>c_leaseTime := 8, c_renewalTimestampBoot := 40\<rparr>)) =
      l @ [TimerStarted TIMER_REMAINING_DELAY k 8000]"
  using late_schedule_full_lease [of quiet_env "fresh_client\<lparr>c_leaseTime := 8, c_renewalTimestampBoot := 40\<rparr>"]
  by (simp add: calls_succeed_def quiet_env_def)

section \<open>A whole acquisition\<close>

lemma enter_bound_timers:
  assumes "calls_succeed E" "\<not> (en_pc E \<and> rc_bSpecificNetwork (c_routerCfg s))"
    "ty \<in> {TIMER_RENEW_DELAY, TIMER_REBIND_DELAY, TIMER_REMAINING_DELAY}"
  shows "c_timers (enter_bound E t s) ty \<noteq> 0"
  using assms start_lease_timers_run(1) [OF assms(1) _ assms(3)]
  by (simp add: enter_bound_def ScheduleLeaseTimers_def Let_def case_prod_unfold)

text \<open>What stays the same during the probes.\<close>

definition lease_data :: "Client \<Rightarrow> u32 \<times> u32 \<times> u32 \<times> RouterConfig \<times> Ipv4Task" where
  "lease_data s = (c_requestedIp4 s, c_leaseTime s, c_serverIp4 s, c_routerCfg s, c_thread s)"

lemma fast_arp_free:
  assumes "calls_succeed E" "c_state s = DHCP_STATE_FAST_ARP" "s' = DhcpRequestHandle E t s"
  shows "c_state s' = DHCP_STATE_SLOW_ARP" "c_slowArpDetecting s'" "lease_data s' = lease_data s" "c_sentPacketNum s' = c_sentPacketNum s"
    "\<exists>r t n. r = (c_result s)\<lparr>ir_code := 0, ir_uAddTime := t, ir_ifname := n\<rparr> \<and> Published r \<in> set (c_log s')"
proof -
  let ?s = "snd (IsArpReachable E s)"
  let ?p = "snd (PublishResult E PUBLISH_CODE_SUCCESS ?s)"
  have s': "s' = (SaveIpInfo E (c_result ?p) ?p)\<lparr>c_state := DHCP_STATE_SLOW_ARP, c_slowArpDetecting := True\<rparr>"
    using assms IsArpReachable_free [OF assms(1), of s] PublishResult_succeeds(1) [OF assms(1), of ?s]
    by (simp add: DhcpRequestHandle_def FastArpDetect_def Let_def case_prod_unfold)
  show "c_state s' = DHCP_STATE_SLOW_ARP" "c_slowArpDetecting s'" "lease_data s' = lease_data s" "c_sentPacketNum s' = c_sentPacketNum s"
    by (simp_all add: s' lease_data_def)
  have "c_log s' = c_log ?p" by (simp add: s' SaveIpInfo_def ask_def Let_def)
  then show "\<exists>r t n. r = (c_result s)\<lparr>ir_code := 0, ir_uAddTime := t, ir_ifname := n\<rparr> \<and> Published r \<in> set (c_log s')"
    using PublishResult_succeeds(2,3) [OF assms(1), of ?s] by (simp, metis)
qed

lemma slow_arp_free:
  assumes "calls_succeed E" "c_state s = DHCP_STATE_SLOW_ARP" "c_sentPacketNum s \<in> {0, 1, 2}" "s' = DhcpRequestHandle E t s"
  shows "c_state s' = DHCP_STATE_SLOW_ARP" "c_slowArpDetecting s' = c_slowArpDetecting s" "lease_data s' = lease_data s"
    "c_sentPacketNum s' = c_sentPacketNum s + 1"
  using assms(2,3) IsArpReachable_free [OF assms(1), of s]
  by (auto simp: assms(4) DhcpRequestHandle_def SlowArpDetect_def lease_data_def Let_def case_prod_unfold)

lemma slow_arp_bound:
  assumes "calls_succeed E" "c_slowArpDetecting s" "s' = SlowArpTask E tid s"
    and "\<not> (en_pc E \<and> rc_bSpecificNetwork (c_routerCfg s))" "c_thread s = IPV4_TASK_RUNNING"
  shows "c_state s' = DHCP_STATE_BOUND" "c_requestedIp4 s' = c_requestedIp4 s" "c_leaseTime s' = c_leaseTime s"
    "c_thread s' = IPV4_TASK_STOP_REQUESTED"
    "ty \<in> {TIMER_RENEW_DELAY, TIMER_REBIND_DELAY, TIMER_REMAINING_DELAY} \<Longrightarrow> c_timers s' ty \<noteq> 0"
proof -
  let ?s = "snd (IsArpReachable E s)"
  have s': "s' = UnRegisterSlowArp ((enter_bound E (fst (ask (en_time E) ?s)) (snd (ask (en_time E) ?s)))\<lparr>c_slowArpDetecting := False\<rparr>)"
    using assms(2) IsArpReachable_free [OF assms(1), of s]
    by (simp add: assms(3) SlowArpTask_def SlowArpDetectCallback_def Let_def case_prod_unfold)
  show "c_state s' = DHCP_STATE_BOUND" "c_requestedIp4 s' = c_requestedIp4 s" "c_leaseTime s' = c_leaseTime s"
    "c_thread s' = IPV4_TASK_STOP_REQUESTED"
    using assms(5) by (simp_all add: s') (simp_all add: enter_bound_def)
  show "c_timers s' ty \<noteq> 0" if "ty \<in> {TIMER_RENEW_DELAY, TIMER_REBIND_DELAY, TIMER_REMAINING_DELAY}"
    using enter_bound_timers [OF assms(1) _ that, of "snd (ask (en_time E) ?s)"] assms(4)
    by (simp add: s' UnRegisterSlowArp_def note_event_def)
qed

text \<open>C18: From a request to a lease: when the acknowledgement of the running transaction arrives, the system calls succeed and
  no host answers the probes, the client probes the address, publishes the acknowledged address and lease time after the
  first probe, and after two more probes and the end of the probing task is in the bound state with the acknowledged
  address and lease, with all three lease timers running and its task asked to stop.\<close>

theorem ack_leads_to_lease:
  assumes "calls_succeed E" "\<not> (en_pc E \<and> rc_bSpecificNetwork (c_routerCfg s))" "c_thread s = IPV4_TASK_RUNNING" "c_ifaceName s \<noteq> []"
    and "c_state s = DHCP_STATE_REQUESTING" "dp_xid p = c_transID s" "reply_with os p" "map_of os 53 = Some [DHCPACK]"
    and "map_of os 51 = Some l" "length l = 4"
    and "s1 = DhcpResponseHandle E t (Some p) s" "s2 = DhcpRequestHandle E t2 s1" "s3 = DhcpRequestHandle E t3 s2"
    and "s4 = DhcpRequestHandle E t4 s3" "s5 = DhcpRequestHandle E t5 s4" "s6 = SlowArpTask E tid s5"
  shows "c_state s1 = DHCP_STATE_FAST_ARP
    \<and> (\<exists>r. Published r \<in> set (c_log s2) \<and> ir_code r = 0 \<and> ir_strYiaddr r = star (Ip4IntConvertToStr (dp_yiaddr p) False)
         \<and> ir_uOptLeasetime r = be32 l)
    \<and> c_state s6 = DHCP_STATE_BOUND \<and> c_requestedIp4 s6 = dp_yiaddr p \<and> c_leaseTime s6 = be32 l
    \<and> c_thread s6 = IPV4_TASK_STOP_REQUESTED
    \<and> (\<forall>ty \<in> {TIMER_RENEW_DELAY, TIMER_REBIND_DELAY, TIMER_REMAINING_DELAY}. c_timers s6 ty \<noteq> 0)"
proof -
  obtain a m where "s1 = (let s' = snd (SetLocalInterface E a m (acked E p t s)) in
      IpConflictDetect (CloseAllRenewTimer (s'\<lparr>c_result := FormatString (c_result s')\<rparr>)))"
    using ack_received [OF assms(5-8,1,4), of t] assms(11) by blast
  then have s1: "c_state s1 = DHCP_STATE_FAST_ARP" "c_sentPacketNum s1 = 0" "c_requestedIp4 s1 = dp_yiaddr p" "c_leaseTime s1 = be32 l"
    "c_routerCfg s1 = c_routerCfg s" "c_thread s1 = c_thread s" "c_result s1 = FormatString (c_result (acked E p t s))"
    by (simp_all add: IpConflictDetect_def Let_def acked_fields [OF assms(7,9,10)])
      (simp_all add: acked_def ParseDhcpAckPacket_def Let_def case_prod_unfold)
  note s2 = fast_arp_free [OF assms(1) s1(1) assms(12)]
  note s3 = slow_arp_free [OF assms(1) s2(1) _ assms(13), unfolded s2(4) s1(2), simplified]
  note s4 = slow_arp_free [OF assms(1) s3(1) _ assms(14), unfolded s3(4), simplified]
  note s5 = slow_arp_free [OF assms(1) s4(1) _ assms(15), unfolded s4(4), simplified]
  have data: "c_requestedIp4 s5 = dp_yiaddr p" "c_leaseTime s5 = be32 l" "c_routerCfg s5 = c_routerCfg s" "c_thread s5 = IPV4_TASK_RUNNING"
    "c_slowArpDetecting s5"
    using s1 s2(2,3) s3(2,3) s4(2,3) s5(2,3) assms(3) by (simp_all add: lease_data_def)
  have "\<not> (en_pc E \<and> rc_bSpecificNetwork (c_routerCfg s5))" using assms(2) data(3) by simp
  note s6 = slow_arp_bound [OF assms(1) data(5) assms(16) this data(4)]
  have "\<exists>r. Published r \<in> set (c_log s2) \<and> ir_code r = 0 \<and> ir_strYiaddr r = star (Ip4IntConvertToStr (dp_yiaddr p) False)
         \<and> ir_uOptLeasetime r = be32 l"
    using s2(5) by (force simp: s1(7) FormatString_def acked_fields [OF assms(7,9,10)])
  then show ?thesis using s1(1) s6 data by auto
qed

definition requesting_client :: Client where
  "requesting_client = fresh_client\<lparr>c_state := DHCP_STATE_REQUESTING, c_thread := IPV4_TASK_RUNNING, c_ifaceName := ''eth1''\<rparr>"

theorem ack_leads_to_lease_witness:
  "let E = quiet_env; p = sample_packet 0 0x042BA8C0 [(53, [5]), (51, [0, 0, 14, 16])];
       s1 = DhcpResponseHandle E 7 (Some p) requesting_client;
       s5 = DhcpRequestHandle E 9 (DhcpRequestHandle E 8 (DhcpRequestHandle E 7 (DhcpRequestHandle E 7 s1)));
       s6 = SlowArpTask E 9 s5
   in c_state s6 = DHCP_STATE_BOUND \<and> c_requestedIp4 s6 = 0x042BA8C0 \<and> c_leaseTime s6 = be32 [0, 0, 14, 16]"
proof -
  let ?os = "[(53, [5]), (51, [0, 0, 14, 16])] :: (u8 \<times> bytes) list"
  have "calls_succeed quiet_env" "\<not> (en_pc quiet_env \<and> rc_bSpecificNetwork (c_routerCfg requesting_client))"
    "c_thread requesting_client = IPV4_TASK_RUNNING" "c_ifaceName requesting_client \<noteq> []"
    "c_state requesting_client = DHCP_STATE_REQUESTING" "dp_xid (sample_packet 0 0x042BA8C0 ?os) = c_transID requesting_client"
    "reply_with ?os (sample_packet 0 0x042BA8C0 ?os)"
    by (simp_all add: calls_succeed_def quiet_env_def requesting_client_def)
      (rule sample_packet_reply, simp_all add: opts_fit_def copt_ok_def no_overload_def)
  from ack_leads_to_lease [OF this _ _ _ refl refl refl refl refl refl, where l = "[0, 0, 14, 16]"
      and t = 7 and ?t2.0 = 7 and ?t3.0 = 7 and ?t4.0 = 8 and ?t5.0 = 9 and tid = 9]
  show ?thesis by (simp add: Let_def)
qed

section \<open>Retransmission\<close>

text \<open>One turn of the loop when its deadline has come.\<close>

definition turn :: "Env \<Rightarrow> Client \<Rightarrow> Client" where
  "turn E s = DhcpRequestHandle E (c_timeoutTimestamp s) s"

definition no_cache :: "Client \<Rightarrow> bool" where
  "no_cache s \<longleftrightarrow> rc_prohibitUseCacheIp (c_routerCfg s) \<or> \<not> is_wlan s"

text \<open>Waiting for an offer: \<open>n\<close> discover packets sent, all with one transaction id.\<close>

definition waiting :: "Client \<Rightarrow> nat \<Rightarrow> Client \<Rightarrow> bool" where
  "waiting s0 n s \<longleftrightarrow> c_sentPacketNum s = of_nat n \<and> c_state s = (if n = 0 then c_state s0 else DHCP_STATE_SELECTING)
     \<and> c_timeoutTimestamp s = c_timeoutTimestamp s0 + (\<Sum>k<n. 2 ^ min k 5) \<and> c_ifaceMac s = c_ifaceMac s0 \<and> no_cache s
     \<and> (\<exists>qs. c_log s = c_log s0 @ map (\<lambda>q. SentBroadcast q INADDR_ANY INADDR_BROADCAST (c_ifaceIndex s)) qs \<and> length qs = n
           \<and> (\<forall>q \<in> set qs. dp_xid q = c_transID s \<and> found q 53 = Some [DHCPDISCOVER]))"

lemma discover_packet:
  assumes "length (c_ifaceMac s) = 6"
  obtains q where "DhcpDiscover E x r s = note_event (SentBroadcast q INADDR_ANY INADDR_BROADCAST (c_ifaceIndex s)) (clocked E s)"
    "dp_xid q = x" "found q 53 = Some [DHCPDISCOVER]"
proof -
  let ?os = "client_opts E DHCPDISCOVER s @ [max_size_opt, (55, arrReqCode)]"
  let ?q = "with_opts ?os (client_packet E x s)"
  have "opts_fit 1 ?os" using client_opts_fit [OF assms] by simp
  then have q: "reply_with ?os ?q"
    using packet_wf_client_packet [OF assms] no_overload_client(1)
    by (intro built_reply_with) (auto simp: no_overload_def max_size_opt_def)
  have "map_of (client_opts E DHCPDISCOVER s) 53 = Some [DHCPDISCOVER]" by (simp add: client_opts_def)
  then have "found ?q 53 = Some [DHCPDISCOVER]"
    using reply_found [OF q, of 53] by (simp add: max_size_opt_def map_add_def)
  moreover have "dp_xid ?q = x" by (simp add: with_opts_def client_packet_def)
  ultimately show thesis using that DhcpDiscover_sends [OF assms] by blast
qed

lemma clocked_keeps [simp]: "c_log (clocked E s) = c_log s" "c_routerCfg (clocked E s) = c_routerCfg s" "c_ifaceName (clocked E s) = c_ifaceName s"
  "c_sentPacketNum (clocked E s) = c_sentPacketNum s" "c_transID (clocked E s) = c_transID s"
  "c_timeoutTimestamp (clocked E s) = c_timeoutTimestamp s" "c_requestedIp4 (clocked E s) = c_requestedIp4 s"
  by (simp_all add: clocked_def SetSecondsElapsed_def ask_def Let_def)

lemma timeout_sec_small: "n < 16 \<Longrightarrow> timeout_sec (of_nat n) = 2 ^ min n 5"
  by (auto simp: timeout_sec_def min_def word_less_nat_alt unsigned_of_nat take_bit_nat_eq_self not_less)

lemma TryCachedIp_no_cache: "no_cache s \<Longrightarrow> TryCachedIp E s = s"
  by (auto simp: TryCachedIp_def no_cache_def)

lemma no_cache_cong: "c_routerCfg s = c_routerCfg s' \<Longrightarrow> c_ifaceName s = c_ifaceName s' \<Longrightarrow> no_cache s = no_cache s'"
  by (simp add: no_cache_def is_wlan_def)

lemma turn_selecting:
  assumes "length (c_ifaceMac s) = 6" "c_state s \<in> {DHCP_STATE_INIT, DHCP_STATE_SELECTING}" "no_cache s"
    and "c_sentPacketNum s = of_nat n" "n < 16" "x = (if n = 0 then en_random E (c_tick s) else c_transID s)"
  shows "c_state (turn E s) = DHCP_STATE_SELECTING" "c_sentPacketNum (turn E s) = of_nat (Suc n)" "c_transID (turn E s) = x"
    "c_timeoutTimestamp (turn E s) = c_timeoutTimestamp s + 2 ^ min n 5" "c_ifaceMac (turn E s) = c_ifaceMac s"
    "no_cache (turn E s)" "c_ifaceIndex (turn E s) = c_ifaceIndex s"
    "\<exists>q. c_log (turn E s) = c_log s @ [SentBroadcast q INADDR_ANY INADDR_BROADCAST (c_ifaceIndex s)]
       \<and> dp_xid q = x \<and> found q 53 = Some [DHCPDISCOVER]"
proof -
  define s1 where "s1 = (if n = 0 then s\<lparr>c_tick := Suc (c_tick s), c_transID := x\<rparr> else s)"
  have s1: "c_ifaceMac s1 = c_ifaceMac s" "c_ifaceIndex s1 = c_ifaceIndex s" "c_log s1 = c_log s" "c_transID s1 = x"
    "c_sentPacketNum s1 = of_nat n" "no_cache s1"
    using assms(3,4,6) by (auto simp: s1_def cong: no_cache_cong)
  obtain q where q: "DhcpDiscover E x (c_requestedIp4 s1) s1 = note_event (SentBroadcast q INADDR_ANY INADDR_BROADCAST (c_ifaceIndex s1)) (clocked E s1)"
    "dp_xid q = x" "found q 53 = Some [DHCPDISCOVER]"
    using discover_packet [of s1] assms(1) s1(1) by metis
  define s2 where "s2 = (DhcpDiscover E x (c_requestedIp4 s1) s1)\<lparr>c_state := DHCP_STATE_SELECTING\<rparr>"
  have nc: "no_cache s2" using s1(6) by (auto simp: s2_def no_cache_def is_wlan_def)
  have n: "unat (of_nat n :: u32) = n" using assms(5) by (simp add: unsigned_of_nat take_bit_nat_eq_self)
  have "n = 0" if "of_nat n = (0 :: u32)" using n unfolding that by simp
  then have small: "\<not> (of_nat n :: u32) > 15" "(of_nat n = (0 :: u32)) = (n = 0)"
    using assms(5) n by (auto simp: word_less_nat_alt)
  have "turn E s = InitSelecting E (c_timeoutTimestamp s) s" using assms(2) by (auto simp: turn_def DhcpRequestHandle_def)
  also have "\<dots> = s2\<lparr>c_timeoutTimestamp := c_timeoutTimestamp s + timeout_sec (of_nat n), c_sentPacketNum := of_nat n + 1\<rparr>"
  proof -
    have rand: "(if c_sentPacketNum s = 0 then let (r, s) = GetRandomId E s in s\<lparr>c_transID := r\<rparr> else s) = s1"
      by (simp add: assms(4,6) small(2) s1_def GetRandomId_def ask_def)
    have n2: "c_sentPacketNum s2 = of_nat n" by (simp add: s2_def s1(5))
    show ?thesis
      unfolding InitSelecting_def rand
      using small(1) TryCachedIp_no_cache [OF nc, of E] by (simp add: assms(4) s1(4,5) s2_def [symmetric] n2 Let_def)
  qed
  finally have t: "turn E s = s2\<lparr>c_timeoutTimestamp := c_timeoutTimestamp s + timeout_sec (of_nat n), c_sentPacketNum := of_nat n + 1\<rparr>" .
  show "c_state (turn E s) = DHCP_STATE_SELECTING" "c_sentPacketNum (turn E s) = of_nat (Suc n)" "c_transID (turn E s) = x"
    "c_timeoutTimestamp (turn E s) = c_timeoutTimestamp s + 2 ^ min n 5" "c_ifaceMac (turn E s) = c_ifaceMac s"
    "no_cache (turn E s)" "c_ifaceIndex (turn E s) = c_ifaceIndex s"
    using nc s1 timeout_sec_small [OF assms(5)] by (simp_all add: t s2_def q(1) no_cache_def is_wlan_def note_event_def)
  show "\<exists>q. c_log (turn E s) = c_log s @ [SentBroadcast q INADDR_ANY INADDR_BROADCAST (c_ifaceIndex s)]
       \<and> dp_xid q = x \<and> found q 53 = Some [DHCPDISCOVER]"
    using q s1 by (auto simp: t s2_def note_event_def)
qed

lemma waiting_turn:
  assumes "length (c_ifaceMac s0) = 6" "c_state s0 \<in> {DHCP_STATE_INIT, DHCP_STATE_SELECTING}" "waiting s0 n s" "n < 16"
  shows "waiting s0 (Suc n) (turn E s)"
proof -
  obtain qs where w: "c_sentPacketNum s = of_nat n" "c_state s = (if n = 0 then c_state s0 else DHCP_STATE_SELECTING)"
      "c_timeoutTimestamp s = c_timeoutTimestamp s0 + (\<Sum>k<n. 2 ^ min k 5)" "c_ifaceMac s = c_ifaceMac s0" "no_cache s"
    and qs: "c_log s = c_log s0 @ map (\<lambda>q. SentBroadcast q INADDR_ANY INADDR_BROADCAST (c_ifaceIndex s)) qs" "length qs = n"
      "\<forall>q \<in> set qs. dp_xid q = c_transID s \<and> found q 53 = Some [DHCPDISCOVER]"
    using assms(3) by (auto simp: waiting_def)
  define x where "x = (if n = 0 then en_random E (c_tick s) else c_transID s)"
  have "length (c_ifaceMac s) = 6" "c_state s \<in> {DHCP_STATE_INIT, DHCP_STATE_SELECTING}" using assms(1,2) w by auto
  note t = turn_selecting [OF this w(5,1) assms(4) x_def]
  from t(8) obtain q where q: "c_log (turn E s) = c_log s @ [SentBroadcast q INADDR_ANY INADDR_BROADCAST (c_ifaceIndex s)]"
    "dp_xid q = x" "found q 53 = Some [DHCPDISCOVER]" by blast
  have "\<forall>q \<in> set (qs @ [q]). dp_xid q = x \<and> found q 53 = Some [DHCPDISCOVER]"
    using qs(2,3) q(2,3) by (auto simp: x_def)
  moreover have "c_log (turn E s) = c_log s0 @ map (\<lambda>q. SentBroadcast q INADDR_ANY INADDR_BROADCAST (c_ifaceIndex (turn E s))) (qs @ [q])"
    using q(1) qs(1) t(7) by simp
  ultimately show ?thesis
    using t(1-6) w qs(2) unfolding waiting_def by (intro conjI exI [of _ "qs @ [q]"]) simp_all
qed

lemma waiting_run:
  assumes "length (c_ifaceMac s) = 6" "c_state s \<in> {DHCP_STATE_INIT, DHCP_STATE_SELECTING}" "c_sentPacketNum s = 0" "no_cache s"
  shows "n \<le> 16 \<Longrightarrow> waiting s n ((turn E ^^ n) s)"
proof (induction n)
  case 0
  then show ?case using assms(3,4) by (simp add: waiting_def)
next
  case (Suc n)
  then show ?case using waiting_turn [OF assms(1,2), of n "(turn E ^^ n) s" E] by simp
qed



section \<open>Packets that are not taken\<close>

text \<open>C23: A packet of another transaction changes nothing, in any state; and a wired client that is not waiting for a server
  (before its first packet, bound, released, probing, declining) takes no packet at all.\<close>

theorem unexpected_packet_ignored:
  assumes "dp_xid p \<noteq> c_transID s \<or> \<not> is_wlan s \<and> c_state s \<in> {DHCP_STATE_INIT, DHCP_STATE_BOUND, DHCP_STATE_RELEASED,
      DHCP_STATE_FAST_ARP, DHCP_STATE_SLOW_ARP, DHCP_STATE_DECLINE}"
  shows "DhcpResponseHandle E t (Some p) s = s"
proof (cases "dp_xid p = c_transID s")
  case True
  then have "GetDhcpOffer E p s = s" using assms by (simp add: GetDhcpOffer_def)
  with True obtain msg where check: "DhcpResponseDataCheck E t (Some p) s = (msg, s)"
    by (cases "GetDhcpOptionUint8 p DHCP_MESSAGE_TYPE_OPTION 0"; cases "fst (GetDhcpOptionUint8 p DHCP_MESSAGE_TYPE_OPTION 0)")
      (simp_all add: DhcpResponseDataCheck_def)
  show ?thesis
    unfolding DhcpResponseHandle_def check using assms True by (auto split: option.split)
qed (simp add: DhcpResponseHandle_def DhcpResponseDataCheck_def)

theorem unexpected_packet_ignored_witness:
  "DhcpResponseHandle quiet_env 5 (Some (sample_packet 77 0 [(53, [6])])) requesting_client = requesting_client"
  using unexpected_packet_ignored [of "sample_packet 77 0 [(53, [6])]" requesting_client quiet_env 5]
  by (simp add: requesting_client_def)

section \<open>Refusals\<close>

text \<open>C22: A refusal of the running transaction, in every state that waits for an acknowledgement, sends the client back to
  the beginning: no requested address, counter 0, deadline now, raw socket. The pause that it inserts doubles from 1 to
  at most 6 seconds.\<close>

theorem nak_restarts:
  assumes "c_state s \<in> {DHCP_STATE_REQUESTING, DHCP_STATE_RENEWING, DHCP_STATE_REBINDING, DHCP_STATE_INITREBOOT, DHCP_STATE_RENEWED}"
    and "dp_xid p = c_transID s" "reply_with os p" "map_of os 53 = Some [DHCPNAK]" "s' = DhcpResponseHandle E t (Some p) s"
  shows "c_state s' = DHCP_STATE_INIT \<and> c_requestedIp4 s' = 0 \<and> c_sentPacketNum s' = 0 \<and> c_timeoutTimestamp s' = t
    \<and> c_socketMode s' = SOCKET_MODE_RAW
    \<and> c_log s' = c_log s @ (if c_resendTimer s = 0 then [] else [Slept (c_resendTimer s)])
    \<and> c_resendTimer s' = (if c_resendTimer s = 0 then 1 else min 6 (2 * c_resendTimer s))"
proof -
  have m: "GetDhcpOptionUint8 p 53 0 = (True, DHCPNAK)"
    using reply_readers(1) [OF assms(3), of 53 "[DHCPNAK]" 0] assms(4) by simp
  have "s' = ParseDhcpNakPacket t (s\<lparr>c_result := zero_result\<rparr>)"
    using assms(1,2) m GetDhcpOffer_no_offer [OF m, of E s]
    by (auto simp: assms(5) DhcpResponseHandle_def DhcpResponseDataCheck_def DhcpAckOrNakPacketHandle_def)
  then show ?thesis
    by (simp add: ParseDhcpNakPacket_def back_to_init_def note_event_def SetSocketMode_def Let_def)
qed

theorem nak_restarts_witness:
  "c_state (DhcpResponseHandle quiet_env 5 (Some (sample_packet 0 0 [(53, [6])])) requesting_client) = DHCP_STATE_INIT"
proof -
  have "reply_with [(53, [6])] (sample_packet 0 0 [(53, [6])])"
    by (rule sample_packet_reply) (simp_all add: opts_fit_def copt_ok_def no_overload_def)
  from nak_restarts [OF _ _ this, of requesting_client _ quiet_env 5] show ?thesis
    by (simp add: requesting_client_def)
qed

section \<open>Conflicts\<close>


definition declining_client :: "u32 \<Rightarrow> Client" where
  "declining_client n = fresh_client\<lparr>c_state := DHCP_STATE_DECLINE, c_thread := IPV4_TASK_RUNNING, c_conflictCount := n\<rparr>"

lemma quiet_calls: "calls_succeed quiet_env"
  by (simp add: calls_succeed_def quiet_env_def)


section \<open>Offers at the wrong time\<close>

lemma GetDhcpOffer_takes:
  assumes "is_wlan s" "reply_with os p" "map_of os 53 = Some [DHCPOFFER]" "map_of os 54 = Some sid" "length sid = 4"
  shows "c_requestedIp4 (GetDhcpOffer E p s) = dp_yiaddr p" "c_serverIp4 (GetDhcpOffer E p s) = htonl (be32 sid)"
proof -
  have "GetDhcpOptionUint8 p 53 0 = (True, DHCPOFFER)" "GetDhcpOptionUint32 p 54 0 = (True, be32 sid)"
    using reply_readers(1) [OF assms(2), of 53 "[DHCPOFFER]" 0] reply_readers(2) [OF assms(2), of 54 sid] assms(3-5) by simp_all
  then show "c_requestedIp4 (GetDhcpOffer E p s) = dp_yiaddr p" "c_serverIp4 (GetDhcpOffer E p s) = htonl (be32 sid)"
    using assms(1)
    by (simp_all add: GetDhcpOffer_def ParseNetworkServerIdInfo_def PublishDhcpIpv4Result_def ask_def note_event_def Let_def case_prod_unfold)
qed

text \<open>On a wireless interface an offer of the running transaction takes effect in every state: a client that renews its
  lease and gets a late offer replaces the address it holds and its server by those of the offer, and sends the next
  renewal with the foreign address to the foreign server.\<close>

theorem late_offer_moves_address:
  assumes "length (c_ifaceMac s) = 6" "is_wlan s" "c_state s = DHCP_STATE_RENEWING" "dp_xid p = c_transID s"
    and "reply_with os p" "map_of os 53 = Some [DHCPOFFER]" "map_of os 54 = Some sid" "length sid = 4" "be32 sid \<noteq> 0"
    and "s' = DhcpResponseHandle E t (Some p) s"
  shows "c_state s' = DHCP_STATE_RENEWING \<and> c_requestedIp4 s' = dp_yiaddr p
    \<and> (\<exists>q. dp_ciaddr q = dp_yiaddr p \<and>
         c_log (DhcpRequestHandle E t' s') = c_log s' @ [SentUnicast q (dp_yiaddr p) (htonl (be32 sid))])"
proof -
  have m: "GetDhcpOptionUint8 p 53 0 = (True, DHCPOFFER)"
    using reply_readers(1) [OF assms(5), of 53 "[DHCPOFFER]" 0] assms(6) by simp
  have s': "s' = GetDhcpOffer E p s"
    using assms(3,4) m by (simp add: assms(10) DhcpResponseHandle_def DhcpResponseDataCheck_def DhcpAckOrNakPacketHandle_def)
  note takes = GetDhcpOffer_takes [OF assms(2,5-8), of E]
  have "length (c_ifaceMac s') = 6" "c_state s' = DHCP_STATE_RENEWING" "c_requestedIp4 s' = dp_yiaddr p" "c_serverIp4 s' = htonl (be32 sid)"
    using assms(1,3) takes by (simp_all add: s')
  moreover have "c_log (DhcpRequestHandle E t' s') = c_log (DhcpRenew E (c_transID s') (c_requestedIp4 s') (c_serverIp4 s') s')"
    if "c_state s' = DHCP_STATE_RENEWING" for s' using that by (simp add: DhcpRequestHandle_def Renewing_def)
  ultimately show ?thesis
    using assms(9) by (simp add: DhcpRenew_sends note_event_def Let_def with_opts_def)
qed

definition renewing_client :: Client where
  "renewing_client = fresh_client\<lparr>c_state := DHCP_STATE_RENEWING, c_ifaceName := ''wlan0'', c_requestedIp4 := 0x142BA8C0, c_serverIp4 := 0x012BA8C0\<rparr>"

theorem late_offer_moves_address_witness:
  "c_requestedIp4 (DhcpResponseHandle quiet_env 7 (Some (sample_packet 0 0x0500000A [(53, [2]), (54, [10, 0, 0, 1])])) renewing_client)
     = 0x0500000A"
proof -
  have "reply_with [(53, [2]), (54, [10, 0, 0, 1])] (sample_packet 0 0x0500000A [(53, [2]), (54, [10, 0, 0, 1])])"
    by (rule sample_packet_reply) (simp_all add: opts_fit_def copt_ok_def no_overload_def)
  moreover have "be32 [10, 0, 0, 1] \<noteq> 0" "is_wlan renewing_client" by (code_simp, simp add: is_wlan_def renewing_client_def)
  ultimately show ?thesis
    using late_offer_moves_address [of renewing_client "sample_packet 0 0x0500000A [(53, [2]), (54, [10, 0, 0, 1])]"
        "[(53, [2]), (54, [10, 0, 0, 1])]" "[10, 0, 0, 1]" _ quiet_env 7]
    by (simp add: renewing_client_def)
qed

section \<open>A task that cannot open its socket\<close>

lemma DhcpInit_timers [simp]: "c_timers (DhcpInit E s) = c_timers s"
  by (simp add: DhcpInit_def Reboot_def SendReboot_def back_to_init_def SetSocketMode_def DhcpReboot_def SetSecondsElapsed_def
      SendToDhcpPacket_def GetCachedDhcpResult_def GetRandomId_def note_event_def ask_def Let_def case_prod_unfold split: option.splits)

lemma DhcpInit_publishes [simp]: "Published r \<in> set (c_log (DhcpInit E s)) \<longleftrightarrow> Published r \<in> set (c_log s)"
  by (simp add: DhcpInit_def Reboot_def SendReboot_def back_to_init_def SetSocketMode_def DhcpReboot_def SetSecondsElapsed_def
      SendToDhcpPacket_def GetCachedDhcpResult_def GetRandomId_def note_event_def ask_def Let_def case_prod_unfold split: option.splits)

text \<open>C28: A task that cannot open its sockets ends at once: the client is idle again, reports no result, and the timer that
  limits the attempt stays on; when it expires its callback does nothing either, so that the caller is never told.\<close>

theorem socket_failure_unreported:
  assumes "\<And>n. \<not> en_sockets E n" "c_getMode s = DHCP_IP_TYPE_V4" "s' = RunGetIPThreadFunc E s"
  shows "c_thread s' = IPV4_TASK_IDLE \<and> c_place s' = NoTask \<and> (\<forall>r. Published r \<in> set (c_log s') \<longleftrightarrow> Published r \<in> set (c_log s))
    \<and> c_timers s' TIMER_GET_IP = c_timers s TIMER_GET_IP
    \<and> SetTimerCallback E TIMER_GET_IP s' = s'"
  using assms(1,2)
  by (simp add: assms(3) RunGetIPThreadFunc_def StartIpv4_def SetTimerCallback_def GetIpTimerCallback_def ask_def Let_def)

theorem socket_failure_unreported_witness:
  "c_thread (RunGetIPThreadFunc (quiet_env\<lparr>en_sockets := \<lambda>_. False\<rparr>) (fresh_client\<lparr>c_getMode := DHCP_IP_TYPE_V4\<rparr>)) = IPV4_TASK_IDLE"
  using socket_failure_unreported [OF _ _ refl, of "quiet_env\<lparr>en_sockets := \<lambda>_. False\<rparr>" "fresh_client\<lparr>c_getMode := DHCP_IP_TYPE_V4\<rparr>"]
  by simp

end
