(* ===== verification/DhcpSocket.thy ===== *)
theory DhcpSocket
  imports DhcpClientPacket
begin

text \<open>
  The frames and datagrams of the IPv4 client (\<^verbatim>\<open>dhcp_socket.cpp\<close>): the internet checksum, building a raw frame around a
  packet and checking a received one. A packet in memory is \<open>packet_image\<close>, 2020 bytes; a frame is the record of its IP and
  UDP header fields, kept as the machine words of a little-endian host, and the 2020 bytes behind them. What the kernel
  does (opening, binding, sending, reading) is an argument of the functions.
\<close>

section \<open>Data\<close>

abbreviation (input) SOCKET_OPT_SUCCESS :: int where "SOCKET_OPT_SUCCESS \<equiv> 0"
abbreviation (input) SOCKET_OPT_FAILED :: int where "SOCKET_OPT_FAILED \<equiv> -1"
abbreviation (input) SOCKET_OPT_ERROR :: int where "SOCKET_OPT_ERROR \<equiv> -2"
abbreviation (input) DHCP_MAX_PACKET_LEN :: int where "DHCP_MAX_PACKET_LEN \<equiv> 1500"

definition packet_image :: "DhcpPacket \<Rightarrow> bytes" where
  "packet_image p = [dp_op p, dp_htype p, dp_hlen p, dp_hops p] @ u32_bytes (dp_xid p) @ u16_bytes (dp_secs p) @
     u16_bytes (dp_flags p) @ u32_bytes (dp_ciaddr p) @ u32_bytes (dp_yiaddr p) @ u32_bytes (dp_siaddr p) @
     u32_bytes (dp_giaddr p) @ dp_chaddr p @ dp_sname p @ dp_file p @ u32_bytes (dp_cookie p) @ dp_options p"

definition image_packet :: "bytes \<Rightarrow> DhcpPacket" where
  "image_packet bs = \<lparr>dp_op = bs ! 0, dp_htype = bs ! 1, dp_hlen = bs ! 2, dp_hops = bs ! 3,
     dp_xid = u32_of_bytes (take 4 (drop 4 bs)), dp_secs = u16_of_bytes (take 2 (drop 8 bs)),
     dp_flags = u16_of_bytes (take 2 (drop 10 bs)), dp_ciaddr = u32_of_bytes (take 4 (drop 12 bs)),
     dp_yiaddr = u32_of_bytes (take 4 (drop 16 bs)), dp_siaddr = u32_of_bytes (take 4 (drop 20 bs)),
     dp_giaddr = u32_of_bytes (take 4 (drop 24 bs)), dp_chaddr = take 16 (drop 28 bs),
     dp_sname = take 64 (drop 44 bs), dp_file = take 128 (drop 108 bs), dp_cookie = u32_of_bytes (take 4 (drop 236 bs)),
     dp_options = take 1780 (drop 240 bs)\<rparr>"

record UdpDhcpPacket =
  ip_ihl :: nat
  ip_version :: nat
  ip_tos :: u8
  ip_tot_len :: u16
  ip_id :: u16
  ip_frag_off :: u16
  ip_ttl :: u8
  ip_protocol :: u8
  ip_check :: u16
  ip_saddr :: u32
  ip_daddr :: u32
  udp_source :: u16
  udp_dest :: u16
  udp_len :: u16
  udp_check :: u16
  ud_data :: bytes

text \<open>The first byte holds the two four-bit fields.\<close>

definition ip_image :: "UdpDhcpPacket \<Rightarrow> bytes" where
  "ip_image f = [of_nat (ip_ihl f mod 16 + 16 * (ip_version f mod 16)), ip_tos f] @ u16_bytes (ip_tot_len f) @ u16_bytes (ip_id f)
     @ u16_bytes (ip_frag_off f) @ [ip_ttl f, ip_protocol f] @ u16_bytes (ip_check f) @ u32_bytes (ip_saddr f) @ u32_bytes (ip_daddr f)"

definition frame_image :: "UdpDhcpPacket \<Rightarrow> bytes" where
  "frame_image f = ip_image f @ u16_bytes (udp_source f) @ u16_bytes (udp_dest f) @ u16_bytes (udp_len f) @ u16_bytes (udp_check f)
     @ ud_data f"

definition image_frame :: "bytes \<Rightarrow> UdpDhcpPacket" where
  "image_frame bs = \<lparr>ip_ihl = unat (bs ! 0) mod 16, ip_version = unat (bs ! 0) div 16, ip_tos = bs ! 1,
     ip_tot_len = u16_of_bytes (take 2 (drop 2 bs)), ip_id = u16_of_bytes (take 2 (drop 4 bs)),
     ip_frag_off = u16_of_bytes (take 2 (drop 6 bs)), ip_ttl = bs ! 8, ip_protocol = bs ! 9,
     ip_check = u16_of_bytes (take 2 (drop 10 bs)), ip_saddr = u32_of_bytes (take 4 (drop 12 bs)),
     ip_daddr = u32_of_bytes (take 4 (drop 16 bs)), udp_source = u16_of_bytes (take 2 (drop 20 bs)),
     udp_dest = u16_of_bytes (take 2 (drop 22 bs)), udp_len = u16_of_bytes (take 2 (drop 24 bs)),
     udp_check = u16_of_bytes (take 2 (drop 26 bs)), ud_data = take 2020 (drop 28 bs)\<rparr>"

definition zero_frame :: UdpDhcpPacket where
  "zero_frame = \<lparr>ip_ihl = 0, ip_version = 0, ip_tos = 0, ip_tot_len = 0, ip_id = 0, ip_frag_off = 0, ip_ttl = 0, ip_protocol = 0,
     ip_check = 0, ip_saddr = 0, ip_daddr = 0, udp_source = 0, udp_dest = 0, udp_len = 0, udp_check = 0, ud_data = replicate 2020 0\<rparr>"

section \<open>The checksum\<close>

text \<open>\<open>junk\<close> is the high byte of the local variable \<^verbatim>\<open>u16Sum\<close>, which is not initialised.\<close>

fun word_sum :: "u8 \<Rightarrow> bytes \<Rightarrow> u32 \<Rightarrow> u32" where
  "word_sum junk (a # b # bs) uTotalSum = word_sum junk bs (uTotalSum + ucast (u16_of_bytes [a, b]))"
| "word_sum junk [a] uTotalSum = uTotalSum + ucast (u16_of_bytes [a, junk])"
| "word_sum junk [] uTotalSum = uTotalSum"

lemma carry_step:
  assumes "drop_bit 16 w \<noteq> (0 :: u32)"
  shows "unat ((w AND 0xffff) + drop_bit 16 w) = unat w mod 65536 + unat w div 65536"
    "unat w mod 65536 + unat w div 65536 < unat w"
proof -
  have m: "(65535 :: nat) = mask 16" by (simp add: mask_eq_exp_minus_1)
  have low: "unat (w AND 0xffff) = unat w mod 65536"
    by (simp add: unsigned_and_eq) (simp add: m take_bit_eq_mod flip: take_bit_eq_mask)
  have high: "unat (drop_bit 16 w) = unat w div 65536"
    by (simp add: drop_bit_eq_div unat_div)
  have "unat w < 2 ^ 32" using unsigned_less [of w, where ?'a = nat] by simp
  then have "unat w div 65536 < 65536" by (simp add: less_mult_imp_div_less)
  moreover have "unat w mod 65536 < 65536" by simp
  ultimately show "unat ((w AND 0xffff) + drop_bit 16 w) = unat w mod 65536 + unat w div 65536"
    by (subst unat_add_lem [THEN iffD1]) (simp_all add: low high)
  have "unat w div 65536 \<noteq> 0" using assms high by (metis unsigned_eq_0_iff)
  moreover have "unat w = 65536 * (unat w div 65536) + unat w mod 65536" by simp
  ultimately show "unat w mod 65536 + unat w div 65536 < unat w" by linarith
qed

function fold_carry :: "u32 \<Rightarrow> u32" where
  "fold_carry uTotalSum =
     (if drop_bit 16 uTotalSum \<noteq> 0 then fold_carry ((uTotalSum AND 0xffff) + drop_bit 16 uTotalSum) else uTotalSum)"
  by pat_completeness auto
termination
  by (relation "measure unat") (use carry_step in simp_all)

declare fold_carry.simps [simp del]

definition GetCheckSum :: "u8 \<Rightarrow> bytes \<Rightarrow> u16" where
  "GetCheckSum junk pData = NOT (ucast (fold_carry (word_sum junk pData 0)))"

section \<open>Sending\<close>

text \<open>The frame that is built: the UDP checksum is taken over the whole structure while the IP header holds only the pseudo
  header; the rest of the IP header is filled in afterwards.\<close>

definition raw_frame :: "u8 \<Rightarrow> DhcpPacket \<Rightarrow> u32 \<Rightarrow> u32 \<Rightarrow> nat \<Rightarrow> UdpDhcpPacket" where
  "raw_frame junk sendPacket srcIp destIp optionLen =
     (let sendLen = 268 + optionLen; dhcpPackLen = 240 + optionLen;
          len = htons (of_nat (8 + dhcpPackLen));
          f = zero_frame\<lparr>udp_source := htons 68, udp_dest := htons 67, udp_len := len, ip_tot_len := len, ip_protocol := 17,
                ip_saddr := srcIp, ip_daddr := destIp, ud_data := packet_image sendPacket\<rparr>;
          f = f\<lparr>udp_check := GetCheckSum junk (frame_image f)\<rparr>;
          f = f\<lparr>ip_ihl := 5, ip_version := 4, ip_tot_len := htons (of_nat sendLen), ip_ttl := 64\<rparr>
      in f\<lparr>ip_check := GetCheckSum junk (ip_image f)\<rparr>)"

text \<open>\<open>opened\<close> and \<open>bound\<close>: the socket was created and bound; \<open>sendto\<close>: the result of the system call. The result is the
  return value and the frame, if one was handed to the kernel; \<open>None\<close>: the search for the end option left the packet.\<close>

definition SendToDhcpPacket_raw ::
    "u8 \<Rightarrow> bool \<Rightarrow> bool \<Rightarrow> (bytes \<Rightarrow> int) \<Rightarrow> DhcpPacket \<Rightarrow> u32 \<Rightarrow> u32 \<Rightarrow> (int \<times> bytes option) option" where
  "SendToDhcpPacket_raw junk opened bound sendto sendPacket srcIp destIp =
     (if \<not> opened \<or> \<not> bound then Some (SOCKET_OPT_FAILED, None)
      else case GetEndOptionIndex (dp_options sendPacket) of
        None \<Rightarrow> None
      | Some e \<Rightarrow>
          let optionLen = e + 2; sendLen = 268 + optionLen in
          if optionLen > DHCP_OPT_SIZE then Some (SOCKET_OPT_FAILED, None)
          else if sendLen > 2048 then Some (SOCKET_OPT_FAILED, None)
          else let out = take sendLen (frame_image (raw_frame junk sendPacket srcIp destIp optionLen))
               in Some (if sendto out \<le> 0 then SOCKET_OPT_FAILED else SOCKET_OPT_SUCCESS, Some out))"

definition SendDhcpPacket_kernel :: "bool \<Rightarrow> bool \<Rightarrow> (bytes \<Rightarrow> int) \<Rightarrow> DhcpPacket \<Rightarrow> (int \<times> bytes option) option" where
  "SendDhcpPacket_kernel opened connected write sendPacket =
     (if \<not> opened \<or> \<not> connected then Some (SOCKET_OPT_FAILED, None)
      else case GetEndOptionIndex (dp_options sendPacket) of
        None \<Rightarrow> None
      | Some e \<Rightarrow>
          let optionLen = e + 2; sendLen = 240 + optionLen in
          if optionLen > DHCP_OPT_SIZE then Some (SOCKET_OPT_FAILED, None)
          else if int sendLen > DHCP_MAX_PACKET_LEN then Some (SOCKET_OPT_FAILED, None)
          else let out = take sendLen (packet_image sendPacket)
               in Some (if write out \<le> 0 then SOCKET_OPT_FAILED else SOCKET_OPT_SUCCESS, Some out))"

section \<open>Receiving\<close>

definition CheckReadBytes :: "int \<Rightarrow> int \<Rightarrow> int" where
  "CheckReadBytes count totLen =
     (if count < 0 then SOCKET_OPT_ERROR
      else if count < 28 then SOCKET_OPT_FAILED
      else if count < totLen then SOCKET_OPT_FAILED
      else SOCKET_OPT_SUCCESS)"

definition CheckUdpPacket :: "UdpDhcpPacket \<Rightarrow> int \<Rightarrow> int" where
  "CheckUdpPacket pPacket totLen =
     (if totLen > 2048 then SOCKET_OPT_FAILED
      else if ip_protocol pPacket \<noteq> 17 \<or> ip_version pPacket \<noteq> 4 then SOCKET_OPT_FAILED
      else if ip_ihl pPacket \<noteq> 5 then SOCKET_OPT_FAILED
      else if udp_dest pPacket \<noteq> htons 68 then SOCKET_OPT_FAILED
      else if htons (udp_len pPacket) \<noteq> word_of_int (totLen - 20) then SOCKET_OPT_FAILED
      else SOCKET_OPT_SUCCESS)"

definition CheckPacketIpSum :: "u8 \<Rightarrow> UdpDhcpPacket \<Rightarrow> int \<Rightarrow> int \<times> UdpDhcpPacket" where
  "CheckPacketIpSum junk pPacket bytes =
     (if CheckUdpPacket pPacket bytes \<noteq> SOCKET_OPT_SUCCESS then (SOCKET_OPT_FAILED, pPacket)
      else
        let uCheck = ip_check pPacket; pPacket = pPacket\<lparr>ip_check := 0\<rparr>
        in (if uCheck \<noteq> GetCheckSum junk (ip_image pPacket) then SOCKET_OPT_ERROR else SOCKET_OPT_SUCCESS, pPacket))"

definition CheckPacketUdpSum :: "u8 \<Rightarrow> UdpDhcpPacket \<Rightarrow> int \<Rightarrow> int \<times> UdpDhcpPacket" where
  "CheckPacketUdpSum junk pPacket bytes =
     (let uCheck = udp_check pPacket;
          f = zero_frame\<lparr>ip_protocol := 17, ip_saddr := ip_saddr pPacket, ip_daddr := ip_daddr pPacket, ip_tot_len := udp_len pPacket,
                udp_source := udp_source pPacket, udp_dest := udp_dest pPacket, udp_len := udp_len pPacket, ud_data := ud_data pPacket\<rparr>
      in (if uCheck \<noteq> 0 \<and> uCheck \<noteq> GetCheckSum junk (take (nat bytes) (frame_image f)) then SOCKET_OPT_FAILED else SOCKET_OPT_SUCCESS, f))"

text \<open>\<^verbatim>\<open>GetDhcpRawPacket\<close> behind the read, on the frame and the count that was read. A negative length is converted to
  \<^verbatim>\<open>size_t\<close>.\<close>

definition accept_frame :: "u8 \<Rightarrow> UdpDhcpPacket \<Rightarrow> int \<Rightarrow> DhcpPacket \<Rightarrow> int \<times> DhcpPacket" where
  "accept_frame junk f nBytes getPacket =
     (let totLen = int (unat (htons (ip_tot_len f))); nRet = CheckReadBytes nBytes totLen in
      if nRet \<noteq> SOCKET_OPT_SUCCESS then (nRet, getPacket)
      else
        let (nRet, f) = CheckPacketIpSum junk f totLen in
        if nRet \<noteq> SOCKET_OPT_SUCCESS then (nRet, getPacket)
        else
          let (nRet, f) = CheckPacketUdpSum junk f totLen in
          if nRet \<noteq> SOCKET_OPT_SUCCESS then (nRet, getPacket)
          else
            let nDhcpPacket = totLen - 28;
                (ok, mem) = memcpy_s 2020 (packet_image getPacket) (ud_data f) (nat (nDhcpPacket mod 2 ^ 64));
                getPacket = image_packet mem
            in if \<not> ok then (SOCKET_OPT_FAILED, getPacket)
               else if htonl (dp_cookie getPacket) \<noteq> 0x63825363 then (SOCKET_OPT_FAILED, getPacket)
               else (nDhcpPacket, getPacket))"

text \<open>\<open>recv\<close> is what \<^verbatim>\<open>read\<close> gives, \<open>None\<close> for -1; the structure was cleared before.\<close>

definition GetDhcpRawPacket :: "u8 \<Rightarrow> bytes option \<Rightarrow> DhcpPacket \<Rightarrow> int \<times> DhcpPacket" where
  "GetDhcpRawPacket junk recv getPacket = (case recv of
       None \<Rightarrow> accept_frame junk zero_frame (- 1) getPacket
     | Some bs \<Rightarrow>
         let data = take 2048 bs
         in accept_frame junk (image_frame (data @ replicate (2048 - length data) 0)) (int (length data)) getPacket)"

definition GetDhcpKernelPacket :: "bytes option \<Rightarrow> DhcpPacket \<Rightarrow> int \<times> DhcpPacket" where
  "GetDhcpKernelPacket recv getPacket = (case recv of
       None \<Rightarrow> (SOCKET_OPT_ERROR, getPacket)
     | Some bs \<Rightarrow>
         let data = take 2020 bs; getPacket = image_packet (data @ drop (length data) (packet_image getPacket))
         in if htonl (dp_cookie getPacket) \<noteq> 0x63825363 then (SOCKET_OPT_FAILED, getPacket)
            else (int (length data), getPacket))"

section \<open>Images\<close>

lemma length_packet_image: "packet_wf p \<Longrightarrow> length (packet_image p) = 2020"
  by (simp add: packet_image_def packet_wf_def)

lemma image_packet_packet_image: "packet_wf p \<Longrightarrow> image_packet (packet_image p) = p"
  by (simp add: image_packet_def packet_image_def packet_wf_def)

lemma packet_wf_image_packet: "length bs = 2020 \<Longrightarrow> packet_wf (image_packet bs)"
  by (simp add: image_packet_def packet_wf_def)

lemma length_ip_image [simp]: "length (ip_image f) = 20"
  by (simp add: ip_image_def)

lemma length_frame_image [simp]: "length (frame_image f) = 28 + length (ud_data f)"
  by (simp add: frame_image_def)

section \<open>The checksum and its reference\<close>

text \<open>The one's complement sum of numbers below \<open>2\<^sup>1\<^sup>6\<close>, from their plain sum: 0 only for 0, otherwise the residue modulo 65535 in
  the range 1 to 65535.\<close>

definition ones_sum :: "nat \<Rightarrow> nat" where
  "ones_sum n = (if n = 0 then 0 else (n - 1) mod 65535 + 1)"

fun words_total :: "u8 \<Rightarrow> bytes \<Rightarrow> nat" where
  "words_total junk (a # b # bs) = unat a + 256 * unat b + words_total junk bs"
| "words_total junk [a] = unat a + 256 * unat junk"
| "words_total junk [] = 0"

lemma unat_u16_of_bytes: "unat (u16_of_bytes [a, b]) = unat a + 256 * unat b"
proof -
  have u: "unat (ucast x :: u16) = unat x" for x :: u8
    by (simp add: unsigned_ucast_eq take_bit_eq_mod mod_less order.strict_trans [OF unat_u8_less])
  have "u16_of_bytes [a, b] = ucast a + push_bit 8 (ucast b)"
    by (simp add: u16_of_bytes_def, subst disjunctive_add) (auto simp: bit_simps)
  then have "u16_of_bytes [a, b] = ucast a + ucast b * 256"
    by (simp only: push_bit_eq_mult) simp
  then show ?thesis
    using unat_u8_less [of a] unat_u8_less [of b] by (simp add: unat_word_ariths u)
qed

lemma unat_word16: "unat (ucast (u16_of_bytes [a, b]) :: u32) = unat a + 256 * unat b" "unat a + 256 * unat b < 65536"
proof -
  show "unat a + 256 * unat b < 65536" using unat_u8_less [of a] unat_u8_less [of b] by simp
  then show "unat (ucast (u16_of_bytes [a, b]) :: u32) = unat a + 256 * unat b"
    by (simp add: unsigned_ucast_eq unat_u16_of_bytes take_bit_nat_eq_self)
qed

lemma unat_not_u16: "unat (NOT w) = 65535 - unat (w :: u16)"
proof -
  have "NOT w = - 1 - w" by (simp add: not_eq_complement)
  moreover have "unat (- 1 :: u16) = 65535" by (simp add: unsigned_minus_1_eq_mask mask_eq_exp_minus_1)
  ultimately show ?thesis by (simp add: unat_sub)
qed

lemma words_total_le: "words_total junk bs \<le> 65535 * ((length bs + 1) div 2)"
proof (induction junk bs rule: words_total.induct)
  case (1 junk a b bs)
  then show ?case using unat_u8_less [of a] unat_u8_less [of b] by simp
next
  case (2 junk a)
  then show ?case using unat_u8_less [of a] unat_u8_less [of junk] by simp
qed simp

lemma word_sum_total:
  "unat acc + 65535 * ((length bs + 1) div 2) < 2 ^ 32 \<Longrightarrow> unat (word_sum junk bs acc) = unat acc + words_total junk bs"
proof (induction junk bs acc rule: word_sum.induct)
  case (1 junk a b bs acc)
  note w = unat_word16 [of a b]
  have "(length (a # b # bs) + 1) div 2 = Suc ((length bs + 1) div 2)" by simp
  with w have "unat (acc + ucast (u16_of_bytes [a, b])) = unat acc + (unat a + 256 * unat b)"
    using "1.prems" by (subst unat_add_lem [THEN iffD1]) (simp_all add: w(1))
  then show ?case using 1 w by simp
next
  case (2 junk a acc)
  note w = unat_word16 [of a junk]
  then show ?case using "2.prems" by (subst word_sum.simps, subst unat_add_lem [THEN iffD1]) (simp_all add: w(1))
qed simp

lemma fold_carry_ones: "unat (fold_carry w) = ones_sum (unat w)"
proof (induction w rule: fold_carry.induct)
  case (1 w)
  show ?case
  proof (cases "drop_bit 16 w = 0")
    case True
    have "unat w div 65536 = unat (drop_bit 16 w)" by (simp add: drop_bit_eq_div unat_div)
    then have "unat w < 65536" using True by (simp add: div_eq_0_iff)
    then show ?thesis using True by (simp add: fold_carry.simps [of w] ones_sum_def)
  next
    case False
    let ?q = "unat w div 65536" and ?r = "unat w mod 65536"
    have q: "0 < ?q" using carry_step(2) [OF False] by (cases "?q = 0") auto
    have "unat w = 65536 * ?q + ?r" by simp
    then have "unat w - 1 = (?r + ?q - 1) + 65535 * ?q" using q by linarith
    then have "(unat w - 1) mod 65535 = (?r + ?q - 1) mod 65535" by simp
    moreover have "unat w \<noteq> 0" using q by auto
    moreover have "unat (fold_carry w) = ones_sum (?r + ?q)"
      using 1 False carry_step(1) [OF False] by (simp add: fold_carry.simps [of w])
    ultimately show ?thesis using q by (simp add: ones_sum_def)
  qed
qed

lemma ones_sum_le: "ones_sum n \<le> 65535"
proof -
  have "(n - 1) mod 65535 < 65535" by simp
  then have "(n - 1) mod 65535 + 1 \<le> 65535" by linarith
  then show ?thesis by (simp only: ones_sum_def split: if_split) simp
qed

lemma unat_GetCheckSum:
  assumes "length bs \<le> 2048"
  shows "unat (GetCheckSum junk bs) = 65535 - ones_sum (words_total junk bs)"
proof -
  have "unat (fold_carry (word_sum junk bs 0)) = ones_sum (words_total junk bs)"
    using assms by (simp add: fold_carry_ones word_sum_total)
  then have "unat (ucast (fold_carry (word_sum junk bs 0)) :: u16) = ones_sum (words_total junk bs)"
    using ones_sum_le [of "words_total junk bs"] by (simp add: unsigned_ucast_eq take_bit_nat_eq_self)
  then show ?thesis by (simp add: GetCheckSum_def unat_not_u16)
qed

lemma ones_sum_complement: "ones_sum (n + (65535 - ones_sum n)) = 65535"
proof (cases "n = 0")
  case False
  define m where "m = n - 1"
  have m: "ones_sum n = m mod 65535 + 1" "n = m + 1" using False by (simp_all add: ones_sum_def m_def)
  have "m mod 65535 < 65535" "m = m div 65535 * 65535 + m mod 65535" by simp_all
  then have "n + (65535 - ones_sum n) - 1 = m div 65535 * 65535 + 65534" using m by linarith
  then show ?thesis using False by (simp add: ones_sum_def [of "n + (65535 - ones_sum n)"])
qed (simp add: ones_sum_def)

text \<open>C38: The checksum of the client is the internet checksum: on every array of up to 2048 bytes the loops give the
  complement of the one's complement sum of the 16-bit words, without overflow of the 32-bit accumulator, and a receiver
  that adds the checksum to the words gets all ones.\<close>

theorem GetCheckSum_ones_complement:
  assumes "length bs \<le> 2048"
  shows "unat (GetCheckSum junk bs) = 65535 - ones_sum (words_total junk bs)
    \<and> ones_sum (words_total junk bs + unat (GetCheckSum junk bs)) = 65535"
  by (simp only: unat_GetCheckSum [OF assms] ones_sum_complement simp_thms)

theorem GetCheckSum_ones_complement_witness:
  "unat (GetCheckSum 0 [0x45, 0, 1, 0x36]) = 65535 - ones_sum (words_total 0 [0x45, 0, 1, 0x36])
    \<and> ones_sum (words_total 0 [0x45, 0, 1, 0x36] + unat (GetCheckSum 0 [0x45, 0, 1, 0x36])) = 65535"
  by (rule GetCheckSum_ones_complement) simp

section \<open>Received frames\<close>

lemma CheckReadBytes_success: "CheckReadBytes n t = SOCKET_OPT_SUCCESS \<longleftrightarrow> 28 \<le> n \<and> t \<le> n"
  by (simp add: CheckReadBytes_def)

lemma CheckPacketIpSum_success:
  "CheckPacketIpSum junk f t = (SOCKET_OPT_SUCCESS, f') \<longleftrightarrow> f' = f\<lparr>ip_check := 0\<rparr> \<and> t \<le> 2048 \<and> ip_protocol f = 17 \<and> ip_version f = 4
     \<and> ip_ihl f = 5 \<and> udp_dest f = htons 68 \<and> htons (udp_len f) = word_of_int (t - 20)
     \<and> ip_check f = GetCheckSum junk (ip_image (f\<lparr>ip_check := 0\<rparr>))"
  by (auto simp: CheckPacketIpSum_def CheckUdpPacket_def Let_def)

lemma CheckPacketUdpSum_data [simp]: "ud_data (snd (CheckPacketUdpSum junk f t)) = ud_data f"
  by (simp add: CheckPacketUdpSum_def Let_def zero_frame_def)

lemma accept_frame_success:
  assumes "accept_frame junk f k p = (n, q)" "0 \<le> n"
  shows "28 \<le> k \<and> n + 28 = int (unat (htons (ip_tot_len f))) \<and> n + 28 \<le> k \<and> n \<le> 2020
    \<and> ip_protocol f = 17 \<and> ip_version f = 4 \<and> ip_ihl f = 5 \<and> udp_dest f = htons 68
    \<and> q = image_packet (take (nat n) (ud_data f) @ drop (nat n) (packet_image p)) \<and> htonl (dp_cookie q) = 0x63825363"
proof -
  define t where "t = int (unat (htons (ip_tot_len f)))"
  obtain r1 f1 where f1: "CheckPacketIpSum junk f t = (r1, f1)" by fastforce
  obtain r2 f2 where f2: "CheckPacketUdpSum junk f1 t = (r2, f2)" by fastforce
  note run = assms(1) [unfolded accept_frame_def t_def [symmetric] Let_def f1 prod.case f2]
  have read: "CheckReadBytes k t = SOCKET_OPT_SUCCESS"
    using run assms(2) by (auto simp: CheckReadBytes_def split: if_splits)
  have r1: "r1 = SOCKET_OPT_SUCCESS"
    using run read assms(2) f1 by (auto simp: CheckPacketIpSum_def Let_def split: if_splits)
  have r2: "r2 = SOCKET_OPT_SUCCESS"
    using run read r1 assms(2) f2 by (auto simp: CheckPacketUdpSum_def Let_def split: if_splits)
  note ip = f1 [unfolded r1 CheckPacketIpSum_success]
  have "ud_data f2 = ud_data f" using ip f2 CheckPacketUdpSum_data [of junk f1 t] by simp
  note run = run [unfolded this]
  have n: "t - 28 = n" "0 \<le> t - 28" "t - 28 < 2 ^ 64"
    using run read r1 r2 assms(2) ip by (auto simp: case_prod_unfold Let_def split: if_splits)
  then have "nat ((t - 28) mod 2 ^ 64) = nat n" by (simp add: mod_pos_pos_trivial)
  moreover have "n + 28 = int (unat (htons (ip_tot_len f)))" using n by (simp add: t_def)
  ultimately show ?thesis
    using run read r1 r2 assms(2) ip n by (auto simp: CheckReadBytes_success split: if_splits)
qed

lemma image_frame_fields:
  assumes "28 \<le> length data" "f = image_frame (data @ zs)"
  shows "ip_ihl f = unat (data ! 0) mod 16" "ip_version f = unat (data ! 0) div 16" "ip_protocol f = data ! 9"
    "udp_dest f = u16_of_bytes (take 2 (drop 22 data))" "k + 28 \<le> length data \<Longrightarrow> k \<le> 2020 \<Longrightarrow> take k (ud_data f) = take k (drop 28 data)"
proof -
  have "data \<noteq> []" using assms(1) by auto
  with assms show "ip_ihl f = unat (data ! 0) mod 16" "ip_version f = unat (data ! 0) div 16" "ip_protocol f = data ! 9"
    "udp_dest f = u16_of_bytes (take 2 (drop 22 data))" "k + 28 \<le> length data \<Longrightarrow> k \<le> 2020 \<Longrightarrow> take k (ud_data f) = take k (drop 28 data)"
    by (simp_all add: image_frame_def nth_append)
qed


definition sample_frame :: bytes where
  "sample_frame = [0x45, 0, 1, 0x0C, 0, 0, 0, 0, 64, 17, 0x79, 0xE2, 0, 0, 0, 0, 0, 0, 0, 0, 0, 67, 0, 68, 0, 248, 0, 0]
     @ replicate 236 0 @ [0x63, 0x82, 0x53, 0x63]"

lemma sample_frame_image:
  "image_frame (sample_frame @ zs) = \<lparr>ip_ihl = 5, ip_version = 4, ip_tos = 0, ip_tot_len = 0x0C01, ip_id = 0, ip_frag_off = 0, ip_ttl = 64,
     ip_protocol = 17, ip_check = 0xE279, ip_saddr = 0, ip_daddr = 0, udp_source = 0x4300, udp_dest = 0x4400, udp_len = 0xF800, udp_check = 0,
     ud_data = replicate 236 0 @ [0x63, 0x82, 0x53, 0x63] @ take 1780 zs\<rparr>"
  by (simp add: image_frame_def sample_frame_def u16_of_bytes_def)

lemma sample_frame_sum:
  "ip_image (image_frame (sample_frame @ zs)\<lparr>ip_check := 0\<rparr>) = [0x45, 0, 1, 0x0C, 0, 0, 0, 0, 64, 17, 0, 0, 0, 0, 0, 0, 0, 0, 0, 0]"
  unfolding sample_frame_image by (simp add: ip_image_def u16_bytes_def u32_bytes_def)


section \<open>Sent frames\<close>

lemma words_total_even: "even (length xs) \<Longrightarrow> words_total junk (xs @ ys) = words_total junk xs + words_total junk ys"
  by (induction junk xs rule: words_total.induct) auto

lemma words_total_junk: "even (length xs) \<Longrightarrow> words_total junk xs = words_total 0 xs"
  by (induction junk xs rule: words_total.induct) auto

lemma words_total_zeros: "words_total 0 (replicate n 0) = 0"
proof -
  have "list_all (\<lambda>b. b = 0) xs \<Longrightarrow> words_total 0 xs = 0" for xs
    by (induction "0 :: u8" xs rule: words_total.induct) simp_all
  then show ?thesis by (simp add: list_all_iff)
qed

lemma words_total_pad: "words_total 0 (xs @ replicate n 0) = words_total 0 xs"
proof (induction "0 :: u8" xs rule: words_total.induct)
  case (2 a)
  then show ?case by (cases n) (simp_all add: words_total_zeros)
qed (simp_all add: words_total_zeros)

lemma words_total_u16: "words_total junk (u16_bytes w @ xs) = unat w + words_total junk xs"
proof -
  have "unat w = unat (u16_of_bytes (u16_bytes w))" by simp
  then show ?thesis by (simp add: u16_bytes_def unat_u16_of_bytes)
qed

text \<open>The sum that the header and the UDP segment of a frame with a given check field add up to.\<close>

lemma words_total_ip: "words_total 0 (ip_image (f\<lparr>ip_check := c\<rparr>)) = words_total 0 (ip_image (f\<lparr>ip_check := 0\<rparr>)) + unat c"
  by (simp add: ip_image_def words_total_u16)

definition udp_words :: "UdpDhcpPacket \<Rightarrow> nat" where
  "udp_words f = words_total 0 (u32_bytes (ip_saddr f) @ u32_bytes (ip_daddr f)) + 256 * 17 + unat (udp_len f)
     + unat (udp_source f) + unat (udp_dest f) + unat (udp_len f)"

lemma udp_sum_image:
  assumes "f = zero_frame\<lparr>udp_source := sp, udp_dest := dp, udp_len := l, ip_tot_len := l, ip_protocol := 17, ip_saddr := a, ip_daddr := b,
      ud_data := d\<rparr>"
  shows "words_total 0 (frame_image f) = udp_words f + words_total 0 d"
  by (simp add: assms frame_image_def ip_image_def zero_frame_def udp_words_def words_total_even words_total_u16)

text \<open>The frame before its checksums, and the segment that a receiver sums up: pseudo header and UDP segment.\<close>

definition plain_frame :: "DhcpPacket \<Rightarrow> u32 \<Rightarrow> u32 \<Rightarrow> nat \<Rightarrow> UdpDhcpPacket" where
  "plain_frame p a b n = zero_frame\<lparr>udp_source := htons 68, udp_dest := htons 67, udp_len := htons (of_nat (248 + n)),
     ip_tot_len := htons (of_nat (248 + n)), ip_protocol := 17, ip_saddr := a, ip_daddr := b, ud_data := packet_image p\<rparr>"

definition udp_segment :: "bytes \<Rightarrow> bytes" where
  "udp_segment out = take 8 (drop 12 out) @ [0, 17] @ take 2 (drop 24 out) @ drop 20 out"

lemma raw_frame_eq:
  obtains c d where "raw_frame junk p a b n = (plain_frame p a b n)\<lparr>udp_check := c, ip_ihl := 5, ip_version := 4,
      ip_tot_len := htons (of_nat (268 + n)), ip_ttl := 64, ip_check := d\<rparr>"
    and "c = GetCheckSum junk (frame_image (plain_frame p a b n))"
    and "d = GetCheckSum junk (ip_image ((raw_frame junk p a b n)\<lparr>ip_check := 0\<rparr>))"
proof -
  define c where "c = GetCheckSum junk (frame_image (plain_frame p a b n))"
  define g where "g = (plain_frame p a b n)\<lparr>udp_check := c, ip_ihl := 5, ip_version := 4, ip_tot_len := htons (of_nat (268 + n)), ip_ttl := 64\<rparr>"
  have f: "raw_frame junk p a b n = g\<lparr>ip_check := GetCheckSum junk (ip_image g)\<rparr>"
    by (simp add: raw_frame_def plain_frame_def g_def c_def Let_def)
  have "g\<lparr>ip_check := 0\<rparr> = g" by (simp add: g_def plain_frame_def zero_frame_def)
  then have d: "GetCheckSum junk (ip_image g) = GetCheckSum junk (ip_image ((raw_frame junk p a b n)\<lparr>ip_check := 0\<rparr>))" by (simp add: f)
  show thesis by (rule that [OF _ c_def d]) (simp only: f, simp add: g_def)
qed

lemma raw_frame_data: "ud_data (raw_frame junk p a b n) = packet_image p"
  by (simp add: raw_frame_def Let_def)

lemma raw_frame_ip_sum: "ones_sum (words_total 0 (ip_image (raw_frame junk p a b n))) = 65535"
proof -
  obtain c d where f: "raw_frame junk p a b n = (plain_frame p a b n)\<lparr>udp_check := c, ip_ihl := 5, ip_version := 4,
      ip_tot_len := htons (of_nat (268 + n)), ip_ttl := 64, ip_check := d\<rparr>"
    and d: "d = GetCheckSum junk (ip_image ((raw_frame junk p a b n)\<lparr>ip_check := 0\<rparr>))"
    by (rule raw_frame_eq)
  let ?h = "ip_image ((raw_frame junk p a b n)\<lparr>ip_check := 0\<rparr>)"
  have "(raw_frame junk p a b n)\<lparr>ip_check := d\<rparr> = raw_frame junk p a b n" by (simp add: f)
  then have "words_total 0 (ip_image (raw_frame junk p a b n)) = words_total 0 ?h + unat d"
    using words_total_ip [where f = "raw_frame junk p a b n" and c = d] by simp
  moreover have "unat d = 65535 - ones_sum (words_total 0 ?h)"
    unfolding d by (subst unat_GetCheckSum) (simp_all add: words_total_junk [of ?h junk])
  ultimately show ?thesis by (simp add: ones_sum_complement)
qed

lemma raw_frame_udp_sum:
  assumes "length (packet_image p) = 2020" "packet_image p = pl @ replicate k 0"
  shows "ones_sum (words_total 0 (udp_segment (take (28 + length pl) (frame_image (raw_frame junk p a b n))))) = 65535"
proof -
  let ?f = "raw_frame junk p a b n" and ?g = "plain_frame p a b n"
  obtain c d where f: "?f = ?g\<lparr>udp_check := c, ip_ihl := 5, ip_version := 4, ip_tot_len := htons (of_nat (268 + n)), ip_ttl := 64, ip_check := d\<rparr>"
    and c: "c = GetCheckSum junk (frame_image ?g)"
    by (rule raw_frame_eq)
  have data: "ud_data ?f = pl @ replicate k 0" "ud_data ?g = pl @ replicate k 0" by (simp_all add: f plain_frame_def assms(2))
  have hdr: "ip_saddr ?f = ip_saddr ?g" "ip_daddr ?f = ip_daddr ?g" "udp_source ?f = udp_source ?g" "udp_dest ?f = udp_dest ?g"
    "udp_len ?f = udp_len ?g" "udp_check ?f = c" by (simp_all add: f)
  have img: "take (28 + length pl) (frame_image ?f) = ip_image ?f @ u16_bytes (udp_source ?g) @ u16_bytes (udp_dest ?g)
      @ u16_bytes (udp_len ?g) @ u16_bytes c @ pl"
    by (simp add: frame_image_def data hdr)
  have addr: "take 8 (drop 12 (ip_image ?f)) = u32_bytes (ip_saddr ?g) @ u32_bytes (ip_daddr ?g)"
    by (simp add: ip_image_def hdr)
  have seg: "udp_segment (take (28 + length pl) (frame_image ?f)) = (u32_bytes (ip_saddr ?g) @ u32_bytes (ip_daddr ?g)) @ [0, 17]
      @ u16_bytes (udp_len ?g) @ u16_bytes (udp_source ?g) @ u16_bytes (udp_dest ?g) @ u16_bytes (udp_len ?g) @ u16_bytes c @ pl"
    unfolding img udp_segment_def by (simp add: addr)
  have "words_total 0 (udp_segment (take (28 + length pl) (frame_image ?f))) = udp_words ?g + words_total 0 pl + unat c"
    unfolding seg by (subst words_total_even) (simp_all add: words_total_u16 udp_words_def)
  also have "udp_words ?g + words_total 0 pl = words_total 0 (frame_image ?g)"
    using udp_sum_image [OF plain_frame_def, of p a b n] by (simp add: assms(2) words_total_pad)
  finally have "words_total 0 (udp_segment (take (28 + length pl) (frame_image ?f))) = words_total 0 (frame_image ?g) + unat c" .
  moreover have "length (frame_image ?g) = 2048" using assms(1) by (simp add: plain_frame_def)
  then have "unat c = 65535 - ones_sum (words_total 0 (frame_image ?g))"
    unfolding c by (subst unat_GetCheckSum) (simp_all add: words_total_junk [of "frame_image ?g" junk] del: length_frame_image)
  ultimately show ?thesis by (simp add: ones_sum_complement)
qed

lemma packet_image_with_opts:
  "packet_image (with_opts os p) = take 240 (packet_image (with_opts os p)) @ area os @ END_OPTION # replicate (DHCP_OPT_SIZE - 1 - length (area os)) 0"
  if "packet_wf p" "length (area os) < DHCP_OPT_SIZE"
  using that by (simp add: packet_image_def with_opts_def packet_wf_def)

text \<open>The frame of a packet that the client built.\<close>

lemma raw_frame_sent:
  assumes "packet_wf p" "opts_fit 2 os" "q = with_opts os p"
  shows "\<exists>out. SendToDhcpPacket_raw junk True True sendto q a b =
        Some (if sendto out \<le> 0 then SOCKET_OPT_FAILED else SOCKET_OPT_SUCCESS, Some out)
    \<and> length out = 270 + length (area os) \<and> drop 28 out = take (242 + length (area os)) (packet_image q)
    \<and> ones_sum (words_total 0 (take 20 out)) = 65535 \<and> ones_sum (words_total 0 (udp_segment out)) = 65535"
proof -
  let ?n = "length (area os)" and ?f = "raw_frame junk q a b (length (area os) + 2)"
  let ?out = "take (270 + ?n) (frame_image ?f)" and ?pl = "take (242 + ?n) (packet_image q)"
  have n: "?n \<le> 1777" and ok: "list_all copt_ok os" using assms(2) by (simp_all add: opts_fit_def)
  have wf: "length (packet_image q) = 2020"
    using assms(1) n by (simp add: assms(3) packet_image_def with_opts_def packet_wf_def)
  have "DHCP_OPT_SIZE - 1 - ?n = Suc (1778 - ?n)" using n by linarith
  then have zeros: "replicate (DHCP_OPT_SIZE - 1 - ?n) (0 :: u8) = 0 # replicate (1778 - ?n) 0" by (simp only: replicate_Suc)
  have img: "packet_image q = take 240 (packet_image q) @ area os @ END_OPTION # 0 # replicate (1778 - ?n) 0"
    using packet_image_with_opts [OF assms(1), of os, unfolded zeros] n by (simp only: assms(3))
  have "?pl = take 240 (packet_image q) @ area os @ [END_OPTION, 0]"
    by (subst img) (simp add: wf)
  with img have pl: "packet_image q = ?pl @ replicate (1778 - ?n) 0" by simp
  have len: "length ?pl = 242 + ?n" using wf n by simp
  have "GetEndOptionIndex (dp_options q) = Some ?n"
    using GetEndOptionIndex_area [OF ok] by (simp add: assms(3) dp_options_with_opts)
  then have "SendToDhcpPacket_raw junk True True sendto q a b = Some (if sendto ?out \<le> 0 then SOCKET_OPT_FAILED else SOCKET_OPT_SUCCESS, Some ?out)"
    using n by (simp add: SendToDhcpPacket_raw_def Let_def add.assoc)
  moreover have "ud_data ?f = packet_image q" by (rule raw_frame_data)
  then have "drop 28 ?out = ?pl" "length ?out = 270 + ?n" "take 20 ?out = ip_image ?f"
    using wf n by (simp_all add: drop_take) (simp_all add: frame_image_def)
  moreover have "ones_sum (words_total 0 (udp_segment (take (28 + length ?pl) (frame_image ?f)))) = 65535"
    by (rule raw_frame_udp_sum [OF wf pl])
  ultimately show ?thesis using raw_frame_ip_sum [of junk q a b "?n + 2"] len by (intro exI [of _ ?out]) simp
qed

text \<open>C37: A packet that the client built is handed to the kernel as one frame that ends right behind the end option and one
  more zero byte; behind the IP and UDP headers are the bytes of the packet, and both checksums are right: the 16-bit words
  of the IP header, and those of the UDP segment with its pseudo header, add up to all ones in one's complement. The
  return value tells whether the kernel took it.\<close>

theorem sent_frame_valid:
  assumes "packet_wf p" "opts_fit 2 os" "q = with_opts os p"
  shows "\<exists>out. SendToDhcpPacket_raw junk True True sendto q a b =
        Some (if sendto out \<le> 0 then SOCKET_OPT_FAILED else SOCKET_OPT_SUCCESS, Some out)
    \<and> length out = 270 + length (area os) \<and> drop 28 out = take (242 + length (area os)) (packet_image q)
    \<and> ones_sum (words_total 0 (take 20 out)) = 65535 \<and> ones_sum (words_total 0 (udp_segment out)) = 65535"
  by (rule raw_frame_sent [OF assms])

theorem sent_frame_valid_witness:
  "\<exists>out. SendToDhcpPacket_raw 7 True True (\<lambda>bs. int (length bs)) (with_opts [(53, [1])] zero_packet) 0 0xFFFFFFFF = Some (SOCKET_OPT_SUCCESS, Some out)
    \<and> length out = 273"
proof -
  have "packet_wf zero_packet" by (simp add: packet_wf_def zero_packet_def)
  moreover have "opts_fit 2 [(53, [1])]" by (simp add: opts_fit_def copt_ok_def)
  ultimately show ?thesis using sent_frame_valid [OF _ _ refl, where p = zero_packet and os = "[(53, [1])]" and junk = 7
        and sendto = "\<lambda>bs. int (length bs)" and a = 0 and b = "0xFFFFFFFF"] by fastforce
qed

text \<open>An odd number of bytes is summed with an uninitialised byte: the checksum of a datagram of odd length depends on
  what the stack holds.\<close>

lemma odd_checksum_undetermined: "GetCheckSum 0 [1] \<noteq> GetCheckSum 1 [1]"
  by code_simp

end
