(* ===== verification/DhcpExchange.thy ===== *)
theory DhcpExchange
  imports DhcpClientProps DhcpSocket DhcpServerBehaviour
begin

text \<open>
  Client and server of the repository together: the discover packet of the client, framed by its socket code and delivered
  as a datagram, is received and understood by the server. The only thing between the two is the network, which
  delivers the UDP payload of the frame.
\<close>

section \<open>A packet of the client as a message of the server\<close>

text \<open>An option of the client as the server stores it.\<close>

definition server_option :: "u8 \<times> bytes \<Rightarrow> DhcpOption" where
  "server_option x = mk_option (fst x) (of_nat (length (snd x))) (snd x)"

definition plain_opt :: "u8 \<times> bytes \<Rightarrow> bool" where
  "plain_opt x \<longleftrightarrow> fst x \<notin> {PAD_OPTION, TIME_OFFSET_OPTION, END_OPTION} \<and> snd x \<noteq> [] \<and> length (snd x) \<le> 253"

lemma server_option_wire:
  assumes "plain_opt x"
  shows "option_wire (server_option x) = optw x" "plain_option (server_option x)" "stored_option (server_option x) = server_option x"
proof -
  have len: "unat (of_nat (length (snd x)) :: u8) = length (snd x)"
    using assms by (simp add: plain_opt_def unat_of_nat_u8)
  then have pay: "opt_payload (server_option x) = snd x"
    using assms by (simp add: opt_payload_def server_option_def mk_option_def)
  then show "option_wire (server_option x) = optw x"
    by (simp add: option_wire_def optw_def) (simp add: server_option_def mk_option_def)
  show "stored_option (server_option x) = server_option x"
    using pay by (simp add: stored_option_def) (simp add: server_option_def mk_option_def)
  have "(of_nat (length (snd x)) :: u8) \<noteq> 0" "(of_nat (length (snd x)) :: u8) \<le> 253"
    using assms len by (auto simp: plain_opt_def word_le_nat_alt simp flip: unsigned_eq_0_iff)
  then show "plain_option (server_option x)"
    using assms by (simp add: plain_option_def plain_opt_def server_option_def) (simp add: mk_option_def)
qed

lemma area_wire: "list_all plain_opt os \<Longrightarrow> area os = concat (map option_wire (map server_option os))"
  by (induction os) (simp_all add: server_option_wire)

lemma magic_bytes: "u32_bytes (htonl 0x63825363) = MAGIC_COOKIE_DATA"
  unfolding MAGIC_COOKIE_DATA_def by code_simp

lemma length_magic: "length MAGIC_COOKIE_DATA = 4"
  by (simp add: MAGIC_COOKIE_DATA_def)

text \<open>The first 236 bytes of a packet of the client and of a message of the server have the same layout.\<close>

lemma image_msg_packet:
  assumes "packet_wf p" "bs = take n (packet_image p) @ rest" "240 \<le> n"
  shows "dm_op (image_msg bs) = dp_op p" "dm_hlen (image_msg bs) = dp_hlen p" "dm_xid (image_msg bs) = dp_xid p"
    "dm_chaddr (image_msg bs) = dp_chaddr p" "dm_ciaddr (image_msg bs) = dp_ciaddr p" "dm_giaddr (image_msg bs) = dp_giaddr p"
proof -
  let ?h = "[dp_op p, dp_htype p, dp_hlen p, dp_hops p] @ u32_bytes (dp_xid p) @ u16_bytes (dp_secs p) @
     u16_bytes (dp_flags p) @ u32_bytes (dp_ciaddr p) @ u32_bytes (dp_yiaddr p) @ u32_bytes (dp_siaddr p) @
     u32_bytes (dp_giaddr p) @ dp_chaddr p @ dp_sname p @ dp_file p @ u32_bytes (dp_cookie p)"
  have len: "length ?h = 240" using assms(1) by (simp add: packet_wf_def)
  have "packet_image p = ?h @ dp_options p" by (simp add: packet_image_def)
  then have "bs = ?h @ take (n - 240) (dp_options p) @ rest" using assms(2,3) len by (simp only: take_append) simp
  then show "dm_op (image_msg bs) = dp_op p" "dm_hlen (image_msg bs) = dp_hlen p" "dm_xid (image_msg bs) = dp_xid p"
    "dm_chaddr (image_msg bs) = dp_chaddr p" "dm_ciaddr (image_msg bs) = dp_ciaddr p" "dm_giaddr (image_msg bs) = dp_giaddr p"
    using assms(1) by (simp_all add: image_msg_def packet_wf_def)
qed

lemma options_of_payload:
  assumes "packet_wf p" "dp_cookie p = htonl 0x63825363" "length (area os) < 300"
    and "bs = take (242 + length (area os)) (packet_image (with_opts os p)) @ rest" "length bs = 548"
  shows "\<exists>tail. dm_options (image_msg bs) = MAGIC_COOKIE_DATA @ area os @ END_OPTION # tail"
proof -
  let ?q = "with_opts os p" and ?n = "length (area os)"
  have len: "length (packet_image ?q) = 2020"
    using assms(1,3) by (intro length_packet_image) (simp add: packet_wf_def with_opts_def)
  have "drop 236 (packet_image ?q) = u32_bytes (dp_cookie p) @ dp_options ?q"
    using assms(1) by (simp add: packet_image_def packet_wf_def with_opts_def)
  then have body: "drop 236 (packet_image ?q) = MAGIC_COOKIE_DATA @ area os @ END_OPTION # replicate (1779 - ?n) 0"
    by (simp add: assms(2) magic_bytes dp_options_with_opts)
  have "drop 236 bs = take (6 + ?n) (drop 236 (packet_image ?q)) @ rest"
    using assms(4) len assms(3) by (simp add: drop_take)
  then have "drop 236 bs = MAGIC_COOKIE_DATA @ area os @ END_OPTION # take 1 (replicate (1779 - ?n) 0) @ rest"
    by (simp add: body length_magic)
  moreover have "dm_options (image_msg bs) = drop 236 bs" using assms(5) by (simp add: image_msg_def)
  ultimately show ?thesis by auto
qed

text \<open>A datagram with a packet of the client is received, and its options are read.\<close>

lemma server_receives:
  assumes "packet_wf p" "dp_op p = 1" "dp_hlen p = 6" "dp_cookie p = htonl 0x63825363" "\<not> IsEmptyHWAddr (dp_chaddr p)"
    and "list_all plain_opt os" "length (area os) < 245"
    and "data = take (242 + length (area os)) (packet_image (with_opts os p))"
    and "msg_wf (mi_packet m)" "mi_options m = Some []" "g' = (ResetSourceAddr g)\<lparr>g_sourceIpAddr := src\<rparr>" "\<not> IsReserved (dp_chaddr p) g'"
  shows "\<exists>m'. ReceiveDhcpMessage (RecvDatagram src data) m g = (RET_SUCCESS, m', g')
    \<and> dm_xid (mi_packet m') = dp_xid p \<and> dm_chaddr (mi_packet m') = dp_chaddr p
    \<and> ParseMessageOptions m' = (RET_SUCCESS, m'\<lparr>mi_options := Some (map server_option os)\<rparr>)"
proof -
  let ?n = "length (area os)" and ?q = "with_opts os p"
  have wf: "packet_wf ?q" using assms(1,7) by (simp add: packet_wf_def with_opts_def)
  have len: "length data = 242 + ?n" using length_packet_image [OF wf] assms(7,8) by simp
  then have ne: "data \<noteq> []" by auto
  define bs where "bs = data @ drop (242 + ?n) (msg_image (mi_packet m))"
  have lbs: "length bs = 548" using len assms(7) length_msg_image [OF assms(9)] by (simp add: bs_def)
  note bs = bs_def [unfolded assms(8)]
  have f: "dp_op ?q = 1" "dp_hlen ?q = 6" "dp_chaddr ?q = dp_chaddr p" "dp_xid ?q = dp_xid p"
    using assms(2,3) by (simp_all add: with_opts_def)
  note fields = image_msg_packet [OF wf bs, unfolded f, simplified]
  define m' where "m' = m\<lparr>mi_length := 242 + ?n, mi_packet := image_msg bs\<rparr>"
  have recv: "ReceiveDhcpMessage (RecvDatagram src data) m g = (RET_SUCCESS, m', g')"
    using assms(5,7,11,12) len ne fields by (simp add: ReceiveDhcpMessage_def Let_def m'_def bs_def)
  obtain tail where opts: "dm_options (image_msg bs) = MAGIC_COOKIE_DATA @ area os @ END_OPTION # tail"
    using options_of_payload [OF assms(1,4) _ bs lbs] assms(7) by auto
  let ?xs = "map server_option os"
  have plain: "list_all plain_option ?xs" "map stored_option ?xs = ?xs"
    using assms(6) by (induction os) (simp_all add: server_option_wire)
  have aw: "concat (map (option_wire \<circ> server_option) os) = area os" using area_wire [OF assms(6)] by simp
  have "ParseMessageOptions_loop (dm_options (mi_packet m') @ u32_bytes (of_nat (mi_length m'))) (mi_length m' - 234) 4 8 (Some [])
      = (RET_SUCCESS, Some ([] @ map stored_option ?xs))"
    using assms(7) opts plain
    by (intro ParseMessageOptions_loop_wire [where rest = "tail @ u32_bytes (of_nat (mi_length m'))"])
      (simp_all add: m'_def MAGIC_COOKIE_DATA_def aw)
  then have "ParseMessageOptions m' = (RET_SUCCESS, m'\<lparr>mi_options := Some ?xs\<rparr>)"
    using assms(10) opts plain by (simp add: ParseMessageOptions_def Let_def MAGIC_COOKIE_DATA_def m'_def)
  then show ?thesis using recv fields by (auto simp: m'_def)
qed

section \<open>A discover reaches the server\<close>

abbreviation (input) discover_opts :: "Env \<Rightarrow> Client \<Rightarrow> (u8 \<times> bytes) list" where
  "discover_opts E s \<equiv> client_opts E DHCPDISCOVER s @ [max_size_opt, (55, arrReqCode)]"

lemma plain_discover_opts:
  assumes "length (c_ifaceMac s) = 6" "en_model E \<noteq> []"
  shows "list_all plain_opt (discover_opts E s)" "length (area (discover_opts E s)) < 200"
    "opts_fit 2 (discover_opts E s)"
  using assms host_opts_fit(1) [of "en_vendor E" "en_model E"] client_opts_fit [OF assms(1), of 30 E DHCPDISCOVER]
  by (auto simp: client_opts_def plain_opt_def host_opts_def char_bytes_def max_size_opt_def u16_bytes_def arrReqCode_def opts_fit_def copt_ok_def)

lemma client_packet_header:
  assumes "length (c_ifaceMac s) = 6"
  shows "dp_op (client_packet E x s) = 1" "dp_hlen (client_packet E x s) = 6" "dp_cookie (client_packet E x s) = htonl 0x63825363"
    "dp_chaddr (client_packet E x s) = c_ifaceMac s @ replicate 10 0" "dp_xid (client_packet E x s) = x"
  using assms by (simp_all add: client_packet_def set_chaddr_def header_packet_def zero_packet_def memcpy_s_def)

lemma IsEmptyHWAddr_mac: "length mac = 6 \<Longrightarrow> IsEmptyHWAddr (mac @ rest) \<longleftrightarrow> mac = replicate 6 0"
  by (auto simp: IsEmptyHWAddr_def list_all_iff list_eq_iff_nth_eq nth_append)

text \<open>C31: The discover that a client broadcasts is a frame whose UDP payload a server accepts, whatever the server's message
  buffer held before: the transaction id and the hardware address are those of the client, the server's loop goes on to
  answer it as a discover, and the options it has read are exactly those the client wrote. The client's model name is not
  empty, and its address not reserved.\<close>

theorem discover_reaches_server:
  assumes "length (c_ifaceMac s) = 6" "c_ifaceMac s \<noteq> replicate 6 0" "en_model E \<noteq> []"
    and "msg_wf (mi_packet m)" "mi_options m = Some []"
    and "g' = (ResetSourceAddr g)\<lparr>g_sourceIpAddr := src\<rparr>" "\<not> IsReserved (c_ifaceMac s @ replicate 10 0) g'"
  shows "\<exists>q out m' m''. DhcpDiscover E x r s = note_event (SentBroadcast q INADDR_ANY INADDR_BROADCAST (c_ifaceIndex s)) (clocked E s)
    \<and> SendToDhcpPacket_raw junk True True (\<lambda>bs. int (length bs)) q INADDR_ANY INADDR_BROADCAST = Some (SOCKET_OPT_SUCCESS, Some out)
    \<and> ReceiveDhcpMessage (RecvDatagram src (drop 28 out)) m g = (RET_SUCCESS, m', g')
    \<and> dm_xid (mi_packet m') = x \<and> dm_chaddr (mi_packet m') = c_ifaceMac s @ replicate 10 0
    \<and> ContinueReceive m' RET_SUCCESS = (False, m'') \<and> mi_packet m'' = mi_packet m'
    \<and> opts_get (mi_options m'') DHCP_MESSAGE_TYPE_OPTION = Some (mk_option DHCP_MESSAGE_TYPE_OPTION 1 [DHCPDISCOVER])
    \<and> opts_list (mi_options m'') = map server_option (discover_opts E s)"
proof -
  let ?os = "discover_opts E s" and ?p = "client_packet E x s"
  note plain = plain_discover_opts [OF assms(1,3)]
  note header = client_packet_header [OF assms(1), of E x]
  obtain out where out: "SendToDhcpPacket_raw junk True True (\<lambda>bs. int (length bs)) (with_opts ?os ?p) INADDR_ANY INADDR_BROADCAST
      = Some (SOCKET_OPT_SUCCESS, Some out)"
    "drop 28 out = take (242 + length (area ?os)) (packet_image (with_opts ?os ?p))"
    using raw_frame_sent [OF packet_wf_client_packet [OF assms(1)] plain(3) refl, of junk "\<lambda>bs. int (length bs)"] by fastforce
  have "\<not> IsEmptyHWAddr (dp_chaddr ?p)" "\<not> IsReserved (dp_chaddr ?p) g'"
    using assms(1,2,7) by (simp_all add: header IsEmptyHWAddr_mac)
  then obtain m' where m': "ReceiveDhcpMessage (RecvDatagram src (drop 28 out)) m g = (RET_SUCCESS, m', g')"
    "dm_xid (mi_packet m') = x" "dm_chaddr (mi_packet m') = c_ifaceMac s @ replicate 10 0"
    "ParseMessageOptions m' = (RET_SUCCESS, m'\<lparr>mi_options := Some (map server_option ?os)\<rparr>)"
    using server_receives [OF packet_wf_client_packet [OF assms(1)] header(1-3) _ plain(1) _ out(2) assms(4-6)] plain(2) header
    by auto
  have get: "opts_get (Some (map server_option ?os)) DHCP_MESSAGE_TYPE_OPTION = Some (mk_option DHCP_MESSAGE_TYPE_OPTION 1 [DHCPDISCOVER])"
    by (simp add: opts_get_def client_opts_def server_option_def mk_option_def)
  then have "ContinueReceive m' RET_SUCCESS = (False, m'\<lparr>mi_options := Some (map server_option ?os)\<rparr>)"
    by (simp add: ContinueReceive_def m'(4) del: map_append)
  then show ?thesis using DhcpDiscover_sends [OF assms(1)] out(1) m'(1-3) get
    by (intro exI conjI) (assumption | simp add: opts_list_def)+
qed

theorem discover_reaches_server_witness:
  "\<exists>q out m' m''. DhcpDiscover quiet_env 7 0 fresh_client
        = note_event (SentBroadcast q INADDR_ANY INADDR_BROADCAST (c_ifaceIndex fresh_client)) (clocked quiet_env fresh_client)
    \<and> SendToDhcpPacket_raw 0 True True (\<lambda>bs. int (length bs)) q INADDR_ANY INADDR_BROADCAST = Some (SOCKET_OPT_SUCCESS, Some out)
    \<and> fst (ReceiveDhcpMessage (RecvDatagram 0 (drop 28 out)) (client_msg sample_mac []) sample_globals) = RET_SUCCESS
    \<and> dm_chaddr (mi_packet m') = [2, 0, 0, 0, 0, 1] @ replicate 10 0 \<and> ContinueReceive m' RET_SUCCESS = (False, m'')"
proof -
  let ?g = "(ResetSourceAddr sample_globals)\<lparr>g_sourceIpAddr := 0\<rparr>"
  have mac: "c_ifaceMac fresh_client = [2, 0, 0, 0, 0, 1]" and model: "en_model quiet_env \<noteq> []"
    by (simp_all add: fresh_client_def new_client_def quiet_env_def)
  have wf: "msg_wf (mi_packet (client_msg sample_mac []))" "mi_options (client_msg sample_mac []) = Some []"
    by (simp_all add: client_msg_def msg_wf_def image_msg_def sample_mac_def)
  have mac': "length (c_ifaceMac fresh_client) = 6" "c_ifaceMac fresh_client \<noteq> replicate 6 0"
    by (simp_all add: mac numeral_eq_Suc)
  have "\<not> IsReserved (c_ifaceMac fresh_client @ replicate 10 0) ?g"
    by (simp add: IsReserved_def ResetSourceAddr_def SourceAddrIn_def sample_globals_def)
  from discover_reaches_server [OF mac' model wf refl this, of 7 0 0] show ?thesis
    unfolding mac by (elim exE conjE, intro exI conjI) (assumption | simp)+
qed

end
