(* ===== verification/DhcpV6Message.thy ===== *)
theory DhcpV6Message
  imports DhcpPrelude
begin

unbundle bit_operations_syntax

text \<open>
  The messages of the DHCPv6 client (\<^verbatim>\<open>dhcp_v6_message.cpp\<close>): how they are built from options and how advertises and
  replies are read. The DUID strings hold arbitrary bytes and are byte lists here, the texts of addresses are strings.
  \<open>pton6\<close> and \<open>ntop6\<close> are \<^verbatim>\<open>inet_pton\<close> and \<^verbatim>\<open>inet_ntop\<close> for \<^verbatim>\<open>AF_INET6\<close>: the sixteen bytes of a text, and the text of sixteen
  bytes, where the call succeeds. The values of \<^verbatim>\<open>GenerateTransactionId\<close> and of \<^verbatim>\<open>GenerateDuid\<close> without an interface are
  drawn from the random source and the clock; the operations that use them take them as arguments.
\<close>

abbreviation (input) SOLICIT :: u8 where "SOLICIT \<equiv> 1"
abbreviation (input) ADVERTISE :: u8 where "ADVERTISE \<equiv> 2"
abbreviation (input) REQUEST :: u8 where "REQUEST \<equiv> 3"
abbreviation (input) RENEW :: u8 where "RENEW \<equiv> 5"
abbreviation (input) REBIND :: u8 where "REBIND \<equiv> 6"
abbreviation (input) REPLY :: u8 where "REPLY \<equiv> 7"
abbreviation (input) RELEASE :: u8 where "RELEASE \<equiv> 8"
abbreviation (input) DECLINE :: u8 where "DECLINE \<equiv> 9"
abbreviation (input) INFORMATION_REQUEST :: u8 where "INFORMATION_REQUEST \<equiv> 11"
abbreviation (input) RELAY_REPL :: u8 where "RELAY_REPL \<equiv> 13"

abbreviation (input) OPTION_CLIENTID :: u16 where "OPTION_CLIENTID \<equiv> 1"
abbreviation (input) OPTION_SERVERID :: u16 where "OPTION_SERVERID \<equiv> 2"
abbreviation (input) OPTION_IA_NA :: u16 where "OPTION_IA_NA \<equiv> 3"
abbreviation (input) OPTION_IAADDR :: u16 where "OPTION_IAADDR \<equiv> 5"
abbreviation (input) OPTION_ORO :: u16 where "OPTION_ORO \<equiv> 6"
abbreviation (input) OPTION_PREFERENCE :: u16 where "OPTION_PREFERENCE \<equiv> 7"
abbreviation (input) OPTION_ELAPSED_TIME :: u16 where "OPTION_ELAPSED_TIME \<equiv> 8"
abbreviation (input) OPTION_STATUS_CODE :: u16 where "OPTION_STATUS_CODE \<equiv> 13"
abbreviation (input) OPTION_DNS_SERVERS :: u16 where "OPTION_DNS_SERVERS \<equiv> 23"
abbreviation (input) OPTION_DOMAIN_LIST :: u16 where "OPTION_DOMAIN_LIST \<equiv> 24"

abbreviation (input) STATUS_SUCCESS :: u16 where "STATUS_SUCCESS \<equiv> 0"
abbreviation (input) STATUS_UNSPEC_FAIL :: u16 where "STATUS_UNSPEC_FAIL \<equiv> 1"
abbreviation (input) DHCPV6_DEFAULT_IAID :: u32 where "DHCPV6_DEFAULT_IAID \<equiv> 1"

record DhcpV6Config =
  v6_clientId :: bytes
  v6_serverId :: bytes
  v6_transactionId :: u32
  v6_requestedOptions :: "u16 list"
  v6_stateless :: bool
  v6_ipv6Addresses :: "string list"
  v6_preferredLifetime :: u32
  v6_validLifetime :: u32

record DhcpV6Advertise =
  adv_serverId :: bytes
  adv_preference :: u8
  adv_ipv6Addresses :: "string list"
  adv_iaid :: u32
  adv_t1 :: u32
  adv_t2 :: u32
  adv_preferredLifetime :: u32
  adv_validLifetime :: u32
  adv_dnsServers :: "string list"
  adv_statusCode :: u16
  adv_statusMessage :: bytes

definition zero_advertise :: DhcpV6Advertise where
  "zero_advertise = \<lparr>adv_serverId = [], adv_preference = 0, adv_ipv6Addresses = [], adv_iaid = 0, adv_t1 = 0, adv_t2 = 0,
     adv_preferredLifetime = 0, adv_validLifetime = 0, adv_dnsServers = [], adv_statusCode = STATUS_SUCCESS, adv_statusMessage = []\<rparr>"

record DhcpV6Option =
  o6_code :: u16
  o6_length :: u16
  o6_data :: bytes

record DhcpV6MessageInfo =
  i6_msgType :: u8
  i6_transactionId :: u32
  i6_options :: "DhcpV6Option list"

section \<open>Numbers in network order\<close>

definition be16 :: "u8 \<Rightarrow> u8 \<Rightarrow> u16" where
  "be16 a b = push_bit 8 (ucast a) OR ucast b"

definition be16_image :: "u16 \<Rightarrow> bytes" where
  "be16_image w = [ucast (drop_bit 8 w), ucast w]"

definition be32_image :: "u32 \<Rightarrow> bytes" where
  "be32_image w = [ucast (drop_bit 24 w), ucast (drop_bit 16 w), ucast (drop_bit 8 w), ucast w]"

definition ParseUint32FromBytes :: "bytes \<Rightarrow> nat \<Rightarrow> u32" where
  "ParseUint32FromBytes data offset =
     (if offset + 4 > length data then 0
      else push_bit 24 (ucast (data ! offset)) OR push_bit 16 (ucast (data ! (offset + 1)))
           OR push_bit 8 (ucast (data ! (offset + 2))) OR ucast (data ! (offset + 3)))"

section \<open>Building options\<close>

definition BuildIdOption :: "u16 \<Rightarrow> bytes \<Rightarrow> DhcpV6Option" where
  "BuildIdOption code duid = \<lparr>o6_code = code, o6_length = of_nat (length duid), o6_data = duid\<rparr>"

definition BuildClientIdOption :: "bytes \<Rightarrow> DhcpV6Option" where
  "BuildClientIdOption duid = BuildIdOption OPTION_CLIENTID duid"

definition BuildServerIdOption :: "bytes \<Rightarrow> DhcpV6Option" where
  "BuildServerIdOption duid = BuildIdOption OPTION_SERVERID duid"

definition BuildIaNaOption :: "u32 \<Rightarrow> u32 \<Rightarrow> u32 \<Rightarrow> DhcpV6Option" where
  "BuildIaNaOption iaid t1 t2 =
     (let data = be32_image iaid @ be32_image t1 @ be32_image t2
      in \<lparr>o6_code = OPTION_IA_NA, o6_length = of_nat (length data), o6_data = data\<rparr>)"

text \<open>An address that \<^verbatim>\<open>inet_pton\<close> refuses leaves the sixteen zero bytes of the unspecified address.\<close>

definition BuildIaAddrOption :: "(string \<Rightarrow> bytes option) \<Rightarrow> string \<Rightarrow> u32 \<Rightarrow> u32 \<Rightarrow> DhcpV6Option" where
  "BuildIaAddrOption pton6 ipv6Addr preferredLifetime validLifetime =
     (let addr = (case pton6 ipv6Addr of Some a \<Rightarrow> a | None \<Rightarrow> replicate 16 0);
          data = addr @ be32_image preferredLifetime @ be32_image validLifetime
      in \<lparr>o6_code = OPTION_IAADDR, o6_length = of_nat (length data), o6_data = data\<rparr>)"

definition option6_image :: "DhcpV6Option \<Rightarrow> bytes" where
  "option6_image opt = be16_image (o6_code opt) @ be16_image (o6_length opt) @ o6_data opt"

definition BuildIaNaOptionWithAddresses ::
    "(string \<Rightarrow> bytes option) \<Rightarrow> u32 \<Rightarrow> u32 \<Rightarrow> u32 \<Rightarrow> string list \<Rightarrow> u32 \<Rightarrow> u32 \<Rightarrow> DhcpV6Option" where
  "BuildIaNaOptionWithAddresses pton6 iaid t1 t2 addresses preferredLifetime validLifetime =
     (let opt = BuildIaNaOption iaid t1 t2;
          data = foldl (\<lambda>d a. d @ option6_image (BuildIaAddrOption pton6 a preferredLifetime validLifetime)) (o6_data opt) addresses
      in opt\<lparr>o6_data := data, o6_length := of_nat (length data)\<rparr>)"

definition BuildElapsedTimeOption :: "u16 \<Rightarrow> DhcpV6Option" where
  "BuildElapsedTimeOption elapsedTime = \<lparr>o6_code = OPTION_ELAPSED_TIME, o6_length = 2, o6_data = be16_image elapsedTime\<rparr>"

definition BuildOptionRequestOption :: "u16 list \<Rightarrow> DhcpV6Option" where
  "BuildOptionRequestOption optionCodes =
     (let data = concat (map be16_image optionCodes)
      in \<lparr>o6_code = OPTION_ORO, o6_length = of_nat (length data), o6_data = data\<rparr>)"

section \<open>Building messages\<close>

definition BuildMessage :: "u8 \<Rightarrow> u32 \<Rightarrow> DhcpV6Option list \<Rightarrow> bytes" where
  "BuildMessage msgType transactionId options =
     [msgType, ucast (drop_bit 16 transactionId), ucast (drop_bit 8 transactionId), ucast transactionId]
     @ concat (map option6_image options)"

text \<open>\<open>duid\<close> and \<open>txid\<close> are the values that the generators give.\<close>

definition client_id_option :: "bytes \<Rightarrow> DhcpV6Config \<Rightarrow> DhcpV6Option" where
  "client_id_option duid config = BuildClientIdOption (if v6_clientId config = [] then duid else v6_clientId config)"

definition message_txid :: "u32 \<Rightarrow> DhcpV6Config \<Rightarrow> u32" where
  "message_txid txid config = (if v6_transactionId config \<noteq> 0 then v6_transactionId config else txid)"

definition BuildSolicitMessage :: "bytes \<Rightarrow> u32 \<Rightarrow> DhcpV6Config \<Rightarrow> bytes" where
  "BuildSolicitMessage duid txid config =
     BuildMessage SOLICIT (message_txid txid config)
       ([client_id_option duid config, BuildElapsedTimeOption 0]
        @ (if v6_stateless config then [] else [BuildIaNaOption DHCPV6_DEFAULT_IAID 0 0])
        @ [BuildOptionRequestOption [OPTION_DNS_SERVERS, OPTION_DOMAIN_LIST]])"

definition BuildRequestMessage :: "(string \<Rightarrow> bytes option) \<Rightarrow> bytes \<Rightarrow> u32 \<Rightarrow> DhcpV6Config \<Rightarrow> DhcpV6Advertise \<Rightarrow> bytes" where
  "BuildRequestMessage pton6 duid txid config advertise =
     BuildMessage REQUEST (message_txid txid config)
       [client_id_option duid config, BuildServerIdOption (adv_serverId advertise), BuildElapsedTimeOption 0,
        BuildIaNaOptionWithAddresses pton6 DHCPV6_DEFAULT_IAID (adv_t1 advertise) (adv_t2 advertise)
          (adv_ipv6Addresses advertise) (adv_preferredLifetime advertise) (adv_validLifetime advertise),
        BuildOptionRequestOption [OPTION_DNS_SERVERS, OPTION_DOMAIN_LIST]]"

definition BuildRenewMessage :: "(string \<Rightarrow> bytes option) \<Rightarrow> bytes \<Rightarrow> u32 \<Rightarrow> DhcpV6Config \<Rightarrow> bytes" where
  "BuildRenewMessage pton6 duid txid config =
     BuildMessage RENEW (message_txid txid config)
       [client_id_option duid config, BuildServerIdOption (v6_serverId config), BuildElapsedTimeOption 0,
        BuildIaNaOptionWithAddresses pton6 DHCPV6_DEFAULT_IAID 0 0 (v6_ipv6Addresses config)
          (v6_preferredLifetime config) (v6_validLifetime config)]"

definition BuildRebindMessage :: "(string \<Rightarrow> bytes option) \<Rightarrow> bytes \<Rightarrow> u32 \<Rightarrow> DhcpV6Config \<Rightarrow> bytes" where
  "BuildRebindMessage pton6 duid txid config =
     BuildMessage REBIND (message_txid txid config)
       [client_id_option duid config, BuildElapsedTimeOption 0,
        BuildIaNaOptionWithAddresses pton6 DHCPV6_DEFAULT_IAID 0 0 (v6_ipv6Addresses config)
          (v6_preferredLifetime config) (v6_validLifetime config)]"

definition BuildReleaseMessage :: "bytes \<Rightarrow> u32 \<Rightarrow> DhcpV6Config \<Rightarrow> bytes" where
  "BuildReleaseMessage duid txid config =
     BuildMessage RELEASE (message_txid txid config)
       [client_id_option duid config, BuildServerIdOption (v6_serverId config), BuildIaNaOption DHCPV6_DEFAULT_IAID 0 0]"

text \<open>A decline always draws a new transaction id.\<close>

definition BuildDeclineMessage :: "(string \<Rightarrow> bytes option) \<Rightarrow> bytes \<Rightarrow> u32 \<Rightarrow> DhcpV6Config \<Rightarrow> string list \<Rightarrow> bytes" where
  "BuildDeclineMessage pton6 duid txid config declinedAddrs =
     (let iaNaData = foldl (\<lambda>d a. d @ option6_image (BuildIaAddrOption pton6 a 0 0))
            [0, 0, 0, 1, 0, 0, 0, 0, 0, 0, 0, 0] declinedAddrs
      in BuildMessage DECLINE txid
           [client_id_option duid config, BuildServerIdOption (v6_serverId config),
            \<lparr>o6_code = OPTION_IA_NA, o6_length = of_nat (length iaNaData), o6_data = iaNaData\<rparr>])"

definition BuildInformationRequestMessage :: "bytes \<Rightarrow> u32 \<Rightarrow> DhcpV6Config \<Rightarrow> bytes" where
  "BuildInformationRequestMessage duid txid config =
     BuildMessage INFORMATION_REQUEST (message_txid txid config)
       [client_id_option duid config, BuildElapsedTimeOption 0,
        BuildOptionRequestOption [OPTION_DNS_SERVERS, OPTION_DOMAIN_LIST]]"

text \<open>\<open>getmac\<close>: the six bytes of the address of an interface as \<^verbatim>\<open>GetLocalMac\<close> and \<^verbatim>\<open>sscanf_s\<close> read it, if they do; \<open>now\<close>:
  the clock; \<open>rnd\<close>: the random bytes.\<close>

definition GenerateDuid :: "(string \<Rightarrow> bytes option) \<Rightarrow> u32 \<Rightarrow> bytes \<Rightarrow> string \<Rightarrow> bytes" where
  "GenerateDuid getmac now rnd iface =
     (let duid = 1 # be16_image 1 @ be32_image now
      in case (if iface \<noteq> [] then getmac iface else None) of
           Some macAddr \<Rightarrow> duid @ macAddr
         | None \<Rightarrow> duid @ rnd)"

section \<open>Reading a message\<close>

function ParseV6Message_loop :: "bytes \<Rightarrow> nat \<Rightarrow> DhcpV6Option list \<Rightarrow> bool \<times> DhcpV6Option list" where
  "ParseV6Message_loop data offset opts =
     (if offset + 4 \<le> length data then
        let code = be16 (data ! offset) (data ! (offset + 1));
            len = be16 (data ! (offset + 2)) (data ! (offset + 3));
            offset = offset + 4
        in if unat len > length data \<or> offset > length data - unat len then (False, opts)
           else ParseV6Message_loop data (offset + unat len)
                  (opts @ [\<lparr>o6_code = code, o6_length = len, o6_data = take (unat len) (drop offset data)\<rparr>])
      else (offset = length data, opts))"
  by auto
termination
  by (relation "measure (\<lambda>(data, offset, opts). length data - offset)") auto

declare ParseV6Message_loop.simps [simp del]

definition ParseV6Message :: "bytes \<Rightarrow> DhcpV6MessageInfo \<Rightarrow> bool \<times> DhcpV6MessageInfo" where
  "ParseV6Message data message =
     (if length data < 4 then (False, message)
      else if data ! 0 = 0 \<or> data ! 0 > RELAY_REPL then (False, message)
      else
        let message = message\<lparr>i6_msgType := data ! 0,
              i6_transactionId := push_bit 16 (ucast (data ! 1)) OR push_bit 8 (ucast (data ! 2)) OR ucast (data ! 3)\<rparr>;
            (ok, opts) = ParseV6Message_loop data 4 []
        in (ok, message\<lparr>i6_options := opts\<rparr>))"

section \<open>Reading options\<close>

text \<open>A DUID of more than 128 bytes is not stored.\<close>

definition ParseClientIdOption :: "DhcpV6Option \<Rightarrow> bytes \<Rightarrow> bool \<times> bytes" where
  "ParseClientIdOption opt duid = (if length (o6_data opt) > 128 then (False, duid) else (True, o6_data opt))"

definition ParseServerIdOption :: "DhcpV6Option \<Rightarrow> bytes \<Rightarrow> bool \<times> bytes" where
  "ParseServerIdOption opt duid = (if length (o6_data opt) > 128 then (False, duid) else (True, o6_data opt))"

definition UpdateMinLifetime :: "u32 \<Rightarrow> u32 \<Rightarrow> u32" where
  "UpdateMinLifetime current candidate = (if current = 0 \<or> candidate < current then candidate else current)"

definition ParseIaAddrOption ::
    "(bytes \<Rightarrow> string option) \<Rightarrow> DhcpV6Option \<Rightarrow> string \<times> u32 \<times> u32 \<Rightarrow> bool \<times> string \<times> u32 \<times> u32" where
  "ParseIaAddrOption ntop6 opt res =
     (if length (o6_data opt) < 24 then (False, res)
      else (True, (case ntop6 (take 16 (o6_data opt)) of Some a \<Rightarrow> a | None \<Rightarrow> fst res),
              ParseUint32FromBytes (o6_data opt) 16, ParseUint32FromBytes (o6_data opt) 20))"

function ParseIaNaSubOptions_loop ::
    "(bytes \<Rightarrow> string option) \<Rightarrow> bytes \<Rightarrow> nat \<Rightarrow> nat \<Rightarrow> DhcpV6Advertise \<Rightarrow> bool \<times> DhcpV6Advertise" where
  "ParseIaNaSubOptions_loop ntop6 data offset addrCount adv =
     (if offset + 4 \<le> length data then
        let subCode = be16 (data ! offset) (data ! (offset + 1));
            subLen = unat (be16 (data ! (offset + 2)) (data ! (offset + 3)));
            offset = offset + 4
        in if offset + subLen > length data then (False, adv)
           else if subCode = OPTION_IAADDR \<and> subLen \<ge> 24 then
             (if addrCount \<ge> 8 then (True, adv)
              else
                let iaaddrOpt = \<lparr>o6_code = OPTION_IAADDR, o6_length = of_nat subLen, o6_data = take subLen (drop offset data)\<rparr>;
                    (ok, ip, pref, valid) = ParseIaAddrOption ntop6 iaaddrOpt ([], 0, 0)
                in if ok
                   then ParseIaNaSubOptions_loop ntop6 data (offset + subLen) (addrCount + 1)
                          (adv\<lparr>adv_ipv6Addresses := adv_ipv6Addresses adv @ [ip],
                               adv_preferredLifetime := UpdateMinLifetime (adv_preferredLifetime adv) pref,
                               adv_validLifetime := UpdateMinLifetime (adv_validLifetime adv) valid\<rparr>)
                   else ParseIaNaSubOptions_loop ntop6 data (offset + subLen) addrCount adv)
           else ParseIaNaSubOptions_loop ntop6 data (offset + subLen) addrCount adv
      else (True, adv))"
  by auto
termination
  by (relation "measure (\<lambda>(ntop6, data, offset, n, adv). length data - offset)") auto

declare ParseIaNaSubOptions_loop.simps [simp del]

definition ParseIaNaSubOptions :: "(bytes \<Rightarrow> string option) \<Rightarrow> bytes \<Rightarrow> DhcpV6Advertise \<Rightarrow> bool \<times> DhcpV6Advertise" where
  "ParseIaNaSubOptions ntop6 data adv = ParseIaNaSubOptions_loop ntop6 data 12 0 adv"

definition ParseIaNaOption :: "(bytes \<Rightarrow> string option) \<Rightarrow> DhcpV6Option \<Rightarrow> DhcpV6Advertise \<Rightarrow> bool \<times> DhcpV6Advertise" where
  "ParseIaNaOption ntop6 opt adv =
     (if length (o6_data opt) < 12 then (False, adv)
      else ParseIaNaSubOptions ntop6 (o6_data opt)
             (adv\<lparr>adv_iaid := ParseUint32FromBytes (o6_data opt) 0, adv_t1 := ParseUint32FromBytes (o6_data opt) 4,
                  adv_t2 := ParseUint32FromBytes (o6_data opt) 8, adv_preferredLifetime := 0, adv_validLifetime := 0\<rparr>))"

function ParseDnsServersOption_loop :: "(bytes \<Rightarrow> string option) \<Rightarrow> bytes \<Rightarrow> nat \<Rightarrow> nat \<Rightarrow> string list \<Rightarrow> string list" where
  "ParseDnsServersOption_loop ntop6 data offset serverCount dnsServers =
     (if offset + 16 \<le> length data \<and> serverCount < 16 then
        case ntop6 (take 16 (drop offset data)) of
          Some a \<Rightarrow> ParseDnsServersOption_loop ntop6 data (offset + 16) (serverCount + 1) (dnsServers @ [a])
        | None \<Rightarrow> ParseDnsServersOption_loop ntop6 data (offset + 16) serverCount dnsServers
      else dnsServers)"
  by auto
termination
  by (relation "measure (\<lambda>(ntop6, data, offset, n, ds). length data - offset)") auto

declare ParseDnsServersOption_loop.simps [simp del]

definition ParseDnsServersOption :: "(bytes \<Rightarrow> string option) \<Rightarrow> DhcpV6Option \<Rightarrow> string list \<Rightarrow> bool \<times> string list" where
  "ParseDnsServersOption ntop6 opt dnsServers = (True, ParseDnsServersOption_loop ntop6 (o6_data opt) 0 0 dnsServers)"

definition ParseStatusCodeOption :: "DhcpV6Option \<Rightarrow> u16 \<Rightarrow> bytes \<Rightarrow> bool \<times> u16 \<times> bytes" where
  "ParseStatusCodeOption opt statusCode statusMessage =
     (let data = o6_data opt in
      if length data < 2 then (False, statusCode, statusMessage)
      else (True, be16 (data ! 0) (data ! 1),
              if length data > 2 then take (min (length data - 2) 1024) (drop 2 data) else statusMessage))"

section \<open>Advertises and replies\<close>

definition ParseReplyOption :: "(bytes \<Rightarrow> string option) \<Rightarrow> DhcpV6Advertise \<Rightarrow> DhcpV6Option \<Rightarrow> DhcpV6Advertise" where
  "ParseReplyOption ntop6 adv opt =
     (if o6_code opt = OPTION_SERVERID then adv\<lparr>adv_serverId := snd (ParseServerIdOption opt (adv_serverId adv))\<rparr>
      else if o6_code opt = OPTION_PREFERENCE
        then (if length (o6_data opt) \<ge> 1 then adv\<lparr>adv_preference := o6_data opt ! 0\<rparr> else adv)
      else if o6_code opt = OPTION_IA_NA
        then (let (ok, adv) = ParseIaNaOption ntop6 opt adv
              in if ok then adv else adv\<lparr>adv_statusCode := STATUS_UNSPEC_FAIL\<rparr>)
      else if o6_code opt = OPTION_DNS_SERVERS
        then adv\<lparr>adv_dnsServers := snd (ParseDnsServersOption ntop6 opt (adv_dnsServers adv))\<rparr>
      else if o6_code opt = OPTION_STATUS_CODE
        then (let (ok, code, msg) = ParseStatusCodeOption opt (adv_statusCode adv) (adv_statusMessage adv)
              in adv\<lparr>adv_statusCode := code, adv_statusMessage := msg\<rparr>)
      else adv)"

text \<open>Only the first 64 options count.\<close>

definition ParseReplyOptions_v6 :: "(bytes \<Rightarrow> string option) \<Rightarrow> DhcpV6Option list \<Rightarrow> DhcpV6Advertise \<Rightarrow> DhcpV6Advertise" where
  "ParseReplyOptions_v6 ntop6 options adv = foldl (ParseReplyOption ntop6) adv (take 64 options)"

text \<open>A message info as it is declared.\<close>

definition new_info :: DhcpV6MessageInfo where
  "new_info = \<lparr>i6_msgType = 0, i6_transactionId = 0, i6_options = []\<rparr>"

definition ParseV6Advertise :: "(bytes \<Rightarrow> string option) \<Rightarrow> bytes \<Rightarrow> DhcpV6Advertise \<Rightarrow> bool \<times> DhcpV6Advertise" where
  "ParseV6Advertise ntop6 data advertise =
     (let (ok, info) = ParseV6Message data new_info in
      if \<not> ok then (False, advertise)
      else if i6_msgType info \<noteq> ADVERTISE then (False, advertise)
      else let advertise = ParseReplyOptions_v6 ntop6 (i6_options info) advertise
           in (adv_statusCode advertise = STATUS_SUCCESS, advertise))"

definition ParseV6Reply :: "(bytes \<Rightarrow> string option) \<Rightarrow> bytes \<Rightarrow> DhcpV6Advertise \<Rightarrow> bool \<times> DhcpV6Advertise" where
  "ParseV6Reply ntop6 data reply =
     (let (ok, info) = ParseV6Message data new_info in
      if \<not> ok then (False, reply)
      else if i6_msgType info \<noteq> REPLY then (False, reply)
      else let reply = ParseReplyOptions_v6 ntop6 (i6_options info) reply
           in (adv_statusCode reply = STATUS_SUCCESS, reply))"

section \<open>Numbers and options round trip\<close>

lemma be16_of_image [simp]: "be16 (ucast (drop_bit 8 w)) (ucast w) = w"
  unfolding be16_def by (rule bit_word_eqI) (auto simp: bit_simps)

lemma be16_image_be16 [simp]: "be16_image (be16 a b) = [a, b]"
  unfolding be16_image_def be16_def by (auto intro!: bit_word_eqI simp: bit_simps)

lemma length_images [simp]: "length (be16_image w) = 2" "length (be32_image v) = 4"
  by (simp_all add: be16_image_def be32_image_def)

lemma join32 [simp]:
  "push_bit 24 (ucast (ucast (drop_bit 24 w) :: u8)) OR push_bit 16 (ucast (ucast (drop_bit 16 w) :: u8))
     OR push_bit 8 (ucast (ucast (drop_bit 8 w) :: u8)) OR ucast (ucast w :: u8) = (w :: u32)"
  by (rule bit_word_eqI, rename_tac n, case_tac "n < 8"; case_tac "n < 16"; case_tac "n < 24") (auto simp: bit_simps)

lemma ParseUint32FromBytes_image:
  assumes "drop n xs = be32_image w @ ys"
  shows "ParseUint32FromBytes xs n = w"
proof -
  have "length xs - n = 4 + length ys" using arg_cong [OF assms, of length] by simp
  then have "n + 4 \<le> length xs" by simp
  moreover have "xs ! n = be32_image w ! 0" "xs ! (n + 1) = be32_image w ! 1" "xs ! (n + 2) = be32_image w ! 2" "xs ! (n + 3) = be32_image w ! 3"
    using calculation nth_drop [of n xs 0] nth_drop [of n xs 1] nth_drop [of n xs 2] nth_drop [of n xs 3]
    by (simp_all add: assms be32_image_def)
  ultimately show ?thesis by (simp add: ParseUint32FromBytes_def be32_image_def)
qed

lemma txid_image:
  fixes x :: u32
  assumes "take_bit 24 x = x"
  shows "push_bit 16 (ucast (ucast (drop_bit 16 x) :: u8)) OR push_bit 8 (ucast (ucast (drop_bit 8 x) :: u8)) OR ucast (ucast x :: u8) = x"
proof (rule bit_word_eqI)
  fix n
  have "\<not> bit x n" if "24 \<le> n" using that assms by (metis bit_take_bit_iff not_le)
  then show "bit (push_bit 16 (ucast (ucast (drop_bit 16 x) :: u8) :: u32) OR push_bit 8 (ucast (ucast (drop_bit 8 x) :: u8)) OR ucast (ucast x :: u8)) n = bit x n"
    by (cases "n < 8"; cases "n < 16"; cases "n < 24") (auto simp: bit_simps)
qed

lemma txid_bytes:
  fixes a b c :: u8
  defines "x \<equiv> push_bit 16 (ucast a) OR push_bit 8 (ucast b) OR ucast c :: u32"
  shows "ucast (drop_bit 16 x) = a" "ucast (drop_bit 8 x) = b" "ucast x = c" "take_bit 24 x = x"
  unfolding x_def by (auto simp: bit_simps intro!: bit_word_eqI dest: bit_imp_le_length)

lemma drop_four:
  assumes "n + 4 \<le> length xs"
  shows "drop n xs = xs ! n # xs ! (n + 1) # xs ! (n + 2) # xs ! (n + 3) # drop (n + 4) xs"
  using assms Cons_nth_drop_Suc [of n xs] Cons_nth_drop_Suc [of "n + 1" xs] Cons_nth_drop_Suc [of "n + 2" xs] Cons_nth_drop_Suc [of "n + 3" xs]
  by (simp add: eval_nat_numeral)

definition o6_wf :: "DhcpV6Option \<Rightarrow> bool" where
  "o6_wf opt \<longleftrightarrow> unat (o6_length opt) = length (o6_data opt)"

lemma ParseV6Message_loop_sound:
  "ParseV6Message_loop data off acc = (True, opts) \<Longrightarrow>
   \<exists>os. opts = acc @ os \<and> list_all o6_wf os \<and> drop off data = concat (map option6_image os)"
proof (induction data off acc rule: ParseV6Message_loop.induct)
  case (1 data off acc)
  let ?len = "be16 (data ! (off + 2)) (data ! (off + 3))"
  let ?o = "\<lparr>o6_code = be16 (data ! off) (data ! (off + 1)), o6_length = ?len, o6_data = take (unat ?len) (drop (off + 4) data)\<rparr>"
  show ?case
  proof (cases "off + 4 \<le> length data")
    case True
    then have fits: "\<not> (unat ?len > length data \<or> off + 4 > length data - unat ?len)"
      and rest: "ParseV6Message_loop data (off + 4 + unat ?len) (acc @ [?o]) = (True, opts)"
      using 1(2) by (subst (asm) ParseV6Message_loop.simps, auto simp: Let_def split: if_splits)+
    obtain os where os: "opts = (acc @ [?o]) @ os" "list_all o6_wf os" "drop (off + 4 + unat ?len) data = concat (map option6_image os)"
      using 1(1) [OF True refl refl refl fits rest] by blast
    have "drop off data = data ! off # data ! (off + 1) # data ! (off + 2) # data ! (off + 3) # drop (off + 4) data"
      by (rule drop_four [OF True])
    moreover have "drop (off + 4) data = o6_data ?o @ drop (off + 4 + unat ?len) data"
      using append_take_drop_id [of "unat ?len" "drop (off + 4) data"] by (simp add: add.commute)
    ultimately have "drop off data = option6_image ?o @ concat (map option6_image os)"
      by (simp only: option6_image_def os(3)) simp
    moreover have "o6_wf ?o" using fits by (auto simp: o6_wf_def min_def)
    ultimately show ?thesis using os by (intro exI [of _ "?o # os"]) simp
  next
    case False
    then show ?thesis using 1(2) by (subst (asm) ParseV6Message_loop.simps) auto
  qed
qed

lemma ParseV6Message_loop_complete:
  "list_all o6_wf os \<Longrightarrow> off \<le> length data \<Longrightarrow> drop off data = concat (map option6_image os) \<Longrightarrow>
   ParseV6Message_loop data off acc = (True, acc @ os)"
proof (induction os arbitrary: off acc)
  case Nil
  then show ?case by (subst ParseV6Message_loop.simps) simp
next
  case (Cons x os)
  let ?l = "length (o6_data x)"
  have d: "drop off data = be16_image (o6_code x) @ be16_image (o6_length x) @ o6_data x @ concat (map option6_image os)"
    using Cons.prems(3) by (simp add: option6_image_def [of x])
  have len: "length data = off + 4 + ?l + length (concat (map option6_image os))"
    using arg_cong [OF d, of length] Cons.prems(2) by simp
  have nths: "data ! off = ucast (drop_bit 8 (o6_code x))" "data ! (off + 1) = ucast (o6_code x)"
    "data ! (off + 2) = ucast (drop_bit 8 (o6_length x))" "data ! (off + 3) = ucast (o6_length x)"
    using len nth_drop [of off data 0] nth_drop [of off data 1] nth_drop [of off data 2] nth_drop [of off data 3]
    by (simp_all add: d be16_image_def)
  note nths = nths nths [unfolded add_2_eq_Suc' Suc_eq_plus1 [symmetric]]
  have tail: "drop (off + 4) data = o6_data x @ concat (map option6_image os)" 
    using arg_cong [OF d, of "drop 4"] by (simp add: add.commute)
  have "drop (off + 4 + ?l) data = drop ?l (drop (off + 4) data)" by (simp add: ac_simps)
  then have tail': "drop (off + 4 + ?l) data = concat (map option6_image os)" by (simp only: tail) simp
  have l: "unat (o6_length x) = ?l" using Cons.prems(1) by (simp add: o6_wf_def)
  have x: "\<lparr>o6_code = o6_code x, o6_length = o6_length x, o6_data = o6_data x\<rparr> = x" by simp
  have "ParseV6Message_loop data off acc = ParseV6Message_loop data (off + 4 + ?l) (acc @ [x])"
    using len by (subst ParseV6Message_loop.simps) (simp add: nths l tail x Let_def)
  also have "\<dots> = (True, (acc @ [x]) @ os)"
    using Cons.prems(1) tail' len by (intro Cons.IH) simp_all
  finally show ?case by simp
qed

section \<open>What the parser accepts\<close>

text \<open>The messages there are: a type from 1 to 13, a transaction id of 24 bits, and options that are as long as they say.\<close>

definition info_wf :: "DhcpV6MessageInfo \<Rightarrow> bool" where
  "info_wf info \<longleftrightarrow> 0 < i6_msgType info \<and> i6_msgType info \<le> RELAY_REPL \<and> take_bit 24 (i6_transactionId info) = i6_transactionId info
     \<and> list_all o6_wf (i6_options info)"

lemma message_of_image:
  assumes "info_wf info"
  shows "ParseV6Message (BuildMessage (i6_msgType info) (i6_transactionId info) (i6_options info)) message = (True, info)"
proof -
  let ?data = "BuildMessage (i6_msgType info) (i6_transactionId info) (i6_options info)"
  have "ParseV6Message_loop ?data 4 [] = (True, [] @ i6_options info)"
    using assms by (intro ParseV6Message_loop_complete) (auto simp: info_wf_def BuildMessage_def)
  with assms show ?thesis
    by (auto simp: ParseV6Message_def Let_def info_wf_def BuildMessage_def txid_image)
qed


section \<open>An identity association written and read\<close>

text \<open>A text of an address that the two conversions agree on.\<close>

definition canonical6 :: "(string \<Rightarrow> bytes option) \<Rightarrow> (bytes \<Rightarrow> string option) \<Rightarrow> string \<Rightarrow> bool" where
  "canonical6 pton6 ntop6 a = (case pton6 a of Some b \<Rightarrow> length b = 16 \<and> ntop6 b = Some a | None \<Rightarrow> False)"

lemma canonical6D:
  assumes "canonical6 pton6 ntop6 a"
  obtains b where "pton6 a = Some b" "length b = 16" "ntop6 b = Some a"
  using assms by (auto simp: canonical6_def split: option.splits)

text \<open>What one more address does to an advertise.\<close>

definition got_address :: "u32 \<Rightarrow> u32 \<Rightarrow> DhcpV6Advertise \<Rightarrow> string \<Rightarrow> DhcpV6Advertise" where
  "got_address pref valid adv a = adv\<lparr>adv_ipv6Addresses := adv_ipv6Addresses adv @ [a],
     adv_preferredLifetime := UpdateMinLifetime (adv_preferredLifetime adv) pref,
     adv_validLifetime := UpdateMinLifetime (adv_validLifetime adv) valid\<rparr>"

lemma got_addresses:
  assumes "adv_preferredLifetime adv \<in> {0, p}" "adv_validLifetime adv \<in> {0, v}" "as \<noteq> []"
  shows "foldl (got_address p v) adv as = adv\<lparr>adv_ipv6Addresses := adv_ipv6Addresses adv @ as,
     adv_preferredLifetime := p, adv_validLifetime := v\<rparr>"
  using assms
proof (induction as arbitrary: adv)
  case (Cons a as)
  then show ?case
    using Cons.IH [of "got_address p v adv a"]
    by (cases "as = []") (auto simp: got_address_def UpdateMinLifetime_def)
qed simp

lemma ParseIaAddrOption_built:
  assumes "pton6 a = Some b" "length b = 16" "ntop6 b = Some a" "o6_data opt = o6_data (BuildIaAddrOption pton6 a p v)"
  shows "ParseIaAddrOption ntop6 opt res = (True, a, p, v)"
proof -
  have d: "o6_data opt = b @ be32_image p @ be32_image v" using assms(1,4) by (simp add: BuildIaAddrOption_def Let_def)
  then have "ParseUint32FromBytes (o6_data opt) 16 = p" "ParseUint32FromBytes (o6_data opt) 20 = v"
    using assms(2) ParseUint32FromBytes_image [of 16 "o6_data opt" p "be32_image v"] ParseUint32FromBytes_image [of 20 "o6_data opt" v "[]"]
    by simp_all
  then show ?thesis using assms(2,3) by (simp add: ParseIaAddrOption_def d)
qed

lemma ParseIaNaSubOptions_loop_built:
  assumes "list_all (canonical6 pton6 ntop6) as" "n + length as \<le> 8" "off \<le> length data"
    and "drop off data = concat (map (\<lambda>a. option6_image (BuildIaAddrOption pton6 a p v)) as)"
  shows "ParseIaNaSubOptions_loop ntop6 data off n adv = (True, foldl (got_address p v) adv as)"
  using assms
proof (induction as arbitrary: off n adv)
  case Nil
  then show ?case by (subst ParseIaNaSubOptions_loop.simps) simp
next
  case (Cons a as)
  obtain b where b: "pton6 a = Some b" "length b = 16" "ntop6 b = Some a" using Cons.prems(1) by (auto elim: canonical6D)
  let ?o = "BuildIaAddrOption pton6 a p v" and ?rest = "concat (map (\<lambda>a. option6_image (BuildIaAddrOption pton6 a p v)) as)"
  have l: "length (o6_data ?o) = 24" "o6_code ?o = 5" "o6_length ?o = 24" using b by (simp_all add: BuildIaAddrOption_def Let_def)
  have d: "drop off data = 0 # 5 # 0 # 24 # o6_data ?o @ ?rest"
    using Cons.prems(4) by (simp add: option6_image_def [of ?o] l be16_image_def)
  have len: "length data = off + 28 + length ?rest" using arg_cong [OF d, of length] Cons.prems(3) l by simp
  have nths: "data ! off = 0" "data ! (off + 1) = 5" "data ! (off + 2) = 0" "data ! (off + 3) = 24"
    using len nth_drop [of off data 0] nth_drop [of off data 1] nth_drop [of off data 2] nth_drop [of off data 3] by (simp_all add: d)
  note nths = nths nths [unfolded add_2_eq_Suc' Suc_eq_plus1 [symmetric]]
  have tail: "drop (off + 4) data = o6_data ?o @ ?rest" using arg_cong [OF d, of "drop 4"] by (simp add: add.commute)
  have "drop (off + 4 + 24) data = drop 24 (drop (off + 4) data)" by (simp add: add.commute)
  then have tail': "drop (off + 4 + 24) data = ?rest" by (simp only: tail) (simp add: l)
  have "be16 0 5 = 5" "be16 0 24 = 24" by (simp_all add: be16_def)
  moreover have "ParseIaAddrOption ntop6 \<lparr>o6_code = 5, o6_length = 24, o6_data = o6_data ?o\<rparr> ([], 0, 0) = (True, a, p, v)"
    by (rule ParseIaAddrOption_built [where ?pton6.0 = pton6 and b = b]) (simp_all add: b)
  ultimately have "ParseIaNaSubOptions_loop ntop6 data off n adv = ParseIaNaSubOptions_loop ntop6 data (off + 4 + 24) (n + 1) (got_address p v adv a)"
    using len Cons.prems(2) l by (subst ParseIaNaSubOptions_loop.simps) (simp add: nths tail got_address_def Let_def)
  also have "\<dots> = (True, foldl (got_address p v) (got_address p v adv a) as)"
    using Cons.prems(1,2) tail' len by (intro Cons.IH) simp_all
  finally show ?case by simp
qed

lemma with_addresses_data:
  "o6_data (BuildIaNaOptionWithAddresses pton6 iaid t1 t2 as p v) = be32_image iaid @ be32_image t1 @ be32_image t2 @
     concat (map (\<lambda>a. option6_image (BuildIaAddrOption pton6 a p v)) as)"
proof -
  have "foldl (\<lambda>d a. d @ f a) d as = d @ concat (map f as)" for f :: "string \<Rightarrow> bytes" and d
    by (induction as arbitrary: d) simp_all
  then show ?thesis by (simp add: BuildIaNaOptionWithAddresses_def BuildIaNaOption_def Let_def)
qed

lemma ParseIaNaOption_built:
  assumes "list_all (canonical6 pton6 ntop6) as" "as \<noteq> []" "length as \<le> 8"
    and "o6_data opt = o6_data (BuildIaNaOptionWithAddresses pton6 iaid t1 t2 as p v)"
  shows "ParseIaNaOption ntop6 opt adv = (True, adv\<lparr>adv_iaid := iaid, adv_t1 := t1, adv_t2 := t2,
     adv_ipv6Addresses := adv_ipv6Addresses adv @ as, adv_preferredLifetime := p, adv_validLifetime := v\<rparr>)"
proof -
  let ?rest = "concat (map (\<lambda>a. option6_image (BuildIaAddrOption pton6 a p v)) as)"
  have d: "o6_data opt = be32_image iaid @ be32_image t1 @ be32_image t2 @ ?rest" by (simp add: assms(4) with_addresses_data)
  let ?adv = "adv\<lparr>adv_iaid := iaid, adv_t1 := t1, adv_t2 := t2, adv_preferredLifetime := 0, adv_validLifetime := 0\<rparr>"
  have nums: "ParseUint32FromBytes (o6_data opt) 0 = iaid" "ParseUint32FromBytes (o6_data opt) 4 = t1" "ParseUint32FromBytes (o6_data opt) 8 = t2"
    by (rule ParseUint32FromBytes_image, simp add: d)+
  have "ParseIaNaSubOptions_loop ntop6 (o6_data opt) 12 0 ?adv = (True, foldl (got_address p v) ?adv as)"
    using assms(1,3) by (intro ParseIaNaSubOptions_loop_built) (simp_all add: d)
  also have "\<dots> = (True, ?adv\<lparr>adv_ipv6Addresses := adv_ipv6Addresses ?adv @ as, adv_preferredLifetime := p, adv_validLifetime := v\<rparr>)"
    using assms(2) by (subst got_addresses) simp_all
  finally show ?thesis by (simp add: ParseIaNaOption_def ParseIaNaSubOptions_def nums) (simp add: d)
qed

lemma iaaddr_length:
  assumes "canonical6 pton6 ntop6 a"
  shows "length (option6_image (BuildIaAddrOption pton6 a p v)) = 28"
  using assms by (auto elim!: canonical6D simp: option6_image_def BuildIaAddrOption_def Let_def)

lemma iaaddrs_length:
  assumes "list_all (canonical6 pton6 ntop6) as"
  shows "length (concat (map (\<lambda>a. option6_image (BuildIaAddrOption pton6 a p v)) as)) = 28 * length as"
  using assms by (induction as) (simp_all add: iaaddr_length [where ?ntop6.0 = ntop6])

lemma o6_wf_built [simp]:
  "length d < 65536 \<Longrightarrow> o6_wf (BuildIdOption c d)" "o6_wf (BuildElapsedTimeOption t)" "o6_wf (BuildIaNaOption i t1 t2)"
  by (simp_all add: o6_wf_def BuildIdOption_def BuildElapsedTimeOption_def BuildIaNaOption_def unsigned_of_nat take_bit_nat_eq_self)

lemma o6_wf_oro [simp]: "o6_wf (BuildOptionRequestOption [a, b])"
  by (simp add: o6_wf_def BuildOptionRequestOption_def Let_def)

lemma o6_wf_with_addresses:
  assumes "list_all (canonical6 pton6 ntop6) as" "length as \<le> 8"
  shows "o6_wf (BuildIaNaOptionWithAddresses pton6 iaid t1 t2 as p v)"
proof -
  let ?o = "BuildIaNaOptionWithAddresses pton6 iaid t1 t2 as p v"
  have "length (o6_data ?o) \<le> 236" using assms(2) by (simp only: with_addresses_data) (simp add: iaaddrs_length [OF assms(1)])
  moreover have "o6_length ?o = of_nat (length (o6_data ?o))" by (simp add: BuildIaNaOptionWithAddresses_def Let_def)
  ultimately show ?thesis by (simp add: o6_wf_def unsigned_of_nat take_bit_nat_eq_self)
qed

section \<open>The request asks for what was advertised\<close>

text \<open>C34: A request carries the lease of the advertise it answers: a reader of the message finds the type, the transaction id,
  the identifier of the chosen server, the addresses in order, T1, T2 and both lifetimes of the advertise. The advertise has one
  to eight addresses, their texts are those \<^verbatim>\<open>inet_ntop\<close> prints, and the transaction id has 24 bits.\<close>

theorem request_carries_advertise:
  assumes "list_all (canonical6 pton6 ntop6) (adv_ipv6Addresses adv)" "adv_ipv6Addresses adv \<noteq> []" "length (adv_ipv6Addresses adv) \<le> 8"
    and "length (adv_serverId adv) \<le> 128" "length (v6_clientId config) < 65536" "length duid < 65536"
    and "take_bit 24 (message_txid txid config) = message_txid txid config"
  shows "\<exists>info. ParseV6Message (BuildRequestMessage pton6 duid txid config adv) m = (True, info)
    \<and> i6_msgType info = REQUEST \<and> i6_transactionId info = message_txid txid config
    \<and> ParseReplyOptions_v6 ntop6 (i6_options info) zero_advertise =
        zero_advertise\<lparr>adv_serverId := adv_serverId adv, adv_ipv6Addresses := adv_ipv6Addresses adv, adv_iaid := DHCPV6_DEFAULT_IAID,
          adv_t1 := adv_t1 adv, adv_t2 := adv_t2 adv, adv_preferredLifetime := adv_preferredLifetime adv,
          adv_validLifetime := adv_validLifetime adv\<rparr>"
proof -
  let ?ia = "BuildIaNaOptionWithAddresses pton6 DHCPV6_DEFAULT_IAID (adv_t1 adv) (adv_t2 adv) (adv_ipv6Addresses adv)
    (adv_preferredLifetime adv) (adv_validLifetime adv)"
  let ?os = "[client_id_option duid config, BuildServerIdOption (adv_serverId adv), BuildElapsedTimeOption 0, ?ia,
    BuildOptionRequestOption [OPTION_DNS_SERVERS, OPTION_DOMAIN_LIST]]"
  let ?info = "\<lparr>i6_msgType = REQUEST, i6_transactionId = message_txid txid config, i6_options = ?os\<rparr>"
  have "info_wf ?info"
    using assms o6_wf_with_addresses [OF assms(1,3)]
    by (simp add: info_wf_def client_id_option_def BuildClientIdOption_def BuildServerIdOption_def)
  then have "ParseV6Message (BuildRequestMessage pton6 duid txid config adv) m = (True, ?info)"
    using message_of_image [of ?info] by (simp add: BuildRequestMessage_def)
  moreover have codes: "o6_code (client_id_option duid config) = 1" "o6_code (BuildServerIdOption s) = 2" "o6_code (BuildElapsedTimeOption t) = 8"
    "o6_code ?ia = 3" "o6_code (BuildOptionRequestOption cs) = 6" "o6_data (BuildServerIdOption s) = s" for s t cs
    by (simp_all add: client_id_option_def BuildClientIdOption_def BuildServerIdOption_def BuildIdOption_def BuildElapsedTimeOption_def
        BuildIaNaOptionWithAddresses_def BuildIaNaOption_def BuildOptionRequestOption_def Let_def)
  ultimately show ?thesis
    using assms(4) ParseIaNaOption_built [OF assms(1,2,3) refl]
    by (intro exI [of _ ?info])
      (simp add: ParseReplyOptions_v6_def ParseReplyOption_def ParseServerIdOption_def zero_advertise_def)
qed

text \<open>A pair of conversions that satisfies the law: the sixteen bytes as characters.\<close>

definition sample_pton6 :: "string \<Rightarrow> bytes option" where
  "sample_pton6 a = (if length a = 16 then Some (map (\<lambda>c. of_nat (of_char c)) a) else None)"

definition sample_ntop6 :: "bytes \<Rightarrow> string option" where
  "sample_ntop6 b = Some (map (\<lambda>x. char_of (unat x)) b)"

definition sample_config6 :: DhcpV6Config where
  "sample_config6 = \<lparr>v6_clientId = [1, 2, 3], v6_serverId = [], v6_transactionId = 0, v6_requestedOptions = [], v6_stateless = False,
     v6_ipv6Addresses = [], v6_preferredLifetime = 0, v6_validLifetime = 0\<rparr>"

definition sample_advertise :: DhcpV6Advertise where
  "sample_advertise = zero_advertise\<lparr>adv_serverId := [9, 9], adv_ipv6Addresses := [''2001:db8:0:0:::1''], adv_t1 := 50, adv_t2 := 80,
     adv_preferredLifetime := 60, adv_validLifetime := 100\<rparr>"

lemma char_byte: "char_of (unat (of_nat (of_char c) :: u8)) = c"
proof -
  have "of_char c < (256 :: nat)" by (rule nat_of_char_less_256)
  then have "unat (of_nat (of_char c) :: u8) = of_char c" by (simp add: unsigned_of_nat take_bit_nat_eq_self)
  then show ?thesis by simp
qed

lemma sample_canonical6: "length a = 16 \<Longrightarrow> canonical6 sample_pton6 sample_ntop6 a"
  by (simp add: canonical6_def sample_pton6_def sample_ntop6_def comp_def char_byte del: of_nat_of_char)

theorem request_carries_advertise_witness:
  "\<exists>info. ParseV6Message (BuildRequestMessage sample_pton6 [] 7 sample_config6 sample_advertise) new_info = (True, info)
    \<and> adv_ipv6Addresses (ParseReplyOptions_v6 sample_ntop6 (i6_options info) zero_advertise) = [''2001:db8:0:0:::1'']"
proof -
  have "list_all (canonical6 sample_pton6 sample_ntop6) (adv_ipv6Addresses sample_advertise)"
    by (simp add: sample_advertise_def zero_advertise_def sample_canonical6)
  moreover have "take_bit 24 (message_txid 7 sample_config6) = message_txid 7 sample_config6"
    by (simp add: message_txid_def sample_config6_def)
  ultimately show ?thesis
    using request_carries_advertise [of sample_pton6 sample_ntop6 sample_advertise sample_config6 "[]" 7 new_info]
    by (auto simp: sample_advertise_def zero_advertise_def sample_config6_def)
qed

section \<open>Bounds on what a message can make the client store\<close>

text \<open>An advertise that has at most \<open>a\<close> addresses and \<open>d\<close> servers more than another, and no longer texts than allowed.\<close>

definition grown :: "nat \<Rightarrow> nat \<Rightarrow> DhcpV6Advertise \<Rightarrow> DhcpV6Advertise \<Rightarrow> bool" where
  "grown a d x y \<longleftrightarrow> length (adv_ipv6Addresses y) \<le> length (adv_ipv6Addresses x) + a
     \<and> length (adv_dnsServers y) \<le> length (adv_dnsServers x) + d
     \<and> (adv_serverId y = adv_serverId x \<or> length (adv_serverId y) \<le> 128)
     \<and> (adv_statusMessage y = adv_statusMessage x \<or> length (adv_statusMessage y) \<le> 1024)"

lemma grown_trans: "grown a d x y \<Longrightarrow> grown a' d' y z \<Longrightarrow> grown (a + a') (d + d') x z"
  by (auto simp: grown_def)

lemma ParseIaNaSubOptions_grown: "grown (8 - n) 0 adv (snd (ParseIaNaSubOptions_loop ntop6 data off n adv))"
proof (induction "length data - off" arbitrary: off n adv rule: less_induct)
  case less
  let ?c = "be16 (data ! off) (data ! (off + 1))" and ?l = "unat (be16 (data ! (off + 2)) (data ! (off + 3)))"
  let ?o = "\<lparr>o6_code = OPTION_IAADDR, o6_length = of_nat ?l, o6_data = take ?l (drop (off + 4) data)\<rparr>"
  have same: "grown k 0 adv adv" for k by (simp add: grown_def)
  show ?case
  proof (cases "off + 4 \<le> length data")
    case True
    obtain ok ip p v where r: "ParseIaAddrOption ntop6 ?o ([], 0, 0) = (ok, ip, p, v)" by (cases "ParseIaAddrOption ntop6 ?o ([], 0, 0)") auto
    have IH: "grown (8 - m) 0 x (snd (ParseIaNaSubOptions_loop ntop6 data (off + 4 + ?l) m x))" for m x
      using True by (intro less) simp
    have "grown 1 0 adv (got_address p v adv ip)" by (simp add: grown_def got_address_def)
    then have "grown (1 + (8 - (n + 1))) (0 + 0) adv (snd (ParseIaNaSubOptions_loop ntop6 data (off + 4 + ?l) (n + 1) (got_address p v adv ip)))"
      by (rule grown_trans) (rule IH)
    then have "n < 8 \<Longrightarrow> grown (8 - n) 0 adv (snd (ParseIaNaSubOptions_loop ntop6 data (off + 4 + ?l) (n + 1) (got_address p v adv ip)))"
      by (simp add: Suc_diff_le [symmetric])
    then show ?thesis
      using IH [of n adv] same r [unfolded Suc_eq_plus1 [symmetric]] True
      by (subst ParseIaNaSubOptions_loop.simps) (simp add: Let_def r got_address_def)
  next
    case False
    then show ?thesis using same by (subst ParseIaNaSubOptions_loop.simps) simp
  qed
qed

lemma ParseDnsServersOption_length:
  "length (ParseDnsServersOption_loop ntop6 data off n ds) \<le> length ds + (16 - n)"
proof (induction "length data - off" arbitrary: off n ds rule: less_induct)
  case less
  show ?case
  proof (cases "off + 16 \<le> length data \<and> n < 16")
    case True
    then have IH: "length (ParseDnsServersOption_loop ntop6 data (off + 16) m xs) \<le> length xs + (16 - m)" for m xs
      by (intro less) auto
    have "length (ParseDnsServersOption_loop ntop6 data (off + 16) (n + 1) (ds @ [a])) \<le> length ds + (16 - n)" for a
      using True IH [of "n + 1" "ds @ [a]"] by (auto simp: Suc_diff_le)
    then show ?thesis
      using True IH [of n ds] by (subst ParseDnsServersOption_loop.simps) (auto split: option.splits)
  next
    case False
    then show ?thesis by (subst ParseDnsServersOption_loop.simps) auto
  qed
qed

lemma ParseReplyOption_grown: "grown 8 16 adv (ParseReplyOption ntop6 adv opt)"
proof -
  let ?adv = "adv\<lparr>adv_iaid := ParseUint32FromBytes (o6_data opt) 0, adv_t1 := ParseUint32FromBytes (o6_data opt) 4,
     adv_t2 := ParseUint32FromBytes (o6_data opt) 8, adv_preferredLifetime := 0, adv_validLifetime := 0\<rparr>"
  have "grown 8 0 adv (snd (ParseIaNaOption ntop6 opt adv))"
    using ParseIaNaSubOptions_grown [of 0 ?adv ntop6 "o6_data opt" 12]
    by (auto simp: ParseIaNaOption_def ParseIaNaSubOptions_def grown_def)
  then show ?thesis
    using ParseDnsServersOption_length [of ntop6 "o6_data opt" 0 0 "adv_dnsServers adv"]
    by (auto simp: ParseReplyOption_def ParseServerIdOption_def ParseStatusCodeOption_def ParseDnsServersOption_def grown_def Let_def
        split: prod.splits)
qed

lemma ParseReplyOptions_grown: "grown (8 * length os) (16 * length os) adv (foldl (ParseReplyOption ntop6) adv os)"
proof (induction os arbitrary: adv)
  case Nil
  then show ?case by (simp add: grown_def)
next
  case (Cons x os)
  then show ?case using grown_trans [OF ParseReplyOption_grown Cons.IH] by simp
qed

text \<open>C35: Whatever bytes arrive, the client stores a bounded amount: at most 512 addresses, 1024 name servers, a server
  identifier of 128 bytes and a status message of 1024 bytes, and never more addresses than eight per option of the first 64.\<close>

theorem parsed_reply_bounded:
  "let adv = snd (if advertised then ParseV6Advertise ntop6 data zero_advertise else ParseV6Reply ntop6 data zero_advertise)
   in length (adv_ipv6Addresses adv) \<le> 512 \<and> length (adv_dnsServers adv) \<le> 1024
      \<and> length (adv_serverId adv) \<le> 128 \<and> length (adv_statusMessage adv) \<le> 1024"
proof -
  have "grown 512 1024 zero_advertise (ParseReplyOptions_v6 ntop6 os zero_advertise)" for os
    using ParseReplyOptions_grown [of "take 64 os" zero_advertise ntop6]
    by (auto simp: ParseReplyOptions_v6_def grown_def min_def split: if_splits)
  moreover have "grown 512 1024 zero_advertise zero_advertise" by (simp add: grown_def)
  ultimately have "grown 512 1024 zero_advertise (snd (ParseV6Advertise ntop6 data zero_advertise))"
    "grown 512 1024 zero_advertise (snd (ParseV6Reply ntop6 data zero_advertise))"
    by (auto simp: ParseV6Reply_def ParseV6Advertise_def Let_def split: prod.splits)
  then show ?thesis by (auto simp: grown_def zero_advertise_def Let_def)
qed

text \<open>The shortest lifetime of the addresses is not what is kept when one of them has the lifetime zero: zero also means that
  nothing has been read yet.\<close>

lemma zero_lifetime_lost: "foldl UpdateMinLifetime 0 [0, 7200] = 7200"
  by (simp add: UpdateMinLifetime_def)

text \<open>The limit of eight addresses is one per identity association, not per message.\<close>

lemma addresses_beyond_limit:
  assumes "list_all (canonical6 pton6 ntop6) as" "length as = 8" "opt = BuildIaNaOptionWithAddresses pton6 1 0 0 as p v"
  shows "length (adv_ipv6Addresses (ParseReplyOptions_v6 ntop6 [opt, opt] zero_advertise)) = 16"
proof -
  have "ParseIaNaOption ntop6 opt adv = (True, adv\<lparr>adv_iaid := 1, adv_t1 := 0, adv_t2 := 0,
     adv_ipv6Addresses := adv_ipv6Addresses adv @ as, adv_preferredLifetime := p, adv_validLifetime := v\<rparr>)" for adv
    using assms by (intro ParseIaNaOption_built [where ?pton6.0 = pton6]) auto
  moreover have "o6_code opt = OPTION_IA_NA" by (simp add: assms(3) BuildIaNaOptionWithAddresses_def BuildIaNaOption_def Let_def)
  ultimately show ?thesis using assms(2) by (simp add: ParseReplyOptions_v6_def ParseReplyOption_def zero_advertise_def)
qed

end
