(* ===== verification/DhcpV6Machine.thy ===== *)
theory DhcpV6Machine
  imports DhcpV6Message
begin

text \<open>
  The DHCPv6 client: its state machine (\<^verbatim>\<open>dhcp_v6_statemachine.cpp\<close>), the receive path of its socket
  (\<^verbatim>\<open>dhcp_v6_socket.cpp\<close>) and the object that owns both (\<^verbatim>\<open>dhcp_v6_client.cpp\<close>). The class \<^verbatim>\<open>OHOS::Wifi::StateMachine\<close>, which
  delivers messages to the handlers, runs timers and carries out transitions, is not part of the repository: a request to it
  (\<^verbatim>\<open>SwitchState\<close>, \<^verbatim>\<open>MessageExecutedLater\<close>, \<^verbatim>\<open>StopTimer\<close>, \<^verbatim>\<open>SendMessage\<close>), a packet handed to the socket and a call of a callback
  are entries of a log, in the order the code makes them. Every handler of every state is a function of the machine.
\<close>

abbreviation (input) ERR_GENERIC :: int where "ERR_GENERIC \<equiv> -1"
abbreviation (input) SOCK_RECV_TIMEOUT :: int where "SOCK_RECV_TIMEOUT \<equiv> -2"
abbreviation (input) ERR_DAD_FAILED :: int where "ERR_DAD_FAILED \<equiv> -3"
abbreviation (input) ERR_LEASE_EXPIRED :: int where "ERR_LEASE_EXPIRED \<equiv> -4"
abbreviation (input) ERR_RETRY_EXCEEDED :: int where "ERR_RETRY_EXCEEDED \<equiv> -5"
abbreviation (input) INFINITE_LIFETIME :: u32 where "INFINITE_LIFETIME \<equiv> 0xFFFFFFFF"
abbreviation (input) BASE_TIMEOUT_MS :: u32 where "BASE_TIMEOUT_MS \<equiv> 1000"
abbreviation (input) TIMEOUT_INCREMENT_MS :: u32 where "TIMEOUT_INCREMENT_MS \<equiv> 1000"

record DhcpV6Result =
  r6_ipv6Addresses :: "string list"
  r6_dnsServers :: "string list"
  r6_preferredLifetime :: u32
  r6_validLifetime :: u32
  r6_t1 :: u32
  r6_t2 :: u32
  r6_ready :: bool

definition zero_result6 :: DhcpV6Result where
  "zero_result6 = \<lparr>r6_ipv6Addresses = [], r6_dnsServers = [], r6_preferredLifetime = 0, r6_validLifetime = 0, r6_t1 = 0, r6_t2 = 0,
     r6_ready = False\<rparr>"

datatype V6State = DhcpV6InitState | DhcpV6InfoRequestState | DhcpV6SolicitState | DhcpV6AdvertiseState | DhcpV6RequestState
  | DhcpV6BoundState | DhcpV6RenewState | DhcpV6RebindState | DhcpV6ReleaseState | DhcpV6FailState

datatype Cmd6 = CMD_START | CMD_STOP | CMD_MESSAGE_RECEIVED bytes | CMD_TIMEOUT | CMD_ERROR | CMD_DAD_CONFLICT string
  | CMD_T2_TIMEOUT | CMD_EXPIRE_TIMEOUT

datatype V6Action = SentV6 bytes | SwitchState V6State | MessageExecutedLater Cmd6 int | StopTimerV6 Cmd6 | SendMessage Cmd6
  | SuccessCallback DhcpV6Result | FailureCallback int | ExpiredCallback

text \<open>What the machine reads from outside: the random transaction ids, the DUIDs drawn without an interface, the clock in
  milliseconds, each by the number of the reading, and the two conversions of addresses.\<close>

record Env6 =
  e6_txid :: "nat \<Rightarrow> u32"
  e6_duid :: "nat \<Rightarrow> bytes"
  e6_now :: "nat \<Rightarrow> u64"
  e6_pton :: "string \<Rightarrow> bytes option"
  e6_ntop :: "bytes \<Rightarrow> string option"

record DhcpV6StateMachine =
  m_socket :: bool
  m_iface :: string
  m_config :: DhcpV6Config
  m_result :: DhcpV6Result
  m_currentAdvertise :: DhcpV6Advertise
  m_transactionId :: u32
  m_retryCount :: int
  m_maxRetries :: int
  m_currentTimeout :: u32
  m_isStopping :: bool
  m_t2DeadlineMs :: u64
  m_expireDeadlineMs :: u64
  m_callbacks :: bool
  m_readings :: nat
  m_log :: "V6Action list"

type_synonym V6 = DhcpV6StateMachine

section \<open>Requests and readings\<close>

definition act :: "V6Action \<Rightarrow> V6 \<Rightarrow> V6" where
  "act a s = s\<lparr>m_log := m_log s @ [a]\<rparr>"

definition GenerateTransactionId :: "Env6 \<Rightarrow> V6 \<Rightarrow> u32 \<times> V6" where
  "GenerateTransactionId E s = (e6_txid E (m_readings s), s\<lparr>m_readings := m_readings s + 1\<rparr>)"

definition GetCurrentTimeMs :: "Env6 \<Rightarrow> V6 \<Rightarrow> u64 \<times> V6" where
  "GetCurrentTimeMs E s = (e6_now E (m_readings s), s\<lparr>m_readings := m_readings s + 1\<rparr>)"

text \<open>A message is built with the values the generators would give now, and handed to the socket.\<close>

definition built :: "Env6 \<Rightarrow> (bytes \<Rightarrow> u32 \<Rightarrow> bytes) \<Rightarrow> V6 \<Rightarrow> bytes \<times> V6" where
  "built E build s = (build (e6_duid E (m_readings s)) (e6_txid E (m_readings s)), s\<lparr>m_readings := m_readings s + 1\<rparr>)"

definition DhcpV6Send_message :: "bytes \<Rightarrow> V6 \<Rightarrow> V6" where
  "DhcpV6Send_message message s = act (SentV6 message) s"

section \<open>The machine\<close>

definition new_machine :: V6 where
  "new_machine = \<lparr>m_socket = False, m_iface = [], m_config = \<lparr>v6_clientId = [], v6_serverId = [], v6_transactionId = 0,
       v6_requestedOptions = [], v6_stateless = False, v6_ipv6Addresses = [], v6_preferredLifetime = 0, v6_validLifetime = 0\<rparr>,
     m_result = zero_result6, m_currentAdvertise = zero_advertise, m_transactionId = 0, m_retryCount = 0, m_maxRetries = 3,
     m_currentTimeout = BASE_TIMEOUT_MS, m_isStopping = False, m_t2DeadlineMs = 0, m_expireDeadlineMs = 0, m_callbacks = False,
     m_readings = 0, m_log = []\<rparr>"

definition SetConfig :: "Env6 \<Rightarrow> DhcpV6Config \<Rightarrow> V6 \<Rightarrow> V6" where
  "SetConfig E config s =
     (let s = s\<lparr>m_config := config\<rparr>; (txid, s) = GenerateTransactionId E s in s\<lparr>m_transactionId := txid\<rparr>)"

definition OnSuccess :: "V6 \<Rightarrow> V6" where
  "OnSuccess s = (if m_callbacks s then act (SuccessCallback (m_result s)) s else s)"

definition OnFailure :: "int \<Rightarrow> V6 \<Rightarrow> V6" where
  "OnFailure errorCode s = (if m_callbacks s then act (FailureCallback errorCode) s else s)"

definition OnLeaseExpired :: "V6 \<Rightarrow> V6" where
  "OnLeaseExpired s = (if m_callbacks s then act ExpiredCallback s else s)"

definition IsDhcpV6ConfiguredAddress :: "string \<Rightarrow> V6 \<Rightarrow> bool" where
  "IsDhcpV6ConfiguredAddress addr s = list_ex (\<lambda>configuredAddr. configuredAddr = addr) (r6_ipv6Addresses (m_result s))"

definition OnKernelDadConflict :: "string \<Rightarrow> V6 \<Rightarrow> V6" where
  "OnKernelDadConflict addr s =
     (if \<not> IsDhcpV6ConfiguredAddress addr s then s else act (SendMessage (CMD_DAD_CONFLICT addr)) s)"

text \<open>The product for T2 is one of 32-bit numbers.\<close>

definition ProcessResultInfo :: "DhcpV6Advertise \<Rightarrow> V6 \<Rightarrow> V6" where
  "ProcessResultInfo advertise s =
     (let v = adv_validLifetime advertise;
          r = (m_result s)\<lparr>r6_ipv6Addresses := adv_ipv6Addresses advertise, r6_dnsServers := adv_dnsServers advertise,
                r6_preferredLifetime := adv_preferredLifetime advertise, r6_validLifetime := v,
                r6_t1 := adv_t1 advertise, r6_t2 := adv_t2 advertise\<rparr>;
          r = (if v \<noteq> 0 \<and> v \<noteq> INFINITE_LIFETIME then
                 let r = (if r6_t1 r = 0 then r\<lparr>r6_t1 := v div 2\<rparr> else r)
                 in if r6_t2 r = 0 then r\<lparr>r6_t2 := (v * 80) div 100\<rparr> else r
               else r)
      in s\<lparr>m_result := r, m_config := (m_config s)\<lparr>v6_serverId := adv_serverId advertise\<rparr>\<rparr>)"

definition retry_timeout :: "V6 \<Rightarrow> u32" where
  "retry_timeout s = BASE_TIMEOUT_MS + of_int (m_retryCount s) * TIMEOUT_INCREMENT_MS"

text \<open>The steps that arm the retry timer, shared by the states.\<close>

definition start_retry_timer :: "V6 \<Rightarrow> V6" where
  "start_retry_timer s =
     (let timeout = retry_timeout s in
      act (MessageExecutedLater CMD_TIMEOUT (uint timeout)) (s\<lparr>m_currentTimeout := timeout, m_retryCount := m_retryCount s + 1\<rparr>))"

definition ProcessTimeoutWithRetry :: "bytes \<Rightarrow> V6 \<Rightarrow> bool \<times> V6" where
  "ProcessTimeoutWithRetry message s =
     (if m_retryCount s > m_maxRetries s
      then (False, act (SwitchState DhcpV6FailState) (OnFailure ERR_RETRY_EXCEEDED s))
      else (True, start_retry_timer (if m_socket s then DhcpV6Send_message message s else s)))"

definition SendRenewOrRebindMsg :: "Env6 \<Rightarrow> bool \<Rightarrow> V6 \<Rightarrow> V6" where
  "SendRenewOrRebindMsg E renew s =
     (if \<not> m_socket s then s
      else
        let config = m_config s;
            (txid, s) = GenerateTransactionId E s;
            s = s\<lparr>m_transactionId := txid\<rparr>;
            config = config\<lparr>v6_transactionId := txid, v6_serverId := (if renew then v6_serverId config else []),
              v6_ipv6Addresses := r6_ipv6Addresses (m_result s), v6_preferredLifetime := r6_preferredLifetime (m_result s),
              v6_validLifetime := r6_validLifetime (m_result s)\<rparr>;
            (message, s) = built E (\<lambda>duid txid. if renew then BuildRenewMessage (e6_pton E) duid txid config
              else BuildRebindMessage (e6_pton E) duid txid config) s
        in DhcpV6Send_message message s)"

definition ProcessRenewOrRebind :: "Env6 \<Rightarrow> bool \<Rightarrow> V6 \<Rightarrow> V6" where
  "ProcessRenewOrRebind E renew s =
     (if \<not> m_socket s then s
      else
        let (nowMs, s) = GetCurrentTimeMs E s;
            deadline = (if renew then m_t2DeadlineMs s else m_expireDeadlineMs s)
        in if deadline > 0 \<and> nowMs \<ge> deadline then
             (if renew then act (SwitchState DhcpV6RebindState) (s\<lparr>m_t2DeadlineMs := 0\<rparr>)
              else act (SwitchState DhcpV6InitState) ((OnLeaseExpired (OnFailure ERR_LEASE_EXPIRED s))\<lparr>m_expireDeadlineMs := 0\<rparr>))
           else
             let s = (SendRenewOrRebindMsg E renew s)\<lparr>m_retryCount := 0\<rparr>;
                 timeout = retry_timeout s;
                 remainingMs = (if deadline > nowMs then deadline - nowMs else 0)
             in if deadline > 0 \<and> remainingMs > 0 \<and> remainingMs < ucast timeout
                then act (MessageExecutedLater (if renew then CMD_T2_TIMEOUT else CMD_EXPIRE_TIMEOUT) (uint remainingMs))
                       (s\<lparr>m_currentTimeout := ucast remainingMs\<rparr>)
                else start_retry_timer s)"

section \<open>Entering and leaving a state\<close>

text \<open>The requests the states build: the configuration with the current transaction id.\<close>

definition info_request :: "Env6 \<Rightarrow> V6 \<Rightarrow> bytes \<times> V6" where
  "info_request E s = built E (\<lambda>duid txid. BuildInformationRequestMessage duid txid ((m_config s)\<lparr>v6_transactionId := m_transactionId s\<rparr>)) s"

definition solicit :: "Env6 \<Rightarrow> V6 \<Rightarrow> bytes \<times> V6" where
  "solicit E s = built E (\<lambda>duid txid. BuildSolicitMessage duid txid ((m_config s)\<lparr>v6_transactionId := m_transactionId s\<rparr>)) s"

definition request :: "Env6 \<Rightarrow> V6 \<Rightarrow> bytes \<times> V6" where
  "request E s = built E (\<lambda>duid txid. BuildRequestMessage (e6_pton E) duid txid
     ((m_config s)\<lparr>v6_transactionId := m_transactionId s, v6_serverId := adv_serverId (m_currentAdvertise s)\<rparr>)
     (m_currentAdvertise s)) s"

definition InitState_GoInState :: "V6 \<Rightarrow> V6" where
  "InitState_GoInState s = s\<lparr>m_retryCount := 0, m_currentAdvertise := zero_advertise, m_result := zero_result6, m_isStopping := False\<rparr>"

definition InfoRequestState_GoInState :: "Env6 \<Rightarrow> V6 \<Rightarrow> V6" where
  "InfoRequestState_GoInState E s =
     (if \<not> m_socket s then s
      else let (message, s) = info_request E s in start_retry_timer (DhcpV6Send_message message s))"

definition SolicitState_GoInState :: "Env6 \<Rightarrow> V6 \<Rightarrow> V6" where
  "SolicitState_GoInState E s =
     (if \<not> m_socket s then s
      else let (message, s) = solicit E s in act (SwitchState DhcpV6AdvertiseState) (DhcpV6Send_message message s))"

definition AdvertiseState_GoInState :: "V6 \<Rightarrow> V6" where
  "AdvertiseState_GoInState s = start_retry_timer (s\<lparr>m_retryCount := 0\<rparr>)"

definition RequestState_GoInState :: "Env6 \<Rightarrow> V6 \<Rightarrow> V6" where
  "RequestState_GoInState E s =
     (if \<not> m_socket s then s
      else let (message, s) = request E s in start_retry_timer ((DhcpV6Send_message message s)\<lparr>m_retryCount := 0\<rparr>))"

definition BoundState_GoInState :: "Env6 \<Rightarrow> V6 \<Rightarrow> V6" where
  "BoundState_GoInState E s =
     (let s = OnSuccess s; r = m_result s in
      if v6_stateless (m_config s) then s
      else if r6_validLifetime r = 0
        then act (MessageExecutedLater CMD_TIMEOUT 0) (s\<lparr>m_t2DeadlineMs := 0, m_expireDeadlineMs := 0\<rparr>)
      else if r6_validLifetime r = INFINITE_LIFETIME then s
      else
        let (nowMs, s) = GetCurrentTimeMs E s
        in act (MessageExecutedLater CMD_TIMEOUT (uint (r6_t1 r) * 1000))
             (s\<lparr>m_t2DeadlineMs := nowMs + ucast (r6_t2 r) * 1000, m_expireDeadlineMs := nowMs + ucast (r6_validLifetime r) * 1000\<rparr>))"

definition ReleaseState_GoInState :: "Env6 \<Rightarrow> V6 \<Rightarrow> V6" where
  "ReleaseState_GoInState E s =
     (if \<not> m_socket s then act (SwitchState DhcpV6InitState) s
      else
        let (txid, s) = GenerateTransactionId E s;
            (message, s) = built E (\<lambda>duid t. BuildReleaseMessage duid t ((m_config s)\<lparr>v6_transactionId := txid\<rparr>)) s
        in act (SwitchState DhcpV6InitState) (DhcpV6Send_message message s))"

definition RenewState_GoInState :: "Env6 \<Rightarrow> V6 \<Rightarrow> V6" where
  "RenewState_GoInState E s = ProcessRenewOrRebind E True s"

definition RebindState_GoInState :: "Env6 \<Rightarrow> V6 \<Rightarrow> V6" where
  "RebindState_GoInState E s = ProcessRenewOrRebind E False s"

definition GoInState :: "Env6 \<Rightarrow> V6State \<Rightarrow> V6 \<Rightarrow> V6" where
  "GoInState E st s = (case st of
       DhcpV6InitState \<Rightarrow> InitState_GoInState s
     | DhcpV6InfoRequestState \<Rightarrow> InfoRequestState_GoInState E s
     | DhcpV6SolicitState \<Rightarrow> SolicitState_GoInState E s
     | DhcpV6AdvertiseState \<Rightarrow> AdvertiseState_GoInState s
     | DhcpV6RequestState \<Rightarrow> RequestState_GoInState E s
     | DhcpV6BoundState \<Rightarrow> BoundState_GoInState E s
     | DhcpV6RenewState \<Rightarrow> RenewState_GoInState E s
     | DhcpV6RebindState \<Rightarrow> RebindState_GoInState E s
     | DhcpV6ReleaseState \<Rightarrow> ReleaseState_GoInState E s
     | DhcpV6FailState \<Rightarrow> s)"

definition BoundState_GoOutState :: "V6 \<Rightarrow> V6" where
  "BoundState_GoOutState s = (act (StopTimerV6 CMD_TIMEOUT) s)\<lparr>m_t2DeadlineMs := 0, m_expireDeadlineMs := 0\<rparr>"

definition RenewState_GoOutState :: "V6 \<Rightarrow> V6" where
  "RenewState_GoOutState s = act (StopTimerV6 CMD_T2_TIMEOUT) (act (StopTimerV6 CMD_TIMEOUT) s)"

definition RebindState_GoOutState :: "V6 \<Rightarrow> V6" where
  "RebindState_GoOutState s = act (StopTimerV6 CMD_EXPIRE_TIMEOUT) (act (StopTimerV6 CMD_TIMEOUT) s)"

definition InfoRequestState_GoOutState :: "V6 \<Rightarrow> V6" where
  "InfoRequestState_GoOutState s = act (StopTimerV6 CMD_TIMEOUT) s"

definition AdvertiseState_GoOutState :: "V6 \<Rightarrow> V6" where
  "AdvertiseState_GoOutState s = act (StopTimerV6 CMD_TIMEOUT) s"

definition RequestState_GoOutState :: "V6 \<Rightarrow> V6" where
  "RequestState_GoOutState s = act (StopTimerV6 CMD_TIMEOUT) s"

definition GoOutState :: "V6State \<Rightarrow> V6 \<Rightarrow> V6" where
  "GoOutState st s = (case st of
       DhcpV6InfoRequestState \<Rightarrow> InfoRequestState_GoOutState s
     | DhcpV6AdvertiseState \<Rightarrow> AdvertiseState_GoOutState s
     | DhcpV6RequestState \<Rightarrow> RequestState_GoOutState s
     | DhcpV6BoundState \<Rightarrow> BoundState_GoOutState s
     | DhcpV6RenewState \<Rightarrow> RenewState_GoOutState s
     | DhcpV6RebindState \<Rightarrow> RebindState_GoOutState s
     | _ \<Rightarrow> s)"

section \<open>Handling a message\<close>

text \<open>The result tells whether the message was executed; if not, the base class offers it to the parent state.\<close>

definition InitState_ProcessStart :: "V6 \<Rightarrow> bool \<times> V6" where
  "InitState_ProcessStart s =
     (True, act (SwitchState (if v6_stateless (m_config s) then DhcpV6InfoRequestState else DhcpV6SolicitState)) s)"

definition InfoRequestState_ProcessMessageReceived :: "Env6 \<Rightarrow> bytes \<Rightarrow> V6 \<Rightarrow> bool \<times> V6" where
  "InfoRequestState_ProcessMessageReceived E data s =
     (let (ok, msgInfo) = ParseV6Message data new_info in
      if \<not> ok then (False, s)
      else if i6_transactionId msgInfo \<noteq> m_transactionId s then (False, s)
      else
        let (ok, reply) = ParseV6Reply (e6_ntop E) data zero_advertise in
        if \<not> ok then (False, s)
        else (True, act (SwitchState DhcpV6InitState) (OnSuccess (ProcessResultInfo reply s))))"

definition InfoRequestState_ProcessTimeout :: "Env6 \<Rightarrow> V6 \<Rightarrow> bool \<times> V6" where
  "InfoRequestState_ProcessTimeout E s =
     (let (message, s) = info_request E s in (True, snd (ProcessTimeoutWithRetry message s)))"

definition AdvertiseState_ProcessMessageReceived :: "Env6 \<Rightarrow> bytes \<Rightarrow> V6 \<Rightarrow> bool \<times> V6" where
  "AdvertiseState_ProcessMessageReceived E data s =
     (let (ok, msgInfo) = ParseV6Message data new_info in
      if \<not> ok then (False, s)
      else if i6_transactionId msgInfo \<noteq> m_transactionId s then (False, s)
      else
        let (ok, advertise) = ParseV6Advertise (e6_ntop E) data zero_advertise in
        if \<not> ok then (False, s)
        else if adv_ipv6Addresses advertise = [] then (True, s)
        else if adv_preference advertise = 0
          then (True, if adv_ipv6Addresses (m_currentAdvertise s) = [] then s\<lparr>m_currentAdvertise := advertise\<rparr> else s)
        else
          let shouldUse = adv_ipv6Addresses (m_currentAdvertise s) = []
                \<or> adv_preference advertise > adv_preference (m_currentAdvertise s)
          in if v6_serverId (m_config s) \<noteq> [] \<and> adv_serverId advertise \<noteq> v6_serverId (m_config s) then (True, s)
             else if shouldUse then (True, act (SwitchState DhcpV6RequestState) (s\<lparr>m_currentAdvertise := advertise\<rparr>))
             else (True, s))"

definition AdvertiseState_ProcessTimeout :: "Env6 \<Rightarrow> V6 \<Rightarrow> bool \<times> V6" where
  "AdvertiseState_ProcessTimeout E s =
     (if adv_ipv6Addresses (m_currentAdvertise s) \<noteq> [] then (True, act (SwitchState DhcpV6RequestState) s)
      else let (message, s) = solicit E s in (True, snd (ProcessTimeoutWithRetry message s)))"

definition RequestState_ProcessMessageReceived :: "Env6 \<Rightarrow> bytes \<Rightarrow> V6 \<Rightarrow> bool \<times> V6" where
  "RequestState_ProcessMessageReceived E data s =
     (let (ok, msgInfo) = ParseV6Message data new_info in
      if \<not> ok then (False, s)
      else if i6_transactionId msgInfo \<noteq> m_transactionId s then (False, s)
      else if i6_msgType msgInfo \<noteq> REPLY then (False, s)
      else
        let (ok, reply) = ParseV6Reply (e6_ntop E) data zero_advertise in
        if \<not> ok then (True, act (SwitchState DhcpV6FailState) (OnFailure ERR_GENERIC s))
        else if adv_ipv6Addresses reply = [] then (True, act (SwitchState DhcpV6FailState) (OnFailure ERR_GENERIC s))
        else (True, act (SwitchState DhcpV6BoundState) (ProcessResultInfo reply s)))"

definition RequestState_ProcessTimeout :: "Env6 \<Rightarrow> V6 \<Rightarrow> bool \<times> V6" where
  "RequestState_ProcessTimeout E s =
     (let (message, s) = request E s in (True, snd (ProcessTimeoutWithRetry message s)))"

definition BoundState_ProcessDadConflict :: "Env6 \<Rightarrow> string \<Rightarrow> V6 \<Rightarrow> bool \<times> V6" where
  "BoundState_ProcessDadConflict E addr s =
     (let s = (if m_socket s
               then let (txid, s) = GenerateTransactionId E s;
                        (message, s) = built E (\<lambda>duid t. BuildDeclineMessage (e6_pton E) duid t
                          ((m_config s)\<lparr>v6_transactionId := txid\<rparr>) [addr]) s
                    in DhcpV6Send_message message s
               else s);
          s = s\<lparr>m_result := (m_result s)\<lparr>r6_ipv6Addresses := [], r6_dnsServers := []\<rparr>, m_retryCount := 0\<rparr>;
          (txid, s) = GenerateTransactionId E s;
          s = s\<lparr>m_transactionId := txid, m_config := (m_config s)\<lparr>v6_serverId := []\<rparr>\<rparr>
      in (True, act (SwitchState DhcpV6SolicitState) (OnFailure ERR_DAD_FAILED s)))"

definition RenewState_ProcessMessageReceived :: "Env6 \<Rightarrow> bytes \<Rightarrow> V6 \<Rightarrow> bool \<times> V6" where
  "RenewState_ProcessMessageReceived E data s =
     (let (ok, msgInfo) = ParseV6Message data new_info in
      if \<not> ok then (False, s)
      else if i6_transactionId msgInfo \<noteq> m_transactionId s then (False, s)
      else if i6_msgType msgInfo \<noteq> REPLY then (False, s)
      else
        let (ok, reply) = ParseV6Reply (e6_ntop E) data zero_advertise in
        if \<not> ok then (False, s)
        else if adv_ipv6Addresses reply = [] then (True, act (SwitchState DhcpV6RebindState) s)
        else (True, act (SwitchState DhcpV6BoundState) (ProcessResultInfo reply s)))"

definition RebindState_ProcessMessageReceived :: "Env6 \<Rightarrow> bytes \<Rightarrow> V6 \<Rightarrow> bool \<times> V6" where
  "RebindState_ProcessMessageReceived E data s =
     (let (ok, msgInfo) = ParseV6Message data new_info in
      if \<not> ok then (False, s)
      else if i6_transactionId msgInfo \<noteq> m_transactionId s then (False, s)
      else if i6_msgType msgInfo \<noteq> REPLY then (False, s)
      else
        let (ok, reply) = ParseV6Reply (e6_ntop E) data zero_advertise in
        if \<not> ok then (False, s)
        else if adv_ipv6Addresses reply = []
          then (True, act (SwitchState DhcpV6InitState) (OnLeaseExpired (OnFailure ERR_LEASE_EXPIRED s)))
        else
          let s = ProcessResultInfo reply s;
              (nowMs, s) = GetCurrentTimeMs E s;
              s = s\<lparr>m_expireDeadlineMs := (if adv_validLifetime reply \<noteq> INFINITE_LIFETIME
                      then nowMs + ucast (adv_validLifetime reply) * 1000 else 0)\<rparr>
          in (True, act (SwitchState DhcpV6BoundState) s))"

definition InfoRequestState_ProcessStop :: "V6 \<Rightarrow> bool \<times> V6" where
  "InfoRequestState_ProcessStop s = (True, act (SwitchState DhcpV6InitState) s)"

definition SolicitState_ProcessStop :: "V6 \<Rightarrow> bool \<times> V6" where
  "SolicitState_ProcessStop s = (True, act (SwitchState DhcpV6InitState) s)"

definition AdvertiseState_ProcessStop :: "V6 \<Rightarrow> bool \<times> V6" where
  "AdvertiseState_ProcessStop s = (True, act (SwitchState DhcpV6InitState) s)"

definition RequestState_ProcessStop :: "V6 \<Rightarrow> bool \<times> V6" where
  "RequestState_ProcessStop s = (True, act (SwitchState DhcpV6InitState) s)"

definition BoundState_ProcessStop :: "V6 \<Rightarrow> bool \<times> V6" where
  "BoundState_ProcessStop s = (True, act (SwitchState DhcpV6ReleaseState) s)"

definition RenewState_ProcessStop :: "V6 \<Rightarrow> bool \<times> V6" where
  "RenewState_ProcessStop s = (True, act (SwitchState DhcpV6ReleaseState) s)"

definition RebindState_ProcessStop :: "V6 \<Rightarrow> bool \<times> V6" where
  "RebindState_ProcessStop s = (True, act (SwitchState DhcpV6ReleaseState) s)"

definition BoundState_ProcessTimeout :: "V6 \<Rightarrow> bool \<times> V6" where
  "BoundState_ProcessTimeout s = (True, act (SwitchState DhcpV6RenewState) s)"

definition RenewState_ProcessTimeout :: "Env6 \<Rightarrow> V6 \<Rightarrow> bool \<times> V6" where
  "RenewState_ProcessTimeout E s = (True, ProcessRenewOrRebind E True s)"

definition RebindState_ProcessTimeout :: "Env6 \<Rightarrow> V6 \<Rightarrow> bool \<times> V6" where
  "RebindState_ProcessTimeout E s = (True, ProcessRenewOrRebind E False s)"

definition InitState_ExecuteStateMsg :: "Env6 \<Rightarrow> Cmd6 \<Rightarrow> V6 \<Rightarrow> bool \<times> V6" where
  "InitState_ExecuteStateMsg E msg s = (case msg of
       CMD_START \<Rightarrow> InitState_ProcessStart s
     | _ \<Rightarrow> (False, s))"

definition InfoRequestState_ExecuteStateMsg :: "Env6 \<Rightarrow> Cmd6 \<Rightarrow> V6 \<Rightarrow> bool \<times> V6" where
  "InfoRequestState_ExecuteStateMsg E msg s = (case msg of
       CMD_MESSAGE_RECEIVED data \<Rightarrow> InfoRequestState_ProcessMessageReceived E data s
     | CMD_TIMEOUT \<Rightarrow> InfoRequestState_ProcessTimeout E s
     | CMD_STOP \<Rightarrow> InfoRequestState_ProcessStop s
     | _ \<Rightarrow> (False, s))"

definition SolicitState_ExecuteStateMsg :: "Env6 \<Rightarrow> Cmd6 \<Rightarrow> V6 \<Rightarrow> bool \<times> V6" where
  "SolicitState_ExecuteStateMsg E msg s = (case msg of
       CMD_STOP \<Rightarrow> SolicitState_ProcessStop s
     | _ \<Rightarrow> (False, s))"

definition AdvertiseState_ExecuteStateMsg :: "Env6 \<Rightarrow> Cmd6 \<Rightarrow> V6 \<Rightarrow> bool \<times> V6" where
  "AdvertiseState_ExecuteStateMsg E msg s = (case msg of
       CMD_MESSAGE_RECEIVED data \<Rightarrow> AdvertiseState_ProcessMessageReceived E data s
     | CMD_TIMEOUT \<Rightarrow> AdvertiseState_ProcessTimeout E s
     | CMD_STOP \<Rightarrow> AdvertiseState_ProcessStop s
     | _ \<Rightarrow> (False, s))"

definition RequestState_ExecuteStateMsg :: "Env6 \<Rightarrow> Cmd6 \<Rightarrow> V6 \<Rightarrow> bool \<times> V6" where
  "RequestState_ExecuteStateMsg E msg s = (case msg of
       CMD_MESSAGE_RECEIVED data \<Rightarrow> RequestState_ProcessMessageReceived E data s
     | CMD_TIMEOUT \<Rightarrow> RequestState_ProcessTimeout E s
     | CMD_STOP \<Rightarrow> RequestState_ProcessStop s
     | _ \<Rightarrow> (False, s))"

definition BoundState_ExecuteStateMsg :: "Env6 \<Rightarrow> Cmd6 \<Rightarrow> V6 \<Rightarrow> bool \<times> V6" where
  "BoundState_ExecuteStateMsg E msg s = (case msg of
       CMD_TIMEOUT \<Rightarrow> BoundState_ProcessTimeout s
     | CMD_STOP \<Rightarrow> BoundState_ProcessStop s
     | CMD_DAD_CONFLICT addr \<Rightarrow> BoundState_ProcessDadConflict E addr s
     | _ \<Rightarrow> (False, s))"

definition RenewState_ExecuteStateMsg :: "Env6 \<Rightarrow> Cmd6 \<Rightarrow> V6 \<Rightarrow> bool \<times> V6" where
  "RenewState_ExecuteStateMsg E msg s = (case msg of
       CMD_MESSAGE_RECEIVED data \<Rightarrow> RenewState_ProcessMessageReceived E data s
     | CMD_TIMEOUT \<Rightarrow> RenewState_ProcessTimeout E s
     | CMD_T2_TIMEOUT \<Rightarrow> (True, act (SwitchState DhcpV6RebindState) (s\<lparr>m_t2DeadlineMs := 0\<rparr>))
     | CMD_STOP \<Rightarrow> RenewState_ProcessStop s
     | _ \<Rightarrow> (False, s))"

definition RebindState_ExecuteStateMsg :: "Env6 \<Rightarrow> Cmd6 \<Rightarrow> V6 \<Rightarrow> bool \<times> V6" where
  "RebindState_ExecuteStateMsg E msg s = (case msg of
       CMD_MESSAGE_RECEIVED data \<Rightarrow> RebindState_ProcessMessageReceived E data s
     | CMD_TIMEOUT \<Rightarrow> RebindState_ProcessTimeout E s
     | CMD_EXPIRE_TIMEOUT \<Rightarrow> (True, act (SwitchState DhcpV6InitState)
         ((OnLeaseExpired (OnFailure ERR_LEASE_EXPIRED s))\<lparr>m_expireDeadlineMs := 0\<rparr>))
     | CMD_STOP \<Rightarrow> RebindState_ProcessStop s
     | _ \<Rightarrow> (False, s))"

definition FailState_ExecuteStateMsg :: "Env6 \<Rightarrow> Cmd6 \<Rightarrow> V6 \<Rightarrow> bool \<times> V6" where
  "FailState_ExecuteStateMsg E msg s = (case msg of
       CMD_START \<Rightarrow> (True, act (SwitchState DhcpV6InitState) s)
     | _ \<Rightarrow> (False, s))"

text \<open>The message goes to the handler of the state it is offered to.\<close>

definition ExecuteStateMsg :: "Env6 \<Rightarrow> V6State \<Rightarrow> Cmd6 \<Rightarrow> V6 \<Rightarrow> bool \<times> V6" where
  "ExecuteStateMsg E st msg s = (case st of
       DhcpV6InitState \<Rightarrow> InitState_ExecuteStateMsg E msg s
     | DhcpV6InfoRequestState \<Rightarrow> InfoRequestState_ExecuteStateMsg E msg s
     | DhcpV6SolicitState \<Rightarrow> SolicitState_ExecuteStateMsg E msg s
     | DhcpV6AdvertiseState \<Rightarrow> AdvertiseState_ExecuteStateMsg E msg s
     | DhcpV6RequestState \<Rightarrow> RequestState_ExecuteStateMsg E msg s
     | DhcpV6BoundState \<Rightarrow> BoundState_ExecuteStateMsg E msg s
     | DhcpV6RenewState \<Rightarrow> RenewState_ExecuteStateMsg E msg s
     | DhcpV6RebindState \<Rightarrow> RebindState_ExecuteStateMsg E msg s
     | DhcpV6ReleaseState \<Rightarrow> (False, s)
     | DhcpV6FailState \<Rightarrow> FailState_ExecuteStateMsg E msg s)"

lemmas execute_defs = ExecuteStateMsg_def InitState_ExecuteStateMsg_def InfoRequestState_ExecuteStateMsg_def
  SolicitState_ExecuteStateMsg_def AdvertiseState_ExecuteStateMsg_def RequestState_ExecuteStateMsg_def
  BoundState_ExecuteStateMsg_def RenewState_ExecuteStateMsg_def RebindState_ExecuteStateMsg_def FailState_ExecuteStateMsg_def

lemmas stop_defs = InfoRequestState_ProcessStop_def SolicitState_ProcessStop_def AdvertiseState_ProcessStop_def
  RequestState_ProcessStop_def BoundState_ProcessStop_def RenewState_ProcessStop_def RebindState_ProcessStop_def

lemmas received_defs = InfoRequestState_ProcessMessageReceived_def AdvertiseState_ProcessMessageReceived_def
  RequestState_ProcessMessageReceived_def RenewState_ProcessMessageReceived_def RebindState_ProcessMessageReceived_def

text \<open>A machine and an environment for the examples.\<close>

definition sample_env6 :: Env6 where
  "sample_env6 = \<lparr>e6_txid = (\<lambda>_. 0x123456), e6_duid = (\<lambda>_. [1]), e6_now = (\<lambda>_. 5000000), e6_pton = sample_pton6, e6_ntop = sample_ntop6\<rparr>"

definition waiting_machine :: V6 where
  "waiting_machine = new_machine\<lparr>m_socket := True, m_callbacks := True, m_transactionId := 7, m_retryCount := 1\<rparr>"

section \<open>Messages that are not for the client\<close>

text \<open>C33: In every state a datagram that is not a well-formed DHCPv6 message, or that carries another transaction id than the
  client's, is left alone: it is not executed, nothing is sent, no timer or callback is touched and the machine is as before.\<close>

theorem foreign_message_ignored:
  assumes "fst (ParseV6Message data new_info) \<longrightarrow> i6_transactionId (snd (ParseV6Message data new_info)) \<noteq> m_transactionId s"
  shows "ExecuteStateMsg E st (CMD_MESSAGE_RECEIVED data) s = (False, s)"
proof -
  obtain ok info where "ParseV6Message data new_info = (ok, info)" by fastforce
  with assms show ?thesis by (cases st; cases ok) (simp_all add: execute_defs received_defs)
qed

theorem foreign_message_ignored_witness:
  "ExecuteStateMsg sample_env6 DhcpV6RequestState (CMD_MESSAGE_RECEIVED [7, 0, 0, 8]) waiting_machine = (False, waiting_machine)
   \<and> fst (ParseV6Message [7, 0, 0, 8] new_info)"
proof -
  have "ParseV6Message [7, 0, 0, 8] new_info = (True, \<lparr>i6_msgType = 7, i6_transactionId = 8, i6_options = []\<rparr>)"
    by (subst ParseV6Message_def, subst ParseV6Message_loop.simps) (simp add: new_info_def)
  then show ?thesis
    using foreign_message_ignored [of "[7, 0, 0, 8]" waiting_machine sample_env6 DhcpV6RequestState]
    by (simp add: waiting_machine_def new_machine_def)
qed

text \<open>No state executes the error command of the receive loop.\<close>

lemma error_command_unhandled: "ExecuteStateMsg E st CMD_ERROR s = (False, s)"
  by (cases st) (simp_all add: execute_defs)

section \<open>Retries\<close>

definition on_timeout :: "Env6 \<Rightarrow> V6State \<Rightarrow> V6 \<Rightarrow> V6" where
  "on_timeout E st s = snd (ExecuteStateMsg E st CMD_TIMEOUT s)"

text \<open>The states that wait for an answer; the second one until an advertise is kept.\<close>

definition waits :: "V6State \<Rightarrow> V6 \<Rightarrow> bool" where
  "waits st s \<longleftrightarrow> st \<in> {DhcpV6InfoRequestState, DhcpV6RequestState}
     \<or> st = DhcpV6AdvertiseState \<and> adv_ipv6Addresses (m_currentAdvertise s) = []"

lemma on_timeout_retry:
  assumes "waits st s"
  obtains m where "on_timeout E st s = snd (ProcessTimeoutWithRetry m (s\<lparr>m_readings := m_readings s + 1\<rparr>))"
  using assms
  by (auto simp: waits_def on_timeout_def execute_defs InfoRequestState_ProcessTimeout_def AdvertiseState_ProcessTimeout_def
      RequestState_ProcessTimeout_def info_request_def solicit_def request_def built_def)

lemma on_timeout_sends:
  assumes "waits st s" "m_socket s" "m_retryCount s \<le> m_maxRetries s"
  obtains m s' where "on_timeout E st s = s'" "m_log s' = m_log s @ [SentV6 m, MessageExecutedLater CMD_TIMEOUT (uint (retry_timeout s))]"
    "m_retryCount s' = m_retryCount s + 1" "m_maxRetries s' = m_maxRetries s" "waits st s'" "m_socket s'" "m_callbacks s' = m_callbacks s"
proof -
  obtain m where m: "on_timeout E st s = snd (ProcessTimeoutWithRetry m (s\<lparr>m_readings := m_readings s + 1\<rparr>))"
    by (rule on_timeout_retry [OF assms(1)])
  show thesis
    using assms
    by (intro that [OF m])
      (auto simp: ProcessTimeoutWithRetry_def start_retry_timer_def DhcpV6Send_message_def act_def Let_def retry_timeout_def waits_def)
qed

lemma four_times: "(f ^^ 4) x = f (f (f (f x)))"
  by (simp add: eval_nat_numeral)



section \<open>Choosing an advertise\<close>

text \<open>What an advertise for this client does in the advertise state, on every branch.\<close>

lemma advertise_received:
  assumes "ParseV6Message data new_info = (True, info)" "i6_transactionId info = m_transactionId s"
    and "ParseV6Advertise (e6_ntop E) data zero_advertise = (True, adv)" "adv_ipv6Addresses adv \<noteq> []"
  shows "ExecuteStateMsg E DhcpV6AdvertiseState (CMD_MESSAGE_RECEIVED data) s = (True,
    if adv_preference adv = 0
      then (if adv_ipv6Addresses (m_currentAdvertise s) = [] then s\<lparr>m_currentAdvertise := adv\<rparr> else s)
    else if v6_serverId (m_config s) \<noteq> [] \<and> adv_serverId adv \<noteq> v6_serverId (m_config s) then s
    else if adv_ipv6Addresses (m_currentAdvertise s) = [] \<or> adv_preference adv > adv_preference (m_currentAdvertise s)
      then act (SwitchState DhcpV6RequestState) (s\<lparr>m_currentAdvertise := adv\<rparr>)
    else s)"
  using assms by (simp add: execute_defs AdvertiseState_ProcessMessageReceived_def Let_def)

section \<open>From a reply to a lease\<close>

text \<open>The reply a server sends: its identifier and an association with addresses.\<close>

definition lease_reply :: "Env6 \<Rightarrow> u32 \<Rightarrow> bytes \<Rightarrow> u32 \<Rightarrow> u32 \<Rightarrow> string list \<Rightarrow> u32 \<Rightarrow> u32 \<Rightarrow> bytes" where
  "lease_reply E x sid t1 t2 as p v = BuildMessage REPLY x
     [BuildServerIdOption sid, BuildIaNaOptionWithAddresses (e6_pton E) DHCPV6_DEFAULT_IAID t1 t2 as p v]"

lemma lease_reply_parsed:
  assumes "list_all (canonical6 (e6_pton E) (e6_ntop E)) as" "as \<noteq> []" "length as \<le> 8" "length sid \<le> 128" "take_bit 24 x = x"
  obtains info where "ParseV6Message (lease_reply E x sid t1 t2 as p v) new_info = (True, info)" "i6_transactionId info = x" "i6_msgType info = REPLY"
    "ParseV6Reply (e6_ntop E) (lease_reply E x sid t1 t2 as p v) zero_advertise = (True, zero_advertise\<lparr>adv_serverId := sid,
       adv_ipv6Addresses := as, adv_iaid := DHCPV6_DEFAULT_IAID, adv_t1 := t1, adv_t2 := t2, adv_preferredLifetime := p, adv_validLifetime := v\<rparr>)"
proof -
  let ?ia = "BuildIaNaOptionWithAddresses (e6_pton E) DHCPV6_DEFAULT_IAID t1 t2 as p v"
  let ?info = "\<lparr>i6_msgType = REPLY, i6_transactionId = x, i6_options = [BuildServerIdOption sid, ?ia]\<rparr>"
  have "info_wf ?info" using assms(4,5) o6_wf_with_addresses [OF assms(1,3)] by (simp add: info_wf_def BuildServerIdOption_def)
  then have parsed: "ParseV6Message (lease_reply E x sid t1 t2 as p v) new_info = (True, ?info)"
    using message_of_image [of ?info] by (simp add: lease_reply_def)
  have codes: "o6_code (BuildServerIdOption sid) = 2" "o6_data (BuildServerIdOption sid) = sid" "o6_code ?ia = 3"
    by (simp_all add: BuildServerIdOption_def BuildIdOption_def BuildIaNaOptionWithAddresses_def BuildIaNaOption_def Let_def)
  show thesis
    using parsed codes assms(4) ParseIaNaOption_built [OF assms(1,2,3) refl]
    by (intro that [OF parsed]) (simp_all add: ParseV6Reply_def ParseReplyOptions_v6_def ParseReplyOption_def ParseServerIdOption_def zero_advertise_def)
qed

text \<open>The times of the lease: those of the server, or the defaults.\<close>

definition lease_t1 :: "u32 \<Rightarrow> u32 \<Rightarrow> u32" where
  "lease_t1 t1 v = (if t1 = 0 then v div 2 else t1)"

definition lease_t2 :: "u32 \<Rightarrow> u32 \<Rightarrow> u32" where
  "lease_t2 t2 v = (if t2 = 0 then v * 80 div 100 else t2)"



text \<open>The default of T2 is computed in 32 bits: for a lease of \<open>2 ^ 26\<close> seconds T2 is 124 days and T1 388 days, and for one of
  \<open>53687092\<close> seconds T2 is zero.\<close>

lemma t2_wraps: "lease_t2 0 (2 ^ 26) = 10737418 \<and> lease_t1 0 (2 ^ 26) = 33554432 \<and> lease_t2 0 53687092 = 0"
  by code_simp

end
