(* ===== verification/DhcpV6Client.thy ===== *)
theory DhcpV6Client
  imports DhcpV6Machine
begin

text \<open>
  The object that owns the DHCPv6 state machine and its socket (\<^verbatim>\<open>dhcp_v6_client.cpp\<close>, the receive path of
  \<^verbatim>\<open>dhcp_v6_socket.cpp\<close>), its receive loop, and what the machine does when it is stopped, when it renews and when an address
  is a duplicate.
\<close>

section \<open>Receiving\<close>

text \<open>What \<^verbatim>\<open>recvfrom\<close> can give: the socket is closed, an error, nothing in time, or a datagram with its source port.\<close>

datatype Recv6 = SocketClosed | ReceiveFailed | ReceiveWouldBlock | Datagram6 u16 bytes

fun DhcpV6Receive :: "Recv6 \<Rightarrow> int \<times> bytes" where
  "DhcpV6Receive SocketClosed = (ERR_GENERIC, [])"
| "DhcpV6Receive ReceiveFailed = (ERR_GENERIC, [])"
| "DhcpV6Receive ReceiveWouldBlock = (SOCK_RECV_TIMEOUT, [])"
| "DhcpV6Receive (Datagram6 port data) = (if port \<noteq> 547 then (ERR_GENERIC, []) else (0, take 4096 data))"

text \<open>One element per turn of the loop: whether the flags let it run, what was received, and whether the flags still let it run when
  an error is looked at. The result is the commands sent to the machine.\<close>

fun DhcpV6ReceiveLoop :: "(bool \<times> Recv6 \<times> bool) list \<Rightarrow> Cmd6 list" where
  "DhcpV6ReceiveLoop [] = []"
| "DhcpV6ReceiveLoop ((runs, r, still) # turns) =
     (if \<not> runs then []
      else
        let (ret, buffer) = DhcpV6Receive r in
        if ret = 0 then CMD_MESSAGE_RECEIVED buffer # DhcpV6ReceiveLoop turns
        else if ret = SOCK_RECV_TIMEOUT then DhcpV6ReceiveLoop turns
        else if ret = ERR_GENERIC then (if still then [CMD_ERROR] else DhcpV6ReceiveLoop turns)
        else DhcpV6ReceiveLoop turns)"

section \<open>The client object\<close>

record DhcpV6Client =
  cl_iface :: string
  cl_stateMachine :: V6
  cl_socketOpen :: bool
  cl_config :: DhcpV6Config
  cl_result :: DhcpV6Result
  cl_callback :: bool
  cl_isClientRunning :: bool
  cl_isStopRequested :: bool
  cl_messageThread :: bool

definition new_DhcpV6Client :: "Env6 \<Rightarrow> bytes \<Rightarrow> string \<Rightarrow> DhcpV6Client" where
  "new_DhcpV6Client E duid iface =
     (let config = (m_config new_machine)\<lparr>v6_clientId := duid\<rparr>
      in \<lparr>cl_iface = iface,
          cl_stateMachine = SetConfig E config (new_machine\<lparr>m_socket := True, m_iface := iface, m_callbacks := True\<rparr>),
          cl_socketOpen = False, cl_config = config, cl_result = zero_result6, cl_callback = False, cl_isClientRunning = False,
          cl_isStopRequested = False, cl_messageThread = False\<rparr>)"

text \<open>The callback of the machine: the result is kept, and the registered callback, if any, is called.\<close>

definition success_callback :: "DhcpV6Result \<Rightarrow> DhcpV6Client \<Rightarrow> bool \<times> DhcpV6Client" where
  "success_callback result c = (cl_callback c, c\<lparr>cl_result := result\<rparr>)"

definition DhcpV6ConfigureStateless :: "Env6 \<Rightarrow> bool \<Rightarrow> DhcpV6Client \<Rightarrow> DhcpV6Client" where
  "DhcpV6ConfigureStateless E stateless c =
     (let config = (cl_config c)\<lparr>v6_stateless := stateless, v6_transactionId := 0\<rparr>
      in c\<lparr>cl_config := config, cl_stateMachine := SetConfig E config (cl_stateMachine c)\<rparr>)"

text \<open>\<open>socketInit\<close> and \<open>machineInit\<close>: the results of setting up the socket and the base class of the machine.\<close>

definition DhcpV6Start :: "Env6 \<Rightarrow> bool \<Rightarrow> bool \<Rightarrow> DhcpV6Client \<Rightarrow> int \<times> DhcpV6Client" where
  "DhcpV6Start E socketInit machineInit c =
     (if cl_isClientRunning c then (0, c)
      else if \<not> socketInit then (ERR_GENERIC, c)
      else
        let c = c\<lparr>cl_socketOpen := True\<rparr> in
        if \<not> machineInit then (ERR_GENERIC, c)
        else
          let config = (cl_config c)\<lparr>v6_serverId := []\<rparr>;
              machine = act (SendMessage CMD_START) (SetConfig E config (cl_stateMachine c))
          in (0, c\<lparr>cl_config := config, cl_stateMachine := machine, cl_isClientRunning := True, cl_messageThread := True\<rparr>))"

definition DhcpV6Stop :: "DhcpV6Client \<Rightarrow> int \<times> DhcpV6Client" where
  "DhcpV6Stop c =
     (if \<not> cl_isClientRunning c then (0, c)
      else
        let machine = act (SendMessage CMD_STOP) ((cl_stateMachine c)\<lparr>m_isStopping := True\<rparr>)
        in (0, c\<lparr>cl_isClientRunning := False, cl_isStopRequested := True, cl_stateMachine := machine, cl_socketOpen := False,
               cl_messageThread := False, cl_callback := False,
               cl_result := (cl_result c)\<lparr>r6_ipv6Addresses := [], r6_dnsServers := []\<rparr>\<rparr>))"

definition IsRunning :: "DhcpV6Client \<Rightarrow> bool" where
  "IsRunning c = cl_isClientRunning c"

definition DhcpV6RegisterCallback :: "bool \<Rightarrow> DhcpV6Client \<Rightarrow> int \<times> DhcpV6Client" where
  "DhcpV6RegisterCallback callback c = (0, c\<lparr>cl_callback := callback\<rparr>)"

definition Client_OnKernelDadConflict :: "string \<Rightarrow> DhcpV6Client \<Rightarrow> DhcpV6Client" where
  "Client_OnKernelDadConflict addr c =
     (if \<not> cl_isClientRunning c then c else c\<lparr>cl_stateMachine := OnKernelDadConflict addr (cl_stateMachine c)\<rparr>)"

definition Client_IsDhcpV6ConfiguredAddress :: "string \<Rightarrow> DhcpV6Client \<Rightarrow> bool" where
  "Client_IsDhcpV6ConfiguredAddress addr c =
     (if \<not> cl_isClientRunning c then False else IsDhcpV6ConfiguredAddress addr (cl_stateMachine c))"

section \<open>The receive loop\<close>

text \<open>A turn that gives a datagram of a server, or nothing in time.\<close>

definition quiet_turn :: "Recv6 \<Rightarrow> bool" where
  "quiet_turn r = (case r of ReceiveWouldBlock \<Rightarrow> True | Datagram6 port data \<Rightarrow> port = 547 | _ \<Rightarrow> False)"

definition payloads :: "Recv6 list \<Rightarrow> bytes list" where
  "payloads rs = concat (map (\<lambda>r. case r of Datagram6 port data \<Rightarrow> [take 4096 data] | _ \<Rightarrow> []) rs)"

lemma DhcpV6ReceiveLoop_quiet:
  "list_all quiet_turn rs \<Longrightarrow>
   DhcpV6ReceiveLoop (map (\<lambda>r. (True, r, True)) rs @ turns) = map CMD_MESSAGE_RECEIVED (payloads rs) @ DhcpV6ReceiveLoop turns"
proof (induction rs)
  case (Cons r rs)
  then show ?case by (cases r) (auto simp: quiet_turn_def payloads_def)
qed (simp add: payloads_def)

text \<open>C40: The receive loop forwards the datagrams of servers to the machine, each once and in order, until the first datagram from
  another port: from then on nothing is forwarded any more, although the client runs and has not been asked to stop. The
  error command that is sent instead is executed in no state.\<close>

theorem stray_datagram_ends_reception:
  assumes "list_all quiet_turn rs" "port \<noteq> 547"
  shows "DhcpV6ReceiveLoop (map (\<lambda>r. (True, r, True)) (rs @ Datagram6 port data # later)) = map CMD_MESSAGE_RECEIVED (payloads rs) @ [CMD_ERROR]
    \<and> ExecuteStateMsg E st CMD_ERROR s = (False, s)"
  using DhcpV6ReceiveLoop_quiet [OF assms(1), of "(True, Datagram6 port data, True) # map (\<lambda>r. (True, r, True)) later"] assms(2)
  by (simp add: error_command_unhandled)

theorem stray_datagram_ends_reception_witness:
  "DhcpV6ReceiveLoop (map (\<lambda>r. (True, r, True)) [Datagram6 547 [2, 0, 0, 7], Datagram6 546 [], Datagram6 547 [7, 0, 0, 7]])
     = [CMD_MESSAGE_RECEIVED [2, 0, 0, 7], CMD_ERROR]
   \<and> ExecuteStateMsg sample_env6 DhcpV6RequestState CMD_ERROR waiting_machine = (False, waiting_machine)"
  using stray_datagram_ends_reception [of "[Datagram6 547 [2, 0, 0, 7]]" 546 "[]" "[Datagram6 547 [7, 0, 0, 7]]" sample_env6
      DhcpV6RequestState waiting_machine]
  by (simp add: quiet_turn_def payloads_def)

text \<open>The request to stop is never taken back: after a stop, the receive loop of a client that is started again does not run.\<close>

lemma restart_receives_nothing:
  assumes "cl_isClientRunning c"
  shows "fst (DhcpV6Start E True True (snd (DhcpV6Stop c))) = 0"
    "cl_isClientRunning (snd (DhcpV6Start E True True (snd (DhcpV6Stop c))))"
    "cl_isStopRequested (snd (DhcpV6Start E True True (snd (DhcpV6Stop c))))"
  using assms by (simp_all add: DhcpV6Stop_def DhcpV6Start_def Let_def)

section \<open>Stopping, renewing, duplicates\<close>

text \<open>A release names the server but no address: its association has no addresses.\<close>

lemma release_names_no_address:
  assumes "m_socket s" "length (v6_serverId (m_config s)) \<le> 128" "length (v6_clientId (m_config s)) < 65536" "v6_clientId (m_config s) \<noteq> []"
    and "take_bit 24 (e6_txid E (m_readings s)) = e6_txid E (m_readings s)" "e6_txid E (m_readings s) \<noteq> 0"
  shows "\<exists>m info. m_log (GoInState E DhcpV6ReleaseState s) = m_log s @ [SentV6 m, SwitchState DhcpV6InitState]
    \<and> ParseV6Message m new_info = (True, info) \<and> i6_msgType info = RELEASE
    \<and> ParseReplyOptions_v6 ntop6 (i6_options info) zero_advertise
        = zero_advertise\<lparr>adv_serverId := v6_serverId (m_config s), adv_iaid := DHCPV6_DEFAULT_IAID\<rparr>"
proof -
  let ?x = "e6_txid E (m_readings s)"
  let ?os = "[BuildClientIdOption (v6_clientId (m_config s)), BuildServerIdOption (v6_serverId (m_config s)), BuildIaNaOption DHCPV6_DEFAULT_IAID 0 0]"
  let ?info = "\<lparr>i6_msgType = RELEASE, i6_transactionId = ?x, i6_options = ?os\<rparr>"
  have "m_log (GoInState E DhcpV6ReleaseState s) = m_log s @ [SentV6 (BuildMessage RELEASE ?x ?os), SwitchState DhcpV6InitState]"
    using assms(1,4,6) by (simp add: GoInState_def ReleaseState_GoInState_def GenerateTransactionId_def built_def BuildReleaseMessage_def
        client_id_option_def message_txid_def DhcpV6Send_message_def act_def)
  moreover have "info_wf ?info" using assms by (simp add: info_wf_def BuildClientIdOption_def BuildServerIdOption_def)
  moreover have "ParseReplyOptions_v6 ntop6 ?os zero_advertise = zero_advertise\<lparr>adv_serverId := v6_serverId (m_config s), adv_iaid := DHCPV6_DEFAULT_IAID\<rparr>"
  proof -
    have "ParseIaNaSubOptions_loop ntop6 (o6_data (BuildIaNaOption 1 0 0)) 12 0 adv = (True, adv)" for adv
      by (subst ParseIaNaSubOptions_loop.simps) (simp add: BuildIaNaOption_def be32_image_def)
    moreover have "ParseUint32FromBytes (o6_data (BuildIaNaOption 1 0 0)) 0 = 1" "ParseUint32FromBytes (o6_data (BuildIaNaOption 1 0 0)) 4 = 0"
      "ParseUint32FromBytes (o6_data (BuildIaNaOption 1 0 0)) 8 = 0" "length (o6_data (BuildIaNaOption 1 0 0)) = 12"
      by (simp_all add: BuildIaNaOption_def be32_image_def ParseUint32FromBytes_def)
    moreover have "o6_code (BuildIaNaOption 1 0 0) = 3" by (simp add: BuildIaNaOption_def)
    ultimately have "ParseReplyOption ntop6 adv (BuildIaNaOption 1 0 0)
        = adv\<lparr>adv_iaid := 1, adv_t1 := 0, adv_t2 := 0, adv_preferredLifetime := 0, adv_validLifetime := 0\<rparr>" for adv
      by (simp add: ParseReplyOption_def ParseIaNaOption_def ParseIaNaSubOptions_def)
    moreover have "ParseReplyOption ntop6 adv (BuildClientIdOption d) = adv" for adv d
      by (simp add: ParseReplyOption_def BuildClientIdOption_def BuildIdOption_def)
    moreover have "ParseReplyOption ntop6 adv (BuildServerIdOption (v6_serverId (m_config s))) = adv\<lparr>adv_serverId := v6_serverId (m_config s)\<rparr>" for adv
      using assms(2) by (simp add: ParseReplyOption_def ParseServerIdOption_def BuildServerIdOption_def BuildIdOption_def)
    ultimately show ?thesis by (simp add: ParseReplyOptions_v6_def) (simp add: zero_advertise_def)
  qed
  ultimately show ?thesis using message_of_image [of ?info] by auto
qed

text \<open>The wait between two renewals never grows: the retry counter is reset before the time is computed.\<close>

lemma renew_timeout_constant:
  assumes "m_socket s" "m_t2DeadlineMs s = 0"
  shows "m_currentTimeout (ProcessRenewOrRebind E True s) = 1000" "m_retryCount (ProcessRenewOrRebind E True s) = 1"
  using assms by (simp_all add: ProcessRenewOrRebind_def GetCurrentTimeMs_def SendRenewOrRebindMsg_def GenerateTransactionId_def built_def
      DhcpV6Send_message_def act_def start_retry_timer_def retry_timeout_def Let_def)

lemma decline_association:
  "foldl (\<lambda>d a. d @ option6_image (BuildIaAddrOption pton6 a 0 0)) [0, 0, 0, 1, 0, 0, 0, 0, 0, 0, 0, 0] [addr]
     = o6_data (BuildIaNaOptionWithAddresses pton6 DHCPV6_DEFAULT_IAID 0 0 [addr] 0 0)"
  by (simp add: with_addresses_data be32_image_def)

lemma decline_parsed:
  assumes "canonical6 pton6 ntop6 addr" "length (v6_serverId config) \<le> 128" "length (v6_clientId config) < 65536" "v6_clientId config \<noteq> []"
    and "take_bit 24 x = x"
  shows "\<exists>info. ParseV6Message (BuildDeclineMessage pton6 duid x config [addr]) new_info = (True, info) \<and> i6_msgType info = DECLINE
    \<and> ParseReplyOptions_v6 ntop6 (i6_options info) zero_advertise = zero_advertise\<lparr>adv_serverId := v6_serverId config,
        adv_iaid := DHCPV6_DEFAULT_IAID, adv_ipv6Addresses := [addr]\<rparr>"
proof -
  let ?ia = "BuildIaNaOptionWithAddresses pton6 DHCPV6_DEFAULT_IAID 0 0 [addr] 0 0"
  let ?os = "[BuildClientIdOption (v6_clientId config), BuildServerIdOption (v6_serverId config), ?ia]"
  let ?info = "\<lparr>i6_msgType = DECLINE, i6_transactionId = x, i6_options = ?os\<rparr>"
  have ia: "?ia = \<lparr>o6_code = OPTION_IA_NA, o6_length = of_nat (length (o6_data ?ia)), o6_data = o6_data ?ia\<rparr>"
    by (simp add: BuildIaNaOptionWithAddresses_def BuildIaNaOption_def Let_def)
  have can: "list_all (canonical6 pton6 ntop6) [addr]" using assms(1) by simp
  have "BuildDeclineMessage pton6 duid x config [addr] = BuildMessage DECLINE x ?os"
    unfolding BuildDeclineMessage_def decline_association Let_def ia [symmetric] using assms(4) by (simp add: client_id_option_def)
  moreover have "info_wf ?info"
    using assms(2,3,5) o6_wf_with_addresses [OF can] by (simp add: info_wf_def BuildClientIdOption_def BuildServerIdOption_def)
  moreover have "ParseReplyOption ntop6 adv (BuildClientIdOption d) = adv" for adv d
    by (simp add: ParseReplyOption_def BuildClientIdOption_def BuildIdOption_def)
  moreover have "ParseReplyOption ntop6 adv (BuildServerIdOption (v6_serverId config)) = adv\<lparr>adv_serverId := v6_serverId config\<rparr>" for adv
    using assms(2) by (simp add: ParseReplyOption_def ParseServerIdOption_def BuildServerIdOption_def BuildIdOption_def)
  moreover have "ParseReplyOption ntop6 adv ?ia = adv\<lparr>adv_iaid := 1, adv_t1 := 0, adv_t2 := 0,
      adv_ipv6Addresses := adv_ipv6Addresses adv @ [addr], adv_preferredLifetime := 0, adv_validLifetime := 0\<rparr>" for adv
    using ParseIaNaOption_built [OF can _ _ refl, of 1 0 0 0 0 adv] arg_cong [OF ia, of o6_code] by (simp add: ParseReplyOption_def)
  ultimately show ?thesis
    using message_of_image [of ?info] by (intro exI [of _ ?info]) (simp add: ParseReplyOptions_v6_def, simp add: zero_advertise_def)
qed

text \<open>C36: When the kernel finds that an address of the lease is a duplicate, the machine is told, and only then: the bound state sends a decline
  that names this address and the server, forgets the lease and the server, reports the conflict and starts over with a new
  transaction id. An address that is not of the lease changes nothing.\<close>

theorem dad_conflict_declined:
  assumes "m_socket s" "m_callbacks s" "canonical6 (e6_pton E) (e6_ntop E) addr" "v6_clientId (m_config s) \<noteq> []"
    and "length (v6_clientId (m_config s)) < 65536" "length (v6_serverId (m_config s)) \<le> 128"
    and "take_bit 24 (e6_txid E (m_readings s + 1)) = e6_txid E (m_readings s + 1)"
  shows "OnKernelDadConflict addr s =
      (if addr \<in> set (r6_ipv6Addresses (m_result s)) then act (SendMessage (CMD_DAD_CONFLICT addr)) s else s)
    \<and> (\<exists>m info s'. ExecuteStateMsg E DhcpV6BoundState (CMD_DAD_CONFLICT addr) s = (True, s')
        \<and> m_log s' = m_log s @ [SentV6 m, FailureCallback ERR_DAD_FAILED, SwitchState DhcpV6SolicitState]
        \<and> ParseV6Message m new_info = (True, info) \<and> i6_msgType info = DECLINE
        \<and> ParseReplyOptions_v6 (e6_ntop E) (i6_options info) zero_advertise = zero_advertise\<lparr>adv_serverId := v6_serverId (m_config s),
             adv_iaid := DHCPV6_DEFAULT_IAID, adv_ipv6Addresses := [addr]\<rparr>
        \<and> r6_ipv6Addresses (m_result s') = [] \<and> v6_serverId (m_config s') = [] \<and> m_transactionId s' = e6_txid E (m_readings s + 2))"
proof -
  let ?config = "(m_config s)\<lparr>v6_transactionId := e6_txid E (m_readings s)\<rparr>"
  let ?m = "BuildDeclineMessage (e6_pton E) (e6_duid E (m_readings s + 1)) (e6_txid E (m_readings s + 1)) ?config [addr]"
  obtain s' where "ExecuteStateMsg E DhcpV6BoundState (CMD_DAD_CONFLICT addr) s = (True, s')"
    "m_log s' = m_log s @ [SentV6 ?m, FailureCallback ERR_DAD_FAILED, SwitchState DhcpV6SolicitState]"
    "r6_ipv6Addresses (m_result s') = []" "v6_serverId (m_config s') = []" "m_transactionId s' = e6_txid E (m_readings s + 2)"
    using assms(1,2) by (simp add: execute_defs BoundState_ProcessDadConflict_def GenerateTransactionId_def built_def
        DhcpV6Send_message_def OnFailure_def act_def Let_def)
  moreover have "\<exists>info. ParseV6Message ?m new_info = (True, info) \<and> i6_msgType info = DECLINE
    \<and> ParseReplyOptions_v6 (e6_ntop E) (i6_options info) zero_advertise = zero_advertise\<lparr>adv_serverId := v6_serverId (m_config s),
        adv_iaid := DHCPV6_DEFAULT_IAID, adv_ipv6Addresses := [addr]\<rparr>"
    using decline_parsed [OF assms(3), of ?config "e6_txid E (m_readings s + 1)"] assms by simp
  moreover have "OnKernelDadConflict addr s =
      (if addr \<in> set (r6_ipv6Addresses (m_result s)) then act (SendMessage (CMD_DAD_CONFLICT addr)) s else s)"
    by (auto simp: OnKernelDadConflict_def IsDhcpV6ConfiguredAddress_def list_ex_iff)
  ultimately show ?thesis by blast
qed

theorem dad_conflict_declined_witness:
  "\<exists>s'. ExecuteStateMsg sample_env6 DhcpV6BoundState (CMD_DAD_CONFLICT ''2001:db8:0:0:::1'')
      (waiting_machine\<lparr>m_config := sample_config6\<rparr>) = (True, s') \<and> r6_ipv6Addresses (m_result s') = [] \<and> m_transactionId s' = 0x123456"
  using dad_conflict_declined [of "waiting_machine\<lparr>m_config := sample_config6\<rparr>" sample_env6 "''2001:db8:0:0:::1''"]
  by (auto simp: waiting_machine_def new_machine_def sample_config6_def sample_env6_def sample_canonical6)

end
