(* ===== verification/DhcpArp.thy ===== *)
theory DhcpArp
  imports DhcpClientPacket
begin

unbundle bit_operations_syntax

text \<open>
  The ARP probes of the client (\<^verbatim>\<open>dhcp_arp_checker.cpp\<close>): start and stop of the checker, the probe packet, the loops that wait for
  answers, and the bookkeeping of binds that do not return. What the system calls give is an argument of the operations; the
  descriptors that are closed are kept in a list.
\<close>

record ArpPacket =
  ar_hrd :: u16
  ar_pro :: u16
  ar_hln :: u8
  ar_pln :: u8
  ar_op :: u16
  ar_sha :: bytes
  ar_spa :: bytes
  ar_tha :: bytes
  ar_tpa :: bytes

text \<open>The 28 bytes of a packet, and the packet that a buffer is read as.\<close>

definition arp_image :: "ArpPacket \<Rightarrow> bytes" where
  "arp_image p = u16_bytes (ar_hrd p) @ u16_bytes (ar_pro p) @ [ar_hln p, ar_pln p] @ u16_bytes (ar_op p) @ ar_sha p @ ar_spa p @ ar_tha p @ ar_tpa p"

definition image_arp :: "bytes \<Rightarrow> ArpPacket" where
  "image_arp bs = \<lparr>ar_hrd = u16_of_bytes (take 2 bs), ar_pro = u16_of_bytes (take 2 (drop 2 bs)), ar_hln = bs ! 4, ar_pln = bs ! 5,
     ar_op = u16_of_bytes (take 2 (drop 6 bs)), ar_sha = take 6 (drop 8 bs), ar_spa = take 4 (drop 14 bs),
     ar_tha = take 6 (drop 18 bs), ar_tpa = take 4 (drop 24 bs)\<rparr>"

text \<open>The checker, and the two tables that all checkers share.\<close>

record DhcpArpChecker =
  ac_isSocketCreated :: bool
  ac_localIpAddr :: bytes
  ac_targetIpAddr :: bytes
  ac_localMacAddr :: bytes
  ac_l2Broadcast :: bytes
  ac_socketFd :: int
  ac_ifaceIndex :: u16
  ac_protocol :: u16
  ac_ongoingAttempts :: "string set"
  ac_unwantedFds :: "string \<rightharpoonup> int"
  ac_closed :: "int list"

section \<open>Start and stop\<close>

definition hex_value :: "char \<Rightarrow> u8" where
  "hex_value c = word_of_int (IsValidHexCharAndConvert c)"

text \<open>Six pairs of hexadecimal digits with colons between.\<close>

definition macPattern :: "string \<Rightarrow> bool" where
  "macPattern s \<longleftrightarrow> length s = 17 \<and>
     list_all (\<lambda>i. if i mod 3 = 2 then s ! i = CHR '':'' else IsValidHexCharAndConvert (s ! i) \<ge> 0) [0..<17]"

definition ParseAndValidateMacAddress :: "string \<Rightarrow> DhcpArpChecker \<Rightarrow> bool \<times> DhcpArpChecker" where
  "ParseAndValidateMacAddress hwAddr s =
     (if length hwAddr \<noteq> 17 then (False, s)
      else if \<not> macPattern hwAddr then (False, s)
      else (True, s\<lparr>ac_localMacAddr := map (\<lambda>i. push_bit 4 (hex_value (hwAddr ! (3 * i))) OR hex_value (hwAddr ! (3 * i + 1))) [0..<6],
                    ac_l2Broadcast := replicate 6 0xFF\<rparr>))"

definition ValidateAndSetIpAddresses :: "string \<Rightarrow> string \<Rightarrow> DhcpArpChecker \<Rightarrow> bool \<times> DhcpArpChecker" where
  "ValidateAndSetIpAddresses senderIp targetIp s =
     (case inet_aton senderIp of
        None \<Rightarrow> (False, s)
      | Some a \<Rightarrow>
          let s = s\<lparr>ac_localIpAddr := a\<rparr> in
          (case inet_aton targetIp of None \<Rightarrow> (False, s) | Some b \<Rightarrow> (True, s\<lparr>ac_targetIpAddr := b\<rparr>)))"

definition CloseSocket :: "DhcpArpChecker \<Rightarrow> DhcpArpChecker" where
  "CloseSocket s = s\<lparr>ac_closed := (if ac_socketFd s \<ge> 0 then ac_closed s @ [ac_socketFd s] else ac_closed s),
     ac_socketFd := -1, ac_ifaceIndex := 0, ac_protocol := 0, ac_isSocketCreated := False\<rparr>"

definition Stop :: "DhcpArpChecker \<Rightarrow> DhcpArpChecker" where
  "Stop s = CloseSocket s"

definition IsInterfaceSafe :: "string \<Rightarrow> DhcpArpChecker \<Rightarrow> bool" where
  "IsInterfaceSafe iface s \<longleftrightarrow> iface \<notin> ac_ongoingAttempts s"

definition RecordInterfaceAttempt :: "string \<Rightarrow> DhcpArpChecker \<Rightarrow> DhcpArpChecker" where
  "RecordInterfaceAttempt iface s = s\<lparr>ac_ongoingAttempts := insert iface (ac_ongoingAttempts s)\<rparr>"

definition ClearGlobalState :: "DhcpArpChecker \<Rightarrow> DhcpArpChecker" where
  "ClearGlobalState s = s\<lparr>ac_ongoingAttempts := {}\<rparr>"

text \<open>Closing the descriptor that an earlier bind of the interface left behind.\<close>

definition close_unwanted :: "string \<Rightarrow> DhcpArpChecker \<Rightarrow> DhcpArpChecker" where
  "close_unwanted iface s = (case ac_unwantedFds s iface of
       None \<Rightarrow> s
     | Some fd \<Rightarrow> s\<lparr>ac_closed := ac_closed s @ [fd], ac_unwantedFds := (ac_unwantedFds s)(iface := None)\<rparr>)"

text \<open>What is done once the call of \<^verbatim>\<open>bind\<close> has returned.\<close>

definition bind_returned :: "bool \<Rightarrow> int \<Rightarrow> string \<Rightarrow> DhcpArpChecker \<Rightarrow> int \<times> DhcpArpChecker" where
  "bind_returned ok socketFd iface s =
     (let s = s\<lparr>ac_ongoingAttempts := ac_ongoingAttempts s - {iface}\<rparr>
      in if \<not> ok then (-1, s\<lparr>ac_closed := ac_closed s @ [socketFd]\<rparr>)
         else (0, close_unwanted iface s))"

definition BindSocketToInterface :: "bool \<Rightarrow> int \<Rightarrow> string \<Rightarrow> DhcpArpChecker \<Rightarrow> int \<times> DhcpArpChecker" where
  "BindSocketToInterface ok socketFd iface s = bind_returned ok socketFd iface (RecordInterfaceAttempt iface s)"

definition GetInterfaceIndex :: "u32 \<Rightarrow> int" where
  "GetInterfaceIndex index = (let ifaceIndex = sint index in if ifaceIndex = 0 then -1 else ifaceIndex)"

text \<open>\<open>index\<close>: the result of \<^verbatim>\<open>if_nametoindex\<close>; \<open>socketFd\<close>: that of \<^verbatim>\<open>CreateRawSocket\<close>, negative if it failed; \<open>bound\<close>: how \<^verbatim>\<open>bind\<close> ended
  within three seconds, \<open>None\<close> if it did not.\<close>

definition CreateSocket :: "u32 \<Rightarrow> int \<Rightarrow> bool option \<Rightarrow> string \<Rightarrow> u16 \<Rightarrow> DhcpArpChecker \<Rightarrow> int \<times> DhcpArpChecker" where
  "CreateSocket index socketFd bound iface protocol s =
     (if GetInterfaceIndex index \<le> 0 then (-1, s)
      else if socketFd < 0 then (-1, s)
      else case bound of
        None \<Rightarrow> let s = close_unwanted iface (RecordInterfaceAttempt iface s)
                in (-1, s\<lparr>ac_unwantedFds := (ac_unwantedFds s)(iface \<mapsto> socketFd)\<rparr>)
      | Some ok \<Rightarrow>
          let (ret, s) = BindSocketToInterface ok socketFd iface s in
          if ret = -1 then (-1, s)
          else (0, s\<lparr>ac_socketFd := socketFd, ac_ifaceIndex := word_of_int (GetInterfaceIndex index), ac_protocol := protocol,
                    ac_isSocketCreated := True\<rparr>))"

definition CreateSocketWithTimeout :: "u32 \<Rightarrow> int \<Rightarrow> bool option \<Rightarrow> string \<Rightarrow> DhcpArpChecker \<Rightarrow> bool \<times> DhcpArpChecker" where
  "CreateSocketWithTimeout index socketFd bound ifname s =
     (if \<not> IsInterfaceSafe ifname s then (False, s)
      else let (ret, s) = CreateSocket index socketFd bound ifname 0x0806 s in (ret = 0, s))"

definition Start :: "u32 \<Rightarrow> int \<Rightarrow> bool option \<Rightarrow> string \<Rightarrow> string \<Rightarrow> string \<Rightarrow> string \<Rightarrow> DhcpArpChecker \<Rightarrow> bool \<times> DhcpArpChecker" where
  "Start index socketFd bound ifname hwAddr senderIp targetIp s =
     (if ifname = [] \<or> hwAddr = [] \<or> senderIp = [] \<or> targetIp = [] then (False, s)
      else
        let s = (if ac_isSocketCreated s then Stop s else s);
            (ok, s) = ParseAndValidateMacAddress hwAddr s
        in if \<not> ok then (False, s)
           else
             let (ok, s) = CreateSocketWithTimeout index socketFd bound ifname s
             in if \<not> ok then (False, s) else ValidateAndSetIpAddresses senderIp targetIp s)"

section \<open>The probe and its answer\<close>

definition SetArpPacket :: "bool \<Rightarrow> DhcpArpChecker \<Rightarrow> ArpPacket" where
  "SetArpPacket isFillSenderIp s =
     \<lparr>ar_hrd = htons 1, ar_pro = htons 0x0800, ar_hln = 6, ar_pln = 4, ar_op = htons 1, ar_sha = ac_localMacAddr s,
      ar_spa = (if isFillSenderIp then ac_localIpAddr s else replicate 4 0), ar_tha = replicate 6 0, ar_tpa = ac_targetIpAddr s\<rparr>"

definition arp_reply_for :: "DhcpArpChecker \<Rightarrow> ArpPacket \<Rightarrow> bool" where
  "arp_reply_for s p \<longleftrightarrow> htons (ar_hrd p) = 1 \<and> htons (ar_pro p) = 0x0800 \<and> ar_hln p = 6 \<and> ar_pln p = 4 \<and> htons (ar_op p) = 2
     \<and> ar_sha p \<noteq> ac_localMacAddr s \<and> ar_spa p = ac_targetIpAddr s"

definition IsValidArpReply :: "bytes \<Rightarrow> int \<Rightarrow> DhcpArpChecker \<Rightarrow> bool" where
  "IsValidArpReply recvBuff readLen s \<longleftrightarrow> \<not> (readLen < 28 \<or> readLen > 1500) \<and> arp_reply_for s (image_arp recvBuff)"

text \<open>What one wait gives: the socket is gone, nothing or an error, or a frame.\<close>

datatype ArpRecv = ArpClosed | ArpNothing | ArpFrame bytes

definition RecvData :: "ArpRecv \<Rightarrow> DhcpArpChecker \<Rightarrow> int \<times> bytes" where
  "RecvData r s =
     (if ac_socketFd s \<le> -1 then (-1, [])
      else if \<not> ac_isSocketCreated s then (-1, [])
      else case r of ArpClosed \<Rightarrow> (-1, []) | ArpNothing \<Rightarrow> (0, []) | ArpFrame bs \<Rightarrow> (int (length (take 1500 bs)), take 1500 bs))"

text \<open>\<open>sent\<close>: the result of \<^verbatim>\<open>sendto\<close>, after the calls that a signal interrupted.\<close>

definition SendData :: "int \<Rightarrow> DhcpArpChecker \<Rightarrow> int" where
  "SendData sent s = (if ac_socketFd s \<le> -1 \<or> ac_ifaceIndex s = 0 then -1 else if sent > 0 then 0 else -1)"

text \<open>One turn of a wait: what was received, and the milliseconds that the clock shows since the start of the turn, since the start
  of the wait, and since the start of the wait when the answer is reported.\<close>

record ArpTurn =
  at_recv :: ArpRecv
  at_elapsed :: int
  at_overall :: int
  at_cost :: int

definition UpdateTimeoutCounters :: "ArpTurn \<Rightarrow> int \<Rightarrow> int \<Rightarrow> bool \<times> int" where
  "UpdateTimeoutCounters t timeoutMillis leftMillis =
     (let elapsed = (if at_elapsed t \<le> 0 then 1 else at_elapsed t);
          leftMillis = (if elapsed > leftMillis then 0 else leftMillis - elapsed)
      in (\<not> at_overall t \<ge> timeoutMillis, leftMillis))"

lemma UpdateTimeoutCounters_less: "0 < left \<Longrightarrow> snd (UpdateTimeoutCounters t timeout left) < left"
  by (simp add: UpdateTimeoutCounters_def Let_def)

function WaitForArpReply_loop :: "(nat \<Rightarrow> ArpTurn) \<Rightarrow> int \<Rightarrow> DhcpArpChecker \<Rightarrow> nat \<Rightarrow> int \<Rightarrow> bool \<times> u64" where
  "WaitForArpReply_loop turns timeoutMillis s k leftMillis =
     (if leftMillis > 0 then
        let (readLen, recvBuff) = RecvData (at_recv (turns k)) s
        in if \<not> fst (UpdateTimeoutCounters (turns k) timeoutMillis leftMillis) then (False, 0)
           else if readLen < 0 then (False, 0)
           else if IsValidArpReply recvBuff readLen s then (True, word_of_int (at_cost (turns k)))
           else WaitForArpReply_loop turns timeoutMillis s (k + 1) (snd (UpdateTimeoutCounters (turns k) timeoutMillis leftMillis))
      else (False, 0))"
  by auto
termination
  by (relation "measure (\<lambda>(turns, timeout, s, k, left). nat left)") (auto simp: UpdateTimeoutCounters_def Let_def)

declare WaitForArpReply_loop.simps [simp del]

definition WaitForArpReply :: "(nat \<Rightarrow> ArpTurn) \<Rightarrow> int \<Rightarrow> DhcpArpChecker \<Rightarrow> bool \<times> u64" where
  "WaitForArpReply turns timeoutMillis s = WaitForArpReply_loop turns timeoutMillis s 0 timeoutMillis"

definition DoArpCheck :: "int \<Rightarrow> (nat \<Rightarrow> ArpTurn) \<Rightarrow> int \<Rightarrow> bool \<Rightarrow> DhcpArpChecker \<Rightarrow> bytes option \<times> bool \<times> u64" where
  "DoArpCheck sent turns timeoutMillis isFillSenderIp s =
     (if \<not> ac_isSocketCreated s then (None, False, 0)
      else
        let arpPacket = arp_image (SetArpPacket isFillSenderIp s)
        in if SendData sent s \<noteq> 0 then (None, False, 0)
           else (Some arpPacket, WaitForArpReply turns timeoutMillis s))"

section \<open>Collecting the addresses of a gateway\<close>

definition MacArray2Str :: "bytes \<Rightarrow> nat \<Rightarrow> string" where
  "MacArray2Str macArray len = (if len \<noteq> 6 then [] else mac_text (take 6 macArray))"

definition SaveGwMacAddr :: "string \<Rightarrow> string list \<Rightarrow> string list" where
  "SaveGwMacAddr gwMacAddr gwMacLists = (if gwMacAddr \<noteq> [] \<and> gwMacAddr \<notin> set gwMacLists then gwMacLists @ [gwMacAddr] else gwMacLists)"

definition ProcessReceivedPacket :: "bytes \<Rightarrow> int \<Rightarrow> DhcpArpChecker \<Rightarrow> string list \<Rightarrow> string list" where
  "ProcessReceivedPacket recvBuff readLen s gwMacLists =
     (if readLen \<ge> 28 \<and> readLen \<le> 1500 then
        let respPacket = image_arp recvBuff in
        if arp_reply_for s respPacket then SaveGwMacAddr (MacArray2Str (ar_sha respPacket) 6) gwMacLists else gwMacLists
      else gwMacLists)"

function CollectGwMacAddresses_loop :: "(nat \<Rightarrow> ArpTurn) \<Rightarrow> int \<Rightarrow> DhcpArpChecker \<Rightarrow> nat \<Rightarrow> int \<Rightarrow> string list \<Rightarrow> string list" where
  "CollectGwMacAddresses_loop turns timeoutMillis s k leftMillis gwMacLists =
     (if leftMillis > 0 then
        let (readLen, recvBuff) = RecvData (at_recv (turns k)) s;
            gwMacLists = ProcessReceivedPacket recvBuff readLen s gwMacLists
        in if \<not> fst (UpdateTimeoutCounters (turns k) timeoutMillis leftMillis) then gwMacLists
           else CollectGwMacAddresses_loop turns timeoutMillis s (k + 1) (snd (UpdateTimeoutCounters (turns k) timeoutMillis leftMillis)) gwMacLists
      else gwMacLists)"
  by auto
termination
  by (relation "measure (\<lambda>(turns, timeout, s, k, left, l). nat left)") (auto simp: UpdateTimeoutCounters_def Let_def)

declare CollectGwMacAddresses_loop.simps [simp del]

definition CollectGwMacAddresses :: "(nat \<Rightarrow> ArpTurn) \<Rightarrow> int \<Rightarrow> DhcpArpChecker \<Rightarrow> string list \<Rightarrow> string list" where
  "CollectGwMacAddresses turns timeoutMillis s gwMacLists = CollectGwMacAddresses_loop turns timeoutMillis s 0 timeoutMillis gwMacLists"

definition GetGwMacAddrList :: "int \<Rightarrow> (nat \<Rightarrow> ArpTurn) \<Rightarrow> int \<Rightarrow> DhcpArpChecker \<Rightarrow> string list" where
  "GetGwMacAddrList sent turns timeoutMillis s =
     (if \<not> ac_isSocketCreated s then []
      else if SendData sent s \<noteq> 0 then []
      else CollectGwMacAddresses turns timeoutMillis s [])"

section \<open>When an answer is found\<close>

text \<open>A turn that brings an answer to the probe, one that brings nothing of use, and the time that a turn takes from the budget.\<close>

definition answered :: "DhcpArpChecker \<Rightarrow> ArpTurn \<Rightarrow> bool" where
  "answered s t = (let (n, bs) = RecvData (at_recv t) s in IsValidArpReply bs n s)"

definition idle_turn :: "DhcpArpChecker \<Rightarrow> ArpTurn \<Rightarrow> bool" where
  "idle_turn s t \<longleftrightarrow> fst (RecvData (at_recv t) s) \<ge> 0 \<and> \<not> answered s t"

definition turn_time :: "ArpTurn \<Rightarrow> int" where
  "turn_time t = max 1 (at_elapsed t)"

lemma UpdateTimeoutCounters_eq:
  "UpdateTimeoutCounters t timeout left = (at_overall t < timeout, if turn_time t > left then 0 else left - turn_time t)"
  by (auto simp: UpdateTimeoutCounters_def turn_time_def Let_def)

lemma answered_not_closed: "answered s t \<Longrightarrow> fst (RecvData (at_recv t) s) \<ge> 0"
  by (auto simp: answered_def IsValidArpReply_def split: prod.splits)

lemma turn_times_nonneg: "0 \<le> (\<Sum>j<n. turn_time (turns (k + j)))"
  by (intro sum_nonneg) (simp add: turn_time_def)

lemma less_Suc_shift: "(\<forall>j < Suc n. P (k + j)) \<longleftrightarrow> P k \<and> (\<forall>j < n. P (Suc k + j))"
  by (auto simp: less_Suc_eq_0_disj)

lemma ex_nat_split: "(\<exists>n. P n) \<longleftrightarrow> P 0 \<or> (\<exists>n. P (Suc n))"
  by (metis not0_implies_Suc)

lemma WaitForArpReply_loop_iff:
  "fst (WaitForArpReply_loop turns timeout s k left) \<longleftrightarrow>
     (\<exists>n. answered s (turns (k + n)) \<and> (\<forall>j < n. idle_turn s (turns (k + j))) \<and> (\<forall>j < Suc n. at_overall (turns (k + j)) < timeout)
        \<and> (\<Sum>j<n. turn_time (turns (k + j))) < left)"
proof (induction "nat left" arbitrary: k left rule: less_induct)
  case less
  let ?found = "\<lambda>k left n. answered s (turns (k + n)) \<and> (\<forall>j < n. idle_turn s (turns (k + j)))
     \<and> (\<forall>j < Suc n. at_overall (turns (k + j)) < timeout) \<and> (\<Sum>j<n. turn_time (turns (k + j))) < left"
  let ?left = "if turn_time (turns k) > left then 0 else left - turn_time (turns k)"
  have loop: "fst (WaitForArpReply_loop turns timeout s k left) \<longleftrightarrow> left > 0 \<and> at_overall (turns k) < timeout
      \<and> (answered s (turns k) \<or> idle_turn s (turns k) \<and> fst (WaitForArpReply_loop turns timeout s (Suc k) ?left))"
    using answered_not_closed [of s "turns k"]
    by (subst WaitForArpReply_loop.simps)
      (auto simp: UpdateTimeoutCounters_eq answered_def idle_turn_def Let_def split: prod.splits if_splits)
  have zero: "?found k left 0 \<longleftrightarrow> answered s (turns k) \<and> at_overall (turns k) < timeout \<and> 0 < left" by auto
  have suc: "?found k left (Suc n) \<longleftrightarrow> idle_turn s (turns k) \<and> at_overall (turns k) < timeout \<and> ?found (Suc k) ?left n" for n
  proof -
    have "(\<Sum>j<Suc n. turn_time (turns (k + j))) = turn_time (turns k) + (\<Sum>j<n. turn_time (turns (Suc k + j)))"
      by (simp add: sum.lessThan_Suc_shift del: sum.lessThan_Suc)
    moreover have "turn_time (turns k) + T < left \<longleftrightarrow> T < ?left" if "0 \<le> T" for T
      using that by auto
    ultimately have "(\<Sum>j<Suc n. turn_time (turns (k + j))) < left \<longleftrightarrow> (\<Sum>j<n. turn_time (turns (Suc k + j))) < ?left"
      using turn_times_nonneg [of turns "Suc k" n] by (simp only:)
    moreover have "turns (k + Suc n) = turns (Suc k + n)" by simp
    ultimately show ?thesis
      unfolding less_Suc_shift [of n "\<lambda>i. idle_turn s (turns i)" k] less_Suc_shift [of "Suc n" "\<lambda>i. at_overall (turns i) < timeout" k]
      by (simp only: conj_ac)
  qed
  have ex: "(\<exists>n. ?found k left n) \<longleftrightarrow> ?found k left 0 \<or> (\<exists>n. ?found k left (Suc n))"
    by (rule ex_nat_split)
  have IH: "left > 0 \<Longrightarrow> fst (WaitForArpReply_loop turns timeout s (Suc k) ?left) \<longleftrightarrow> (\<exists>n. ?found (Suc k) ?left n)"
    by (intro less) (auto simp: turn_time_def)
  have pos: "?found (Suc k) ?left n \<Longrightarrow> left > 0" for n
    using turn_times_nonneg [of turns "Suc k" n] by (auto simp: turn_time_def split: if_splits)
  show ?case unfolding loop ex zero suc using IH pos by blast
qed

text \<open>C1: The wait for an answer always ends, and reports an answer exactly when one arrives in time: the first turn that brings a reply of
  another station for the probed address, after turns that brought nothing of use, with the clock below the limit at each turn
  and the time of the turns before it, at least one millisecond each, below the limit too. In particular there are fewer
  turns than milliseconds.\<close>

theorem WaitForArpReply_iff:
  "fst (WaitForArpReply turns timeout s) \<longleftrightarrow>
     (\<exists>n. int n < timeout \<and> answered s (turns n) \<and> list_all (idle_turn s) (map turns [0..<n])
        \<and> list_all (\<lambda>t. at_overall t < timeout) (map turns [0..<Suc n]) \<and> (\<Sum>j<n. turn_time (turns j)) < timeout)"
proof -
  have "int n \<le> (\<Sum>j<n. turn_time (turns j))" for n
    using sum_mono [of "{..<n}" "\<lambda>_. 1" "\<lambda>j. turn_time (turns j)"] by (simp add: turn_time_def)
  then have "(\<Sum>j<n. turn_time (turns j)) < timeout \<Longrightarrow> int n < timeout" for n by (meson le_less_trans)
  then show ?thesis
    using WaitForArpReply_loop_iff [of turns timeout s 0 timeout]
    by (simp add: WaitForArpReply_def list_all_iff atLeast0LessThan Ball_def del: upt_Suc) blast
qed

section \<open>The probe and who answers it\<close>

text \<open>The answer of a station to a probe.\<close>

definition arp_answer :: "bytes \<Rightarrow> ArpPacket \<Rightarrow> ArpPacket" where
  "arp_answer mac p = p\<lparr>ar_op := htons 2, ar_sha := mac, ar_spa := ar_tpa p, ar_tha := ar_sha p, ar_tpa := ar_spa p\<rparr>"

definition arp_wf :: "ArpPacket \<Rightarrow> bool" where
  "arp_wf p \<longleftrightarrow> length (ar_sha p) = 6 \<and> length (ar_spa p) = 4 \<and> length (ar_tha p) = 6 \<and> length (ar_tpa p) = 4"

lemma length_arp_image: "arp_wf p \<Longrightarrow> length (arp_image p) = 28"
  by (simp add: arp_image_def arp_wf_def)

lemma image_arp_arp_image: "arp_wf p \<Longrightarrow> image_arp (arp_image p) = p"
  by (simp add: image_arp_def arp_image_def arp_wf_def nth_append)

lemma htons_htons: "htons (htons w) = w"
  unfolding htons_def u16_bytes_def by (simp add: u16_of_bytes_def) (rule bit_word_eqI, auto simp: bit_simps)

lemma mac_text_six:
  assumes "length mac = 6"
  shows "ParseAndValidateMacAddress (mac_text mac) s = (True, s\<lparr>ac_localMacAddr := mac, ac_l2Broadcast := replicate 6 0xFF\<rparr>)"
proof -
  obtain a b c d e f where mac: "mac = [a, b, c, d, e, f]"
    using assms by (auto simp: length_Suc_conv numeral_eq_Suc)
  have hex: "IsValidHexCharAndConvert (hex_digit (unat x div 16)) = int (unat x div 16)"
    "IsValidHexCharAndConvert (hex_digit (unat x mod 16)) = int (unat x mod 16)" for x :: u8
    using unat_u8_less [of x] by (simp_all add: div_less_iff_less_mult)
  let ?h = "\<lambda>x :: u8. hex_digit (unat x div 16)" and ?l = "\<lambda>x :: u8. hex_digit (unat x mod 16)"
  have chars: "mac_text mac = [?h a, ?l a, CHR '':'', ?h b, ?l b, CHR '':'', ?h c, ?l c, CHR '':'', ?h d, ?l d, CHR '':'',
      ?h e, ?l e, CHR '':'', ?h f, ?l f]"
    by (simp add: mac hex2_def)
  have upts: "[0..<17] = [0, 1, 2, 3, 4, 5, 6, 7, 8, 9, 10, 11, 12, 13, 14, 15, 16]" "[0..<6] = [0, 1, 2, 3, 4, 5]"
    by code_simp+
  have "macPattern (mac_text mac)" "length (mac_text mac) = 17" by (simp_all add: macPattern_def chars upts hex)
  moreover have "push_bit 4 (hex_value (?h x)) OR hex_value (?l x) = x" for x
    using hex2_value [of x] by (simp add: hex_value_def hex del: hex2_value)
  then have "map (\<lambda>i. push_bit 4 (hex_value (mac_text mac ! (3 * i))) OR hex_value (mac_text mac ! (3 * i + 1))) [0..<6] = mac"
    unfolding chars upts by (simp add: mac)
  ultimately show ?thesis by (simp add: ParseAndValidateMacAddress_def)
qed

text \<open>The probe is a request for the target address. The answer of another station that owns the address is recognised as a reply; the
  probe itself, and an answer from the interface's own hardware address, are not.\<close>

lemma probe_answer_recognised:
  assumes "length (ac_localMacAddr s) = 6" "length (ac_localIpAddr s) = 4" "length (ac_targetIpAddr s) = 4" "length mac = 6"
  shows "IsValidArpReply (arp_image (arp_answer mac (SetArpPacket fill s))) 28 s \<longleftrightarrow> mac \<noteq> ac_localMacAddr s"
    "\<not> IsValidArpReply (arp_image (SetArpPacket fill s)) 28 s"
proof -
  have "arp_wf (SetArpPacket fill s)" "arp_wf (arp_answer mac (SetArpPacket fill s))"
    using assms by (simp_all add: arp_wf_def SetArpPacket_def arp_answer_def)
  then show "IsValidArpReply (arp_image (arp_answer mac (SetArpPacket fill s))) 28 s \<longleftrightarrow> mac \<noteq> ac_localMacAddr s"
    "\<not> IsValidArpReply (arp_image (SetArpPacket fill s)) 28 s"
    by (simp_all add: IsValidArpReply_def image_arp_arp_image) (simp_all add: arp_reply_for_def SetArpPacket_def arp_answer_def htons_htons)
qed

text \<open>C1: A checker that was started for an interface, the hardware address of the client and a target address sends, as its probe, the
  request for that target with the client's hardware address and without a sender address, and finds the target in use exactly when
  the wait for an answer succeeds. (The index of the interface is kept in 16 bits and must not become zero there.)\<close>

theorem started_checker_probes:
  assumes "length mac = 6" "length target = 4" "ifname \<noteq> []" "IsInterfaceSafe ifname s" "0 < sint index" "(scast index :: u16) \<noteq> 0" "0 \<le> fd" "0 < sent"
    and "(ok, s') = Start index fd (Some True) ifname (mac_text mac) ''0.0.0.0'' (inet_ntop target) s"
    and "DoArpCheck sent turns timeout False s' = (probe, found, cost)"
  shows "ok \<and> probe = Some (arp_image \<lparr>ar_hrd = htons 1, ar_pro = htons 0x0800, ar_hln = 6, ar_pln = 4, ar_op = htons 1, ar_sha = mac,
        ar_spa = [0, 0, 0, 0], ar_tha = replicate 6 0, ar_tpa = target\<rparr>)
    \<and> found = fst (WaitForArpReply turns timeout s')"
proof -
  have any: "inet_aton ''0.0.0.0'' = Some [0, 0, 0, 0]" by code_simp
  have "mac_text mac \<noteq> []" "inet_ntop target \<noteq> []" 
    using mac_text_six [OF assms(1)] by (auto simp: ParseAndValidateMacAddress_def inet_ntop_def)
  moreover have "ac_isSocketCreated (Stop s) = False" "ac_ongoingAttempts (Stop s) = ac_ongoingAttempts s"
    by (simp_all add: Stop_def CloseSocket_def)
  ultimately have s': "ok" "ac_isSocketCreated s'" "ac_socketFd s' = fd" "ac_ifaceIndex s' = scast index" "ac_localMacAddr s' = mac"
    "ac_localIpAddr s' = [0, 0, 0, 0]" "ac_targetIpAddr s' = target"
    using assms(3-7,9) mac_text_six [OF assms(1)] inet_aton_inet_ntop [OF assms(2)] any
    by (auto simp: Start_def CreateSocketWithTimeout_def IsInterfaceSafe_def CreateSocket_def GetInterfaceIndex_def BindSocketToInterface_def
        bind_returned_def RecordInterfaceAttempt_def close_unwanted_def ValidateAndSetIpAddresses_def Let_def
        split: option.splits if_splits)
  then show ?thesis
    using assms(6-8,10) by (auto simp: DoArpCheck_def SendData_def SetArpPacket_def numeral_eq_Suc)
qed

definition new_checker :: DhcpArpChecker where
  "new_checker = \<lparr>ac_isSocketCreated = False, ac_localIpAddr = [], ac_targetIpAddr = [], ac_localMacAddr = [], ac_l2Broadcast = [],
     ac_socketFd = -1, ac_ifaceIndex = 0, ac_protocol = 0, ac_ongoingAttempts = {}, ac_unwantedFds = Map.empty, ac_closed = []\<rparr>"

theorem started_checker_probes_witness:
  "let s' = snd (Start 3 7 (Some True) ''wlan0'' (mac_text [2, 0, 0, 0, 0, 1]) ''0.0.0.0'' (inet_ntop [192, 168, 1, 20]) new_checker)
   in fst (DoArpCheck 28 (\<lambda>_. \<lparr>at_recv = ArpNothing, at_elapsed = 500, at_overall = 500, at_cost = 0\<rparr>) 500 False s') =
        Some (arp_image \<lparr>ar_hrd = htons 1, ar_pro = htons 0x0800, ar_hln = 6, ar_pln = 4, ar_op = htons 1, ar_sha = [2, 0, 0, 0, 0, 1],
          ar_spa = [0, 0, 0, 0], ar_tha = replicate 6 0, ar_tpa = [192, 168, 1, 20]\<rparr>)"
proof -
  let ?start = "Start 3 7 (Some True) ''wlan0'' (mac_text [2, 0, 0, 0, 0, 1]) ''0.0.0.0'' (inet_ntop [192, 168, 1, 20]) new_checker"
  let ?check = "DoArpCheck 28 (\<lambda>_. \<lparr>at_recv = ArpNothing, at_elapsed = 500, at_overall = 500, at_cost = 0\<rparr>) 500 False (snd ?start)"
  have "IsInterfaceSafe ''wlan0'' new_checker" by (simp add: IsInterfaceSafe_def new_checker_def)
  moreover have "?check = (fst ?check, fst (snd ?check), snd (snd ?check))" by simp
  ultimately show ?thesis
    using started_checker_probes [of "[2, 0, 0, 0, 0, 1]" "[192, 168, 1, 20]" "''wlan0''" new_checker 3 7 28 "fst ?start" "snd ?start"
        "\<lambda>_. \<lparr>at_recv = ArpNothing, at_elapsed = 500, at_overall = 500, at_cost = 0\<rparr>" 500 "fst ?check" "fst (snd ?check)" "snd (snd ?check)"]
    by (simp add: Let_def)
qed

section \<open>A bind that does not return\<close>

text \<open>A bind that blocks is given up after three seconds: the interface is refused until the bind returns, and when it returns with success,
  its descriptor is closed and the interface can be used again.\<close>

lemma blocked_bind_recovers:
  assumes "0 < sint index" "0 \<le> fd" "(ret, s1) = CreateSocket index fd None iface proto s" "(ret2, s2) = bind_returned True fd iface s1"
  shows "ret = -1" "fst (CreateSocketWithTimeout i f b iface s1) = False" "IsInterfaceSafe iface s2" "ac_unwantedFds s2 iface = None"
    "last (ac_closed s2) = fd"
  using assms by (auto simp: CreateSocket_def GetInterfaceIndex_def close_unwanted_def RecordInterfaceAttempt_def bind_returned_def
      CreateSocketWithTimeout_def IsInterfaceSafe_def Let_def split: option.splits)

text \<open>When the blocked bind returns with an error, its descriptor is closed but stays in the table, and the next bind of the interface
  closes the number once more.\<close>

lemma failed_bind_closes_twice:
  assumes "0 < sint index" "0 \<le> fd" "0 \<le> fd2" "ac_unwantedFds s iface = None" "(ret, s1) = CreateSocket index fd None iface proto s"
    and "s2 = snd (bind_returned False fd iface s1)" "s3 = snd (CreateSocket index fd2 (Some True) iface proto s2)"
  shows "ac_closed s3 = ac_closed s @ [fd, fd]"
  using assms by (auto simp: CreateSocket_def GetInterfaceIndex_def close_unwanted_def RecordInterfaceAttempt_def bind_returned_def
      BindSocketToInterface_def Let_def)

text \<open>\<^verbatim>\<open>IsArpReachable\<close> does not look at the result of \<^verbatim>\<open>Start\<close>: on an interface with a blocked bind no probe is sent, and every address counts as
  free.\<close>

lemma busy_interface_counts_as_free:
  assumes "\<not> IsInterfaceSafe ifname s" "\<not> ac_isSocketCreated s"
  shows "DoArpCheck sent turns timeout False (snd (Start index fd b ifname hwAddr senderIp targetIp s)) = (None, False, 0)"
  using assms by (auto simp: Start_def ParseAndValidateMacAddress_def CreateSocketWithTimeout_def IsInterfaceSafe_def DoArpCheck_def Let_def)

text \<open>An answer that was read in the turn in which the time ran out is not looked at.\<close>

lemma answer_at_deadline_dropped:
  "0 < timeout \<Longrightarrow> at_overall (turns 0) \<ge> timeout \<Longrightarrow> fst (WaitForArpReply turns timeout s) = False"
  by (simp add: WaitForArpReply_def WaitForArpReply_loop.simps [of turns timeout s 0 timeout] UpdateTimeoutCounters_eq split: prod.splits)

end
