(* ===== verification/Spec2Isabelle.thy ===== *)
theory Spec2Isabelle
  imports DhcpOptionHeap DhcpServerBehaviour DhcpServerMain DhcpExchange DhcpV6Client DhcpArp
begin

text \<open>The DHCP service of OpenHarmony: server core.\<close>

end
